(* ===== verification/Cpm_Prelude.thy ===== *)
theory Cpm_Prelude
  imports Main "HOL-Library.Char_ord" "HOL-Library.List_Lexorder" "HOL-Library.AList"
    "HOL-Library.Sublist" "HOL-Library.Multiset"
begin

text \<open>
  Shared ground of the development: what the Go sources use of the language and of its standard
  library, with the lemmas every component theory rests on.

  \<^item> A Go \<^verbatim>\<open>string\<close> is a byte sequence, here a \<^typ>\<open>char list\<close> (a HOL character is one byte).
    \<^verbatim>\<open>strings.TrimSpace\<close> is modelled on bytes, with the UTF-8 encodings of every Unicode white
    space character; the case mappings \<^verbatim>\<open>strings.ToLower\<close> and \<^verbatim>\<open>strings.ToUpper\<close> and the
    quoting of \<^verbatim>\<open>%q\<close> are Go's behaviour on ASCII strings (bytes from 128 on are left alone).
  \<^item> A Go slice is a list; \<^verbatim>\<open>nil\<close> and the empty slice are both \<open>[]\<close>.
  \<^item> A Go map is an association list with distinct keys, whose order is the iteration order.
  \<^item> An \<^verbatim>\<open>int64\<close> is an \<^typ>\<open>int\<close>; the sources only compare such values, so the width shows where
    they are read from text (\<open>ParseInt\<close>).
  \<^item> A function returning \<^verbatim>\<open>error\<close> returns an option (\<open>None\<close> is \<^verbatim>\<open>nil\<close>); one returning a value
    and an error returns a sum with the error on the left.
\<close>

named_theorems trim_simps \<open>facts that evaluate TrimSpace\<close>
named_theorems norm_simps \<open>definitions of the normalisation functions\<close>

type_synonym int64 = int
type_synonym gostring = string
type_synonym 'v gomap = "(string \<times> 'v) list"

section \<open>Bytes and white space\<close>

definition byte_of :: "char \<Rightarrow> nat" where
  "byte_of c = of_char c"

definition ascii_space :: "nat \<Rightarrow> bool" where
  "ascii_space n \<longleftrightarrow> n = 32 \<or> (9 \<le> n \<and> n \<le> 13)"

text \<open>The two- and three-byte UTF-8 encodings of the white space characters beyond ASCII:
  U+0085, U+00A0, U+1680, U+2000 to U+200A, U+2028, U+2029, U+202F, U+205F and U+3000.\<close>

definition space2 :: "nat \<Rightarrow> nat \<Rightarrow> bool" where
  "space2 a b \<longleftrightarrow> a = 194 \<and> (b = 133 \<or> b = 160)"

definition space3 :: "nat \<Rightarrow> nat \<Rightarrow> nat \<Rightarrow> bool" where
  "space3 a b c \<longleftrightarrow>
     (a = 225 \<and> b = 154 \<and> c = 128) \<or>
     (a = 226 \<and> b = 128 \<and> ((128 \<le> c \<and> c \<le> 138) \<or> c = 168 \<or> c = 169 \<or> c = 175)) \<or>
     (a = 226 \<and> b = 129 \<and> c = 159) \<or>
     (a = 227 \<and> b = 128 \<and> c = 128)"

text \<open>The number of bytes of the white space character at the front of a string, 0 if there is
  none; and the same for the last character of a string given in reverse.\<close>

fun space_width :: "string \<Rightarrow> nat" where
  "space_width [] = 0"
| "space_width (c # cs) =
     (if byte_of c < 128 then (if ascii_space (byte_of c) then 1 else 0)
      else case cs of
        [] \<Rightarrow> 0
      | d # ds \<Rightarrow>
          if space2 (byte_of c) (byte_of d) then 2
          else case ds of
            [] \<Rightarrow> 0
          | e # _ \<Rightarrow> if space3 (byte_of c) (byte_of d) (byte_of e) then 3 else 0)"

fun rspace_width :: "string \<Rightarrow> nat" where
  "rspace_width [] = 0"
| "rspace_width (c # cs) =
     (if byte_of c < 128 then (if ascii_space (byte_of c) then 1 else 0)
      else case cs of
        [] \<Rightarrow> 0
      | d # ds \<Rightarrow>
          if space2 (byte_of d) (byte_of c) then 2
          else case ds of
            [] \<Rightarrow> 0
          | e # _ \<Rightarrow> if space3 (byte_of e) (byte_of d) (byte_of c) then 3 else 0)"

lemma space_width_le: "space_width s \<le> length s"
  by (cases s rule: space_width.cases) (auto split: list.splits)

lemma rspace_width_le: "rspace_width s \<le> length s"
  by (cases s rule: rspace_width.cases) (auto split: list.splits)

function trim_left :: "string \<Rightarrow> string" where
  "trim_left s = (if space_width s = 0 then s else trim_left (drop (space_width s) s))"
  by pat_completeness auto
termination
proof (relation "measure length")
  fix s :: string
  assume "space_width s \<noteq> 0"
  then show "(drop (space_width s) s, s) \<in> measure length"
    using space_width_le[of s] by simp
qed simp

function rtrim_left :: "string \<Rightarrow> string" where
  "rtrim_left s = (if rspace_width s = 0 then s else rtrim_left (drop (rspace_width s) s))"
  by pat_completeness auto
termination
proof (relation "measure length")
  fix s :: string
  assume "rspace_width s \<noteq> 0"
  then show "(drop (rspace_width s) s, s) \<in> measure length"
    using rspace_width_le[of s] by simp
qed simp

declare trim_left.simps [simp del] rtrim_left.simps [simp del]

definition trim_right :: "string \<Rightarrow> string" where
  "trim_right s = rev (rtrim_left (rev s))"

definition TrimSpace :: "string \<Rightarrow> string" where
  "TrimSpace s = trim_right (trim_left s)"

lemma trim_left_stop: "space_width (trim_left s) = 0"
  by (induction s rule: trim_left.induct) (simp add: trim_left.simps)

lemma rtrim_left_stop: "rspace_width (rtrim_left s) = 0"
  by (induction s rule: rtrim_left.induct) (simp add: rtrim_left.simps)

lemma trim_left_id: "space_width s = 0 \<Longrightarrow> trim_left s = s"
  by (simp add: trim_left.simps)

lemma rtrim_left_id: "rspace_width s = 0 \<Longrightarrow> rtrim_left s = s"
  by (simp add: rtrim_left.simps)

lemma suffix_rtrim_left: "suffix (rtrim_left s) s"
proof (induction s rule: rtrim_left.induct)
  case (1 s)
  show ?case
  proof (cases "rspace_width s = 0")
    case True
    then show ?thesis by (simp add: rtrim_left_id)
  next
    case False
    then have "suffix (rtrim_left (drop (rspace_width s) s)) (drop (rspace_width s) s)"
      by (rule "1.IH")
    then show ?thesis
      using False suffix_drop suffix_order.trans by (subst rtrim_left.simps) fastforce
  qed
qed

lemma suffix_trim_left: "suffix (trim_left s) s"
proof (induction s rule: trim_left.induct)
  case (1 s)
  show ?case
  proof (cases "space_width s = 0")
    case True
    then show ?thesis by (simp add: trim_left_id)
  next
    case False
    then have "suffix (trim_left (drop (space_width s) s)) (drop (space_width s) s)"
      by (rule "1.IH")
    then show ?thesis
      using False suffix_drop suffix_order.trans by (subst trim_left.simps) fastforce
  qed
qed

lemma prefix_trim_right: "prefix (trim_right s) s"
  using suffix_rtrim_left[of "rev s"] by (simp add: trim_right_def suffix_to_prefix)

lemma space_width_prefix:
  assumes "prefix p s" and "space_width s = 0"
  shows "space_width p = 0"
proof -
  obtain r where s: "s = p @ r" using assms(1) by (auto simp: prefix_def)
  show ?thesis
    using assms(2) unfolding s
    by (cases p rule: space_width.cases) (auto split: list.splits if_splits)
qed

lemma TrimSpace_front: "space_width (TrimSpace s) = 0"
  unfolding TrimSpace_def
  by (rule space_width_prefix[OF prefix_trim_right trim_left_stop])

lemma TrimSpace_back: "rspace_width (rev (TrimSpace s)) = 0"
  by (simp add: TrimSpace_def trim_right_def rtrim_left_stop)

lemma TrimSpace_id:
  "space_width s = 0 \<Longrightarrow> rspace_width (rev s) = 0 \<Longrightarrow> TrimSpace s = s"
  by (simp add: TrimSpace_def trim_right_def trim_left_id rtrim_left_id)

lemma TrimSpace_idem [simp]: "TrimSpace (TrimSpace s) = TrimSpace s"
  by (rule TrimSpace_id[OF TrimSpace_front TrimSpace_back])

lemma TrimSpace_Nil [simp]: "TrimSpace [] = []"
  by (rule TrimSpace_id) simp_all

lemma trimmed_iff: "TrimSpace s = s \<longleftrightarrow> space_width s = 0 \<and> rspace_width (rev s) = 0"
  by (metis TrimSpace_back TrimSpace_front TrimSpace_id)

lemma set_TrimSpace: "set (TrimSpace s) \<subseteq> set s"
proof -
  have "set (TrimSpace s) \<subseteq> set (trim_left s)"
    unfolding TrimSpace_def by (rule set_mono_prefix[OF prefix_trim_right])
  also have "\<dots> \<subseteq> set s" by (rule set_mono_suffix[OF suffix_trim_left])
  finally show ?thesis .
qed

text \<open>A printable ASCII character other than the space: strings made of these are their own
  \<open>TrimSpace\<close>, which covers every identifier and constant of the sources.\<close>

definition visible :: "char \<Rightarrow> bool" where
  "visible c \<longleftrightarrow> 33 \<le> byte_of c \<and> byte_of c \<le> 126"

lemma space_width_visible: "visible c \<Longrightarrow> space_width (c # cs) = 0"
  by (auto simp: visible_def ascii_space_def)

lemma rspace_width_visible: "visible c \<Longrightarrow> rspace_width (c # cs) = 0"
  by (auto simp: visible_def ascii_space_def)

lemma TrimSpace_ends_visible:
  assumes "s \<noteq> []" and "visible (hd s)" and "visible (last s)"
  shows "TrimSpace s = s"
proof (rule TrimSpace_id)
  show "space_width s = 0"
    using assms(1,2) by (metis list.collapse space_width_visible)
  have "rev s = last s # rev (butlast s)"
    using assms(1) by (metis append_butlast_last_id rev_eq_Cons_iff rev_rev_ident)
  then show "rspace_width (rev s) = 0"
    using assms(3) by (simp only: rspace_width_visible)
qed

lemma TrimSpace_visible [trim_simps]: "list_all visible s \<Longrightarrow> TrimSpace s = s"
  by (cases "s = []") (auto simp: list_all_iff intro: TrimSpace_ends_visible)


section \<open>ASCII case mapping\<close>

definition lower_char :: "char \<Rightarrow> char" where
  "lower_char c = (if 65 \<le> byte_of c \<and> byte_of c \<le> 90 then char_of (byte_of c + 32) else c)"

definition upper_char :: "char \<Rightarrow> char" where
  "upper_char c = (if 97 \<le> byte_of c \<and> byte_of c \<le> 122 then char_of (byte_of c - 32) else c)"

definition ToLower :: "string \<Rightarrow> string" where
  "ToLower s = map lower_char s"

definition ToUpper :: "string \<Rightarrow> string" where
  "ToUpper s = map upper_char s"

definition EqualFold :: "string \<Rightarrow> string \<Rightarrow> bool" where
  "EqualFold a b \<longleftrightarrow> ToLower a = ToLower b"

lemma byte_of_char_of: "n < 256 \<Longrightarrow> byte_of (char_of n) = n"
  by (simp add: byte_of_def)

lemma byte_lower_char:
  "byte_of (lower_char c) = (if 65 \<le> byte_of c \<and> byte_of c \<le> 90 then byte_of c + 32 else byte_of c)"
  by (simp add: lower_char_def byte_of_char_of)

text \<open>The same on the bits of the character, for evaluation: an upper-case letter has the top bits
  \<open>010\<close> and its low bits between 1 and 26.\<close>

lemma lower_char_bits [code]:
  "lower_char (Char b0 b1 b2 b3 b4 b5 b6 b7) =
     (if b6 \<and> \<not> b7 \<and> \<not> b5 \<and> (b0 \<or> b1 \<or> b2 \<or> b3 \<or> b4) \<and> \<not> (b4 \<and> b3 \<and> (b2 \<or> (b1 \<and> b0)))
      then Char b0 b1 b2 b3 b4 True b6 b7 else Char b0 b1 b2 b3 b4 b5 b6 b7)" (is "_ = ?r")
proof -
  have "byte_of (lower_char (Char b0 b1 b2 b3 b4 b5 b6 b7)) = byte_of ?r"
    unfolding byte_lower_char
    by (cases b7; cases b6; cases b5; cases b4; cases b3; cases b2; cases b1; cases b0)
      (simp_all add: byte_of_def)
  then show ?thesis by (simp only: byte_of_def of_char_eq_iff)
qed

lemma lower_char_idem [simp]: "lower_char (lower_char c) = lower_char c"
  by (simp add: lower_char_def byte_of_char_of)

lemma ToLower_idem [simp]: "ToLower (ToLower s) = ToLower s"
  by (simp add: ToLower_def)

lemma ToLower_Nil [simp]: "ToLower [] = []" "ToLower s = [] \<longleftrightarrow> s = []" "[] = ToLower s \<longleftrightarrow> s = []"
  by (auto simp: ToLower_def)

lemma length_ToLower [simp]: "length (ToLower s) = length s"
  by (simp add: ToLower_def)

text \<open>Lowering changes no byte that takes part in a white space character, so it commutes with
  trimming.\<close>

lemma lower_char_high: "\<not> byte_of c < 128 \<Longrightarrow> byte_of (lower_char c) = byte_of c"
  by (simp add: byte_lower_char)

lemma lower_char_ascii: "byte_of (lower_char c) < 128 \<longleftrightarrow> byte_of c < 128"
  by (simp add: byte_lower_char)

lemma lower_char_space: "ascii_space (byte_of (lower_char c)) = ascii_space (byte_of c)"
  by (auto simp: byte_lower_char ascii_space_def)

lemma lower_char_eq_high: "128 \<le> n \<Longrightarrow> byte_of (lower_char c) = n \<longleftrightarrow> byte_of c = n"
  by (auto simp: byte_lower_char)

lemma lower_char_ge_high: "128 \<le> n \<Longrightarrow> n \<le> byte_of (lower_char c) \<longleftrightarrow> n \<le> byte_of c"
  by (auto simp: byte_lower_char)

lemma lower_char_le_high:
  "128 \<le> m \<Longrightarrow> m \<le> byte_of c \<Longrightarrow> byte_of (lower_char c) \<le> n \<longleftrightarrow> byte_of c \<le> n"
  by (auto simp: byte_lower_char)

lemma space2_lower: "space2 (byte_of (lower_char c)) (byte_of (lower_char d)) = space2 (byte_of c) (byte_of d)"
  by (simp add: space2_def lower_char_eq_high)

lemma space3_lower:
  "space3 (byte_of (lower_char c)) (byte_of (lower_char d)) (byte_of (lower_char e)) =
   space3 (byte_of c) (byte_of d) (byte_of e)"
proof -
  have "128 \<le> byte_of e \<Longrightarrow> byte_of (lower_char e) \<le> 138 \<longleftrightarrow> byte_of e \<le> 138"
    using lower_char_le_high[of 128 e 138] by simp
  then show ?thesis
    by (auto simp: space3_def lower_char_eq_high lower_char_ge_high)
qed

lemma space_width_lower: "space_width (map lower_char s) = space_width s"
  by (cases s rule: space_width.cases)
    (simp_all add: lower_char_ascii lower_char_space space2_lower space3_lower split: list.split)

lemma rspace_width_lower: "rspace_width (map lower_char s) = rspace_width s"
  by (cases s rule: rspace_width.cases)
    (simp_all add: lower_char_ascii lower_char_space space2_lower space3_lower split: list.split)

lemma trim_left_lower: "trim_left (map lower_char s) = map lower_char (trim_left s)"
proof (induction s rule: trim_left.induct)
  case (1 s)
  show ?case
  proof (cases "space_width s = 0")
    case True
    then show ?thesis by (simp add: trim_left_id space_width_lower)
  next
    case False
    then have "trim_left (drop (space_width s) (map lower_char s)) =
        map lower_char (trim_left (drop (space_width s) s))"
      using "1.IH" by (simp add: drop_map)
    with False show ?thesis
      by (simp add: trim_left.simps[of s] trim_left.simps[of "map lower_char s"] space_width_lower)
  qed
qed

lemma rtrim_left_lower: "rtrim_left (map lower_char s) = map lower_char (rtrim_left s)"
proof (induction s rule: rtrim_left.induct)
  case (1 s)
  show ?case
  proof (cases "rspace_width s = 0")
    case True
    then show ?thesis by (simp add: rtrim_left_id rspace_width_lower)
  next
    case False
    then have "rtrim_left (drop (rspace_width s) (map lower_char s)) =
        map lower_char (rtrim_left (drop (rspace_width s) s))"
      using "1.IH" by (simp add: drop_map)
    with False show ?thesis
      by (simp add: rtrim_left.simps[of s] rtrim_left.simps[of "map lower_char s"] rspace_width_lower)
  qed
qed

lemma TrimSpace_ToLower: "TrimSpace (ToLower s) = ToLower (TrimSpace s)"
  by (simp add: TrimSpace_def trim_right_def ToLower_def trim_left_lower rtrim_left_lower rev_map)

lemma TrimSpace_ToLower_trimmed [simp]: "TrimSpace (ToLower (TrimSpace s)) = ToLower (TrimSpace s)"
  by (simp add: TrimSpace_ToLower)

section \<open>Loops over slices\<close>

text \<open>\<^verbatim>\<open>for _, a := range allowed { if v == a { return true } }; return false\<close>\<close>

definition oneOf :: "string \<Rightarrow> string list \<Rightarrow> bool" where
  "oneOf v allowed \<longleftrightarrow> v \<in> set allowed"

text \<open>The loop that keeps the first element of every key, with the keys already seen.\<close>

fun dedupe_by :: "('a \<Rightarrow> 'k) \<Rightarrow> 'k list \<Rightarrow> 'a list \<Rightarrow> 'a list" where
  "dedupe_by key seen [] = []"
| "dedupe_by key seen (x # xs) =
     (if key x \<in> set seen then dedupe_by key seen xs
      else x # dedupe_by key (key x # seen) xs)"

lemma keys_dedupe_by: "key ` set (dedupe_by key seen xs) = key ` set xs - set seen"
  by (induction key seen xs rule: dedupe_by.induct) auto

lemma set_dedupe_by: "set (dedupe_by key seen xs) \<subseteq> set xs"
  by (induction key seen xs rule: dedupe_by.induct) auto

lemma dedupe_by_in: "x \<in> set (dedupe_by key seen xs) \<Longrightarrow> x \<in> set xs"
  using set_dedupe_by[of key seen xs] by blast

lemma distinct_dedupe_by: "distinct (map key (dedupe_by key seen xs))"
proof (induction key seen xs rule: dedupe_by.induct)
  case (2 key seen x xs)
  then show ?case
    using keys_dedupe_by[of key "key x # seen" xs] by (auto simp: image_iff)
qed simp

lemma dedupe_by_id:
  "distinct (map key xs) \<Longrightarrow> key ` set xs \<inter> set seen = {} \<Longrightarrow> dedupe_by key seen xs = xs"
  by (induction key seen xs rule: dedupe_by.induct) auto

lemma subseq_dedupe_by: "subseq (dedupe_by key seen xs) xs"
  by (induction key seen xs rule: dedupe_by.induct) auto

lemma dedupe_by_first:
  "key x \<notin> set seen \<Longrightarrow>
   map_of (map (\<lambda>x. (key x, x)) (dedupe_by key seen xs)) (key x) =
   map_of (map (\<lambda>x. (key x, x)) xs) (key x)"
  by (induction key seen xs rule: dedupe_by.induct) auto

text \<open>Deduplication of plain values: set, order and idempotence.\<close>

lemma dedupe_id_set [simp]: "set (dedupe_by (\<lambda>x. x) seen xs) = set xs - set seen"
  using keys_dedupe_by[of "\<lambda>x. x"] by simp

lemma dedupe_id_distinct [simp]: "distinct (dedupe_by (\<lambda>x. x) seen xs)"
  using distinct_dedupe_by[of "\<lambda>x. x"] by simp

lemma dedupe_id_distinct_id: "distinct xs \<Longrightarrow> dedupe_by (\<lambda>x. x) [] xs = xs"
  by (rule dedupe_by_id) simp_all

text \<open>The loop that stops at the first element with an error; \<open>first_err_at\<close> passes the index.\<close>

fun first_err :: "('a \<Rightarrow> 'e option) \<Rightarrow> 'a list \<Rightarrow> 'e option" where
  "first_err f [] = None"
| "first_err f (x # xs) = (case f x of Some e \<Rightarrow> Some e | None \<Rightarrow> first_err f xs)"

fun first_err_at :: "(nat \<Rightarrow> 'a \<Rightarrow> 'e option) \<Rightarrow> nat \<Rightarrow> 'a list \<Rightarrow> 'e option" where
  "first_err_at f i [] = None"
| "first_err_at f i (x # xs) = (case f i x of Some e \<Rightarrow> Some e | None \<Rightarrow> first_err_at f (Suc i) xs)"

lemma first_err_None [simp]: "first_err f xs = None \<longleftrightarrow> (\<forall>x \<in> set xs. f x = None)"
  by (induction xs) (auto split: option.splits)

lemma first_err_Some: "first_err f xs = Some e \<Longrightarrow> \<exists>x \<in> set xs. f x = Some e"
  by (induction xs) (auto split: option.splits)

lemma first_err_at_None: "first_err_at f i xs = None \<longleftrightarrow> (\<forall>k < length xs. f (i + k) (xs ! k) = None)"
proof (induction xs arbitrary: i)
  case (Cons x xs)
  then show ?case
    by (auto split: option.splits simp: All_less_Suc2)
qed simp

lemma first_err_at_const_None:
  assumes "\<And>j x. (f j x = None) = P x"
  shows "first_err_at f i xs = None \<longleftrightarrow> (\<forall>x \<in> set xs. P x)"
proof (induction xs arbitrary: i)
  case (Cons x xs)
  have "first_err_at f (Suc i) xs = None \<longleftrightarrow> (\<forall>x \<in> set xs. P x)" by (rule Cons.IH)
  moreover have "f i x = None \<longleftrightarrow> P x" by (rule assms)
  ultimately show ?case by (cases "f i x") auto
qed simp

lemma first_err_at_Some: "first_err_at f i xs = Some e \<Longrightarrow> \<exists>j x. x \<in> set xs \<and> f j x = Some e"
  by (induction xs arbitrary: i) (auto split: option.splits, blast)

text \<open>\<^verbatim>\<open>sort.Slice\<close> by a key is \<^const>\<open>sort_key\<close>; with distinct keys the result depends only on
  the multiset of elements, not on the order they were collected in.\<close>

lemma sort_key_unique:
  assumes "mset xs = mset ys" and "distinct (map k xs)"
  shows "sort_key k xs = sort_key k ys"
proof -
  have "inj_on k (set xs)" using assms(2) by (simp add: distinct_map)
  then show ?thesis using assms(1) by (intro sort_key_eq_sort_key)
qed

lemma sort_key_strict:
  assumes "distinct (map k xs)"
  shows "sorted_wrt (<) (map k (sort_key k xs))"
proof -
  have "distinct (map k (sort_key k xs))"
    using assms by (simp add: distinct_map)
  then show ?thesis by (simp add: strict_sorted_iff)
qed


section \<open>Maps\<close>

text \<open>Lookup is \<^const>\<open>map_of\<close>, \<^verbatim>\<open>m[k] = v\<close> is \<^const>\<open>AList.update\<close>, \<^verbatim>\<open>delete(m, k)\<close> is
  \<^const>\<open>AList.delete\<close>; all three keep the keys distinct.\<close>

lemma update_new_key: "k \<notin> fst ` set m \<Longrightarrow> AList.update k v m = m @ [(k, v)]"
  by (induction m) auto

lemma map_of_new_key: "map_of m k = None \<longleftrightarrow> k \<notin> fst ` set m"
  by (rule map_of_eq_None_iff)

lemma map_of_map_snd: "map_of (map (\<lambda>(k, v). (k, f k v)) m) k = map_option (f k) (map_of m k)"
  by (induction m) auto

lemma map_of_map_pair: "map_of (map (\<lambda>k. (k, g k)) xs) k = (if k \<in> set xs then Some (g k) else None)"
  by (induction xs) auto

lemma fst_map_snd: "map fst (map (\<lambda>(k, v). (k, f k v)) m) = map fst m"
  by (induction m) auto

lemma distinct_update_key: "distinct (map fst m) \<Longrightarrow> distinct (map fst (AList.update k v m))"
  by (rule distinct_update)

lemma append_sep_eq:
  "c \<notin> set a \<Longrightarrow> c \<notin> set a' \<Longrightarrow> a @ c # b = a' @ c # b' \<longleftrightarrow> a = a' \<and> b = b'"
proof (induction a arbitrary: a')
  case Nil
  then show ?case by (cases a') auto
next
  case (Cons x xs)
  then show ?case by (cases a') auto
qed

lemma lower_char_nul: "lower_char c = CHR 0x00 \<longleftrightarrow> c = CHR 0x00"
proof
  assume "lower_char c = CHR 0x00"
  then have "byte_of (lower_char c) = 0" by (simp add: byte_of_def)
  then have "byte_of c = 0" by (simp add: byte_lower_char split: if_splits)
  then have "of_char c = (of_char (CHR 0x00) :: nat)" by (simp add: byte_of_def)
  then show "c = CHR 0x00" by (simp only: of_char_eq_iff)
next
  assume "c = CHR 0x00"
  then show "lower_char c = CHR 0x00" by (simp add: lower_char_def byte_of_def)
qed

lemma nul_free_ToLower: "CHR 0x00 \<notin> set s \<Longrightarrow> CHR 0x00 \<notin> set (ToLower s)"
  by (auto simp: ToLower_def lower_char_nul dest: sym)

section \<open>The contract of the normalise-then-validate loaders\<close>

text \<open>The sources load every document the same way: a \<^verbatim>\<open>Normalize\<close> method canonicalises it in
  place, a \<^verbatim>\<open>Validate\<close> method then accepts or refuses it. The contract needs only that
  normalising twice is normalising once; the clients then get that a loaded document is canonical,
  valid, and loads again as itself.\<close>

locale normalized_loader =
  fixes norm :: "'a \<Rightarrow> 'a"
    and validate :: "'a \<Rightarrow> 'e option"
    and load :: "'a \<Rightarrow> 'e + 'a"
  assumes norm_idem: "norm (norm x) = norm x"
    and load_eq: "load x = (case validate (norm x) of None \<Rightarrow> Inr (norm x) | Some e \<Rightarrow> Inl e)"
begin

lemma load_valid: "load x = Inr y \<Longrightarrow> validate y = None"
  by (auto simp: load_eq split: option.splits)

lemma load_canonical: "load x = Inr y \<Longrightarrow> norm y = y"
  by (auto simp: load_eq norm_idem split: option.splits)

lemma load_again: "load x = Inr y \<Longrightarrow> load y = Inr y"
  by (auto simp: load_eq norm_idem split: option.splits)

lemma load_norm: "load (norm x) = load x"
  by (simp add: load_eq norm_idem split: option.split)

lemma load_error: "load x = Inl e \<longleftrightarrow> validate (norm x) = Some e"
  by (auto simp: load_eq split: option.splits)

end

end
