(* ===== verification/Go_Text.thy ===== *)
theory Go_Text
  imports Cpm_Prelude
begin

text \<open>
  The text functions of \<^verbatim>\<open>strings\<close>, \<^verbatim>\<open>strconv\<close>, \<^verbatim>\<open>fmt\<close> and \<^verbatim>\<open>encoding/hex\<close> the sources call: prefixes,
  joining and splitting lines, decimal integers at 64 bits, quoting and hexadecimal, with the
  round trips the message format of \<^verbatim>\<open>internal/walletauth\<close> rests on.
\<close>

section \<open>Prefixes, joining and splitting\<close>

definition HasPrefix :: "string \<Rightarrow> string \<Rightarrow> bool" where
  "HasPrefix s p \<longleftrightarrow> take (length p) s = p"

definition HasSuffix :: "string \<Rightarrow> string \<Rightarrow> bool" where
  "HasSuffix s p \<longleftrightarrow> HasPrefix (rev s) (rev p)"

definition TrimPrefix :: "string \<Rightarrow> string \<Rightarrow> string" where
  "TrimPrefix s p = (if HasPrefix s p then drop (length p) s else s)"

definition TrimSuffix :: "string \<Rightarrow> string \<Rightarrow> string" where
  "TrimSuffix s p = rev (TrimPrefix (rev s) (rev p))"

lemma HasPrefix_append [simp]: "HasPrefix (p @ s) p"
  by (simp add: HasPrefix_def)

lemma TrimPrefix_append [simp]: "TrimPrefix (p @ s) p = s"
  by (simp add: TrimPrefix_def)

lemma HasPrefix_iff: "HasPrefix s p \<longleftrightarrow> (\<exists>r. s = p @ r)"
  by (metis HasPrefix_append HasPrefix_def append_take_drop_id)

fun Join :: "string list \<Rightarrow> string \<Rightarrow> string" where
  "Join [] sep = []"
| "Join [x] sep = x"
| "Join (x # y # ys) sep = x @ sep @ Join (y # ys) sep"

text \<open>\<^verbatim>\<open>strings.Split\<close> by a one-byte separator.\<close>

fun Split :: "string \<Rightarrow> char \<Rightarrow> string list" where
  "Split [] sep = [[]]"
| "Split (c # cs) sep =
     (if c = sep then [] # Split cs sep
      else case Split cs sep of [] \<Rightarrow> [[c]] | w # ws \<Rightarrow> (c # w) # ws)"

lemma Split_nonempty [simp]: "Split s sep \<noteq> []"
  by (cases s) (auto split: list.split)

lemma Split_no_sep: "sep \<notin> set s \<Longrightarrow> Split s sep = [s]"
  by (induction s) auto

lemma Split_append_sep: "sep \<notin> set s \<Longrightarrow> Split (s @ sep # t) sep = s # Split t sep"
  by (induction s) auto

theorem Split_Join:
  "ls \<noteq> [] \<Longrightarrow> \<forall>l \<in> set ls. sep \<notin> set l \<Longrightarrow> Split (Join ls [sep]) sep = ls"
  by (induction ls "[sep]" rule: Join.induct) (auto simp: Split_no_sep Split_append_sep)

lemma Join_Split: "Join (Split s sep) [sep] = s"
proof (induction s)
  case (Cons c cs)
  obtain w ws where ws: "Split cs sep = w # ws" by (cases "Split cs sep") auto
  with Cons show ?case by (cases ws) auto
qed simp

lemma Split_lines_no_sep: "l \<in> set (Split s sep) \<Longrightarrow> sep \<notin> set l"
proof (induction s arbitrary: l)
  case (Cons c cs)
  then show ?case by (auto split: if_splits list.splits)
qed simp

text \<open>\<^verbatim>\<open>strings.Index\<close> of a one-byte substring; \<open>None\<close> is \<open>-1\<close>.\<close>

fun Index :: "string \<Rightarrow> char \<Rightarrow> nat option" where
  "Index [] c = None"
| "Index (x # xs) c = (if x = c then Some 0 else map_option Suc (Index xs c))"

lemma Index_None: "Index s c = None \<longleftrightarrow> c \<notin> set s"
  by (induction s) auto

lemma Index_append: "c \<notin> set s \<Longrightarrow> Index (s @ c # t) c = Some (length s)"
  by (induction s) auto

section \<open>Decimal integers\<close>

definition is_digit :: "char \<Rightarrow> bool" where
  "is_digit c \<longleftrightarrow> 48 \<le> byte_of c \<and> byte_of c \<le> 57"

definition digit_char :: "nat \<Rightarrow> char" where
  "digit_char n = char_of (48 + n)"

definition digit_val :: "char \<Rightarrow> nat" where
  "digit_val c = byte_of c - 48"

fun nat_digits :: "nat \<Rightarrow> string" where
  "nat_digits n = (if n < 10 then [digit_char n] else nat_digits (n div 10) @ [digit_char (n mod 10)])"

declare nat_digits.simps [simp del]

definition digits_val :: "string \<Rightarrow> nat" where
  "digits_val s = foldl (\<lambda>acc c. 10 * acc + digit_val c) 0 s"

lemma digit_char_byte: "n < 10 \<Longrightarrow> byte_of (digit_char n) = 48 + n"
  by (simp add: digit_char_def byte_of_char_of)

lemma digit_char_props [simp]: "n < 10 \<Longrightarrow> is_digit (digit_char n)" "n < 10 \<Longrightarrow> digit_val (digit_char n) = n"
  by (simp_all add: is_digit_def digit_val_def digit_char_byte)

lemma digits_val_snoc: "digits_val (s @ [c]) = 10 * digits_val s + digit_val c"
  by (simp add: digits_val_def)

lemma digits_val_nat_digits [simp]: "digits_val (nat_digits n) = n"
proof (induction n rule: nat_digits.induct)
  case (1 n)
  show ?case
  proof (cases "n < 10")
    case True
    then show ?thesis by (simp add: nat_digits.simps[of n] digits_val_def)
  next
    case False
    with 1 show ?thesis
      by (simp add: nat_digits.simps[of n] digits_val_snoc)
  qed
qed

lemma nat_digits_digits: "list_all is_digit (nat_digits n)"
proof (induction n rule: nat_digits.induct)
  case (1 n)
  then show ?case by (cases "n < 10") (simp_all add: nat_digits.simps[of n])
qed

lemma nat_digits_nonempty [simp]: "nat_digits n \<noteq> []"
  by (subst nat_digits.simps) simp

text \<open>\<^verbatim>\<open>strconv.FormatInt(i, 10)\<close> and \<^verbatim>\<open>strconv.ParseInt(s, 10, 64)\<close>.\<close>

definition FormatInt :: "int64 \<Rightarrow> string" where
  "FormatInt i = (if i < 0 then CHR ''-'' # nat_digits (nat (- i)) else nat_digits (nat i))"

definition in_int64 :: "int \<Rightarrow> bool" where
  "in_int64 i \<longleftrightarrow> - (2 ^ 63) \<le> i \<and> i < 2 ^ 63"

definition parse_digits :: "string \<Rightarrow> nat option" where
  "parse_digits s = (if s \<noteq> [] \<and> list_all is_digit s then Some (digits_val s) else None)"

definition parse_signed :: "string \<Rightarrow> int option" where
  "parse_signed s =
     (case s of
        [] \<Rightarrow> None
      | c # cs \<Rightarrow>
          if c = CHR ''-'' then map_option (\<lambda>n. - int n) (parse_digits cs)
          else if c = CHR ''+'' then map_option int (parse_digits cs)
          else map_option int (parse_digits s))"

definition ParseInt :: "string \<Rightarrow> int64 option" where
  "ParseInt s =
     (case parse_signed s of
        None \<Rightarrow> None
      | Some i \<Rightarrow> if in_int64 i then Some i else None)"

lemma parse_digits_nat_digits [simp]: "parse_digits (nat_digits n) = Some n"
  by (simp add: parse_digits_def nat_digits_digits)

lemma nat_digits_hd: "is_digit (hd (nat_digits n))"
  using nat_digits_digits[of n] nat_digits_nonempty[of n] by (cases "nat_digits n") auto

lemma is_digit_not_sign [simp]: "\<not> is_digit (CHR ''-'')" "\<not> is_digit (CHR ''+'')"
  by (simp_all add: is_digit_def byte_of_def)

theorem ParseInt_FormatInt: "in_int64 i \<Longrightarrow> ParseInt (FormatInt i) = Some i"
proof -
  assume r: "in_int64 i"
  have "parse_signed (FormatInt i) = Some i"
  proof (cases "i < 0")
    case True
    then show ?thesis by (simp add: FormatInt_def parse_signed_def)
  next
    case False
    obtain c cs where c: "nat_digits (nat i) = c # cs" by (cases "nat_digits (nat i)") auto
    then have "is_digit c" using nat_digits_hd[of "nat i"] by simp
    then have "c \<noteq> CHR ''-''" "c \<noteq> CHR ''+''" by auto
    then have "parse_signed (c # cs) = map_option int (parse_digits (c # cs))"
      by (simp add: parse_signed_def)
    then show ?thesis
      using False by (simp add: FormatInt_def flip: c)
  qed
  then show ?thesis using r by (simp add: ParseInt_def)
qed

lemma ParseInt_range: "ParseInt s = Some i \<Longrightarrow> in_int64 i"
  by (auto simp: ParseInt_def split: option.splits if_splits)

lemma is_digit_visible: "is_digit c \<Longrightarrow> visible c"
  by (simp add: is_digit_def visible_def)

lemma FormatInt_visible: "list_all visible (FormatInt i)"
proof -
  have *: "list_all visible (nat_digits n)" for n
    using nat_digits_digits[of n] by (auto simp: list_all_iff is_digit_visible)
  then show ?thesis
    by (simp add: FormatInt_def visible_def byte_of_def)
qed

lemma FormatInt_nonempty [simp]: "FormatInt i \<noteq> []"
  by (simp add: FormatInt_def)

lemma visible_no_newline: "list_all visible s \<Longrightarrow> CHR 10 \<notin> set s"
  by (auto simp: list_all_iff visible_def byte_of_def)

section \<open>Quoting\<close>

definition hex_char :: "nat \<Rightarrow> char" where
  "hex_char n = (if n < 10 then char_of (48 + n) else char_of (87 + n))"

definition quote_char :: "char \<Rightarrow> string" where
  "quote_char c =
     (let n = byte_of c in
      if c = CHR 34 then [CHR 92, CHR 34]
      else if c = CHR 92 then [CHR 92, CHR 92]
      else if n = 7 then [CHR 92, CHR ''a'']
      else if n = 8 then [CHR 92, CHR ''b'']
      else if n = 9 then [CHR 92, CHR ''t'']
      else if n = 10 then [CHR 92, CHR ''n'']
      else if n = 11 then [CHR 92, CHR ''v'']
      else if n = 12 then [CHR 92, CHR ''f'']
      else if n = 13 then [CHR 92, CHR ''r'']
      else if n < 32 \<or> n = 127 then [CHR 92, CHR ''x'', hex_char (n div 16), hex_char (n mod 16)]
      else [c])"

text \<open>\<^verbatim>\<open>%q\<close> (\<^verbatim>\<open>strconv.Quote\<close>) and \<^verbatim>\<open>%v\<close> of a slice of strings.\<close>

definition Quote :: "string \<Rightarrow> string" where
  "Quote s = [CHR 34] @ concat (map quote_char s) @ [CHR 34]"

definition fmt_strings :: "string list \<Rightarrow> string" where
  "fmt_strings xs = ''['' @ Join xs '' '' @ '']''"

section \<open>Hexadecimal\<close>

definition lower_hex :: "char \<Rightarrow> bool" where
  "lower_hex c \<longleftrightarrow> (48 \<le> byte_of c \<and> byte_of c \<le> 57) \<or> (97 \<le> byte_of c \<and> byte_of c \<le> 102)"

definition hex_val :: "char \<Rightarrow> nat option" where
  "hex_val c =
     (let n = byte_of c in
      if 48 \<le> n \<and> n \<le> 57 then Some (n - 48)
      else if 97 \<le> n \<and> n \<le> 102 then Some (n - 87)
      else if 65 \<le> n \<and> n \<le> 70 then Some (n - 55)
      else None)"

text \<open>\<^verbatim>\<open>hex.EncodeToString\<close> and \<^verbatim>\<open>hex.DecodeString\<close>; the bytes are a \<^typ>\<open>nat list\<close>.\<close>

definition hex_encode :: "nat list \<Rightarrow> string" where
  "hex_encode bs = concat (map (\<lambda>b. [hex_char (b div 16), hex_char (b mod 16)]) bs)"

fun hex_decode :: "string \<Rightarrow> nat list option" where
  "hex_decode [] = Some []"
| "hex_decode [c] = None"
| "hex_decode (c # d # cs) =
     (case (hex_val c, hex_val d, hex_decode cs) of
        (Some h, Some l, Some bs) \<Rightarrow> Some ((16 * h + l) # bs)
      | _ \<Rightarrow> None)"

lemma hex_char_byte: "n < 16 \<Longrightarrow> byte_of (hex_char n) = (if n < 10 then 48 + n else 87 + n)"
  by (simp add: hex_char_def byte_of_char_of)

lemma hex_val_hex_char [simp]: "n < 16 \<Longrightarrow> hex_val (hex_char n) = Some n"
  by (simp add: hex_val_def hex_char_byte)

lemma lower_hex_hex_char [simp]: "n < 16 \<Longrightarrow> lower_hex (hex_char n)"
  by (simp add: lower_hex_def hex_char_byte)

lemma hex_decode_encode: "\<forall>b \<in> set bs. b < 256 \<Longrightarrow> hex_decode (hex_encode bs) = Some bs"
  by (induction bs) (simp_all add: hex_encode_def less_mult_imp_div_less)

lemma length_hex_encode: "length (hex_encode bs) = 2 * length bs"
  by (induction bs) (simp_all add: hex_encode_def)

lemma hex_encode_lower: "\<forall>b \<in> set bs. b < 256 \<Longrightarrow> list_all lower_hex (hex_encode bs)"
  by (induction bs) (simp_all add: hex_encode_def less_mult_imp_div_less)

lemma lower_hex_visible: "lower_hex c \<Longrightarrow> visible c"
  by (auto simp: lower_hex_def visible_def)

lemma lower_hex_lower: "lower_hex c \<Longrightarrow> lower_char c = c"
  by (auto simp: lower_hex_def lower_char_def)

end
