(* ===== verification/Go_Json.thy ===== *)
theory Go_Json
  imports Go_Text
begin

text \<open>
  JSON values as \<^verbatim>\<open>encoding/json\<close> hands them to the sources: what \<^verbatim>\<open>Unmarshal\<close> into an \<^verbatim>\<open>any\<close> returns,
  \<^verbatim>\<open>Marshal\<close> of such a value, and the decoding of a value into the fields of a struct. Reading the
  bytes of a document is the library's work; a body enters the models as the value it denotes, or
  as a syntax error.

  An object is an association list with distinct keys whose order is the iteration order of the
  Go map. Of a \<^verbatim>\<open>float64\<close> the sources see its rendering, its truncation to an integer and whether it is
  one. Strings are valid UTF-8, as \<^verbatim>\<open>Unmarshal\<close> leaves them. A struct field is filled from the keys equal
  to its name up to case, the last one in the sorted order \<^verbatim>\<open>Marshal\<close> writes them in. Of a document with
  several such keys only the last counts here, while the library assigns them one after another: it
  keeps an earlier value under a later \<^verbatim>\<open>null\<close> and merges values that are structs. The models are exact
  for documents in which no two keys of an object name the same field.
\<close>

record gofloat =
  fl_Text :: string
  fl_Trunc :: int
  fl_Integral :: bool

datatype json =
    JNull
  | JBool bool
  | JNum gofloat
  | JStr string
  | JArr "json list"
  | JObj "(string \<times> json) list"

abbreviation jint :: "int \<Rightarrow> json" where
  "jint i \<equiv> JNum \<lparr>fl_Text = FormatInt i, fl_Trunc = i, fl_Integral = True\<rparr>"

section \<open>Marshal\<close>

definition json_escape :: "char \<Rightarrow> string" where
  "json_escape c =
     (let n = byte_of c in
      if c = CHR 34 then [CHR 92, CHR 34]
      else if c = CHR 92 then [CHR 92, CHR 92]
      else if n = 8 then [CHR 92, CHR ''b'']
      else if n = 12 then [CHR 92, CHR ''f'']
      else if n = 10 then [CHR 92, CHR ''n'']
      else if n = 13 then [CHR 92, CHR ''r'']
      else if n = 9 then [CHR 92, CHR ''t'']
      else if n < 32 \<or> c = CHR ''<'' \<or> c = CHR ''>'' \<or> c = CHR ''&''
      then [CHR 92, CHR ''u'', CHR ''0'', CHR ''0'', hex_char (n div 16), hex_char (n mod 16)]
      else [c])"

text \<open>The two line separators U+2028 and U+2029, in UTF-8 the bytes E2 80 A8 and E2 80 A9, are escaped too.\<close>

fun json_escapes :: "string \<Rightarrow> string" where
  "json_escapes [] = []"
| "json_escapes (c # s) =
     (if byte_of c = 226 \<and> map byte_of (take 2 s) = [128, 168] then [CHR 92] @ ''u2028'' @ json_escapes (drop 2 s)
      else if byte_of c = 226 \<and> map byte_of (take 2 s) = [128, 169] then [CHR 92] @ ''u2029'' @ json_escapes (drop 2 s)
      else json_escape c @ json_escapes s)"

definition json_quote :: "string \<Rightarrow> string" where
  "json_quote s = [CHR 34] @ json_escapes s @ [CHR 34]"

fun Marshal :: "json \<Rightarrow> string" where
  "Marshal JNull = ''null''"
| "Marshal (JBool b) = (if b then ''true'' else ''false'')"
| "Marshal (JNum f) = fl_Text f"
| "Marshal (JStr s) = json_quote s"
| "Marshal (JArr xs) = ''['' @ Join (map Marshal xs) '','' @ '']''"
| "Marshal (JObj kvs) =
     ''{'' @ Join (map (\<lambda>(k, s). json_quote k @ '':'' @ s)
       (sort_key fst (map (\<lambda>(k, v). (k, Marshal v)) kvs))) '','' @ ''}''"

declare Marshal.simps [simp del]

text \<open>The order of the keys in the map does not show in the bytes.\<close>

lemma Marshal_perm:
  assumes "mset kvs = mset kvs'" and "distinct (map fst kvs)"
  shows "Marshal (JObj kvs) = Marshal (JObj kvs')"
proof -
  let ?f = "\<lambda>(k, v). (k, Marshal v)"
  have "sort_key fst (map ?f kvs) = sort_key fst (map ?f kvs')"
  proof (rule sort_key_unique)
    show "mset (map ?f kvs) = mset (map ?f kvs')" using assms(1) by simp
    have "map fst (map ?f kvs) = map fst kvs" by auto
    then show "distinct (map fst (map ?f kvs))" using assms(2) by (simp only:)
  qed
  then show ?thesis by (simp only: Marshal.simps)
qed

section \<open>Decoding into Go types\<close>

text \<open>The fields of a struct, read from an object: \<open>None\<close> when no key names the field.\<close>

definition field :: "(string \<times> json) list \<Rightarrow> string \<Rightarrow> json option" where
  "field kvs name =
     (case sort_key fst (filter (\<lambda>(k, _). EqualFold k name) kvs) of
        [] \<Rightarrow> None
      | matches \<Rightarrow> Some (snd (last matches)))"

text \<open>Decoding a value into a Go type; \<open>None\<close> is a decoding error. A missing field and \<^verbatim>\<open>null\<close> leave
  the zero value.\<close>

definition dec_string :: "json option \<Rightarrow> string option" where
  "dec_string v = (case v of None \<Rightarrow> Some '''' | Some JNull \<Rightarrow> Some '''' | Some (JStr s) \<Rightarrow> Some s | _ \<Rightarrow> None)"

definition dec_bool :: "json option \<Rightarrow> bool option" where
  "dec_bool v = (case v of None \<Rightarrow> Some False | Some JNull \<Rightarrow> Some False | Some (JBool b) \<Rightarrow> Some b | _ \<Rightarrow> None)"

definition dec_int64 :: "json option \<Rightarrow> int64 option" where
  "dec_int64 v =
     (case v of None \<Rightarrow> Some 0 | Some JNull \<Rightarrow> Some 0
      | Some (JNum f) \<Rightarrow> if fl_Integral f \<and> in_int64 (fl_Trunc f) then Some (fl_Trunc f) else None
      | _ \<Rightarrow> None)"

fun all_some :: "'a option list \<Rightarrow> 'a list option" where
  "all_some [] = Some []"
| "all_some (x # xs) =
     (case x of None \<Rightarrow> None | Some a \<Rightarrow> (case all_some xs of None \<Rightarrow> None | Some as \<Rightarrow> Some (a # as)))"

definition dec_list :: "(json option \<Rightarrow> 'a option) \<Rightarrow> json option \<Rightarrow> 'a list option" where
  "dec_list d v =
     (case v of None \<Rightarrow> Some [] | Some JNull \<Rightarrow> Some []
      | Some (JArr xs) \<Rightarrow> all_some (map (\<lambda>x. d (Some x)) xs)
      | _ \<Rightarrow> None)"

definition dec_struct :: "((string \<times> json) list \<Rightarrow> 'a option) \<Rightarrow> json option \<Rightarrow> 'a option" where
  "dec_struct d v =
     (case v of None \<Rightarrow> d [] | Some JNull \<Rightarrow> d [] | Some (JObj kvs) \<Rightarrow> d kvs | _ \<Rightarrow> None)"

lemma all_some_map_Some [simp]: "all_some (map Some ys) = Some ys"
  by (induction ys) simp_all

lemma all_some_Some: "all_some xs = Some ys \<longleftrightarrow> xs = map Some ys"
proof
  show "all_some xs = Some ys \<Longrightarrow> xs = map Some ys"
    by (induction xs arbitrary: ys) (auto split: option.splits)
qed simp

lemma all_some_map: "(\<And>x. x \<in> set xs \<Longrightarrow> f x = Some (g x)) \<Longrightarrow> all_some (map f xs) = Some (map g xs)"
  by (simp add: all_some_Some cong: map_cong)

lemma field_Nil [simp]: "field [] name = None"
  by (simp add: field_def)

end
