(* ===== verification/Wallet_Target.thy ===== *)
theory Wallet_Target
  imports Go_Json
begin

text \<open>
  Wallet addresses and scan ids: \<^verbatim>\<open>internal/persistence/wallet_target.go\<close>, the extraction of a wallet
  from a stored payload of \<^verbatim>\<open>wallet_target_dev.go\<close>, and \<^verbatim>\<open>internal/app/scan_id.go\<close>. Two components compare
  addresses, the signature check and the store, each with its own copy of the same function; the
  interface \<open>address_equality\<close> states what both rely on.
\<close>

section \<open>Addresses\<close>

definition WalletSubjectPrefix :: string where
  "WalletSubjectPrefix = ''wallet:''"

text \<open>\<open>None\<close> is either of the two errors, whose texts no caller inspects.\<close>

definition NormalizeWalletTargetAddress :: "string \<Rightarrow> string option" where
  "NormalizeWalletTargetAddress address =
     (let a = TrimSpace address in
      if a = '''' then None
      else
        let a = (if HasPrefix a ''0X'' then ''0x'' @ drop 2 a else a);
            a = (if \<not> HasPrefix a ''0x'' then ''0x'' @ a else a);
            a = ToLower a in
        if length a \<noteq> 42 \<or> \<not> HasPrefix a ''0x'' then None
        else if list_all lower_hex (drop 2 a) then Some a
        else None)"

definition WalletSubjectIDFromAddress :: "string \<Rightarrow> string option" where
  "WalletSubjectIDFromAddress address =
     (case NormalizeWalletTargetAddress address of
        None \<Rightarrow> None
      | Some norm \<Rightarrow> Some (WalletSubjectPrefix @ norm))"

definition NormalizeWalletSubjectID :: "string \<Rightarrow> string" where
  "NormalizeWalletSubjectID subjectID =
     (let value = TrimSpace subjectID in
      if value = '''' then value
      else
        let lower = ToLower value;
            hexPart = (if HasPrefix lower WalletSubjectPrefix
              then TrimSpace (drop (length WalletSubjectPrefix) value) else value) in
        case NormalizeWalletTargetAddress hexPart of
          None \<Rightarrow> value
        | Some norm \<Rightarrow> WalletSubjectPrefix @ norm)"

text \<open>\<^verbatim>\<open>addressesEqual\<close> of \<^verbatim>\<open>walletauth/verify.go\<close>.\<close>

definition addressesEqual :: "string \<Rightarrow> string \<Rightarrow> bool" where
  "addressesEqual a b =
     (case (NormalizeWalletTargetAddress a, NormalizeWalletTargetAddress b) of
        (Some na, Some nb) \<Rightarrow> na = nb
      | _ \<Rightarrow> EqualFold (TrimSpace a) (TrimSpace b))"

text \<open>\<^verbatim>\<open>walletAddressesEqual\<close> of \<^verbatim>\<open>persistence/owner_scoped_store_dev.go\<close>.\<close>

definition walletAddressesEqual :: "string \<Rightarrow> string \<Rightarrow> bool" where
  "walletAddressesEqual a b =
     (case (NormalizeWalletTargetAddress a, NormalizeWalletTargetAddress b) of
        (Some na, Some nb) \<Rightarrow> na = nb
      | _ \<Rightarrow> EqualFold (TrimSpace a) (TrimSpace b))"

section \<open>The wallet of a stored payload\<close>

definition stringField :: "(string \<times> json) list option \<Rightarrow> string \<Rightarrow> string" where
  "stringField mo key =
     (case mo of
        None \<Rightarrow> ''''
      | Some m \<Rightarrow> (case map_of m key of Some (JStr s) \<Rightarrow> TrimSpace s | _ \<Rightarrow> ''''))"

fun firstNonEmpty :: "string list \<Rightarrow> string" where
  "firstNonEmpty [] = ''''"
| "firstNonEmpty (v # vs) = (if TrimSpace v \<noteq> '''' then TrimSpace v else firstNonEmpty vs)"

definition walletTargetFromPolicyContext :: "(string \<times> json) list \<Rightarrow> string" where
  "walletTargetFromPolicyContext pc =
     (let addr = firstNonEmpty [stringField (Some pc) ''target_address'', stringField (Some pc) ''wallet_address'',
        stringField (Some pc) ''walletAddress''] in
      if addr \<noteq> '''' then addr
      else case map_of pc ''result'' of
        Some (JObj res) \<Rightarrow> stringField (Some res) ''target_address''
      | _ \<Rightarrow> '''')"

definition walletTargetFromScanContext :: "(string \<times> json) list \<Rightarrow> string" where
  "walletTargetFromScanContext ctx =
     (let addr = firstNonEmpty [stringField (Some ctx) ''target_address'', stringField (Some ctx) ''wallet_address''] in
      if addr \<noteq> '''' then addr
      else case map_of ctx ''result'' of
        Some (JObj res) \<Rightarrow> stringField (Some res) ''target_address''
      | _ \<Rightarrow> '''')"

definition extractWalletTargetAddress :: "(string \<times> json) list option \<Rightarrow> string" where
  "extractWalletTargetAddress po =
     (case po of
        None \<Rightarrow> ''''
      | Some payload \<Rightarrow>
          let fromPC = (case map_of payload ''policy_context'' of
                Some (JObj pc) \<Rightarrow> walletTargetFromPolicyContext pc | _ \<Rightarrow> '''') in
          if fromPC \<noteq> '''' then fromPC
          else
            let fromSWC = (case map_of payload ''selected_wallet_policy_context'' of
                  Some (JObj swc) \<Rightarrow> walletTargetFromScanContext swc | _ \<Rightarrow> '''') in
            if fromSWC \<noteq> '''' then fromSWC
            else firstNonEmpty [stringField (Some payload) ''target_address'',
              stringField (Some payload) ''wallet_address'', stringField (Some payload) ''walletAddress''])"

definition walletTargetFromPayload :: "(string \<times> json) list option \<Rightarrow> string" where
  "walletTargetFromPayload payload =
     (let addr = extractWalletTargetAddress payload in
      if addr \<noteq> '''' then
        (case NormalizeWalletTargetAddress addr of Some norm \<Rightarrow> norm | None \<Rightarrow> '''')
      else '''')"

section \<open>Scan ids\<close>

definition hex_digit :: "char \<Rightarrow> bool" where
  "hex_digit c \<longleftrightarrow> hex_val c \<noteq> None"

text \<open>The pattern \<^verbatim>\<open>^[0-9a-f]{8}-[0-9a-f]{4}-[0-9a-f]{4}-[0-9a-f]{4}-[0-9a-f]{12}$\<close>, case-insensitive.\<close>

definition scanUUID_matches :: "string \<Rightarrow> bool" where
  "scanUUID_matches s \<longleftrightarrow>
     length s = 36 \<and>
     list_all (\<lambda>i. if i \<in> {8, 13, 18, 23} then s ! i = CHR ''-'' else hex_digit (s ! i)) [0..<36]"

definition NormalizeDiscoveryScanID :: "string \<Rightarrow> string option" where
  "NormalizeDiscoveryScanID s =
     (let scan = TrimSpace s in if \<not> scanUUID_matches scan then None else Some (ToLower scan))"

section \<open>Normal addresses\<close>

definition normal_address :: "string \<Rightarrow> bool" where
  "normal_address a \<longleftrightarrow> length a = 42 \<and> HasPrefix a ''0x'' \<and> list_all lower_hex (drop 2 a)"

lemma ToLower_lower_hex: "list_all lower_hex s \<Longrightarrow> ToLower s = s"
  unfolding ToLower_def by (rule map_idI) (auto simp: list_all_iff lower_hex_lower)

lemma visible_x: "visible (CHR ''0'')" "visible (CHR ''x'')"
  by (simp_all add: visible_def byte_of_def)

lemma lower_0x: "lower_char (CHR ''0'') = CHR ''0''" "lower_char (CHR ''x'') = CHR ''x''" "lower_char (CHR ''X'') = CHR ''x''"
  by (simp_all add: lower_char_bits)

lemma normal_address_cases: "normal_address a \<longleftrightarrow> (\<exists>h. a = ''0x'' @ h \<and> length h = 40 \<and> list_all lower_hex h)"
  by (auto simp: normal_address_def HasPrefix_iff)

lemma normal_address_shape:
  assumes "normal_address a"
  shows "TrimSpace a = a" and "ToLower a = a" and "a \<noteq> []" and "list_all visible a"
proof -
  obtain h where a: "a = ''0x'' @ h" "list_all lower_hex h" using assms by (auto simp: normal_address_cases)
  show v: "list_all visible a" using a by (auto simp: visible_x list_all_iff lower_hex_visible)
  then show "TrimSpace a = a" by (rule TrimSpace_visible)
  show "ToLower a = a" using a(2) ToLower_lower_hex[OF a(2)] unfolding a(1) by (simp add: ToLower_def lower_0x)
  show "a \<noteq> []" by (simp add: a(1))
qed

lemma HasPrefix_0x_split: "HasPrefix a ''0x'' \<Longrightarrow> \<not> HasPrefix a ''0X''"
  by (auto simp: HasPrefix_iff)

lemma Normalize_normal: "normal_address a \<Longrightarrow> NormalizeWalletTargetAddress a = Some a"
  using normal_address_shape[of a] HasPrefix_0x_split[of a]
  by (simp add: NormalizeWalletTargetAddress_def Let_def) (simp add: normal_address_def)

lemma Normalize_result: "NormalizeWalletTargetAddress a = Some b \<Longrightarrow> normal_address b"
  by (auto simp: NormalizeWalletTargetAddress_def normal_address_def Let_def split: if_splits)

text \<open>An address that is a normal one up to case and blanks normalises to it.\<close>

lemma Normalize_fold:
  assumes "normal_address b" and "ToLower (TrimSpace a) = b"
  shows "NormalizeWalletTargetAddress a = Some b"
proof -
  obtain h where b: "b = CHR ''0'' # CHR ''x'' # h" using assms(1) by (auto simp: normal_address_cases)
  obtain c d t where t: "TrimSpace a = c # d # t" and c: "lower_char c = CHR ''0''" and d: "lower_char d = CHR ''x''"
    using assms(2) b by (auto simp: ToLower_def)
  have "byte_of (lower_char c) = 48" "byte_of (lower_char d) = 120" using c d by (simp_all add: byte_of_def)
  then have "byte_of c = 48" "byte_of d = 120 \<or> byte_of d = 88"
    by (auto simp: byte_lower_char split: if_splits)
  then have "c = CHR ''0''" "d = CHR ''x'' \<or> d = CHR ''X''"
    using of_char_eq_iff[of c "CHR ''0''"] of_char_eq_iff[of d "CHR ''x''"] of_char_eq_iff[of d "CHR ''X''"]
    by (auto simp: byte_of_def simp del: of_char_eq_iff)
  moreover have "b = ToLower (CHR ''0'' # CHR ''x'' # t)"
    using assms(2) t c d by (simp add: ToLower_def lower_0x)
  ultimately show ?thesis
    using assms(1) t by (auto simp: NormalizeWalletTargetAddress_def Let_def HasPrefix_def normal_address_def)
qed

section \<open>Normal scan ids\<close>

lemma hex_digit_shape:
  assumes "hex_digit c"
  shows "visible c" "lower_hex (lower_char c)" "hex_digit (lower_char c)"
proof -
  have h: "hex_val c \<noteq> None" using assms by (simp add: hex_digit_def)
  then show "visible c" by (auto simp: hex_val_def visible_def Let_def split: if_splits)
  from h show "lower_hex (lower_char c)" "hex_digit (lower_char c)"
    by (auto simp: hex_digit_def hex_val_def lower_hex_def byte_lower_char Let_def split: if_splits)
qed

definition normal_scan :: "string \<Rightarrow> bool" where
  "normal_scan s \<longleftrightarrow> list_all visible s \<and> ToLower s = s \<and> scanUUID_matches s"

definition uuid_char :: "nat \<Rightarrow> char \<Rightarrow> bool" where
  "uuid_char i c \<longleftrightarrow> (if i \<in> {8, 13, 18, 23} then c = CHR ''-'' else hex_digit c)"

lemma scanUUID_nth: "scanUUID_matches s \<longleftrightarrow> length s = 36 \<and> (\<forall>i < length s. uuid_char i (s ! i))"
  unfolding scanUUID_matches_def list_all_iff set_upt uuid_char_def[symmetric] by auto

lemma uuid_char_shape:
  assumes "uuid_char i c"
  shows "uuid_char i (lower_char c)" "visible (lower_char c)"
proof -
  have dash: "lower_char (CHR ''-'') = CHR ''-''" "visible (CHR ''-'')" by code_simp+
  show "uuid_char i (lower_char c)" "visible (lower_char c)"
    using assms hex_digit_shape[of c] lower_hex_visible[of "lower_char c"]
    by (auto simp: uuid_char_def dash split: if_splits)
qed

lemma scan_normal:
  assumes "NormalizeDiscoveryScanID s = Some t"
  shows "normal_scan t"
proof -
  have m: "scanUUID_matches (TrimSpace s)" and t: "t = ToLower (TrimSpace s)"
    using assms by (simp_all add: NormalizeDiscoveryScanID_def Let_def split: if_splits)
  have "scanUUID_matches t"
    using m uuid_char_shape(1) unfolding scanUUID_nth t ToLower_def by simp
  moreover have "list_all visible t"
    using m uuid_char_shape(2) unfolding scanUUID_nth t ToLower_def list_all_length by (metis length_map nth_map)
  ultimately show ?thesis by (simp add: normal_scan_def t ToLower_def)
qed

lemma normal_scan_fixed: "normal_scan t \<Longrightarrow> NormalizeDiscoveryScanID t = Some t"
  by (simp add: normal_scan_def NormalizeDiscoveryScanID_def TrimSpace_visible)

section \<open>The contract of address comparison\<close>

locale address_equality =
  fixes norm :: "string \<Rightarrow> string option"
    and eq :: "string \<Rightarrow> string \<Rightarrow> bool"
  assumes norm_idem: "norm a = Some b \<Longrightarrow> norm b = Some b"
    and norm_fold: "norm b = Some b \<Longrightarrow> EqualFold (TrimSpace a) (TrimSpace b) \<Longrightarrow> norm a = Some b"
    and eq_norm: "eq a b = (case (norm a, norm b) of (Some x, Some y) \<Rightarrow> x = y
        | _ \<Rightarrow> EqualFold (TrimSpace a) (TrimSpace b))"
begin

lemma eq_canonical: "norm b = Some b \<Longrightarrow> eq a b \<longleftrightarrow> norm a = Some b"
  using norm_fold[of b a] by (cases "norm a") (auto simp: eq_norm)

lemma eq_refl: "eq a a"
  by (cases "norm a") (auto simp: eq_norm EqualFold_def)

lemma eq_sym: "eq a b \<longleftrightarrow> eq b a"
  by (auto simp: eq_norm EqualFold_def split: option.splits)

lemma eq_unique: "norm a = Some a \<Longrightarrow> norm b = Some b \<Longrightarrow> eq a b \<longleftrightarrow> a = b"
  by (simp add: eq_norm)

end

lemma Wallet_idem: "NormalizeWalletTargetAddress a = Some b \<Longrightarrow> NormalizeWalletTargetAddress b = Some b"
  by (rule Normalize_normal[OF Normalize_result])

lemma Normalize_EqualFold:
  assumes "NormalizeWalletTargetAddress b = Some b" and "EqualFold (TrimSpace a) (TrimSpace b)"
  shows "NormalizeWalletTargetAddress a = Some b"
proof (rule Normalize_fold)
  show "normal_address b" by (rule Normalize_result[OF assms(1)])
  then show "ToLower (TrimSpace a) = b"
    using assms(2) normal_address_shape[of b] by (simp add: EqualFold_def)
qed

interpretation auth_address: address_equality NormalizeWalletTargetAddress addressesEqual
  by unfold_locales (auto intro: Wallet_idem Normalize_EqualFold simp: addressesEqual_def)

interpretation store_address: address_equality NormalizeWalletTargetAddress walletAddressesEqual
  by unfold_locales (auto intro: Wallet_idem Normalize_EqualFold simp: walletAddressesEqual_def)

section \<open>Properties\<close>

text \<open>Address normalisation: the result is \<^verbatim>\<open>0x\<close> and forty lower-case hexadecimal digits,
  normalising it again changes nothing, and the spelling of the input (letter case, an upper-case
  or missing \<^verbatim>\<open>0x\<close>, surrounding blanks) does not matter: a bare address, its \<^verbatim>\<open>0x\<close> and its \<^verbatim>\<open>0X\<close>
  spelling all give the same result.\<close>

lemma wallet_address_normal:
  assumes "length h = 40" and "list_all hex_digit h"
  shows "\<exists>b. normal_address b \<and> NormalizeWalletTargetAddress h = Some b \<and>
    NormalizeWalletTargetAddress (''0x'' @ h) = Some b \<and> NormalizeWalletTargetAddress (''0X'' @ h) = Some b \<and>
    NormalizeWalletTargetAddress b = Some b"
proof -
  have vis: "visible c" "lower_hex (lower_char c)" if "c \<in> set h" for c
    using hex_digit_shape[of c] that assms(2) by (simp_all add: list_all_iff)
  let ?b = "''0x'' @ ToLower h"
  have n: "normal_address ?b"
    using assms(1) vis(2) by (auto simp: normal_address_cases ToLower_def list_all_iff)
  have t: "TrimSpace h = h" "TrimSpace (''0x'' @ h) = ''0x'' @ h" "TrimSpace (''0X'' @ h) = ''0X'' @ h"
    using vis(1) by (auto intro!: TrimSpace_visible simp: list_all_iff visible_def byte_of_def)
  obtain c d r where h: "h = c # d # r" using assms(1) by (cases h; cases "tl h") auto
  have "d \<noteq> CHR ''x''" "d \<noteq> CHR ''X''"
    using assms(2) h by (auto simp: hex_digit_def hex_val_def byte_of_def)
  then have "NormalizeWalletTargetAddress h = Some ?b"
    using n t(1) unfolding normal_address_def
    by (simp add: NormalizeWalletTargetAddress_def Let_def h HasPrefix_def ToLower_def lower_0x)
  moreover have "ToLower (TrimSpace (''0x'' @ h)) = ?b" "ToLower (TrimSpace (''0X'' @ h)) = ?b"
    unfolding t by (simp_all add: ToLower_def lower_0x)
  then have "NormalizeWalletTargetAddress (''0x'' @ h) = Some ?b" "NormalizeWalletTargetAddress (''0X'' @ h) = Some ?b"
    using Normalize_fold[OF n] by blast+
  ultimately show ?thesis using n Normalize_normal[OF n] by blast
qed

definition sample_hex :: string where
  "sample_hex = ''0802B015613eF6701192811E595e085A9C560CAf''"

end
