(* ===== verification/Go_Time.thy ===== *)
theory Go_Time
  imports Go_Text "HOL-Library.Monad_Syntax"
begin

text \<open>
  What the sources use of Go's \<^verbatim>\<open>time\<close> package: instants, their difference (which saturates), and the
  RFC 3339 layout. An instant is the number of nanoseconds since 0000-01-01T00:00:00Z in the
  proleptic Gregorian calendar; durations are nanoseconds too. The parser follows \<^verbatim>\<open>time.Parse\<close> with
  the layout \<^verbatim>\<open>2006-01-02T15:04:05Z07:00\<close>, with its leniency: one-digit hours, fractions of a second
  after a point or a comma. The result is the round trip of formatting and parsing.
\<close>

type_synonym gotime = int
type_synonym duration = int

definition second :: duration where "second = 1000000000"

definition zeroTime :: gotime where
  "zeroTime = 366 * 86400 * second"

definition IsZero :: "gotime \<Rightarrow> bool" where
  "IsZero t \<longleftrightarrow> t = zeroTime"

text \<open>\<^verbatim>\<open>Sub\<close> saturates at the smallest and largest \<^verbatim>\<open>Duration\<close>.\<close>

definition Sub :: "gotime \<Rightarrow> gotime \<Rightarrow> duration" where
  "Sub t u = max (- (2 ^ 63)) (min (2 ^ 63 - 1) (t - u))"

lemma Sub_le_iff: "0 \<le> d \<Longrightarrow> d < 2 ^ 63 - 1 \<Longrightarrow> Sub t u \<le> d \<longleftrightarrow> t - u \<le> d"
  by (simp add: Sub_def min_def max_def)

section \<open>The calendar\<close>

definition is_leap :: "int \<Rightarrow> bool" where
  "is_leap y \<longleftrightarrow> y mod 4 = 0 \<and> (y mod 100 \<noteq> 0 \<or> y mod 400 = 0)"

definition month_days :: "bool \<Rightarrow> int list" where
  "month_days leap = [31, if leap then 29 else 28, 31, 30, 31, 30, 31, 31, 30, 31, 30, 31]"

text \<open>The days of a year's months up to a month, and the days of the years up to a year.\<close>

definition days_before_month :: "bool \<Rightarrow> nat \<Rightarrow> int" where
  "days_before_month leap m = sum_list (take m (month_days leap))"

definition days_before_year :: "int \<Rightarrow> int" where
  "days_before_year y = 365 * y + (y + 3) div 4 - (y + 99) div 100 + (y + 399) div 400"

definition year_length :: "int \<Rightarrow> int" where
  "year_length y = (if is_leap y then 366 else 365)"

lemma ceil_div_Suc:
  assumes "0 < (k::int)"
  shows "(y + k) div k = (y + (k - 1)) div k + (if y mod k = 0 then 1 else 0)"
proof -
  have y: "y = k * (y div k) + y mod k" by simp
  have "y + (k - 1) = (y mod k + (k - 1)) + k * (y div k)" using y by linarith
  then have "(y + (k - 1)) div k = y div k + (y mod k + (k - 1)) div k"
    using assms by (simp only: div_mult_self2)
  moreover have "(y mod k + (k - 1)) div k = (if y mod k = 0 then 0 else 1)"
  proof (cases "y mod k = 0")
    case False
    then have "0 < y mod k" "y mod k < k" using pos_mod_sign[OF assms, of y] pos_mod_bound[OF assms, of y] by linarith+
    then have "(y mod k + (k - 1)) div k = (k + (y mod k - 1)) div k" by (simp add: algebra_simps)
    also have "\<dots> = 1 + (y mod k - 1) div k" using assms by (subst div_add_self1) auto
    also have "(y mod k - 1) div k = 0" using \<open>0 < y mod k\<close> \<open>y mod k < k\<close> by simp
    finally show ?thesis using False by simp
  qed (use assms in simp)
  moreover have "(y + k) div k = y div k + 1" using assms by (subst div_add_self2) auto
  ultimately show ?thesis by simp
qed

lemma mod_dvd_zero: "(y::int) mod (k * n) = 0 \<Longrightarrow> y mod k = 0"
  by (metis dvd_eq_mod_eq_0 dvd_mult_left)

lemma leap_nested: "(y::int) mod 400 = 0 \<Longrightarrow> y mod 100 = 0" "y mod 100 = 0 \<Longrightarrow> y mod 4 = 0"
  using mod_dvd_zero[of y 100 4] mod_dvd_zero[of y 4 25] by simp_all

lemma days_before_year_Suc: "days_before_year (y + 1) = days_before_year y + year_length y"
proof -
  define A where "A = (y + 3) div 4"
  define B where "B = (y + 99) div 100"
  define C where "C = (y + 399) div 400"
  have a: "(y + 1 + 3) div 4 = A + (if y mod 4 = 0 then 1 else 0)"
    using ceil_div_Suc[of 4 y] unfolding A_def by (simp only: add.assoc) simp
  have b: "(y + 1 + 99) div 100 = B + (if y mod 100 = 0 then 1 else 0)"
    using ceil_div_Suc[of 100 y] unfolding B_def by (simp only: add.assoc) simp
  have c: "(y + 1 + 399) div 400 = C + (if y mod 400 = 0 then 1 else 0)"
    using ceil_div_Suc[of 400 y] unfolding C_def by (simp only: add.assoc) simp
  have d: "days_before_year y = 365 * y + A - B + C"
    by (simp only: days_before_year_def A_def B_def C_def)
  show ?thesis
    unfolding days_before_year_def[of "y + 1"] a b c d year_length_def is_leap_def
    using leap_nested[of y] by (cases "y mod 400 = 0"; cases "y mod 100 = 0"; cases "y mod 4 = 0") simp_all
qed

text \<open>The year of a day and the day within it: within a cycle of 400 years the search starts at a
  year that is not too late.\<close>

function year_search :: "int \<Rightarrow> int \<Rightarrow> int" where
  "year_search y r = (if days_before_year (y + 1) \<le> r then year_search (y + 1) r else y)"
  by pat_completeness auto
termination
proof (relation "measure (\<lambda>(y, r). nat (r - days_before_year y + 1))")
  fix y r :: int
  assume "days_before_year (y + 1) \<le> r"
  then show "((y + 1, r), (y, r)) \<in> measure (\<lambda>(y, r). nat (r - days_before_year y + 1))"
    using days_before_year_Suc[of y] by (simp add: year_length_def split: if_splits)
qed simp

declare year_search.simps [simp del]

definition civil_year :: "int \<Rightarrow> int \<times> int" where
  "civil_year n =
     (let cycle = n div 146097; r = n mod 146097; y = year_search (r div 366) r in
      (400 * cycle + y, r - days_before_year y))"

text \<open>The month and the day of the month of a day within a year, months counted from 0.\<close>

fun month_search :: "int list \<Rightarrow> int \<Rightarrow> nat \<times> int" where
  "month_search [] d = (0, d)"
| "month_search (l # ls) d = (if d < l then (0, d) else map_prod Suc id (month_search ls (d - l)))"

definition civil_of_days :: "int \<Rightarrow> int \<times> nat \<times> nat" where
  "civil_of_days n =
     (case civil_year n of
        (y, d) \<Rightarrow> (case month_search (month_days (is_leap y)) d of (m, k) \<Rightarrow> (y, Suc m, nat k + 1)))"

definition days_of_civil :: "int \<Rightarrow> nat \<Rightarrow> nat \<Rightarrow> int" where
  "days_of_civil y m d = days_before_year y + days_before_month (is_leap y) (m - 1) + int d - 1"

section \<open>Layout and parsing\<close>

definition pad :: "nat \<Rightarrow> nat \<Rightarrow> string" where
  "pad w n = (let s = nat_digits n in replicate (w - length s) (CHR ''0'') @ s)"

definition appendYear :: "int \<Rightarrow> string" where
  "appendYear y = (if y < 0 then CHR ''-'' # pad 4 (nat (- y)) else pad 4 (nat y))"

text \<open>\<^verbatim>\<open>t.UTC().Format(time.RFC3339)\<close>\<close>

definition FormatRFC3339 :: "gotime \<Rightarrow> string" where
  "FormatRFC3339 t =
     (let s = t div second; n = s div 86400; r = nat (s mod 86400) in
      case civil_of_days n of
        (y, m, d) \<Rightarrow>
          appendYear y @ ''-'' @ pad 2 m @ ''-'' @ pad 2 d @ ''T'' @
          pad 2 (r div 3600) @ '':'' @ pad 2 (r div 60 mod 60) @ '':'' @ pad 2 (r mod 60) @ ''Z'')"

text \<open>\<^verbatim>\<open>t.UTC().Format(time.RFC3339Nano)\<close>: the fraction without its trailing zeros.\<close>

definition fraction :: "gotime \<Rightarrow> string" where
  "fraction t = (let ns = nat (t mod second) in
     if ns = 0 then '''' else CHR ''.'' # rev (dropWhile (\<lambda>c. c = CHR ''0'') (rev (pad 9 ns))))"

definition FormatRFC3339Nano :: "gotime \<Rightarrow> string" where
  "FormatRFC3339Nano t = butlast (FormatRFC3339 t) @ fraction t @ ''Z''"

text \<open>The parser reads from the front of the string and returns the rest.\<close>

definition take_digits :: "nat \<Rightarrow> string \<Rightarrow> (nat \<times> string) option" where
  "take_digits k s =
     (if k \<le> length s \<and> list_all is_digit (take k s) then Some (digits_val (take k s), drop k s) else None)"

text \<open>\<^verbatim>\<open>getnum(value, false)\<close>: one digit or two.\<close>

definition take_hour :: "string \<Rightarrow> (nat \<times> string) option" where
  "take_hour s = (case take_digits 2 s of Some r \<Rightarrow> Some r | None \<Rightarrow> take_digits 1 s)"

definition take_char :: "char \<Rightarrow> string \<Rightarrow> string option" where
  "take_char c s = (case s of [] \<Rightarrow> None | x # xs \<Rightarrow> if x = c then Some xs else None)"

definition take_fraction :: "string \<Rightarrow> nat \<times> string" where
  "take_fraction s =
     (case s of
        c # d # _ \<Rightarrow>
          if (c = CHR ''.'' \<or> c = CHR '','') \<and> is_digit d then
            (let ds = takeWhile is_digit (tl s); k = min 9 (length ds) in
             (digits_val (take k ds) * 10 ^ (9 - k), dropWhile is_digit (tl s)))
          else (0, s)
      | _ \<Rightarrow> (0, s))"

text \<open>The zone, to the end of the string: its offset in seconds.\<close>

definition parse_zone :: "string \<Rightarrow> int option" where
  "parse_zone s =
     (if s = ''Z'' then Some 0
      else if length s = 6 \<and> s ! 3 = CHR '':'' \<and> (hd s = CHR ''+'' \<or> hd s = CHR ''-'') then
        (case (take_digits 2 (take 2 (drop 1 s)), take_digits 2 (drop 4 s)) of
           (Some (h, _), Some (m, _)) \<Rightarrow>
             if h \<le> 24 \<and> m \<le> 60
             then Some ((if hd s = CHR ''-'' then -1 else 1) * (int h * 60 + int m) * 60)
             else None
         | _ \<Rightarrow> None)
      else None)"

definition ParseRFC3339 :: "string \<Rightarrow> gotime option" where
  "ParseRFC3339 s0 = do {
     (y, s1) \<leftarrow> take_digits 4 s0;
     s2 \<leftarrow> take_char (CHR ''-'') s1;
     (m, s3) \<leftarrow> take_digits 2 s2;
     s4 \<leftarrow> take_char (CHR ''-'') s3;
     (d, s5) \<leftarrow> take_digits 2 s4;
     s6 \<leftarrow> take_char (CHR ''T'') s5;
     (h, s7) \<leftarrow> take_hour s6;
     s8 \<leftarrow> take_char (CHR '':'') s7;
     (mi, s9) \<leftarrow> take_digits 2 s8;
     s10 \<leftarrow> take_char (CHR '':'') s9;
     (sec, s11) \<leftarrow> take_digits 2 s10;
     let (nsec, s12) = take_fraction s11;
     off \<leftarrow> parse_zone s12;
     if 1 \<le> m \<and> m \<le> 12 \<and> 1 \<le> d \<and> int d \<le> month_days (is_leap (int y)) ! (m - 1) \<and>
        h < 24 \<and> mi < 60 \<and> sec < 60
     then Some ((days_of_civil (int y) m d * 86400 + int (h * 3600 + mi * 60 + sec) - off) * second + int nsec)
     else None }"

section \<open>The calendar is a bijection\<close>

lemma days_before_year_0: "days_before_year 0 = 0"
  by (simp add: days_before_year_def)

lemma days_before_year_upper: "days_before_year (int n) \<le> 366 * int n"
proof (induction n)
  case (Suc n)
  have "days_before_year (int (Suc n)) = days_before_year (int n) + year_length (int n)"
    using days_before_year_Suc[of "int n"] by (simp add: add.commute)
  moreover have "year_length (int n) \<le> 366" by (simp add: year_length_def)
  ultimately show ?case using Suc by simp
qed (simp add: days_before_year_0)

lemma year_search_bounds:
  "days_before_year y \<le> r \<Longrightarrow>
   days_before_year (year_search y r) \<le> r \<and> r < days_before_year (year_search y r + 1)"
  by (induction y r rule: year_search.induct) (simp add: year_search.simps)

lemma days_before_year_cycle: "days_before_year (400 * k + y) = 146097 * k + days_before_year y"
proof -
  have "400 * k + y + 3 = (y + 3) + 4 * (100 * k)" "400 * k + y + 99 = (y + 99) + 100 * (4 * k)"
    "400 * k + y + 399 = (y + 399) + 400 * k" by simp_all
  then have "(400 * k + y + 3) div 4 = 100 * k + (y + 3) div 4"
    "(400 * k + y + 99) div 100 = 4 * k + (y + 99) div 100"
    "(400 * k + y + 399) div 400 = k + (y + 399) div 400"
    by (simp_all only: div_mult_self2)
  then show ?thesis by (simp only: days_before_year_def) simp
qed

lemma year_length_cycle: "year_length (400 * k + y) = year_length y"
proof -
  have "400 * k + y + 1 = 400 * k + (y + 1)" by simp
  then have "days_before_year (400 * k + y + 1) = 146097 * k + days_before_year (y + 1)"
    by (simp only: days_before_year_cycle)
  then show ?thesis
    using days_before_year_Suc[of y] days_before_year_Suc[of "400 * k + y"] days_before_year_cycle[of k y] by simp
qed

lemma civil_year_spec:
  assumes "civil_year n = (y, d)"
  shows "days_before_year y + d = n" and "0 \<le> d" and "d < year_length y"
proof -
  define r where "r = n mod 146097"
  define q where "q = n div 146097"
  define z where "z = year_search (r div 366) r"
  have n: "n = 146097 * q + r" by (simp add: r_def q_def)
  have "0 \<le> r" by (simp add: r_def)
  then have "0 \<le> r div 366" by (simp add: pos_imp_zdiv_nonneg_iff)
  then have "days_before_year (r div 366) \<le> 366 * (r div 366)"
    using days_before_year_upper[of "nat (r div 366)"] by simp
  also have "\<dots> \<le> r" by (metis \<open>0 \<le> r\<close> mult.commute div_mult_mod_eq pos_mod_sign zero_less_numeral add_increasing2 order_refl le_add_same_cancel1)
  finally have z: "days_before_year z \<le> r" "r < days_before_year (z + 1)"
    unfolding z_def using year_search_bounds by blast+
  have yd: "y = 400 * q + z" "d = r - days_before_year z"
    using assms by (simp_all add: civil_year_def Let_def r_def q_def z_def)
  show "days_before_year y + d = n" unfolding yd n by (simp add: days_before_year_cycle)
  show "0 \<le> d" using z yd by simp
  show "d < year_length y" unfolding yd(1) year_length_cycle using z yd(2) days_before_year_Suc[of z] by simp
qed

lemma month_search_spec:
  assumes "month_search ls d = (m, k)" and "0 \<le> d" and "d < sum_list ls" and "\<forall>l \<in> set ls. 0 < l"
  shows "m < length ls \<and> 0 \<le> k \<and> k < ls ! m \<and> sum_list (take m ls) + k = d"
  using assms
proof (induction ls arbitrary: d m k)
  case (Cons l ls)
  show ?case
  proof (cases "d < l")
    case False
    obtain m' k' where s: "month_search ls (d - l) = (m', k')" by force
    have "m' < length ls \<and> 0 \<le> k' \<and> k' < ls ! m' \<and> sum_list (take m' ls) + k' = d - l"
      using Cons.prems False by (intro Cons.IH[OF s]) auto
    with False s Cons.prems(1) show ?thesis by auto
  qed (use Cons.prems in auto)
qed simp

lemma sum_month_days: "sum_list (month_days leap) = (if leap then 366 else 365)"
  by (simp add: month_days_def)

lemma civil_of_days_spec:
  assumes "civil_of_days n = (y, m, d)"
  shows "1 \<le> m" and "m \<le> 12" and "1 \<le> d" and "int d \<le> month_days (is_leap y) ! (m - 1)"
    and "days_of_civil y m d = n"
proof -
  obtain k where k: "civil_year n = (y, k)"
    using assms by (cases "civil_year n") (auto simp: civil_of_days_def split: prod.splits)
  obtain j i where j: "month_search (month_days (is_leap y)) k = (j, i)" by force
  have m: "m = Suc j" and d: "d = nat i + 1" using assms by (simp_all add: civil_of_days_def k j)
  have "j < length (month_days (is_leap y)) \<and> 0 \<le> i \<and> i < month_days (is_leap y) ! j \<and>
      sum_list (take j (month_days (is_leap y))) + i = k"
    using civil_year_spec(2,3)[OF k]
    by (intro month_search_spec[OF j]) (auto simp: sum_month_days year_length_def month_days_def)
  then show "1 \<le> m" "m \<le> 12" "1 \<le> d" "int d \<le> month_days (is_leap y) ! (m - 1)" "days_of_civil y m d = n"
    using civil_year_spec(1)[OF k] by (simp_all add: m d days_of_civil_def days_before_month_def month_days_def)
qed

lemma month_length_bound: "m < 12 \<Longrightarrow> month_days leap ! m \<le> 31"
  by (simp add: month_days_def numeral_eq_Suc less_Suc_eq) auto

section \<open>Formatting and parsing\<close>

lemma length_nat_digits: "n < 10 ^ w \<Longrightarrow> 0 < w \<Longrightarrow> length (nat_digits n) \<le> w"
proof (induction n arbitrary: w rule: nat_digits.induct)
  case (1 n)
  show ?case
  proof (cases "n < 10")
    case True
    with 1 show ?thesis by (simp add: nat_digits.simps[of n])
  next
    case False
    obtain v where v: "w = Suc v" using 1(3) by (cases w) auto
    have "0 < v" using False 1(2) v by (cases v) auto
    moreover have "n div 10 < 10 ^ v" using 1(2) v by (simp add: less_mult_imp_div_less mult.commute)
    ultimately have "length (nat_digits (n div 10)) \<le> v" using 1(1)[OF False] by blast
    then show ?thesis using False v by (simp add: nat_digits.simps[of n])
  qed
qed

lemma length_pad: "n < 10 ^ w \<Longrightarrow> 0 < w \<Longrightarrow> length (pad w n) = w"
  using length_nat_digits[of n w] by (simp add: pad_def Let_def)

lemma digits_val_zeros: "digits_val (replicate k (CHR ''0'') @ s) = digits_val s"
proof -
  have "foldl (\<lambda>acc c. 10 * acc + digit_val c) 0 (replicate k (CHR ''0'')) = 0"
    by (induction k) (simp_all add: digit_val_def byte_of_def)
  then show ?thesis by (simp add: digits_val_def)
qed

lemma digits_val_pad: "digits_val (pad w n) = n"
  by (simp add: pad_def Let_def digits_val_zeros)

lemma pad_digits: "list_all is_digit (pad w n)"
  using nat_digits_digits[of n] by (auto simp: pad_def Let_def list_all_iff is_digit_def byte_of_def)

lemma take_digits_pad: "n < 10 ^ w \<Longrightarrow> 0 < w \<Longrightarrow> take_digits w (pad w n @ s) = Some (n, s)"
  by (simp add: take_digits_def length_pad digits_val_pad pad_digits)

lemma take_hour_pad: "n < 100 \<Longrightarrow> take_hour (pad 2 n @ s) = Some (n, s)"
  by (simp add: take_hour_def take_digits_pad)

lemma take_char_hit [simp]: "take_char c (c # s) = Some s"
  by (simp add: take_char_def)

lemma zulu [simp]: "take_fraction ''Z'' = (0, ''Z'')" "parse_zone ''Z'' = Some 0"
  by (simp_all add: take_fraction_def parse_zone_def)

lemma appendYear_nonneg: "0 \<le> y \<Longrightarrow> appendYear y = pad 4 (nat y)"
  by (simp add: appendYear_def)

lemma int_div_less: "0 < (c::int) \<Longrightarrow> a div c < b \<longleftrightarrow> a < b * c"
proof -
  assume c: "0 < c"
  have "b \<le> a div c \<longleftrightarrow> b * c \<le> a"
  proof
    assume "b \<le> a div c"
    then have "b * c \<le> a div c * c" using c by (simp add: mult_right_mono)
    also have "\<dots> \<le> a" using pos_mod_sign[OF c, of a] div_mult_mod_eq[of a c] by linarith
    finally show "b * c \<le> a" .
  next
    assume "b * c \<le> a"
    then have "b * c div c \<le> a div c" using c by (rule zdiv_mono1)
    then show "b \<le> a div c" using c by simp
  qed
  then show "a div c < b \<longleftrightarrow> a < b * c" by (simp flip: not_le)
qed

text \<open>The instants that print with a four-digit year.\<close>

definition rfc3339_range :: "gotime \<Rightarrow> bool" where
  "rfc3339_range t \<longleftrightarrow> 0 \<le> t \<and> t < days_before_year 10000 * 86400 * second"

lemma days_before_year_mono: "y \<le> z \<Longrightarrow> days_before_year y \<le> days_before_year z"
proof (induction "nat (z - y)" arbitrary: z)
  case (Suc n)
  then have "days_before_year y \<le> days_before_year (z - 1)" by (intro Suc.hyps(1)) simp_all
  also have "\<dots> \<le> days_before_year z" using days_before_year_Suc[of "z - 1"] by (simp add: year_length_def split: if_splits)
  finally show ?case .
qed simp

lemma civil_year_range:
  assumes "civil_year n = (y, d)" and "0 \<le> n" and "n < days_before_year 10000"
  shows "0 \<le> y" and "y < 10000"
proof -
  note s = civil_year_spec[OF assms(1)]
  show "0 \<le> y"
  proof (rule ccontr)
    assume "\<not> 0 \<le> y"
    then have "days_before_year (y + 1) \<le> 0" using days_before_year_mono[of "y + 1" 0] days_before_year_0 by simp
    with s assms(2) days_before_year_Suc[of y] show False by simp
  qed
  show "y < 10000"
  proof (rule ccontr)
    assume "\<not> y < 10000"
    then have "days_before_year 10000 \<le> days_before_year y" by (intro days_before_year_mono) simp
    with s assms(3) show False by simp
  qed
qed

lemma clock_split:
  assumes "r < (86400::nat)"
  shows "r div 3600 < 24" and "r div 60 mod 60 < 60" and "r mod 60 < 60"
    and "r div 3600 * 3600 + r div 60 mod 60 * 60 + r mod 60 = r"
proof -
  show "r div 3600 < 24" using assms by (simp add: less_mult_imp_div_less)
  have "r div 3600 = r div 60 div 60" by (simp add: div_mult2_eq[symmetric])
  then have "r div 3600 * 60 + r div 60 mod 60 = r div 60" by simp
  then have "(r div 3600 * 60 + r div 60 mod 60) * 60 + r mod 60 = r" by (metis div_mult_mod_eq)
  then show "r div 3600 * 3600 + r div 60 mod 60 * 60 + r mod 60 = r" by (simp add: algebra_simps)
qed simp_all

lemma FormatRFC3339_eq:
  assumes "civil_of_days (t div second div 86400) = (y, m, d)" and "r = nat (t div second mod 86400)"
  shows "FormatRFC3339 t =
    appendYear y @ CHR ''-'' # pad 2 m @ CHR ''-'' # pad 2 d @ CHR ''T'' #
    pad 2 (r div 3600) @ CHR '':'' # pad 2 (r div 60 mod 60) @ CHR '':'' # pad 2 (r mod 60) @ ''Z''"
  using assms by (simp add: FormatRFC3339_def Let_def)

lemma butlast_Format:
  assumes "civil_of_days (t div second div 86400) = (y, m, d)" and "r = nat (t div second mod 86400)"
  shows "butlast (FormatRFC3339 t) =
    appendYear y @ CHR ''-'' # pad 2 m @ CHR ''-'' # pad 2 d @ CHR ''T'' #
    pad 2 (r div 3600) @ CHR '':'' # pad 2 (r div 60 mod 60) @ CHR '':'' # pad 2 (r mod 60)"
  unfolding FormatRFC3339_eq[OF assms] by (simp add: butlast_append)

text \<open>Digits whose trailing zeros are cut have the value of the whole, scaled.\<close>

lemma digits_val_trailing: "digits_val (s @ replicate k (CHR ''0'')) = digits_val s * 10 ^ k"
proof (induction k)
  case (Suc k)
  have "s @ replicate (Suc k) (CHR ''0'') = (s @ replicate k (CHR ''0'')) @ [CHR ''0'']"
    by (simp add: replicate_append_same)
  then have "digits_val (s @ replicate (Suc k) (CHR ''0'')) = digits_val ((s @ replicate k (CHR ''0'')) @ [CHR ''0''])"
    by (rule arg_cong)
  also have "\<dots> = 10 * digits_val (s @ replicate k (CHR ''0''))"
    by (simp only: digits_val_snoc) (simp add: digit_val_def byte_of_def)
  finally show ?case using Suc by simp
qed simp

lemma trailing_split: "\<exists>k. ds = rev (dropWhile (\<lambda>c. c = x) (rev ds)) @ replicate k x"
proof -
  have "rev ds = takeWhile (\<lambda>c. c = x) (rev ds) @ dropWhile (\<lambda>c. c = x) (rev ds)" by simp
  moreover have "takeWhile (\<lambda>c. c = x) (rev ds) = replicate (length (takeWhile (\<lambda>c. c = x) (rev ds))) x"
    by (metis (mono_tags, lifting) replicate_length_same set_takeWhileD)
  ultimately have "ds = rev (dropWhile (\<lambda>c. c = x) (rev ds)) @ rev (replicate (length (takeWhile (\<lambda>c. c = x) (rev ds))) x)"
    by (metis rev_append rev_rev_ident)
  then show ?thesis by (auto simp: rev_replicate)
qed

lemma take_fraction_fraction: "take_fraction (fraction t @ ''Z'') = (nat (t mod second), ''Z'')"
proof (cases "nat (t mod second) = 0")
  case True
  then show ?thesis by (simp add: fraction_def)
next
  case False
  define ns where "ns = nat (t mod second)"
  define s where "s = rev (dropWhile (\<lambda>c. c = CHR ''0'') (rev (pad 9 ns)))"
  have "ns < 10 ^ 9" by (simp add: ns_def second_def nat_less_iff)
  then have len: "length (pad 9 ns) = 9" by (simp add: length_pad)
  obtain k where k: "pad 9 ns = s @ replicate k (CHR ''0'')" using trailing_split[of "pad 9 ns" "CHR ''0''"] by (auto simp: s_def)
  have val: "digits_val s * 10 ^ k = ns" using digits_val_pad[of 9 ns] unfolding k digits_val_trailing .
  then have ne: "s \<noteq> []" using False by (auto simp: ns_def digits_val_def)
  have dig: "list_all is_digit s" using pad_digits[of 9 ns] by (simp add: k)
  then have "takeWhile is_digit (s @ ''Z'') = s" "dropWhile is_digit (s @ ''Z'') = ''Z''"
    by (simp_all add: list_all_iff is_digit_def byte_of_def)
  moreover have "length s + k = 9" using len by (simp add: k)
  moreover obtain x xs where "s = x # xs" using ne by (cases s) auto
  ultimately have "take_fraction (CHR ''.'' # s @ ''Z'') = (ns, ''Z'')"
    using dig val by (auto simp: take_fraction_def Let_def)
  then show ?thesis using False by (simp add: fraction_def Let_def ns_def s_def)
qed

lemma FormatRFC3339_butlast: "butlast (FormatRFC3339 t) @ ''Z'' = FormatRFC3339 t"
  by (simp add: FormatRFC3339_def Let_def butlast_append split: prod.split)

lemma ParseRFC3339_tail:
  assumes "rfc3339_range t" and rest: "take_fraction rest = (ns, ''Z'')"
  shows "ParseRFC3339 (butlast (FormatRFC3339 t) @ rest) = Some (t div second * second + int ns)"
proof -
  let ?n = "t div second div 86400" and ?s = "t div second mod 86400"
  define r where "r = nat ?s"
  obtain y m d where c: "civil_of_days ?n = (y, m, d)" by (cases "civil_of_days ?n")
  note s = civil_of_days_spec[OF c]
  have t: "0 \<le> t" "t < days_before_year 10000 * 86400 * second" using assms by (simp_all add: rfc3339_range_def)
  have "0 \<le> ?n" using t by (simp add: second_def pos_imp_zdiv_nonneg_iff)
  moreover have "?n < days_before_year 10000"
    using t(2) by (simp add: int_div_less second_def)
  moreover obtain k where "civil_year ?n = (y, k)"
    using c by (cases "civil_year ?n") (auto simp: civil_of_days_def split: prod.splits)
  ultimately have y: "0 \<le> y" "y < 10000" using civil_year_range by blast+
  have r: "int r = ?s" "r < 86400" by (simp_all add: r_def)
  note rs = clock_split[OF r(2)]
  have "m - 1 < 12" using s(1,2) by linarith
  then have "int d \<le> 31" using s(4) month_length_bound[of "m - 1" "is_leap y"] by linarith
  then have small: "nat y < 10 ^ 4" "m < 10 ^ 2" "d < 10 ^ 2" "r div 3600 < 100" "r div 60 mod 60 < 10 ^ 2" "r mod 60 < 10 ^ 2"
    using y s(2) rs(1-3) by simp_all
  have "ParseRFC3339 (butlast (FormatRFC3339 t) @ rest) =
      Some ((days_of_civil y m d * 86400 + int (r div 3600 * 3600 + r div 60 mod 60 * 60 + r mod 60)) * second + int ns)"
    using s(1-4) rs(1-3) y rest
    by (simp add: butlast_Format[OF c r_def] appendYear_nonneg ParseRFC3339_def take_digits_pad[OF small(1)]
        take_digits_pad[OF small(2)] take_digits_pad[OF small(3)] take_hour_pad[OF small(4)]
        take_digits_pad[OF small(5)] take_digits_pad[OF small(6)])
  also have "days_of_civil y m d * 86400 + int (r div 3600 * 3600 + r div 60 mod 60 * 60 + r mod 60) = t div second"
    unfolding rs(4) s(5) r(1) by simp
  finally show ?thesis .
qed

lemma ParseRFC3339_Nano:
  assumes "rfc3339_range t"
  shows "ParseRFC3339 (FormatRFC3339Nano t) = Some t"
  using ParseRFC3339_tail[OF assms take_fraction_fraction] by (simp add: FormatRFC3339Nano_def second_def)

theorem ParseRFC3339_FormatRFC3339:
  assumes "rfc3339_range t"
  shows "ParseRFC3339 (FormatRFC3339 t) = Some (t div second * second)"
  using ParseRFC3339_tail[OF assms zulu(1)] FormatRFC3339_butlast[of t] by simp

lemma FormatRFC3339_visible: "list_all visible (FormatRFC3339 t)"
proof -
  have p: "list_all visible (pad w n)" for w n
    using pad_digits[of w n] by (auto simp: list_all_iff is_digit_visible)
  obtain y m d where c: "civil_of_days (t div second div 86400) = (y, m, d)"
    by (cases "civil_of_days (t div second div 86400)")
  show ?thesis
    unfolding FormatRFC3339_eq[OF c refl] by (simp add: p appendYear_def) (simp add: visible_def byte_of_def)
qed

lemma FormatRFC3339_nonempty [simp]: "FormatRFC3339 t \<noteq> []"
  by (simp add: FormatRFC3339_def Let_def split: prod.split)

lemma FormatRFC3339Nano_visible: "list_all visible (FormatRFC3339Nano t)"
proof -
  have "list_all visible (butlast (FormatRFC3339 t))"
    using FormatRFC3339_visible[of t] by (auto simp: list_all_iff dest: in_set_butlastD)
  moreover have "visible (CHR ''.'')" "visible (CHR ''Z'')" by code_simp+
  moreover have "c \<in> set (dropWhile (\<lambda>c. c = CHR ''0'') (rev (pad 9 n))) \<Longrightarrow> visible c" for c n
    using pad_digits[of 9 n] by (auto simp: list_all_iff is_digit_visible dest!: set_dropWhileD)
  ultimately show ?thesis by (auto simp: FormatRFC3339Nano_def fraction_def Let_def list_all_iff)
qed

end
