(* ===== verification/Policy_Store.thy ===== *)
theory Policy_Store
  imports Wallet_Target Go_Time "HOL-Library.AList"
begin

text \<open>
  The owner-scoped store of crypto policies: \<^verbatim>\<open>authz/contract.go\<close> (the principal),
  \<^verbatim>\<open>persistence/records.go\<close>, \<^verbatim>\<open>persistence/store.go\<close> (the interface) and the in-memory implementation of
  \<^verbatim>\<open>persistence/owner_scoped_store_dev.go\<close> and \<^verbatim>\<open>wallet_target_dev.go\<close>. The store's map is an association
  list with distinct keys; each operation takes the state and returns it with the result, so an
  operation that holds the write lock is one step. The clock and the random bytes of a new policy
  id are arguments. \<^verbatim>\<open>cloneMap\<close> has no counterpart: values here are never shared.

  The theory shows the rule W1 (at most one active policy per owner and wallet) as an invariant of
  every reachable store, and that no operation of one owner is visible to another.
\<close>

section \<open>Principals and errors\<close>

record Principal =
  pn_UserID :: string
  pn_Subject :: string
  pn_TenantID :: string
  pn_Claims :: "json gomap"

definition Principal_Validate :: "Principal \<Rightarrow> string option" where
  "Principal_Validate p =
     (if TrimSpace (pn_UserID p) = '''' then Some ''principal user_id is required''
      else if TrimSpace (pn_Subject p) = '''' then Some ''principal subject is required''
      else None)"

text \<open>The sentinels of \<^verbatim>\<open>records.go\<close> and \<^verbatim>\<open>errors_remote.go\<close>. \<open>ErrWalletInvalid\<close> stands for the address
  errors, whose text no caller reads, \<open>ErrOther\<close> for the remaining ones.\<close>

datatype store_error =
    ErrPrincipalRequired
  | ErrPolicyNotFound
  | ErrPolicyAlreadyExists
  | ErrForbidden
  | ErrPersistenceUnavailable
  | ErrUnsupportedStoreOperation
  | ErrWalletInvalid
  | ErrOther string

section \<open>Records\<close>

record PolicyRecord =
  po_ID :: string
  po_OwnerUserID :: string
  po_TenantID :: string
  po_ScanID :: string
  po_Payload :: "json gomap option"
  po_PayloadSHA256 :: string
  po_WalletAddress :: string
  po_ChainID :: int64
  po_CreatedAt :: gotime
  po_UpdatedAt :: gotime

record CreatePolicyInput =
  ci_ScanID :: string
  ci_WalletAddress :: string
  ci_ChainID :: int64
  ci_Payload :: "json gomap option"
  ci_PayloadSHA256 :: string
  ci_SignedMessageHash :: string
  ci_WalletControlMethod :: string
  ci_WalletControlVerifiedAt :: gotime
  ci_ChallengeIssuedAt :: "gotime option"
  ci_ChallengeExpiresAt :: "gotime option"

record CreatePolicyResult =
  cr_PolicyID :: string
  cr_ScanID :: string
  cr_WalletAddress :: string
  cr_ChainID :: int64
  cr_PayloadSHA256 :: string
  cr_PersistedAt :: gotime

record WalletTargetContextCounts =
  wc_Exists :: bool
  wc_PolicyCount :: int

section \<open>The in-memory store\<close>

record OwnerScopedStore =
  st_policies :: "PolicyRecord gomap"

definition NewOwnerScopedStore :: OwnerScopedStore where
  "NewOwnerScopedStore = \<lparr>st_policies = []\<rparr>"

text \<open>The random bytes are \<open>None\<close> when the generator fails.\<close>

definition newPolicyID :: "nat list option \<Rightarrow> store_error + string" where
  "newPolicyID rnd = (case rnd of None \<Rightarrow> Inl (ErrOther ''rand'') | Some b \<Rightarrow> Inr (hex_encode b))"

definition sameOwner :: "string \<Rightarrow> string \<Rightarrow> string \<Rightarrow> string \<Rightarrow> bool" where
  "sameOwner recordUserID recordTenantID userID tenantID \<longleftrightarrow>
     recordUserID = userID \<and> recordTenantID = tenantID"

abbreviation ownedBy :: "PolicyRecord \<Rightarrow> Principal \<Rightarrow> bool" where
  "ownedBy r p \<equiv> sameOwner (po_OwnerUserID r) (po_TenantID r) (pn_UserID p) (pn_TenantID p)"

definition SavePolicy ::
  "gotime \<Rightarrow> OwnerScopedStore \<Rightarrow> Principal \<Rightarrow> string \<Rightarrow> string \<Rightarrow> json gomap option \<Rightarrow>
    (store_error + PolicyRecord) \<times> OwnerScopedStore" where
  "SavePolicy now s prin i scanID payload =
     (if Principal_Validate prin \<noteq> None then (Inl ErrPrincipalRequired, s)
      else
        let existing = map_of (st_policies s) i in
        if (case existing of Some r \<Rightarrow> \<not> ownedBy r prin | None \<Rightarrow> False) then (Inl ErrForbidden, s)
        else
          let createdAt = (case existing of Some r \<Rightarrow> po_CreatedAt r | None \<Rightarrow> now);
              r = \<lparr>po_ID = i, po_OwnerUserID = pn_UserID prin, po_TenantID = pn_TenantID prin,
                po_ScanID = scanID, po_Payload = payload, po_PayloadSHA256 = '''', po_WalletAddress = '''',
                po_ChainID = 0, po_CreatedAt = createdAt, po_UpdatedAt = now\<rparr> in
          (Inr r, s\<lparr>st_policies := AList.update i r (st_policies s)\<rparr>))"

definition walletFromPolicyPayload :: "json gomap option \<Rightarrow> string" where
  "walletFromPolicyPayload payload =
     (case payload of
        None \<Rightarrow> ''''
      | Some m \<Rightarrow>
          (case map_of m ''wallet_address'' of
             Some (JStr v) \<Rightarrow> (case NormalizeWalletTargetAddress v of Some norm \<Rightarrow> norm | None \<Rightarrow> '''')
           | _ \<Rightarrow> ''''))"

text \<open>The W1 test of \<^verbatim>\<open>CreatePolicy\<close> on one record, and the payload it stores.\<close>

definition claimsWallet :: "Principal \<Rightarrow> string \<Rightarrow> PolicyRecord \<Rightarrow> bool" where
  "claimsWallet prin normWallet r \<longleftrightarrow>
     ownedBy r prin \<and>
     (walletAddressesEqual (po_WalletAddress r) normWallet \<or>
      walletAddressesEqual (walletFromPolicyPayload (po_Payload r)) normWallet)"

definition enrichPayload :: "json gomap \<Rightarrow> string \<Rightarrow> string \<Rightarrow> int64 \<Rightarrow> gotime \<Rightarrow> json gomap" where
  "enrichPayload payload scanID normWallet chainID verifiedAt =
     AList.delete ''payload_sha256'' (AList.delete ''signature'' (AList.delete ''signed_message''
       (AList.update ''persisted_at'' (JStr (FormatRFC3339 verifiedAt))
       (AList.update ''wallet_control_verified_at'' (JStr (FormatRFC3339 verifiedAt))
       (AList.update ''wallet_control_method'' (JStr ''eoa_signature'')
       (AList.update ''ownership_status'' (JStr ''verified'')
       (AList.update ''chain_id'' (jint chainID)
       (AList.update ''wallet_address'' (JStr normWallet)
       (AList.update ''scan_id'' (JStr scanID) payload)))))))))"

definition createdRecord :: "Principal \<Rightarrow> CreatePolicyInput \<Rightarrow> json gomap \<Rightarrow> string \<Rightarrow> gotime \<Rightarrow> string \<Rightarrow> PolicyRecord" where
  "createdRecord prin inp inPayload normWallet verifiedAt policyID =
     \<lparr>po_ID = policyID, po_OwnerUserID = pn_UserID prin, po_TenantID = pn_TenantID prin,
      po_ScanID = TrimSpace (ci_ScanID inp),
      po_Payload = Some (enrichPayload inPayload (TrimSpace (ci_ScanID inp)) normWallet (ci_ChainID inp) verifiedAt),
      po_PayloadSHA256 = TrimSpace (ci_PayloadSHA256 inp), po_WalletAddress = normWallet,
      po_ChainID = ci_ChainID inp, po_CreatedAt = verifiedAt, po_UpdatedAt = verifiedAt\<rparr>"

definition createdResult :: "CreatePolicyInput \<Rightarrow> string \<Rightarrow> gotime \<Rightarrow> string \<Rightarrow> CreatePolicyResult" where
  "createdResult inp normWallet verifiedAt policyID =
     \<lparr>cr_PolicyID = policyID, cr_ScanID = TrimSpace (ci_ScanID inp), cr_WalletAddress = normWallet,
      cr_ChainID = ci_ChainID inp, cr_PayloadSHA256 = TrimSpace (ci_PayloadSHA256 inp), cr_PersistedAt = verifiedAt\<rparr>"

definition verifiedAtOr :: "gotime \<Rightarrow> CreatePolicyInput \<Rightarrow> gotime" where
  "verifiedAtOr now inp =
     (if IsZero (ci_WalletControlVerifiedAt inp) then now else ci_WalletControlVerifiedAt inp)"

definition CreatePolicy ::
  "gotime \<Rightarrow> nat list option \<Rightarrow> OwnerScopedStore \<Rightarrow> Principal \<Rightarrow> CreatePolicyInput \<Rightarrow>
    (store_error + CreatePolicyResult) \<times> OwnerScopedStore" where
  "CreatePolicy now rnd s prin inp =
     (if Principal_Validate prin \<noteq> None then (Inl ErrPrincipalRequired, s)
      else if TrimSpace (ci_ScanID inp) = '''' then (Inl (ErrOther ''scan_id is required''), s)
      else if TrimSpace (ci_PayloadSHA256 inp) = '''' then (Inl (ErrOther ''payload_sha256 is required''), s)
      else case ci_Payload inp of
        None \<Rightarrow> (Inl (ErrOther ''payload is required''), s)
      | Some inPayload \<Rightarrow>
          if ci_ChainID inp < 1 then (Inl (ErrOther ''chain_id is required''), s)
          else case NormalizeWalletTargetAddress (ci_WalletAddress inp) of
            None \<Rightarrow> (Inl ErrWalletInvalid, s)
          | Some normWallet \<Rightarrow>
              if list_ex (\<lambda>(k, r). claimsWallet prin normWallet r) (st_policies s)
              then (Inl ErrPolicyAlreadyExists, s)
              else case newPolicyID rnd of
                Inl e \<Rightarrow> (Inl e, s)
              | Inr policyID \<Rightarrow>
                  (Inr (createdResult inp normWallet (verifiedAtOr now inp) policyID),
                   s\<lparr>st_policies := AList.update policyID
                     (createdRecord prin inp inPayload normWallet (verifiedAtOr now inp) policyID) (st_policies s)\<rparr>))"

text \<open>The comparison of \<^verbatim>\<open>sort.Slice\<close> is lexicographic: newest \<^verbatim>\<open>UpdatedAt\<close> first, then the id. Sorting by
  the id and then, stably, by the time gives that order; ids are distinct, so there is only one.\<close>

definition ListPersistedPoliciesForScan ::
  "OwnerScopedStore \<Rightarrow> Principal \<Rightarrow> string \<Rightarrow> store_error + PolicyRecord list" where
  "ListPersistedPoliciesForScan s prin scanID =
     (if Principal_Validate prin \<noteq> None then Inl ErrPrincipalRequired
      else if TrimSpace scanID = '''' then Inl (ErrOther ''scan_id is required'')
      else Inr (sort_key (\<lambda>r. - po_UpdatedAt r) (sort_key po_ID
        (map (\<lambda>(k, r). r\<lparr>po_ID := k\<rparr>)
          (filter (\<lambda>(k, r). ownedBy r prin \<and> EqualFold (TrimSpace (po_ScanID r)) (TrimSpace scanID))
            (st_policies s))))))"

definition GetPolicy :: "OwnerScopedStore \<Rightarrow> Principal \<Rightarrow> string \<Rightarrow> store_error + PolicyRecord" where
  "GetPolicy s prin i =
     (if Principal_Validate prin \<noteq> None then Inl ErrPrincipalRequired
      else case map_of (st_policies s) i of
        None \<Rightarrow> Inl ErrPolicyNotFound
      | Some r \<Rightarrow> if \<not> ownedBy r prin then Inl ErrForbidden else Inr r)"

definition DeletePolicy :: "OwnerScopedStore \<Rightarrow> Principal \<Rightarrow> string \<Rightarrow> store_error option \<times> OwnerScopedStore" where
  "DeletePolicy s prin i =
     (if Principal_Validate prin \<noteq> None then (Some ErrPrincipalRequired, s)
      else case map_of (st_policies s) i of
        None \<Rightarrow> (Some ErrPolicyNotFound, s)
      | Some r \<Rightarrow>
          if \<not> ownedBy r prin then (Some ErrForbidden, s)
          else (None, s\<lparr>st_policies := AList.delete i (st_policies s)\<rparr>))"

definition CountActiveWalletCPMContext ::
  "OwnerScopedStore \<Rightarrow> Principal \<Rightarrow> string \<Rightarrow> store_error + WalletTargetContextCounts" where
  "CountActiveWalletCPMContext s prin address =
     (if Principal_Validate prin \<noteq> None then Inl ErrPrincipalRequired
      else case NormalizeWalletTargetAddress address of
        None \<Rightarrow> Inl ErrWalletInvalid
      | Some needle \<Rightarrow>
          let policyCount = int (length (filter
                (\<lambda>(k, r). ownedBy r prin \<and> walletTargetFromPayload (po_Payload r) = needle) (st_policies s))) in
          Inr \<lparr>wc_Exists = (0 < policyCount), wc_PolicyCount = policyCount\<rparr>)"

section \<open>What each operation did\<close>

lemma CreatePolicy_unchanged: "CreatePolicy now rnd s p inp = (Inl e, s') \<Longrightarrow> s' = s"
  by (auto simp: CreatePolicy_def split: if_splits option.splits sum.splits)

lemma CreatePolicy_ok:
  assumes "CreatePolicy now rnd s p inp = (Inr res, s')"
  obtains pl w pid where "Principal_Validate p = None" and "TrimSpace (ci_ScanID inp) \<noteq> ''''"
    and "TrimSpace (ci_PayloadSHA256 inp) \<noteq> ''''" and "ci_Payload inp = Some pl" and "1 \<le> ci_ChainID inp"
    and "NormalizeWalletTargetAddress (ci_WalletAddress inp) = Some w"
    and "\<forall>x \<in> set (st_policies s). \<not> claimsWallet p w (snd x)" and "newPolicyID rnd = Inr pid"
    and "res = createdResult inp w (verifiedAtOr now inp) pid"
    and "s' = s\<lparr>st_policies := AList.update pid (createdRecord p inp pl w (verifiedAtOr now inp) pid) (st_policies s)\<rparr>"
  using assms unfolding CreatePolicy_def
  by (auto simp: list_ex_iff case_prod_beta split: if_splits option.splits sum.splits)

lemma SavePolicy_unchanged: "SavePolicy now s p i scan pl = (Inl e, s') \<Longrightarrow> s' = s"
  by (auto simp: SavePolicy_def Let_def split: if_splits option.splits)

lemma SavePolicy_ok:
  assumes "SavePolicy now s p i scan pl = (Inr r, s')"
  obtains "s' = s\<lparr>st_policies := AList.update i r (st_policies s)\<rparr>" and "ownedBy r p" and "po_ID r = i"
    and "po_WalletAddress r = ''''" and "\<And>r'. map_of (st_policies s) i = Some r' \<Longrightarrow> ownedBy r' p"
  using assms unfolding SavePolicy_def Let_def
  by (auto simp: sameOwner_def split: if_splits option.splits)

lemma DeletePolicy_unchanged: "DeletePolicy s p i = (Some e, s') \<Longrightarrow> s' = s"
  by (auto simp: DeletePolicy_def split: if_splits option.splits)

lemma DeletePolicy_ok:
  assumes "DeletePolicy s p i = (None, s')"
  obtains r where "map_of (st_policies s) i = Some r" and "ownedBy r p"
    and "s' = s\<lparr>st_policies := AList.delete i (st_policies s)\<rparr>"
  using assms unfolding DeletePolicy_def by (auto split: if_splits option.splits)

lemma GetPolicy_Inr:
  "GetPolicy s p i = Inr r \<longleftrightarrow> Principal_Validate p = None \<and> map_of (st_policies s) i = Some r \<and> ownedBy r p"
  by (auto simp: GetPolicy_def split: option.splits)

section \<open>The invariant\<close>

text \<open>W1 on the stored records: keys are ids, and an owner has at most one record per wallet.\<close>

definition one_per_wallet :: "(string \<rightharpoonup> PolicyRecord) \<Rightarrow> bool" where
  "one_per_wallet m \<longleftrightarrow>
     (\<forall>i j r r'. m i = Some r \<longrightarrow> m j = Some r' \<longrightarrow> po_WalletAddress r \<noteq> '''' \<longrightarrow>
        po_WalletAddress r = po_WalletAddress r' \<longrightarrow>
        sameOwner (po_OwnerUserID r) (po_TenantID r) (po_OwnerUserID r') (po_TenantID r') \<longrightarrow> i = j)"

definition store_inv :: "OwnerScopedStore \<Rightarrow> bool" where
  "store_inv s \<longleftrightarrow>
     distinct (map fst (st_policies s)) \<and>
     (\<forall>i r. map_of (st_policies s) i = Some r \<longrightarrow> po_ID r = i) \<and>
     one_per_wallet (map_of (st_policies s))"

lemma store_inv_New: "store_inv NewOwnerScopedStore"
  by (simp add: store_inv_def NewOwnerScopedStore_def one_per_wallet_def)

lemma store_inv_put:
  assumes "store_inv s" and "po_ID r = i"
    and "\<And>j r'. map_of (st_policies s) j = Some r' \<Longrightarrow> po_WalletAddress r \<noteq> '''' \<Longrightarrow>
       po_WalletAddress r' = po_WalletAddress r \<Longrightarrow>
       sameOwner (po_OwnerUserID r') (po_TenantID r') (po_OwnerUserID r) (po_TenantID r) \<Longrightarrow> j = i"
  shows "store_inv (s\<lparr>st_policies := AList.update i r (st_policies s)\<rparr>)"
  using assms unfolding store_inv_def one_per_wallet_def
  by (auto simp: update_conv' distinct_update sameOwner_def)

lemma store_inv_drop:
  "store_inv s \<Longrightarrow> store_inv (s\<lparr>st_policies := AList.delete i (st_policies s)\<rparr>)"
  unfolding store_inv_def one_per_wallet_def by (auto simp: delete_conv' distinct_delete)

lemma SavePolicy_inv:
  assumes "store_inv s" and "SavePolicy now s p i scan pl = (res, s')"
  shows "store_inv s'"
proof (cases res)
  case (Inl e)
  then show ?thesis using assms SavePolicy_unchanged by blast
next
  case (Inr r)
  with assms(2) have "SavePolicy now s p i scan pl = (Inr r, s')" by simp
  then show ?thesis by (rule SavePolicy_ok) (use assms(1) in \<open>simp add: store_inv_put\<close>)
qed

lemma CreatePolicy_inv:
  assumes "store_inv s" and "CreatePolicy now rnd s p inp = (res, s')"
  shows "store_inv s'"
proof (cases res)
  case (Inl e)
  then show ?thesis using assms CreatePolicy_unchanged by blast
next
  case (Inr r)
  with assms(2) have "CreatePolicy now rnd s p inp = (Inr r, s')" by simp
  then obtain pl w pid where free: "\<forall>x \<in> set (st_policies s). \<not> claimsWallet p w (snd x)"
    and s': "s' = s\<lparr>st_policies := AList.update pid (createdRecord p inp pl w (verifiedAtOr now inp) pid) (st_policies s)\<rparr>"
    by (rule CreatePolicy_ok)
  show ?thesis unfolding s'
  proof (rule store_inv_put[OF assms(1)])
    fix j r' assume "map_of (st_policies s) j = Some r'"
    then have "\<not> claimsWallet p w r'" using free map_of_SomeD by fastforce
    moreover assume "po_WalletAddress r' = po_WalletAddress (createdRecord p inp pl w (verifiedAtOr now inp) pid)"
      and "sameOwner (po_OwnerUserID r') (po_TenantID r') (po_OwnerUserID (createdRecord p inp pl w (verifiedAtOr now inp) pid))
        (po_TenantID (createdRecord p inp pl w (verifiedAtOr now inp) pid))"
    ultimately show "j = pid" by (simp add: claimsWallet_def createdRecord_def store_address.eq_refl)
  qed (simp add: createdRecord_def)
qed

lemma DeletePolicy_inv:
  assumes "store_inv s" and "DeletePolicy s p i = (res, s')"
  shows "store_inv s'"
proof (cases res)
  case None
  with assms(2) have "DeletePolicy s p i = (None, s')" by simp
  then show ?thesis by (rule DeletePolicy_ok) (simp add: store_inv_drop[OF assms(1)])
next
  case (Some e)
  then show ?thesis using assms DeletePolicy_unchanged by blast
qed

section \<open>Reachable stores\<close>

text \<open>One step of the store on behalf of a principal. A created policy takes a fresh id: the ids are
  128 random bits.\<close>

inductive store_step :: "Principal \<Rightarrow> OwnerScopedStore \<Rightarrow> OwnerScopedStore \<Rightarrow> bool" where
  step_save: "SavePolicy now s p i scan pl = (res, s') \<Longrightarrow> store_step p s s'"
| step_create: "CreatePolicy now (Some b) s p inp = (res, s') \<Longrightarrow>
    map_of (st_policies s) (hex_encode b) = None \<Longrightarrow> store_step p s s'"
| step_delete: "DeletePolicy s p i = (res, s') \<Longrightarrow> store_step p s s'"

inductive store_reachable :: "OwnerScopedStore \<Rightarrow> bool" where
  reach_new: "store_reachable NewOwnerScopedStore"
| reach_step: "store_reachable s \<Longrightarrow> store_step p s s' \<Longrightarrow> store_reachable s'"

lemma store_reachable_inv: "store_reachable s \<Longrightarrow> store_inv s"
proof (induction rule: store_reachable.induct)
  case reach_new
  show ?case by (rule store_inv_New)
next
  case (reach_step s p s')
  from reach_step.hyps(2) reach_step.IH show ?case
    by (cases rule: store_step.cases) (auto intro: SavePolicy_inv CreatePolicy_inv DeletePolicy_inv)
qed

section \<open>Owners do not see each other\<close>

lemma filter_update_other:
  assumes "\<not> P (k, v)" and "\<And>w. map_of al k = Some w \<Longrightarrow> \<not> P (k, w)"
  shows "filter P (AList.update k v al) = filter P al"
  using assms(2) by (induction al) (auto simp: assms(1) split: if_splits)

lemma filter_delete_other:
  assumes "\<And>w. (k, w) \<in> set al \<Longrightarrow> \<not> P (k, w)"
  shows "filter P (AList.delete k al) = filter P al"
  using assms by (induction al) (auto simp: AList.delete_eq)

text \<open>All that the operations of a principal read of the store: the entries it owns.\<close>

definition owned :: "OwnerScopedStore \<Rightarrow> Principal \<Rightarrow> PolicyRecord gomap" where
  "owned s q = filter (\<lambda>(k, r). ownedBy r q) (st_policies s)"

lemma put_other:
  assumes "ownedBy r p" and "\<And>r'. map_of (st_policies s) i = Some r' \<Longrightarrow> ownedBy r' p"
    and "\<not> sameOwner (pn_UserID p) (pn_TenantID p) (pn_UserID q) (pn_TenantID q)"
  shows "owned (s\<lparr>st_policies := AList.update i r (st_policies s)\<rparr>) q = owned s q"
proof -
  have "\<not> ownedBy r' q" if "ownedBy r' p" for r' using that assms(3) by (auto simp: sameOwner_def)
  then show ?thesis unfolding owned_def using assms(1,2) by (auto intro!: filter_update_other)
qed

lemma store_step_other:
  assumes "store_step p s s'" and "store_inv s"
    and other: "\<not> sameOwner (pn_UserID p) (pn_TenantID p) (pn_UserID q) (pn_TenantID q)"
  shows "owned s' q = owned s q"
  using assms(1)
proof (cases rule: store_step.cases)
  case (step_save now i scan pl res)
  then show ?thesis
    by (cases res) (auto dest: SavePolicy_unchanged elim!: SavePolicy_ok intro!: put_other[OF _ _ other])
next
  case (step_create now b inp res)
  show ?thesis
  proof (cases res)
    case (Inl e)
    then show ?thesis using step_create CreatePolicy_unchanged by blast
  next
    case (Inr r)
    then have "CreatePolicy now (Some b) s p inp = (Inr r, s')" using step_create by simp
    then show ?thesis
      by (rule CreatePolicy_ok) (use step_create(2) in
        \<open>auto simp: newPolicyID_def createdRecord_def sameOwner_def intro!: put_other[OF _ _ other]\<close>)
  qed
next
  case (step_delete i res)
  show ?thesis
  proof (cases res)
    case (Some e)
    then show ?thesis using step_delete DeletePolicy_unchanged by blast
  next
    case None
    with step_delete have "DeletePolicy s p i = (None, s')" by simp
    then obtain r where r: "map_of (st_policies s) i = Some r" "ownedBy r p"
      and s': "s' = s\<lparr>st_policies := AList.delete i (st_policies s)\<rparr>" by (rule DeletePolicy_ok)
    have "w = r" if "(i, w) \<in> set (st_policies s)" for w
      using that r(1) assms(2) by (simp add: store_inv_def)
    then show ?thesis unfolding owned_def s' using r(2) other
      by (auto simp: sameOwner_def intro!: filter_delete_other)
  qed
qed

lemma GetPolicy_owned:
  assumes "store_inv s"
  shows "GetPolicy s q i = Inr r \<longleftrightarrow> Principal_Validate q = None \<and> (i, r) \<in> set (owned s q)"
  using assms by (auto simp: GetPolicy_Inr owned_def store_inv_def)

lemma ListPersistedPoliciesForScan_owned:
  "ListPersistedPoliciesForScan s q scan =
     (if Principal_Validate q \<noteq> None then Inl ErrPrincipalRequired
      else if TrimSpace scan = '''' then Inl (ErrOther ''scan_id is required'')
      else Inr (sort_key (\<lambda>r. - po_UpdatedAt r) (sort_key po_ID
        (map (\<lambda>(k, r). r\<lparr>po_ID := k\<rparr>)
          (filter (\<lambda>(k, r). EqualFold (TrimSpace (po_ScanID r)) (TrimSpace scan)) (owned s q))))))"
  by (simp add: ListPersistedPoliciesForScan_def owned_def case_prod_unfold conj_commute)

lemma CountActive_owned:
  "CountActiveWalletCPMContext s q address =
     (if Principal_Validate q \<noteq> None then Inl ErrPrincipalRequired
      else case NormalizeWalletTargetAddress address of
        None \<Rightarrow> Inl ErrWalletInvalid
      | Some needle \<Rightarrow>
          let n = int (length (filter (\<lambda>(k, r). walletTargetFromPayload (po_Payload r) = needle) (owned s q))) in
          Inr \<lparr>wc_Exists = (0 < n), wc_PolicyCount = n\<rparr>)"
  by (cases "NormalizeWalletTargetAddress address")
    (simp_all add: CountActiveWalletCPMContext_def owned_def case_prod_unfold conj_commute)

section \<open>Listing\<close>

text \<open>The order of a listing, as a relation on its neighbours.\<close>

definition newest_first :: "PolicyRecord \<Rightarrow> PolicyRecord \<Rightarrow> bool" where
  "newest_first r r' \<longleftrightarrow> po_UpdatedAt r > po_UpdatedAt r' \<or> (po_UpdatedAt r = po_UpdatedAt r' \<and> po_ID r < po_ID r')"

lemma insort_key_lex:
  fixes f :: "'a \<Rightarrow> 'b::linorder" and g :: "'a \<Rightarrow> 'c::linorder"
  assumes "sorted_wrt (\<lambda>x y. f x < f y \<or> f x = f y \<and> g x < g y) ys" and "\<forall>y \<in> set ys. g x < g y"
  shows "sorted_wrt (\<lambda>x y. f x < f y \<or> f x = f y \<and> g x < g y) (insort_key f x ys)"
  using assms
proof (induction ys)
  case (Cons y ys)
  then show ?case by (cases "f x \<le> f y") (fastforce simp: set_insort_key)+
qed simp

lemma sort_key_lex:
  fixes f :: "'a \<Rightarrow> 'b::linorder" and g :: "'a \<Rightarrow> 'c::linorder"
  shows "sorted_wrt (\<lambda>x y. g x < g y) xs \<Longrightarrow>
    sorted_wrt (\<lambda>x y. f x < f y \<or> f x = f y \<and> g x < g y) (sort_key f xs)"
  by (induction xs) (auto intro!: insort_key_lex)

lemma sort_twice_sorted:
  assumes "distinct (map po_ID rs)"
  shows "sorted_wrt newest_first (sort_key (\<lambda>r. - po_UpdatedAt r) (sort_key po_ID rs))"
proof -
  have "sorted_wrt (\<lambda>x y. po_ID x < po_ID y) (sort_key po_ID rs)"
    using sort_key_strict[OF assms] by (simp add: sorted_wrt_map)
  from sort_key_lex[OF this, of "\<lambda>r. - po_UpdatedAt r"] show ?thesis
    by (rule sorted_wrt_mono_rel[rotated]) (auto simp: newest_first_def)
qed

lemma ListPersistedPoliciesForScan_exact:
  assumes "store_inv s" and "Principal_Validate q = None" and "TrimSpace scan \<noteq> ''''"
  obtains rs where "ListPersistedPoliciesForScan s q scan = Inr rs" and "sorted_wrt newest_first rs"
    and "set rs = {r. GetPolicy s q (po_ID r) = Inr r \<and> EqualFold (TrimSpace (po_ScanID r)) (TrimSpace scan)}"
proof -
  let ?f = "\<lambda>(k, r). EqualFold (TrimSpace (po_ScanID r)) (TrimSpace scan)"
  let ?rs = "map (\<lambda>(k, r). r\<lparr>po_ID := k\<rparr>) (filter ?f (owned s q))"
  let ?out = "sort_key (\<lambda>r. - po_UpdatedAt r) (sort_key po_ID ?rs)"
  have ids: "map po_ID ?rs = map fst (filter ?f (owned s q))" by (simp add: case_prod_unfold)
  have "distinct (map fst (owned s q))"
    using assms(1) by (simp add: store_inv_def owned_def distinct_map_filter)
  then have "distinct (map po_ID ?rs)" unfolding ids by (rule distinct_map_filter)
  note sorted = sort_twice_sorted[OF this]
  have own: "po_ID r = k" if "(k, r) \<in> set (owned s q)" for k r
    using that assms(1) by (auto simp: owned_def store_inv_def)
  have "r \<in> set ?out \<longleftrightarrow> (po_ID r, r) \<in> set (owned s q) \<and> EqualFold (TrimSpace (po_ScanID r)) (TrimSpace scan)" for r
  proof
    assume "r \<in> set ?out"
    then obtain k r' where "(k, r') \<in> set (owned s q)" "EqualFold (TrimSpace (po_ScanID r')) (TrimSpace scan)"
      "r = r'\<lparr>po_ID := k\<rparr>" by auto
    moreover from this own have "r = r'" by fastforce
    ultimately show "(po_ID r, r) \<in> set (owned s q) \<and> EqualFold (TrimSpace (po_ScanID r)) (TrimSpace scan)"
      using own by auto
  next
    assume "(po_ID r, r) \<in> set (owned s q) \<and> EqualFold (TrimSpace (po_ScanID r)) (TrimSpace scan)"
    then show "r \<in> set ?out" by (auto intro!: image_eqI[of _ _ "(po_ID r, r)"])
  qed
  then have "set ?out = {r. GetPolicy s q (po_ID r) = Inr r \<and> EqualFold (TrimSpace (po_ScanID r)) (TrimSpace scan)}"
    using GetPolicy_owned[OF assms(1), of q] assms(2) by blast
  with sorted show ?thesis using that[of ?out] assms(2,3)
    by (simp add: ListPersistedPoliciesForScan_owned)
qed

section \<open>The store interface\<close>

text \<open>\<^verbatim>\<open>PolicyStore\<close> of \<^verbatim>\<open>store.go\<close>: the operations the HTTP handlers call, on a state of some type.\<close>

record 's PolicyStore =
  op_Save :: "Principal \<Rightarrow> string \<Rightarrow> string \<Rightarrow> json gomap option \<Rightarrow> 's \<Rightarrow> (store_error + PolicyRecord) \<times> 's"
  op_Create :: "Principal \<Rightarrow> CreatePolicyInput \<Rightarrow> 's \<Rightarrow> (store_error + CreatePolicyResult) \<times> 's"
  op_List :: "Principal \<Rightarrow> string \<Rightarrow> 's \<Rightarrow> (store_error + PolicyRecord list) \<times> 's"
  op_Delete :: "Principal \<Rightarrow> string \<Rightarrow> 's \<Rightarrow> store_error option \<times> 's"
  op_Get :: "Principal \<Rightarrow> string \<Rightarrow> 's \<Rightarrow> (store_error + PolicyRecord) \<times> 's"
  op_Count :: "Principal \<Rightarrow> string \<Rightarrow> 's \<Rightarrow> (store_error + WalletTargetContextCounts) \<times> 's"

definition devStore :: "gotime \<Rightarrow> nat list option \<Rightarrow> OwnerScopedStore PolicyStore" where
  "devStore now rnd =
     \<lparr>op_Save = (\<lambda>p i scan pl s. SavePolicy now s p i scan pl),
      op_Create = (\<lambda>p inp s. CreatePolicy now rnd s p inp),
      op_List = (\<lambda>p scan s. (ListPersistedPoliciesForScan s p scan, s)),
      op_Delete = (\<lambda>p i s. DeletePolicy s p i),
      op_Get = (\<lambda>p i s. (GetPolicy s p i, s)),
      op_Count = (\<lambda>p a s. (CountActiveWalletCPMContext s p a, s))\<rparr>"

text \<open>What a client of an owner-scoped store relies on: a read returns records of the reader, a
  failed write changes nothing, and a deletion removes the one record it names.\<close>

locale owner_scoped =
  fixes store :: "'s PolicyStore" and inv :: "'s \<Rightarrow> bool"
  assumes get_same: "fst (op_Get store p i s) = Inr r \<Longrightarrow> fst (op_Get store q i s) = Inr r' \<Longrightarrow> r = r'"
    and get_own: "fst (op_Get store p i s) = Inr r \<Longrightarrow> ownedBy r p"
    and create_fails: "op_Create store p inp s = (Inl e, s') \<Longrightarrow> s' = s"
    and create_inv: "inv s \<Longrightarrow> inv (snd (op_Create store p inp s))"
    and delete_inv: "inv s \<Longrightarrow> inv (snd (op_Delete store p i s))"
    and delete_fails: "op_Delete store p i s = (Some e, s') \<Longrightarrow> s' = s \<and> fst (op_Get store p i s) = Inl e"
    and delete_ok: "inv s \<Longrightarrow> op_Delete store p i s = (None, s') \<Longrightarrow>
      (\<exists>r. fst (op_Get store p i s) = Inr r) \<and>
      (\<forall>q j r. fst (op_Get store q j s') = Inr r \<longleftrightarrow> j \<noteq> i \<and> fst (op_Get store q j s) = Inr r)"
begin

lemma delete_iff_readable:
  assumes "inv s"
  shows "(\<exists>s'. op_Delete store p i s = (None, s')) \<longleftrightarrow> (\<exists>r. fst (op_Get store p i s) = Inr r)"
proof (cases "op_Delete store p i s")
  case (Pair res s')
  then show ?thesis using delete_ok[OF assms, of p i s'] delete_fails[of p i s _ s'] by (cases res) auto
qed

lemma delete_other_owner:
  assumes "inv s" and "fst (op_Get store q j s) = Inr r"
    and "\<not> sameOwner (pn_UserID p) (pn_TenantID p) (pn_UserID q) (pn_TenantID q)"
  shows "fst (op_Get store q j (snd (op_Delete store p i s))) = Inr r"
proof (cases "op_Delete store p i s")
  case (Pair res s')
  show ?thesis
  proof (cases res)
    case (Some e)
    then show ?thesis using Pair delete_fails[of p i s e s'] assms(2) by simp
  next
    case None
    with Pair have d: "op_Delete store p i s = (None, s')" by simp
    obtain r' where r': "fst (op_Get store p i s) = Inr r'" using delete_ok[OF assms(1) d] by blast
    have "j \<noteq> i"
      using r' get_same[OF r', of q r] get_own[OF r'] get_own[OF assms(2)] assms(2,3) by (auto simp: sameOwner_def)
    then show ?thesis using delete_ok[OF assms(1) d] assms(2) Pair by simp
  qed
qed

end

interpretation dev: owner_scoped "devStore now rnd" store_inv
proof
  show "store_inv (snd (op_Create (devStore now rnd) p inp s))" if "store_inv s" for p inp s
    by (simp add: devStore_def CreatePolicy_inv[OF that prod.collapse[symmetric]])
  show "store_inv (snd (op_Delete (devStore now rnd) p i s))" if "store_inv s" for p i s
    by (simp add: devStore_def DeletePolicy_inv[OF that prod.collapse[symmetric]])
  show "s' = s \<and> fst (op_Get (devStore now rnd) p i s) = Inl e" if "op_Delete (devStore now rnd) p i s = (Some e, s')"
    for p i s e s'
    using that by (auto simp: devStore_def DeletePolicy_def GetPolicy_def split: option.splits if_splits)
  show "(\<exists>r. fst (op_Get (devStore now rnd) p i s) = Inr r) \<and>
      (\<forall>q j r. fst (op_Get (devStore now rnd) q j s') = Inr r \<longleftrightarrow> j \<noteq> i \<and> fst (op_Get (devStore now rnd) q j s) = Inr r)"
    if "store_inv s" "op_Delete (devStore now rnd) p i s = (None, s')" for s p i s'
    using that(2) by (auto simp: devStore_def GetPolicy_Inr DeletePolicy_def delete_conv' split: option.splits if_splits)
qed (auto simp: devStore_def GetPolicy_Inr dest: CreatePolicy_unchanged)

section \<open>What a created policy holds\<close>

lemma map_of_enrichPayload:
  "map_of (enrichPayload pl scan w c t) =
     (map_of pl)(''scan_id'' \<mapsto> JStr scan, ''wallet_address'' \<mapsto> JStr w, ''chain_id'' \<mapsto> jint c,
       ''ownership_status'' \<mapsto> JStr ''verified'', ''wallet_control_method'' \<mapsto> JStr ''eoa_signature'',
       ''wallet_control_verified_at'' \<mapsto> JStr (FormatRFC3339 t), ''persisted_at'' \<mapsto> JStr (FormatRFC3339 t),
       ''signed_message'' := None, ''signature'' := None, ''payload_sha256'' := None)"
  unfolding enrichPayload_def update_conv' delete_conv' ..

lemma CreatePolicy_Get:
  assumes "CreatePolicy now rnd s p inp = (Inr res, s')" and "ci_Payload inp = Some pl"
  shows "GetPolicy s' p (cr_PolicyID res) =
    Inr (createdRecord p inp pl (cr_WalletAddress res) (cr_PersistedAt res) (cr_PolicyID res))"
  using assms(1)
proof (rule CreatePolicy_ok)
  fix pl' w pid
  assume "Principal_Validate p = None" and "ci_Payload inp = Some pl'"
    and "res = createdResult inp w (verifiedAtOr now inp) pid"
    and "s' = s\<lparr>st_policies := AList.update pid (createdRecord p inp pl' w (verifiedAtOr now inp) pid) (st_policies s)\<rparr>"
  then show ?thesis using assms(2)
    by (simp add: GetPolicy_Inr update_conv' createdResult_def createdRecord_def sameOwner_def)
qed

lemma claimsWallet_created:
  "NormalizeWalletTargetAddress a = Some w \<Longrightarrow> claimsWallet p w (createdRecord p inp pl w t i)"
  by (simp add: claimsWallet_def createdRecord_def sameOwner_def store_address.eq_refl)

section \<open>A store with one policy\<close>

definition alice :: Principal where
  "alice = \<lparr>pn_UserID = ''alice'', pn_Subject = ''sub-alice'', pn_TenantID = ''t1'', pn_Claims = []\<rparr>"

definition bob :: Principal where
  "bob = \<lparr>pn_UserID = ''bob'', pn_Subject = ''sub-bob'', pn_TenantID = ''t1'', pn_Claims = []\<rparr>"

definition alice_input :: CreatePolicyInput where
  "alice_input = \<lparr>ci_ScanID = ''scan-1'', ci_WalletAddress = sample_hex, ci_ChainID = 1,
     ci_Payload = Some [(''name'', JStr ''n'')], ci_PayloadSHA256 = ''abc'', ci_SignedMessageHash = '''',
     ci_WalletControlMethod = '''', ci_WalletControlVerifiedAt = zeroTime, ci_ChallengeIssuedAt = None,
     ci_ChallengeExpiresAt = None\<rparr>"

definition one_policy :: OwnerScopedStore where
  "one_policy = snd (CreatePolicy 7 (Some [1]) NewOwnerScopedStore alice alice_input)"

definition alice_wallet :: string where
  "alice_wallet = the (NormalizeWalletTargetAddress sample_hex)"

lemma alice_wallet: "NormalizeWalletTargetAddress sample_hex = Some alice_wallet"
proof -
  have "NormalizeWalletTargetAddress sample_hex \<noteq> None" by code_simp
  then show ?thesis by (auto simp: alice_wallet_def)
qed

lemma alice_valid: "Principal_Validate alice = None" "Principal_Validate bob = None"
  by code_simp+

lemma alice_input_nonblank: "TrimSpace ''scan-1'' = ''scan-1''" "TrimSpace ''abc'' = ''abc''"
  by code_simp+

lemma alice_created: "CreatePolicy 7 (Some [1]) NewOwnerScopedStore alice alice_input =
    (Inr (createdResult alice_input alice_wallet 7 ''01''), one_policy)"
proof -
  have "hex_encode [1] = ''01''" by code_simp
  then show ?thesis
    by (simp add: one_policy_def CreatePolicy_def alice_input_def alice_wallet alice_valid alice_input_nonblank
      NewOwnerScopedStore_def newPolicyID_def verifiedAtOr_def IsZero_def)
qed

lemma one_policy_step: "store_step alice NewOwnerScopedStore one_policy"
  by (rule step_create[OF alice_created]) (simp add: NewOwnerScopedStore_def)

lemma one_policy_reachable: "store_reachable one_policy"
  by (rule reach_step[OF reach_new one_policy_step])

lemma one_policy_Get:
  "GetPolicy one_policy alice ''01'' = Inr (createdRecord alice alice_input [(''name'', JStr ''n'')] alice_wallet 7 ''01'')"
  using CreatePolicy_Get[OF alice_created] by (simp add: alice_input_def createdResult_def)

section \<open>Properties\<close>

text \<open>Rule W1, one active policy per owner and wallet: in every reachable store, two policies a
  principal can read with the same (non-empty) wallet are the same policy.\<close>

lemma store_one_policy_per_wallet:
  assumes "store_reachable s" and "GetPolicy s p i = Inr r" and "GetPolicy s p j = Inr r'"
    and "po_WalletAddress r = po_WalletAddress r'" and "po_WalletAddress r \<noteq> ''''"
  shows "i = j"
  using store_reachable_inv[OF assms(1)] assms(2-5)
  unfolding store_inv_def one_per_wallet_def GetPolicy_Inr sameOwner_def by metis

text \<open>Owners are isolated: a step of one principal leaves every read of another owner (by id, by
  scan, and the count per wallet) as it was, given that created policies take fresh ids.\<close>

lemma store_owner_isolation:
  assumes "store_reachable s" and "store_step p s s'"
    and "\<not> sameOwner (pn_UserID p) (pn_TenantID p) (pn_UserID q) (pn_TenantID q)"
  shows "(GetPolicy s' q i = Inr r) = (GetPolicy s q i = Inr r) \<and>
    ListPersistedPoliciesForScan s' q scan = ListPersistedPoliciesForScan s q scan \<and>
    CountActiveWalletCPMContext s' q a = CountActiveWalletCPMContext s q a"
proof -
  have inv: "store_inv s" by (rule store_reachable_inv[OF assms(1)])
  have inv': "store_inv s'" by (rule store_reachable_inv[OF reach_step[OF assms(1,2)]])
  have o: "owned s' q = owned s q" by (rule store_step_other[OF assms(2) inv assms(3)])
  show ?thesis unfolding GetPolicy_owned[OF inv] GetPolicy_owned[OF inv']
      ListPersistedPoliciesForScan_owned CountActive_owned o by simp
qed

text \<open>A successful create can be read back by its owner under the returned id: the record has the
  normalised wallet, the trimmed scan and digest, and a payload that is the given one except for
  the seven fields the server sets and the three it strips.\<close>

lemma create_read_back:
  assumes "CreatePolicy now rnd s p inp = (Inr res, s')"
  shows "\<exists>r pl pl'. GetPolicy s' p (cr_PolicyID res) = Inr r \<and> ci_Payload inp = Some pl \<and> po_Payload r = Some pl' \<and>
    NormalizeWalletTargetAddress (ci_WalletAddress inp) = Some (cr_WalletAddress res) \<and>
    po_WalletAddress r = cr_WalletAddress res \<and> po_ScanID r = TrimSpace (ci_ScanID inp) \<and>
    po_PayloadSHA256 r = TrimSpace (ci_PayloadSHA256 inp) \<and> po_ChainID r = ci_ChainID inp \<and>
    map_of pl' = (map_of pl)(''scan_id'' \<mapsto> JStr (po_ScanID r), ''wallet_address'' \<mapsto> JStr (cr_WalletAddress res),
      ''chain_id'' \<mapsto> jint (ci_ChainID inp), ''ownership_status'' \<mapsto> JStr ''verified'',
      ''wallet_control_method'' \<mapsto> JStr ''eoa_signature'',
      ''wallet_control_verified_at'' \<mapsto> JStr (FormatRFC3339 (cr_PersistedAt res)),
      ''persisted_at'' \<mapsto> JStr (FormatRFC3339 (cr_PersistedAt res)),
      ''signed_message'' := None, ''signature'' := None, ''payload_sha256'' := None)"
  using assms
proof (rule CreatePolicy_ok)
  fix pl w pid
  assume pl: "ci_Payload inp = Some pl" and w: "NormalizeWalletTargetAddress (ci_WalletAddress inp) = Some w"
    and res: "res = createdResult inp w (verifiedAtOr now inp) pid"
  note g = CreatePolicy_Get[OF assms pl]
  show ?thesis
    by (intro exI conjI, rule g, rule pl, simp only: createdRecord_def PolicyRecord.simps)
      (simp_all only: w res createdResult_def createdRecord_def map_of_enrichPayload PolicyRecord.simps
        CreatePolicyResult.simps)
qed

text \<open>A second create for the same wallet, in any spelling, conflicts and changes nothing.\<close>

lemma create_conflicts:
  assumes "CreatePolicy now rnd s p inp = (Inr res, s')"
    and "NormalizeWalletTargetAddress (ci_WalletAddress inp') = NormalizeWalletTargetAddress (ci_WalletAddress inp)"
    and "TrimSpace (ci_ScanID inp') \<noteq> ''''" and "TrimSpace (ci_PayloadSHA256 inp') \<noteq> ''''"
    and "ci_Payload inp' \<noteq> None" and "1 \<le> ci_ChainID inp'"
  shows "CreatePolicy now' rnd' s' p inp' = (Inl ErrPolicyAlreadyExists, s')"
  using assms(1)
proof (rule CreatePolicy_ok)
  fix pl w pid
  assume v: "Principal_Validate p = None" and w: "NormalizeWalletTargetAddress (ci_WalletAddress inp) = Some w"
    and s': "s' = s\<lparr>st_policies := AList.update pid (createdRecord p inp pl w (verifiedAtOr now inp) pid) (st_policies s)\<rparr>"
  have "(pid, createdRecord p inp pl w (verifiedAtOr now inp) pid) \<in> set (st_policies s')"
    unfolding s' by (rule map_of_SomeD) (simp add: update_conv')
  then have "list_ex (\<lambda>(k, r). claimsWallet p w r) (st_policies s')"
    using claimsWallet_created[OF w] by (force simp: list_ex_iff)
  moreover obtain pl' where "ci_Payload inp' = Some pl'" using assms(5) by blast
  ultimately show ?thesis using v w assms(2,3,4,6) unfolding CreatePolicy_def by simp
qed

definition alice_again :: CreatePolicyInput where
  "alice_again = alice_input\<lparr>ci_WalletAddress := alice_wallet, ci_ScanID := ''abc''\<rparr>"

text \<open>The listing of a scan holds exactly the policies its owner can read by id whose scan id
  matches up to case and blanks, newest first and then by id, each once.\<close>

lemma list_for_scan_exact:
  assumes "store_reachable s" and "Principal_Validate q = None" and "TrimSpace scan \<noteq> ''''"
  shows "\<exists>rs. ListPersistedPoliciesForScan s q scan = Inr rs \<and> sorted_wrt newest_first rs \<and>
    set rs = {r. GetPolicy s q (po_ID r) = Inr r \<and> EqualFold (TrimSpace (po_ScanID r)) (TrimSpace scan)}"
  by (rule ListPersistedPoliciesForScan_exact[OF store_reachable_inv[OF assms(1)] assms(2,3)]) blast

end
