(* ===== verification/Http.thy ===== *)
theory Http
  imports Policy_Store
begin

text \<open>
  The HTTP surface shared by the handlers: requests, responses and what a handler leaves in the logs
  (\<^verbatim>\<open>app/auth_observability.go\<close>, \<^verbatim>\<open>app/api_constants.go\<close>), the routes and their classification
  (\<^verbatim>\<open>cpmroutes/\<close>, the inventory of \<^verbatim>\<open>app/auth.go\<close>, \<^verbatim>\<open>authz/contract.go\<close>).

  A body enters as what \<^verbatim>\<open>encoding/json\<close> makes of its bytes: nothing, a syntax error with its message,
  a value whose objects list each key once, at the place of its last occurrence, or such a value
  followed by bytes other than white space, with the message of \<^verbatim>\<open>json.Unmarshal\<close>. The last kind is
  an error for \<^verbatim>\<open>json.Unmarshal\<close>, while the \<^verbatim>\<open>Decode\<close> of a fresh \<^verbatim>\<open>json.NewDecoder\<close> reads the value and
  leaves the rest. A handler returns its response together with the log lines, metric increments and audit events it emits.
\<close>

section \<open>Requests and responses\<close>

datatype body = NoBody | BadBody string | JsonBody json | TrailingBody json string

record Request =
  rq_Method :: string
  rq_Path :: string
  rq_Header :: "string gomap"
  rq_Query :: "string gomap"
  rq_Host :: string
  rq_Body :: body
  rq_Principal :: "Principal option"

record authAuditEvent =
  au_Category :: string
  au_Outcome :: string
  au_Code :: string
  au_RequestID :: string
  au_Route :: string
  au_Method :: string
  au_UserID :: string
  au_TenantID :: string

datatype trace_event =
    IncDecision string string string string
  | LogLine string
  | AuditEvent authAuditEvent
  | IncPersistUserConstraintsIncompatible
  | IncExploreNoDeployableCandidate string string string string

record Response =
  rs_Status :: int
  rs_Body :: "json option"
  rs_Text :: string
  rs_Trace :: "trace_event list"

definition Header_Get :: "Request \<Rightarrow> string \<Rightarrow> string" where
  "Header_Get r k = (case map_of (rq_Header r) k of Some v \<Rightarrow> v | None \<Rightarrow> '''')"

definition Query_Get :: "Request \<Rightarrow> string \<Rightarrow> string" where
  "Query_Get r k = (case map_of (rq_Query r) k of Some v \<Rightarrow> v | None \<Rightarrow> '''')"

definition writeJSON :: "int \<Rightarrow> json \<Rightarrow> Response" where
  "writeJSON status payload = \<lparr>rs_Status = status, rs_Body = Some payload, rs_Text = '''', rs_Trace = []\<rparr>"

definition WriteHeader :: "int \<Rightarrow> Response" where
  "WriteHeader status = \<lparr>rs_Status = status, rs_Body = None, rs_Text = '''', rs_Trace = []\<rparr>"

definition traced :: "trace_event list \<Rightarrow> Response \<Rightarrow> Response" where
  "traced ts rs = rs\<lparr>rs_Trace := ts @ rs_Trace rs\<rparr>"

definition reasonDetails :: "string \<Rightarrow> json gomap" where
  "reasonDetails reason = [(''reason'', JStr reason)]"

definition errorJSON :: "string \<Rightarrow> json" where
  "errorJSON e = JObj [(''error'', JStr e)]"

definition apiErrorJSON :: "string \<Rightarrow> string \<Rightarrow> json" where
  "apiErrorJSON code message = JObj [(''error'', JStr code), (''message'', JStr message)]"

definition apiErrorWithDetails :: "string \<Rightarrow> string \<Rightarrow> json gomap \<Rightarrow> json" where
  "apiErrorWithDetails code message details =
     JObj [(''error'', JStr code), (''message'', JStr message), (''details'', JObj details)]"

section \<open>Routes\<close>

definition V1Base :: string where "V1Base = ''/api/cpm/v1''"
definition CryptoPolicies :: string where "CryptoPolicies = V1Base @ ''/crypto-policies''"
definition CryptoPolicyByID :: string where "CryptoPolicyByID = CryptoPolicies @ ''/{crypto_policy_id}''"
definition Providers :: string where "Providers = V1Base @ ''/providers''"
definition ProviderByID :: string where "ProviderByID = Providers @ ''/{provider_id}''"
definition Policies :: string where "Policies = V1Base @ ''/policies''"
definition PoliciesDecisionsExplore :: string where "PoliciesDecisionsExplore = Policies @ ''/decisions/explore''"
definition PoliciesAssessmentRequest :: string where "PoliciesAssessmentRequest = Policies @ ''/assessment/request''"
definition WalletChallenges :: string where "WalletChallenges = V1Base @ ''/wallet-challenges''"
definition AcceptedProviderSnapshots :: string where
  "AcceptedProviderSnapshots = V1Base @ ''/accepted-provider-snapshots''"
definition WalletTargetContext :: string where "WalletTargetContext = V1Base @ ''/wallet-target-context''"
definition Healthz :: string where "Healthz = ''/healthz''"
definition Metrics :: string where "Metrics = ''/metrics''"
definition Version :: string where "Version = ''/version''"

lemmas route_defs = V1Base_def CryptoPolicies_def CryptoPolicyByID_def Providers_def ProviderByID_def Policies_def
  PoliciesDecisionsExplore_def PoliciesAssessmentRequest_def WalletChallenges_def AcceptedProviderSnapshots_def
  WalletTargetContext_def Healthz_def Metrics_def Version_def

text \<open>\<^verbatim>\<open>strings.Trim(s, "/")\<close>\<close>

definition trimSlashes :: "string \<Rightarrow> string" where
  "trimSlashes s = rev (dropWhile (\<lambda>c. c = CHR ''/'') (rev (dropWhile (\<lambda>c. c = CHR ''/'') s)))"

definition segmentMatches :: "string \<Rightarrow> string \<Rightarrow> bool" where
  "segmentMatches pat act \<longleftrightarrow>
     (if HasPrefix pat ''{'' \<and> HasSuffix pat ''}'' then act \<noteq> '''' else pat = act)"

definition PathMatches :: "string \<Rightarrow> string \<Rightarrow> bool" where
  "PathMatches pattern actual \<longleftrightarrow>
     (if pattern = actual then True
      else if CHR ''{'' \<notin> set pattern then False
      else
        let patParts = Split (trimSlashes pattern) (CHR ''/''); actParts = Split (trimSlashes actual) (CHR ''/'') in
        length patParts = length actParts \<and> list_all2 segmentMatches patParts actParts)"

definition AuthenticatedRoutes :: "(string \<times> string) list" where
  "AuthenticatedRoutes =
     [(''GET'', CryptoPolicies), (''GET'', CryptoPolicyByID), (''GET'', Providers), (''GET'', ProviderByID),
      (''POST'', PoliciesDecisionsExplore), (''POST'', PoliciesAssessmentRequest), (''POST'', WalletChallenges),
      (''POST'', AcceptedProviderSnapshots), (''GET'', WalletTargetContext), (''POST'', Policies),
      (''GET'', Policies), (''DELETE'', Policies)]"

definition RouteClassPublicHealth :: string where "RouteClassPublicHealth = ''public_health''"
definition RouteClassAuthenticated :: string where "RouteClassAuthenticated = ''authenticated_business''"
definition RouteClassDeprecatedDisabled :: string where "RouteClassDeprecatedDisabled = ''deprecated_disabled''"
definition RouteClassInternalService :: string where "RouteClassInternalService = ''internal_service_token''"

definition IsValidRouteClass :: "string \<Rightarrow> bool" where
  "IsValidRouteClass v \<longleftrightarrow>
     v = RouteClassPublicHealth \<or> v = RouteClassAuthenticated \<or> v = RouteClassDeprecatedDisabled \<or>
     v = RouteClassInternalService"

record routeSpec =
  rt_Method :: string
  rt_Path :: string
  rt_Class :: string

definition buildRouteInventory :: "routeSpec list" where
  "buildRouteInventory =
     [\<lparr>rt_Method = ''GET'', rt_Path = Healthz, rt_Class = RouteClassPublicHealth\<rparr>,
      \<lparr>rt_Method = ''GET'', rt_Path = Metrics, rt_Class = RouteClassPublicHealth\<rparr>,
      \<lparr>rt_Method = ''GET'', rt_Path = Version, rt_Class = RouteClassPublicHealth\<rparr>] @
     map (\<lambda>(m, p). \<lparr>rt_Method = m, rt_Path = p, rt_Class = RouteClassAuthenticated\<rparr>) AuthenticatedRoutes"

fun validateRoutes :: "routeSpec list \<Rightarrow> string set \<Rightarrow> string option" where
  "validateRoutes [] seen = None"
| "validateRoutes (route # routes) seen =
     (if rt_Method route = '''' \<or> rt_Path route = '''' then Some ''route inventory has empty method/path''
      else if \<not> IsValidRouteClass (rt_Class route) then Some ''route inventory has invalid class''
      else
        let key = rt_Method route @ '' '' @ rt_Path route in
        if key \<in> seen then Some ''route inventory has duplicate route''
        else validateRoutes routes (insert key seen))"

definition validateRouteInventory :: "routeSpec list \<Rightarrow> string option" where
  "validateRouteInventory routes = validateRoutes routes {}"

definition classifyRoute :: "string \<Rightarrow> string \<Rightarrow> string" where
  "classifyRoute meth path =
     (case find (\<lambda>r. rt_Method r = meth \<and> PathMatches (rt_Path r) path) buildRouteInventory of
        Some r \<Rightarrow> rt_Class r
      | None \<Rightarrow> RouteClassDeprecatedDisabled)"

section \<open>Observability\<close>

definition requestIDChar :: "char \<Rightarrow> bool" where
  "requestIDChar c \<longleftrightarrow>
     (let n = byte_of c in 48 \<le> n \<and> n \<le> 57 \<or> 65 \<le> n \<and> n \<le> 90 \<or> 97 \<le> n \<and> n \<le> 122 \<or>
       c \<in> {CHR ''.'', CHR ''_'', CHR '':'', CHR ''-''})"

definition sanitizeRequestID :: "string \<Rightarrow> string option" where
  "sanitizeRequestID raw =
     (let v = TrimSpace raw in
      if 1 \<le> length v \<and> length v \<le> 128 \<and> list_all requestIDChar v then Some v else None)"

text \<open>The generator's id is made of the clock, in nanoseconds, and a sequence number; the request
  carries the chosen id from here on.\<close>

definition requestIDGen :: "int \<times> nat \<Rightarrow> string" where
  "requestIDGen gen = ''req_'' @ FormatInt (fst gen) @ ''_'' @ FormatInt (int (snd gen))"

definition ensureRequestID :: "int \<times> nat \<Rightarrow> Request \<Rightarrow> string \<times> Request" where
  "ensureRequestID gen r =
     (let rid = (case sanitizeRequestID (Header_Get r ''X-Request-Id'') of
            Some v \<Rightarrow> v | None \<Rightarrow> requestIDGen gen) in
      (rid, r\<lparr>rq_Header := AList.update ''X-Request-Id'' rid (rq_Header r)\<rparr>))"

definition authErrorPayload :: "string \<Rightarrow> string \<Rightarrow> json gomap \<Rightarrow> string \<Rightarrow> json" where
  "authErrorPayload code message details rid =
     JObj [(''code'', JStr code), (''message'', JStr message), (''details'', JObj details), (''request_id'', JStr rid)]"

definition writeAuthError :: "int \<times> nat \<Rightarrow> Request \<Rightarrow> int \<Rightarrow> string \<Rightarrow> string \<Rightarrow> json gomap \<Rightarrow> Response" where
  "writeAuthError gen r status code message details =
     writeJSON status (authErrorPayload code message details (fst (ensureRequestID gen r)))"

definition recordDecision ::
  "Request \<Rightarrow> string \<Rightarrow> string \<Rightarrow> string \<Rightarrow> string \<Rightarrow> string \<Rightarrow> string \<Rightarrow> string \<Rightarrow> trace_event list" where
  "recordDecision r rid category outcome code reason userID tenantID =
     (let route = classifyRoute (rq_Method r) (rq_Path r);
          msg = [''event=auth_decision'', ''request_id='' @ Quote rid, ''method='' @ Quote (rq_Method r),
            ''route='' @ Quote route, ''category='' @ Quote category, ''outcome='' @ Quote outcome,
            ''code='' @ Quote code, ''reason='' @ Quote reason] @
            (if TrimSpace userID \<noteq> '''' then [''user_id='' @ Quote userID] else []) @
            (if TrimSpace tenantID \<noteq> '''' then [''tenant_id='' @ Quote tenantID] else []) in
      [IncDecision category outcome code route, LogLine (Join msg '' '')])"

text \<open>The first lines of every owner handler: without a principal the request is refused and the
  refusal recorded.\<close>

definition principalMissing :: "int \<times> nat \<Rightarrow> Request \<Rightarrow> Response" where
  "principalMissing gen r =
     (let (rid, r) = ensureRequestID gen r in
      traced (recordDecision r rid ''owner_authz'' ''denied'' ''AUTHZ_PRINCIPAL_REQUIRED'' ''principal_missing'' '''' '''')
        (writeAuthError gen r 401 ''AUTHZ_PRINCIPAL_REQUIRED'' ''authentication required''
          (reasonDetails ''principal_missing'')))"

section \<open>One request id per request\<close>

lemma ensureRequestID_keeps [simp]:
  "rq_Principal (snd (ensureRequestID gen r)) = rq_Principal r" "rq_Body (snd (ensureRequestID gen r)) = rq_Body r"
  "rq_Host (snd (ensureRequestID gen r)) = rq_Host r" "rq_Query (snd (ensureRequestID gen r)) = rq_Query r"
  "rq_Method (snd (ensureRequestID gen r)) = rq_Method r" "rq_Path (snd (ensureRequestID gen r)) = rq_Path r"
  by (simp_all add: ensureRequestID_def Let_def)

lemma ensureRequestID_header:
  "k \<noteq> ''X-Request-Id'' \<Longrightarrow> Header_Get (snd (ensureRequestID gen r)) k = Header_Get r k"
  by (simp add: ensureRequestID_def Let_def Header_Get_def update_conv')

lemma sanitizeRequestID_Some:
  "sanitizeRequestID h = Some v \<longleftrightarrow>
     v = TrimSpace h \<and> 1 \<le> length v \<and> length v \<le> 128 \<and> list_all requestIDChar v"
  by (auto simp: sanitizeRequestID_def Let_def)

lemma requestIDGen_trimmed: "TrimSpace (requestIDGen gen) = requestIDGen gen"
proof (rule TrimSpace_visible)
  have "list_all visible ''req_''" "list_all visible ''_''" by code_simp+
  then show "list_all visible (requestIDGen gen)" by (simp add: requestIDGen_def FormatInt_visible)
qed

lemma ensureRequestID_again:
  "fst (ensureRequestID gen (snd (ensureRequestID gen r))) = fst (ensureRequestID gen r)"
proof -
  let ?san = "sanitizeRequestID (Header_Get r ''X-Request-Id'')"
  have get: "Header_Get (snd (ensureRequestID gen r)) ''X-Request-Id'' = fst (ensureRequestID gen r)"
    by (simp add: ensureRequestID_def Let_def Header_Get_def update_conv')
  have keep: "fst (ensureRequestID gen r') = v" if "sanitizeRequestID (Header_Get r' ''X-Request-Id'') = Some v" for r' v
    using that by (simp add: ensureRequestID_def Let_def)
  show ?thesis
  proof (cases ?san)
    case (Some v)
    then have "sanitizeRequestID v = Some v" by (auto simp: sanitizeRequestID_Some)
    then show ?thesis using keep[OF Some] keep[of "snd (ensureRequestID gen r)" v] get by simp
  next
    case None
    then have "fst (ensureRequestID gen r) = requestIDGen gen" by (simp add: ensureRequestID_def Let_def)
    then show ?thesis using get
      by (auto simp: ensureRequestID_def[of gen "snd (ensureRequestID gen r)"] Let_def sanitizeRequestID_Some
          requestIDGen_trimmed split: option.splits)
  qed
qed

end
