(* ===== verification/Wallet_Auth.thy ===== *)
theory Wallet_Auth
  imports Go_Time Wallet_Target
begin

text \<open>
  The wallet authorization of \<^verbatim>\<open>internal/walletauth\<close>: the canonical message (\<^verbatim>\<open>message.go\<close>), its parser, and
  the verification of a signed message (\<^verbatim>\<open>verify.go\<close>). The elliptic-curve operations of go-ethereum
  are the record \<open>eth\<close> of the functions the code calls: the EIP-191 text hash, the recovery of a public
  key from hash and signature, and the hexadecimal address of a key. The lemmas show that the
  message is parsed back to its fields, and exactly which signed messages are accepted.
\<close>

section \<open>Constants and errors\<close>

definition ActionPersistCryptoPolicy :: string where
  "ActionPersistCryptoPolicy = ''persist_crypto_policy''"

definition messageTitle :: string where
  "messageTitle = ''CAFE Crypto Policy Persistence''"

definition messageFooter :: string where
  "messageFooter = ''By signing this message, I prove control of the wallet and authorize CAFE to persist this Crypto Policy for this wallet.''"

definition MaxValidityWindow :: duration where "MaxValidityWindow = 600 * second"
definition DefaultClockSkew :: duration where "DefaultClockSkew = 30 * second"

datatype VerificationCode =
    CodeWalletControlProofRequired
  | CodeInvalidWalletSignature
  | CodeWalletSignatureAddressMismatch
  | CodeWalletAuthorizationExpired
  | CodeWalletAuthorizationNotYetValid
  | CodeWalletAuthorizationValidityLong
  | CodePayloadSHA256Mismatch
  | CodeWalletAuthorizationScanMismatch
  | CodeWalletAuthorizationWalletMismatch
  | CodeWalletAuthorizationChainMismatch
  | CodeWalletAuthorizationActionMismatch

fun code_string :: "VerificationCode \<Rightarrow> string" where
  "code_string CodeWalletControlProofRequired = ''WALLET_CONTROL_PROOF_REQUIRED''"
| "code_string CodeInvalidWalletSignature = ''INVALID_WALLET_SIGNATURE''"
| "code_string CodeWalletSignatureAddressMismatch = ''WALLET_SIGNATURE_ADDRESS_MISMATCH''"
| "code_string CodeWalletAuthorizationExpired = ''WALLET_AUTHORIZATION_EXPIRED''"
| "code_string CodeWalletAuthorizationNotYetValid = ''WALLET_AUTHORIZATION_NOT_YET_VALID''"
| "code_string CodeWalletAuthorizationValidityLong = ''WALLET_AUTHORIZATION_VALIDITY_TOO_LONG''"
| "code_string CodePayloadSHA256Mismatch = ''PAYLOAD_SHA256_MISMATCH''"
| "code_string CodeWalletAuthorizationScanMismatch = ''WALLET_AUTHORIZATION_SCAN_MISMATCH''"
| "code_string CodeWalletAuthorizationWalletMismatch = ''WALLET_AUTHORIZATION_WALLET_MISMATCH''"
| "code_string CodeWalletAuthorizationChainMismatch = ''WALLET_AUTHORIZATION_CHAIN_MISMATCH''"
| "code_string CodeWalletAuthorizationActionMismatch = ''WALLET_AUTHORIZATION_ACTION_MISMATCH''"

record VerificationError =
  ve_Code :: VerificationCode
  ve_Message :: string

definition verificationError :: "VerificationCode \<Rightarrow> string \<Rightarrow> VerificationError" where
  "verificationError code message = \<lparr>ve_Code = code, ve_Message = message\<rparr>"

section \<open>The canonical message\<close>

record Fields =
  fd_Domain :: string
  fd_Action :: string
  fd_WalletAddress :: string
  fd_ChainID :: int64
  fd_ScanID :: string
  fd_PayloadSHA256 :: string
  fd_IssuedAt :: gotime
  fd_ExpiresAt :: gotime

definition message_lines :: "Fields \<Rightarrow> string list" where
  "message_lines fs =
     [messageTitle, '''',
      ''Domain: '' @ TrimSpace (fd_Domain fs),
      ''Action: '' @ TrimSpace (fd_Action fs),
      ''Wallet: '' @ TrimSpace (fd_WalletAddress fs),
      ''Chain ID: '' @ FormatInt (fd_ChainID fs),
      ''Scan ID: '' @ TrimSpace (fd_ScanID fs),
      ''Payload SHA-256: '' @ TrimSpace (fd_PayloadSHA256 fs),
      ''Issued At: '' @ FormatRFC3339 (fd_IssuedAt fs),
      ''Expiration Time: '' @ FormatRFC3339 (fd_ExpiresAt fs),
      '''', messageFooter]"

definition BuildMessage :: "Fields \<Rightarrow> string" where
  "BuildMessage fs = Join (message_lines fs) [CHR 10]"

definition ExpectedMessageFromFields :: "Fields \<Rightarrow> string" where
  "ExpectedMessageFromFields fs = BuildMessage (fs\<lparr>fd_Action := ActionPersistCryptoPolicy\<rparr>)"

definition readField :: "string list \<Rightarrow> string \<Rightarrow> string + string" where
  "readField ls pre =
     (case find (\<lambda>line. HasPrefix line pre) ls of
        Some line \<Rightarrow> Inr (TrimSpace (TrimPrefix line pre))
      | None \<Rightarrow> Inl (''missing '' @ TrimSuffix pre '': ''))"

text \<open>The error monad of the parser: the first error wins.\<close>

definition ebind :: "'e + 'a \<Rightarrow> ('a \<Rightarrow> 'e + 'b) \<Rightarrow> 'e + 'b" where
  "ebind r f = (case r of Inl e \<Rightarrow> Inl e | Inr a \<Rightarrow> f a)"

definition check :: "bool \<Rightarrow> 'e \<Rightarrow> 'e + unit" where
  "check ok e = (if ok then Inr () else Inl e)"

definition of_opt :: "'e \<Rightarrow> 'a option \<Rightarrow> 'e + 'a" where
  "of_opt e x = (case x of None \<Rightarrow> Inl e | Some a \<Rightarrow> Inr a)"

definition parseChainID :: "string \<Rightarrow> string + int64" where
  "parseChainID raw =
     (case ParseInt raw of
        Some c \<Rightarrow> if c < 1 then Inl ''invalid chain id in canonical message'' else Inr c
      | None \<Rightarrow> Inl ''invalid chain id in canonical message'')"

definition ParseMessage :: "string \<Rightarrow> string + Fields" where
  "ParseMessage message =
     (let ls = Split message (CHR 10) in
      ebind (check (\<not> length ls < 11) ''canonical message is too short'') (\<lambda>_.
      ebind (check (TrimSpace (hd ls) = messageTitle) ''canonical message title mismatch'') (\<lambda>_.
      ebind (check (TrimSpace (last ls) = messageFooter) ''canonical message footer mismatch'') (\<lambda>_.
      ebind (readField ls ''Domain: '') (\<lambda>domain.
      ebind (readField ls ''Action: '') (\<lambda>action.
      ebind (readField ls ''Wallet: '') (\<lambda>wallet.
      ebind (readField ls ''Chain ID: '') (\<lambda>chainRaw.
      ebind (parseChainID chainRaw) (\<lambda>chainID.
      ebind (readField ls ''Scan ID: '') (\<lambda>scanID.
      ebind (readField ls ''Payload SHA-256: '') (\<lambda>payloadSHA256.
      ebind (check (TrimSpace payloadSHA256 \<noteq> '''') ''missing Payload SHA-256'') (\<lambda>_.
      ebind (check (isl (readField ls ''Draft ID: '')) ''canonical message must not include Draft ID'') (\<lambda>_.
      ebind (readField ls ''Issued At: '') (\<lambda>issuedRaw.
      ebind (readField ls ''Expiration Time: '') (\<lambda>expiresRaw.
      ebind (of_opt ''invalid issued_at in canonical message'' (ParseRFC3339 issuedRaw)) (\<lambda>issuedAt.
      ebind (of_opt ''invalid expires_at in canonical message'' (ParseRFC3339 expiresRaw)) (\<lambda>expiresAt.
      Inr \<lparr>fd_Domain = domain, fd_Action = action, fd_WalletAddress = wallet, fd_ChainID = chainID,
        fd_ScanID = scanID, fd_PayloadSHA256 = payloadSHA256, fd_IssuedAt = issuedAt,
        fd_ExpiresAt = expiresAt\<rparr>)))))))))))))))))"

section \<open>Verification\<close>

record 'pub eth =
  eth_TextHash :: "string \<Rightarrow> nat list"
  eth_SigToPub :: "nat list \<Rightarrow> nat list \<Rightarrow> 'pub option"
  eth_AddressHex :: "'pub \<Rightarrow> string"

record VerifyInput =
  vi_Domain :: string
  vi_WalletAddress :: string
  vi_ChainID :: int64
  vi_ScanID :: string
  vi_PayloadSHA256 :: string
  vi_SignedMessage :: string
  vi_Signature :: string
  vi_Now :: gotime
  vi_ClockSkew :: duration

definition decodeSignature :: "string \<Rightarrow> string + nat list" where
  "decodeSignature signature =
     (let raw = TrimSpace signature in
      if raw = '''' then Inl ''signature is required''
      else
        let raw = (if HasPrefix raw ''0x'' \<or> HasPrefix raw ''0X'' then drop 2 raw else raw) in
        case hex_decode raw of
          None \<Rightarrow> Inl ''signature must be hex-encoded''
        | Some sig \<Rightarrow> if length sig \<noteq> 65 then Inl ''signature must be 65 bytes'' else Inr sig)"

definition RecoverSignerAddress :: "'pub eth \<Rightarrow> string \<Rightarrow> string \<Rightarrow> string + string" where
  "RecoverSignerAddress eth message signature =
     ebind (decodeSignature signature) (\<lambda>sig.
     let hash = eth_TextHash eth message in
     if length sig \<noteq> 65 then Inl ''invalid signature length''
     else
       let sig = (if 27 \<le> sig ! 64 then sig[64 := sig ! 64 - 27] else sig) in
       ebind (of_opt ''invalid signature'' (eth_SigToPub eth hash sig)) (\<lambda>pub.
       of_opt ''target_address must be a normalized EVM address''
         (NormalizeWalletTargetAddress (eth_AddressHex eth pub))))"

definition normalizedWalletForMessage :: "string \<Rightarrow> string" where
  "normalizedWalletForMessage address =
     (case NormalizeWalletTargetAddress address of None \<Rightarrow> TrimSpace address | Some norm \<Rightarrow> norm)"

definition validateFreshness :: "gotime \<Rightarrow> gotime \<Rightarrow> gotime \<Rightarrow> duration \<Rightarrow> VerificationError option" where
  "validateFreshness issuedAt expiresAt now skew =
     (if MaxValidityWindow < Sub expiresAt issuedAt
      then Some (verificationError CodeWalletAuthorizationValidityLong
        ''signed authorization validity window exceeds 10 minutes'')
      else if expiresAt < now
      then Some (verificationError CodeWalletAuthorizationExpired ''signed authorization has expired'')
      else if now + skew < issuedAt
      then Some (verificationError CodeWalletAuthorizationNotYetValid ''signed authorization is not yet valid'')
      else None)"

definition compareBindings :: "Fields \<Rightarrow> VerifyInput \<Rightarrow> VerificationError option" where
  "compareBindings parsed inp =
     (if fd_Action parsed \<noteq> ActionPersistCryptoPolicy
      then Some (verificationError CodeWalletAuthorizationActionMismatch ''signed authorization action mismatch'')
      else
        let wantSHA = TrimSpace (vi_PayloadSHA256 inp); gotSHA = TrimSpace (fd_PayloadSHA256 parsed) in
        if wantSHA = '''' \<or> gotSHA = '''' \<or> \<not> EqualFold wantSHA gotSHA
        then Some (verificationError CodePayloadSHA256Mismatch ''signed authorization payload_sha256 mismatch'')
        else if TrimSpace (fd_ScanID parsed) \<noteq> TrimSpace (vi_ScanID inp)
        then Some (verificationError CodeWalletAuthorizationScanMismatch ''signed authorization scan mismatch'')
        else if fd_ChainID parsed \<noteq> vi_ChainID inp
        then Some (verificationError CodeWalletAuthorizationChainMismatch ''signed authorization chain mismatch'')
        else case NormalizeWalletTargetAddress (vi_WalletAddress inp) of
          None \<Rightarrow> Some (verificationError CodeWalletAuthorizationWalletMismatch ''wallet address is invalid'')
        | Some wantWallet \<Rightarrow>
            (case NormalizeWalletTargetAddress (fd_WalletAddress parsed) of
               None \<Rightarrow> Some (verificationError CodeWalletAuthorizationWalletMismatch
                 ''signed authorization wallet mismatch'')
             | Some gotWallet \<Rightarrow>
                 if \<not> addressesEqual gotWallet wantWallet
                 then Some (verificationError CodeWalletAuthorizationWalletMismatch
                   ''signed authorization wallet mismatch'')
                 else None))"

definition expectedFields :: "VerifyInput \<Rightarrow> gotime \<Rightarrow> gotime \<Rightarrow> Fields" where
  "expectedFields inp issuedAt expiresAt =
     \<lparr>fd_Domain = vi_Domain inp, fd_Action = ActionPersistCryptoPolicy,
      fd_WalletAddress = normalizedWalletForMessage (vi_WalletAddress inp),
      fd_ChainID = vi_ChainID inp, fd_ScanID = TrimSpace (vi_ScanID inp),
      fd_PayloadSHA256 = TrimSpace (vi_PayloadSHA256 inp),
      fd_IssuedAt = issuedAt, fd_ExpiresAt = expiresAt\<rparr>"

text \<open>\<open>clock\<close> is what \<^verbatim>\<open>time.Now()\<close> returns, used when the input carries no time.\<close>

definition VerifyAuthorization :: "'pub eth \<Rightarrow> gotime \<Rightarrow> VerifyInput \<Rightarrow> VerificationError option" where
  "VerifyAuthorization eth clock inp =
     (if TrimSpace (vi_SignedMessage inp) = '''' \<or> TrimSpace (vi_Signature inp) = ''''
      then Some (verificationError CodeWalletControlProofRequired ''signed wallet authorization is required'')
      else case ParseMessage (vi_SignedMessage inp) of
        Inl _ \<Rightarrow> Some (verificationError CodeInvalidWalletSignature
          ''signed message is not a valid canonical authorization message'')
      | Inr parsed \<Rightarrow>
          let now = (if IsZero (vi_Now inp) then clock else vi_Now inp);
              skew = (if vi_ClockSkew inp \<le> 0 then DefaultClockSkew else vi_ClockSkew inp) in
          case validateFreshness (fd_IssuedAt parsed) (fd_ExpiresAt parsed) now skew of
            Some e \<Rightarrow> Some e
          | None \<Rightarrow>
              (case compareBindings parsed inp of
                 Some e \<Rightarrow> Some e
               | None \<Rightarrow>
                   if vi_SignedMessage inp \<noteq>
                      ExpectedMessageFromFields (expectedFields inp (fd_IssuedAt parsed) (fd_ExpiresAt parsed))
                   then Some (verificationError CodeInvalidWalletSignature
                     ''signed_message does not match the canonical authorization message'')
                   else case RecoverSignerAddress eth (vi_SignedMessage inp) (vi_Signature inp) of
                     Inl _ \<Rightarrow> Some (verificationError CodeInvalidWalletSignature ''wallet signature is invalid'')
                   | Inr recovered \<Rightarrow>
                       (case NormalizeWalletTargetAddress (vi_WalletAddress inp) of
                          None \<Rightarrow> Some (verificationError CodeWalletAuthorizationWalletMismatch
                            ''wallet address is invalid'')
                        | Some wantWallet \<Rightarrow>
                            if \<not> addressesEqual recovered wantWallet
                            then Some (verificationError CodeWalletSignatureAddressMismatch
                              ''recovered signer does not match wallet_address'')
                            else None)))"

section \<open>The message is parsed back\<close>

definition one_line :: "string \<Rightarrow> bool" where
  "one_line s \<longleftrightarrow> CHR 10 \<notin> set s"

definition fields_ok :: "Fields \<Rightarrow> bool" where
  "fields_ok f \<longleftrightarrow>
     one_line (TrimSpace (fd_Domain f)) \<and> one_line (TrimSpace (fd_Action f)) \<and>
     one_line (TrimSpace (fd_WalletAddress f)) \<and> one_line (TrimSpace (fd_ScanID f)) \<and>
     one_line (TrimSpace (fd_PayloadSHA256 f)) \<and> TrimSpace (fd_PayloadSHA256 f) \<noteq> '''' \<and>
     1 \<le> fd_ChainID f \<and> in_int64 (fd_ChainID f) \<and>
     rfc3339_range (fd_IssuedAt f) \<and> rfc3339_range (fd_ExpiresAt f)"

text \<open>What parsing returns: the fields trimmed, the times cut to seconds.\<close>

definition canonical_fields :: "Fields \<Rightarrow> Fields" where
  "canonical_fields f =
     \<lparr>fd_Domain = TrimSpace (fd_Domain f), fd_Action = TrimSpace (fd_Action f),
      fd_WalletAddress = TrimSpace (fd_WalletAddress f), fd_ChainID = fd_ChainID f,
      fd_ScanID = TrimSpace (fd_ScanID f), fd_PayloadSHA256 = TrimSpace (fd_PayloadSHA256 f),
      fd_IssuedAt = fd_IssuedAt f div second * second, fd_ExpiresAt = fd_ExpiresAt f div second * second\<rparr>"

lemma title_footer_one_line: "CHR 10 \<notin> set messageTitle" "CHR 10 \<notin> set messageFooter"
  by (simp_all add: messageTitle_def messageFooter_def)

lemma message_lines_one_line:
  assumes "fields_ok f" and "l \<in> set (message_lines f)"
  shows "CHR 10 \<notin> set l"
proof -
  have "CHR 10 \<notin> set (FormatInt (fd_ChainID f))" by (rule visible_no_newline[OF FormatInt_visible])
  moreover have "CHR 10 \<notin> set (FormatRFC3339 t)" for t by (rule visible_no_newline[OF FormatRFC3339_visible])
  ultimately show ?thesis
    using assms title_footer_one_line by (auto simp: message_lines_def fields_ok_def one_line_def)
qed

lemma Split_BuildMessage: "fields_ok f \<Longrightarrow> Split (BuildMessage f) (CHR 10) = message_lines f"
  unfolding BuildMessage_def
  by (rule Split_Join) (auto simp: message_lines_one_line, simp add: message_lines_def)

lemma readField_lines:
  "readField (message_lines f) ''Domain: '' = Inr (TrimSpace (fd_Domain f))"
  "readField (message_lines f) ''Action: '' = Inr (TrimSpace (fd_Action f))"
  "readField (message_lines f) ''Wallet: '' = Inr (TrimSpace (fd_WalletAddress f))"
  "readField (message_lines f) ''Chain ID: '' = Inr (FormatInt (fd_ChainID f))"
  "readField (message_lines f) ''Scan ID: '' = Inr (TrimSpace (fd_ScanID f))"
  "readField (message_lines f) ''Payload SHA-256: '' = Inr (TrimSpace (fd_PayloadSHA256 f))"
  "isl (readField (message_lines f) ''Draft ID: '')"
  "readField (message_lines f) ''Issued At: '' = Inr (FormatRFC3339 (fd_IssuedAt f))"
  "readField (message_lines f) ''Expiration Time: '' = Inr (FormatRFC3339 (fd_ExpiresAt f))"
  using TrimSpace_visible[OF FormatInt_visible[of "fd_ChainID f"]]
    TrimSpace_visible[OF FormatRFC3339_visible[of "fd_IssuedAt f"]]
    TrimSpace_visible[OF FormatRFC3339_visible[of "fd_ExpiresAt f"]]
  by (simp_all add: readField_def message_lines_def messageTitle_def messageFooter_def HasPrefix_def TrimPrefix_def)

lemma ebind_simps [simp]: "ebind (Inr a) f = f a" "ebind (Inl e) f = Inl e"
  by (simp_all add: ebind_def)

lemma check_simps [simp]: "check True e = Inr ()" "check False e = Inl e"
  by (simp_all add: check_def)

lemma title_footer_trimmed: "TrimSpace messageTitle = messageTitle" "TrimSpace messageFooter = messageFooter"
  by code_simp+

lemma message_lines_ends:
  "hd (message_lines f) = messageTitle" "last (message_lines f) = messageFooter" "length (message_lines f) = 12"
  by (simp_all add: message_lines_def)

lemma ParseMessage_BuildMessage: "fields_ok f \<Longrightarrow> ParseMessage (BuildMessage f) = Inr (canonical_fields f)"
  by (simp add: ParseMessage_def Split_BuildMessage Let_def message_lines_ends title_footer_trimmed readField_lines
      parseChainID_def fields_ok_def ParseInt_FormatInt ParseRFC3339_FormatRFC3339 of_opt_def canonical_fields_def)

section \<open>Which signed messages are accepted\<close>

lemma addressesEqual_norm: "normal_address b \<Longrightarrow> addressesEqual a b \<longleftrightarrow> NormalizeWalletTargetAddress a = Some b"
  by (rule auth_address.eq_canonical[OF Normalize_normal])

lemma compareBindings_None:
  "compareBindings parsed inp = None \<longleftrightarrow>
     fd_Action parsed = ActionPersistCryptoPolicy \<and>
     TrimSpace (vi_PayloadSHA256 inp) \<noteq> '''' \<and> TrimSpace (fd_PayloadSHA256 parsed) \<noteq> '''' \<and>
     EqualFold (TrimSpace (vi_PayloadSHA256 inp)) (TrimSpace (fd_PayloadSHA256 parsed)) \<and>
     TrimSpace (fd_ScanID parsed) = TrimSpace (vi_ScanID inp) \<and> fd_ChainID parsed = vi_ChainID inp \<and>
     (\<exists>w. NormalizeWalletTargetAddress (vi_WalletAddress inp) = Some w \<and>
          NormalizeWalletTargetAddress (fd_WalletAddress parsed) = Some w)"
proof -
  have "addressesEqual g w \<longleftrightarrow> g = w"
    if "NormalizeWalletTargetAddress a = Some g" "NormalizeWalletTargetAddress b = Some w" for a b g w
    using auth_address.eq_unique[OF Wallet_idem Wallet_idem] that by blast
  then show ?thesis
    by (auto simp: compareBindings_def Let_def split: option.splits if_splits)
qed

lemma RecoverSignerAddress_normal: "RecoverSignerAddress eth m s = Inr a \<Longrightarrow> normal_address a"
  by (auto simp: RecoverSignerAddress_def ebind_def of_opt_def Let_def Normalize_result
      split: sum.splits option.splits if_splits)

lemma validateFreshness_None:
  "validateFreshness i e now skew = None \<longleftrightarrow> e - i \<le> MaxValidityWindow \<and> now \<le> e \<and> i \<le> now + skew"
proof -
  have "MaxValidityWindow < Sub e i \<longleftrightarrow> MaxValidityWindow < e - i"
    using Sub_le_iff[of MaxValidityWindow e i] by (simp add: MaxValidityWindow_def second_def flip: not_le)
  then show ?thesis by (auto simp: validateFreshness_def)
qed

definition verify_now :: "gotime \<Rightarrow> VerifyInput \<Rightarrow> gotime" where
  "verify_now clock inp = (if IsZero (vi_Now inp) then clock else vi_Now inp)"

definition verify_skew :: "VerifyInput \<Rightarrow> duration" where
  "verify_skew inp = (if vi_ClockSkew inp \<le> 0 then DefaultClockSkew else vi_ClockSkew inp)"

lemma ExpectedMessage_eq:
  "ExpectedMessageFromFields (expectedFields inp i e) = BuildMessage (expectedFields inp i e)"
  by (simp add: ExpectedMessageFromFields_def expectedFields_def)

lemma VerifyAuthorization_None:
  "VerifyAuthorization eth clock inp = None \<longleftrightarrow>
     TrimSpace (vi_SignedMessage inp) \<noteq> '''' \<and> TrimSpace (vi_Signature inp) \<noteq> '''' \<and>
     (\<exists>parsed. ParseMessage (vi_SignedMessage inp) = Inr parsed \<and>
        validateFreshness (fd_IssuedAt parsed) (fd_ExpiresAt parsed) (verify_now clock inp) (verify_skew inp) = None \<and>
        compareBindings parsed inp = None \<and>
        vi_SignedMessage inp = BuildMessage (expectedFields inp (fd_IssuedAt parsed) (fd_ExpiresAt parsed)) \<and>
        (\<exists>w. RecoverSignerAddress eth (vi_SignedMessage inp) (vi_Signature inp) = Inr w \<and>
             NormalizeWalletTargetAddress (vi_WalletAddress inp) = Some w))"
    (is "?l \<longleftrightarrow> ?a \<and> ?b \<and> (\<exists>parsed. ?P parsed)")
proof (cases "ParseMessage (vi_SignedMessage inp)")
  case (Inl e)
  then show ?thesis by (simp add: VerifyAuthorization_def)
next
  case (Inr parsed)
  have eq: "addressesEqual r w \<longleftrightarrow> r = w"
    if "RecoverSignerAddress eth (vi_SignedMessage inp) (vi_Signature inp) = Inr r"
      "NormalizeWalletTargetAddress (vi_WalletAddress inp) = Some w" for r w
    using auth_address.eq_unique[OF Normalize_normal[OF RecoverSignerAddress_normal[OF that(1)]] Wallet_idem[OF that(2)]] .
  show ?thesis
    unfolding VerifyAuthorization_def Inr Let_def verify_now_def[symmetric] verify_skew_def[symmetric] ExpectedMessage_eq
    by (auto simp: eq split: option.split sum.split)
qed

lemma VerifyAuthorization_built:
  assumes m: "vi_SignedMessage inp = BuildMessage (expectedFields inp i e)"
    and f: "fields_ok (expectedFields inp i e)" and ie: "i mod second = 0" "e mod second = 0"
    and fresh: "e - i \<le> MaxValidityWindow" "verify_now clock inp \<le> e" "i \<le> verify_now clock inp + verify_skew inp"
    and w: "NormalizeWalletTargetAddress (vi_WalletAddress inp) = Some w"
    and s: "TrimSpace (vi_Signature inp) \<noteq> ''''" "RecoverSignerAddress eth (vi_SignedMessage inp) (vi_Signature inp) = Inr w"
  shows "VerifyAuthorization eth clock inp = None"
proof -
  let ?f = "expectedFields inp i e"
  have p: "ParseMessage (vi_SignedMessage inp) = Inr (canonical_fields ?f)"
    unfolding m by (rule ParseMessage_BuildMessage[OF f])
  have t: "i div second * second = i" "e div second * second = e" using ie by (simp_all add: mod_0_imp_dvd)
  have a: "TrimSpace ActionPersistCryptoPolicy = ActionPersistCryptoPolicy" by code_simp
  have nw: "normalizedWalletForMessage (vi_WalletAddress inp) = w" by (simp add: normalizedWalletForMessage_def w)
  have "TrimSpace w = w" "NormalizeWalletTargetAddress w = Some w"
    using normal_address_shape(1)[OF Normalize_result[OF w]] Wallet_idem[OF w] by simp_all
  then have "compareBindings (canonical_fields ?f) inp = None"
    using f w unfolding compareBindings_None
    by (simp add: canonical_fields_def expectedFields_def fields_ok_def a nw EqualFold_def)
  moreover have "TrimSpace (vi_SignedMessage inp) \<noteq> ''''"
  proof
    assume "TrimSpace (vi_SignedMessage inp) = ''''"
    moreover have "TrimSpace (vi_SignedMessage inp) = vi_SignedMessage inp"
      unfolding m by (rule TrimSpace_ends_visible)
        (simp_all add: BuildMessage_def message_lines_def messageTitle_def messageFooter_def visible_def byte_of_def)
    ultimately show False by (simp add: m BuildMessage_def message_lines_def messageTitle_def)
  qed
  moreover have "validateFreshness (fd_IssuedAt (canonical_fields ?f)) (fd_ExpiresAt (canonical_fields ?f))
      (verify_now clock inp) (verify_skew inp) = None"
    using fresh by (simp add: validateFreshness_None canonical_fields_def expectedFields_def t)
  moreover have "vi_SignedMessage inp = BuildMessage (expectedFields inp (fd_IssuedAt (canonical_fields ?f)) (fd_ExpiresAt (canonical_fields ?f)))"
    by (simp add: m canonical_fields_def expectedFields_def t)
  ultimately show ?thesis
    unfolding VerifyAuthorization_None using p w s by blast
qed

section \<open>Properties\<close>

text \<open>C31. The canonical message round trips: parsing a built message returns its fields, trimmed and with
  the times cut to whole seconds, whenever the fields fit on their lines, the digest is not blank,
  the chain id is a positive \<^verbatim>\<open>int64\<close> and the times have four-digit years.\<close>

theorem message_roundtrip:
  assumes "fields_ok f"
  shows "ParseMessage (BuildMessage f) = Inr (canonical_fields f)"
  by (rule ParseMessage_BuildMessage[OF assms])

text \<open>A concrete authorization: the wallet of the discovery contract test, ten minutes from
  2026-08-24T12:00:00Z, and an elliptic-curve stub that recovers that wallet from any signature.\<close>

definition sample_wallet :: string where
  "sample_wallet = ''0x0802b015613ef6701192811e595e085a9c560caf''"

definition sample_time :: gotime where
  "sample_time = (days_before_year 2026 + 235) * 86400 * second + 43200 * second"

definition sample_input :: VerifyInput where
  "sample_input =
     \<lparr>vi_Domain = ''cafe.example'', vi_WalletAddress = sample_wallet, vi_ChainID = 1,
      vi_ScanID = ''705c9704-9428-45e0-882d-fae4cb9d2a0b'', vi_PayloadSHA256 = ''deadbeef'',
      vi_SignedMessage = '''', vi_Signature = replicate 130 (CHR ''0''),
      vi_Now = sample_time + 5 * second, vi_ClockSkew = 0\<rparr>"

definition sample_fields :: Fields where
  "sample_fields = expectedFields sample_input sample_time (sample_time + 600 * second)"

definition sample_signed :: VerifyInput where
  "sample_signed = sample_input\<lparr>vi_SignedMessage := BuildMessage sample_fields\<rparr>"

definition stub_eth :: "unit eth" where
  "stub_eth = \<lparr>eth_TextHash = (\<lambda>m. map byte_of m), eth_SigToPub = (\<lambda>h s. Some ()), eth_AddressHex = (\<lambda>p. sample_wallet)\<rparr>"

lemma sample_wallet_normal: "NormalizeWalletTargetAddress sample_wallet = Some sample_wallet"
  by code_simp

lemma sample_fields_ok: "fields_ok sample_fields"
proof -
  have "list_all visible (vi_Domain sample_input)" "list_all visible ActionPersistCryptoPolicy"
    "list_all visible sample_wallet" "list_all visible (vi_ScanID sample_input)" "list_all visible (vi_PayloadSHA256 sample_input)"
    by code_simp+
  note v = this
  have "TrimSpace (vi_PayloadSHA256 sample_input) = ''deadbeef''" using TrimSpace_visible[OF v(5)] by (simp add: sample_input_def)
  moreover have "normalizedWalletForMessage (vi_WalletAddress sample_input) = sample_wallet"
    by (simp add: normalizedWalletForMessage_def sample_input_def sample_wallet_normal)
  ultimately show ?thesis
    using v visible_no_newline[OF v(1)] visible_no_newline[OF v(2)] visible_no_newline[OF v(3)] visible_no_newline[OF v(4)]
    by (simp add: fields_ok_def sample_fields_def expectedFields_def one_line_def TrimSpace_visible)
      (simp add: sample_input_def in_int64_def rfc3339_range_def sample_time_def second_def days_before_year_def)
qed

theorem message_roundtrip_witness:
  "ParseMessage (BuildMessage sample_fields) = Inr (canonical_fields sample_fields)"
  by (rule message_roundtrip[OF sample_fields_ok])

lemma sample_recovers: "RecoverSignerAddress stub_eth m (vi_Signature sample_input) = Inr sample_wallet"
proof -
  have "decodeSignature (vi_Signature sample_input) = Inr (replicate 65 0)" by code_simp
  then show ?thesis
    by (simp add: RecoverSignerAddress_def stub_eth_def of_opt_def sample_wallet_normal Let_def)
qed

text \<open>Any spelling of the wallet address does.\<close>

definition spelled :: "string \<Rightarrow> VerifyInput" where
  "spelled a = sample_signed\<lparr>vi_WalletAddress := a\<rparr>"

lemma sample_verifies:
  assumes a: "NormalizeWalletTargetAddress a = Some sample_wallet"
  shows "VerifyAuthorization stub_eth 0 (spelled a) = None"
proof (rule VerifyAuthorization_built[of _ sample_time "sample_time + 600 * second" _ sample_wallet])
  have e: "expectedFields (spelled a) sample_time (sample_time + 600 * second) = sample_fields"
    by (simp add: expectedFields_def spelled_def sample_signed_def sample_fields_def normalizedWalletForMessage_def a)
      (simp add: sample_input_def sample_wallet_normal)
  have now: "verify_now 0 (spelled a) = sample_time + 5 * second"
    by (simp add: verify_now_def spelled_def sample_signed_def sample_input_def IsZero_def zeroTime_def sample_time_def
        second_def days_before_year_def)
  show "vi_SignedMessage (spelled a) = BuildMessage (expectedFields (spelled a) sample_time (sample_time + 600 * second))"
    unfolding e by (simp add: spelled_def sample_signed_def)
  show "fields_ok (expectedFields (spelled a) sample_time (sample_time + 600 * second))"
    unfolding e by (rule sample_fields_ok)
  show "sample_time mod second = 0" "(sample_time + 600 * second) mod second = 0"
    by (simp_all add: sample_time_def)
  show "sample_time + 600 * second - sample_time \<le> MaxValidityWindow" by (simp add: MaxValidityWindow_def)
  show "verify_now 0 (spelled a) \<le> sample_time + 600 * second"
    "sample_time \<le> verify_now 0 (spelled a) + verify_skew (spelled a)"
    unfolding now by (simp_all add: second_def verify_skew_def DefaultClockSkew_def spelled_def sample_signed_def)
  show "NormalizeWalletTargetAddress (vi_WalletAddress (spelled a)) = Some sample_wallet"
    by (simp add: spelled_def a)
  have "TrimSpace (vi_Signature sample_input) \<noteq> ''''" by code_simp
  then show "TrimSpace (vi_Signature (spelled a)) \<noteq> ''''" by (simp add: spelled_def sample_signed_def)
  show "RecoverSignerAddress stub_eth (vi_SignedMessage (spelled a)) (vi_Signature (spelled a)) = Inr sample_wallet"
    using sample_recovers by (simp add: spelled_def sample_signed_def)
qed

text \<open>C12. Soundness of the verification: an accepted authorization carries a valid wallet address, its
  signed message is, byte for byte, the canonical message for the expected domain, wallet, chain,
  scan and payload digest with some validity window, that window is at most ten minutes and
  contains the present up to the clock skew, and the signature recovers to that wallet.\<close>

theorem verify_sound:
  assumes "VerifyAuthorization eth clock inp = None"
  shows "\<exists>w i e. NormalizeWalletTargetAddress (vi_WalletAddress inp) = Some w \<and>
    vi_SignedMessage inp = BuildMessage (expectedFields inp i e) \<and>
    e - i \<le> MaxValidityWindow \<and> verify_now clock inp \<le> e \<and> i \<le> verify_now clock inp + verify_skew inp \<and>
    TrimSpace (vi_PayloadSHA256 inp) \<noteq> '''' \<and>
    RecoverSignerAddress eth (vi_SignedMessage inp) (vi_Signature inp) = Inr w"
  using assms unfolding VerifyAuthorization_None compareBindings_None validateFreshness_None by blast

theorem verify_sound_witness:
  "\<exists>w i e. NormalizeWalletTargetAddress (vi_WalletAddress (spelled sample_wallet)) = Some w \<and>
    vi_SignedMessage (spelled sample_wallet) = BuildMessage (expectedFields (spelled sample_wallet) i e) \<and>
    e - i \<le> MaxValidityWindow \<and> verify_now 0 (spelled sample_wallet) \<le> e \<and>
    i \<le> verify_now 0 (spelled sample_wallet) + verify_skew (spelled sample_wallet) \<and>
    TrimSpace (vi_PayloadSHA256 (spelled sample_wallet)) \<noteq> '''' \<and>
    RecoverSignerAddress stub_eth (vi_SignedMessage (spelled sample_wallet)) (vi_Signature (spelled sample_wallet)) = Inr w"
  by (rule verify_sound[OF sample_verifies[OF sample_wallet_normal]])

text \<open>C30. One signature, one purpose: the same signed message cannot be accepted for two different
  purposes. Two accepted authorizations with the same signed message agree on the payload digest
  (up to letter case), the scan, the chain and the wallet.\<close>

theorem signed_message_binds:
  assumes "VerifyAuthorization eth clock inp = None" and "VerifyAuthorization eth clock' inp' = None"
    and "vi_SignedMessage inp = vi_SignedMessage inp'"
  shows "EqualFold (TrimSpace (vi_PayloadSHA256 inp)) (TrimSpace (vi_PayloadSHA256 inp')) \<and>
    TrimSpace (vi_ScanID inp) = TrimSpace (vi_ScanID inp') \<and> vi_ChainID inp = vi_ChainID inp' \<and>
    NormalizeWalletTargetAddress (vi_WalletAddress inp) = NormalizeWalletTargetAddress (vi_WalletAddress inp')"
  using assms unfolding VerifyAuthorization_None compareBindings_None EqualFold_def by (metis sum.inject(2))

lemma sample_hex_normal: "NormalizeWalletTargetAddress sample_hex = Some sample_wallet"
  by code_simp

theorem signed_message_binds_witness:
  "EqualFold (TrimSpace (vi_PayloadSHA256 (spelled sample_hex))) (TrimSpace (vi_PayloadSHA256 (spelled sample_wallet))) \<and>
    TrimSpace (vi_ScanID (spelled sample_hex)) = TrimSpace (vi_ScanID (spelled sample_wallet)) \<and>
    vi_ChainID (spelled sample_hex) = vi_ChainID (spelled sample_wallet) \<and>
    NormalizeWalletTargetAddress (vi_WalletAddress (spelled sample_hex)) =
      NormalizeWalletTargetAddress (vi_WalletAddress (spelled sample_wallet))"
  by (rule signed_message_binds[OF sample_verifies[OF sample_hex_normal] sample_verifies[OF sample_wallet_normal]])
    (simp add: spelled_def)

end
