(* ===== verification/Provider_Manifest.thy ===== *)
theory Provider_Manifest
  imports Go_Text
begin

text \<open>
  The Capability Provider manifest of \<^verbatim>\<open>internal/domain/provider/manifest.go\<close>: its structs as
  records, \<^verbatim>\<open>Normalize\<close>, \<^verbatim>\<open>Validate\<close> and their composition, the pinning of references and the check
  of the suggested user constraints. The string-typed enumerations of the source (\<^verbatim>\<open>Maturity\<close>,
  \<^verbatim>\<open>ClaimStatus\<close>, \<^verbatim>\<open>KeyRotationModel\<close>, \<^verbatim>\<open>ChainSupportStatus\<close>, \<^verbatim>\<open>ReferenceKind\<close>) stay strings, since
  any string can be decoded into them. The lemmas show that an accepted manifest satisfies the
  declarative \<open>manifest_wf\<close> and is in normal form.
\<close>

section \<open>Constants and data\<close>

definition SchemaVersionV01 :: string where
  "SchemaVersionV01 = ''cafe.provider_manifest.v0.1''"

definition UnpinnedPendingFixture :: string where
  "UnpinnedPendingFixture = ''unpinned_pending_fixture''"

definition maturities :: "string list" where
  "maturities = [''research'', ''testnet'', ''production'']"

definition claim_statuses :: "string list" where
  "claim_statuses = [''declared'', ''cafe_reviewed'', ''externally_audited'', ''executed_observed'']"

definition postures :: "string list" where
  "postures = [''classical_only'', ''hybrid'', ''full_pq'']"

definition KeyRotationNone :: string where "KeyRotationNone = ''none''"
definition KeyRotationPerUserOp :: string where "KeyRotationPerUserOp = ''per_userop''"

definition rotation_models :: "string list" where
  "rotation_models = [''none'', ''per_userop'']"

definition ChainStatusPlanned :: string where
  "ChainStatusPlanned = ''planned''"

definition chain_statuses :: "string list" where
  "chain_statuses = [''testnet_supported'', ''planned'', ''production_supported'']"

definition reference_kinds :: "string list" where
  "reference_kinds = [''source_repo'', ''protocol_spec'']"

record SuggestedUserConstraints =
  su_AllowNewWallet :: bool
  su_AddressContinuityRequired :: bool
  su_KeyRotationModel :: string

record InputRequirements =
  ir_WalletTypes :: "string list"
  ir_RequiresWalletControlProof :: bool

record SignatureProfile =
  sig_Scheme :: string
  sig_Family :: string
  sig_KeyRotationModel :: string

record AccountModel =
  am_Standard :: string
  am_ExecutionModel :: string
  am_RequiresBundler :: bool
  am_RequiresEntrypoint :: bool
  am_EntrypointVersions :: "string list"

record ProfileConstraints =
  pc_RequiresNewAccount :: bool
  pc_AddressContinuitySupported :: bool
  pc_RequiresLocalSignerState :: bool

record ChainSupport =
  cs_ChainID :: int64
  cs_Network :: string
  cs_Status :: string
  cs_Capabilities :: "string list"

record Reference =
  ref_Kind :: string
  ref_URL :: string
  ref_Commit :: string
  ref_Version :: string

record SolutionProfile =
  sp_SolutionProfileID :: string
  sp_DisplayName :: string
  sp_Maturity :: string
  sp_ClaimStatus :: string
  sp_ResultingPosture :: string
  sp_InputRequirements :: InputRequirements
  sp_Signature :: SignatureProfile
  sp_AccountModel :: AccountModel
  sp_Constraints :: ProfileConstraints
  sp_SuggestedUserConstraints :: "SuggestedUserConstraints option"
  sp_ChainSupport :: "ChainSupport list"
  sp_References :: "Reference list"
  sp_RiskNotes :: "string list"

record ProviderManifest =
  pm_SchemaVersion :: string
  pm_ProviderID :: string
  pm_ProviderName :: string
  pm_ProviderVersion :: string
  pm_ProviderMaturity :: string
  pm_Website :: string
  pm_SolutionProfiles :: "SolutionProfile list"

text \<open>The errors of the package: the sentinel with the text after it, and the wrapping that adds
  the index of the profile.\<close>

datatype manifest_error =
    ErrInvalidManifest string
  | ErrClaimStatusInvalid string
  | ErrInProfile nat manifest_error

section \<open>Normalisation\<close>

fun dedupeStrings_loop :: "string list \<Rightarrow> string list \<Rightarrow> string list" where
  "dedupeStrings_loop seen [] = []"
| "dedupeStrings_loop seen (s # rest) =
     (let s = TrimSpace s in
      if s = '''' then dedupeStrings_loop seen rest
      else if s \<in> set seen then dedupeStrings_loop seen rest
      else s # dedupeStrings_loop (s # seen) rest)"

definition dedupeStrings :: "string list \<Rightarrow> string list" where
  "dedupeStrings xs = dedupeStrings_loop [] xs"

lemma dedupeStrings_loop_eq:
  "dedupeStrings_loop seen xs = dedupe_by (\<lambda>s. s) seen (filter (\<lambda>s. s \<noteq> []) (map TrimSpace xs))"
  by (induction seen xs rule: dedupeStrings_loop.induct) (auto simp: Let_def)

lemma dedupeStrings_set: "set (dedupeStrings xs) = TrimSpace ` set xs - {[]}"
  by (auto simp: dedupeStrings_def dedupeStrings_loop_eq)

lemma dedupeStrings_distinct: "distinct (dedupeStrings xs)"
  by (simp add: dedupeStrings_def dedupeStrings_loop_eq)

lemma dedupeStrings_trimmed: "s \<in> set (dedupeStrings xs) \<Longrightarrow> TrimSpace s = s"
  by (auto simp: dedupeStrings_set)

lemma dedupeStrings_idem [simp]: "dedupeStrings (dedupeStrings xs) = dedupeStrings xs"
proof -
  let ?d = "dedupeStrings xs"
  have "map TrimSpace ?d = ?d"
    by (rule map_idI) (rule dedupeStrings_trimmed)
  moreover have "filter (\<lambda>s. s \<noteq> []) ?d = ?d"
    by (rule filter_True) (auto simp: dedupeStrings_set)
  ultimately show ?thesis
    by (simp add: dedupeStrings_def[of ?d] dedupeStrings_loop_eq dedupe_id_distinct_id
        dedupeStrings_distinct)
qed

definition normalizeChainSupport :: "ChainSupport \<Rightarrow> ChainSupport" where
  "normalizeChainSupport c =
     c\<lparr>cs_Network := TrimSpace (cs_Network c),
       cs_Status := TrimSpace (cs_Status c),
       cs_Capabilities := dedupeStrings (cs_Capabilities c)\<rparr>"

definition normalizeReference :: "Reference \<Rightarrow> Reference" where
  "normalizeReference r =
     r\<lparr>ref_Kind := TrimSpace (ref_Kind r),
       ref_URL := TrimSpace (ref_URL r),
       ref_Commit := TrimSpace (ref_Commit r),
       ref_Version := TrimSpace (ref_Version r)\<rparr>"

definition normalizeSuggested :: "SuggestedUserConstraints \<Rightarrow> SuggestedUserConstraints" where
  "normalizeSuggested s = s\<lparr>su_KeyRotationModel := TrimSpace (su_KeyRotationModel s)\<rparr>"

definition normalizeSignature :: "SignatureProfile \<Rightarrow> SignatureProfile" where
  "normalizeSignature s =
     s\<lparr>sig_Scheme := TrimSpace (sig_Scheme s),
       sig_Family := TrimSpace (sig_Family s),
       sig_KeyRotationModel := TrimSpace (sig_KeyRotationModel s)\<rparr>"

definition normalizeAccountModel :: "AccountModel \<Rightarrow> AccountModel" where
  "normalizeAccountModel a =
     a\<lparr>am_Standard := TrimSpace (am_Standard a),
       am_ExecutionModel := TrimSpace (am_ExecutionModel a),
       am_EntrypointVersions := dedupeStrings (am_EntrypointVersions a)\<rparr>"

definition normalizeInputRequirements :: "InputRequirements \<Rightarrow> InputRequirements" where
  "normalizeInputRequirements r = r\<lparr>ir_WalletTypes := dedupeStrings (ir_WalletTypes r)\<rparr>"

definition normalizeSolutionProfile :: "SolutionProfile \<Rightarrow> SolutionProfile" where
  "normalizeSolutionProfile p =
     p\<lparr>sp_SolutionProfileID := TrimSpace (sp_SolutionProfileID p),
       sp_DisplayName := TrimSpace (sp_DisplayName p),
       sp_Maturity := TrimSpace (sp_Maturity p),
       sp_ClaimStatus := TrimSpace (sp_ClaimStatus p),
       sp_ResultingPosture := TrimSpace (sp_ResultingPosture p),
       sp_InputRequirements := normalizeInputRequirements (sp_InputRequirements p),
       sp_Signature := normalizeSignature (sp_Signature p),
       sp_AccountModel := normalizeAccountModel (sp_AccountModel p),
       sp_SuggestedUserConstraints := map_option normalizeSuggested (sp_SuggestedUserConstraints p),
       sp_ChainSupport := map normalizeChainSupport (sp_ChainSupport p),
       sp_References := map normalizeReference (sp_References p),
       sp_RiskNotes := dedupeStrings (sp_RiskNotes p)\<rparr>"

definition Normalize :: "ProviderManifest \<Rightarrow> ProviderManifest" where
  "Normalize m =
     m\<lparr>pm_SchemaVersion := TrimSpace (pm_SchemaVersion m),
       pm_ProviderID := TrimSpace (pm_ProviderID m),
       pm_ProviderName := TrimSpace (pm_ProviderName m),
       pm_ProviderVersion := TrimSpace (pm_ProviderVersion m),
       pm_ProviderMaturity := TrimSpace (pm_ProviderMaturity m),
       pm_Website := TrimSpace (pm_Website m),
       pm_SolutionProfiles := map normalizeSolutionProfile (pm_SolutionProfiles m)\<rparr>"

lemmas profile_norm_defs =
  normalizeChainSupport_def normalizeReference_def normalizeSuggested_def normalizeSignature_def
  normalizeAccountModel_def normalizeInputRequirements_def

lemma profile_parts_idem [simp]:
  "normalizeChainSupport (normalizeChainSupport c) = normalizeChainSupport c"
  "normalizeReference (normalizeReference r) = normalizeReference r"
  "normalizeSuggested (normalizeSuggested s) = normalizeSuggested s"
  "normalizeSignature (normalizeSignature g) = normalizeSignature g"
  "normalizeAccountModel (normalizeAccountModel a) = normalizeAccountModel a"
  "normalizeInputRequirements (normalizeInputRequirements q) = normalizeInputRequirements q"
  by (simp_all add: profile_norm_defs)

lemma normalizeSolutionProfile_idem [simp]:
  "normalizeSolutionProfile (normalizeSolutionProfile p) = normalizeSolutionProfile p"
  by (simp add: normalizeSolutionProfile_def option.map_comp comp_def)

lemma Normalize_idem [simp]: "Normalize (Normalize m) = Normalize m"
  by (simp add: Normalize_def comp_def)

section \<open>Validation\<close>

definition validateChainSupport :: "nat \<Rightarrow> ChainSupport \<Rightarrow> manifest_error option" where
  "validateChainSupport i c =
     (if cs_ChainID c \<le> 0 \<or> cs_Network c = '''' \<or> \<not> oneOf (cs_Status c) chain_statuses
      then Some (ErrInvalidManifest (''chain_support['' @ FormatInt (int i) @ '']''))
      else None)"

definition validateReference :: "nat \<Rightarrow> Reference \<Rightarrow> manifest_error option" where
  "validateReference i r =
     (if \<not> oneOf (ref_Kind r) reference_kinds \<or> ref_URL r = ''''
      then Some (ErrInvalidManifest (''references['' @ FormatInt (int i) @ '']''))
      else None)"

definition validateSolutionProfile :: "SolutionProfile \<Rightarrow> manifest_error option" where
  "validateSolutionProfile p =
     (if sp_SolutionProfileID p = '''' \<or> sp_DisplayName p = ''''
      then Some (ErrInvalidManifest ''solution_profile_id and display_name required'')
      else if \<not> oneOf (sp_Maturity p) maturities
      then Some (ErrInvalidManifest (''maturity '' @ Quote (sp_Maturity p)))
      else if sp_ClaimStatus p = ''''
      then Some (ErrInvalidManifest ''claim_status required'')
      else if \<not> oneOf (sp_ClaimStatus p) claim_statuses
      then Some (ErrClaimStatusInvalid (Quote (sp_ClaimStatus p)))
      else if \<not> oneOf (sp_ResultingPosture p) postures
      then Some (ErrInvalidManifest (''resulting_posture '' @ Quote (sp_ResultingPosture p)))
      else if ir_WalletTypes (sp_InputRequirements p) = []
      then Some (ErrInvalidManifest ''wallet_types required'')
      else if sig_Scheme (sp_Signature p) = '''' \<or> sig_Family (sp_Signature p) = ''''
      then Some (ErrInvalidManifest ''signature scheme and family required'')
      else if \<not> oneOf (sig_KeyRotationModel (sp_Signature p)) rotation_models
      then Some (ErrInvalidManifest
        (''key_rotation_model '' @ Quote (sig_KeyRotationModel (sp_Signature p))))
      else if am_Standard (sp_AccountModel p) = '''' \<or> am_ExecutionModel (sp_AccountModel p) = ''''
      then Some (ErrInvalidManifest ''account_model fields required'')
      else if sp_ChainSupport p = []
      then Some (ErrInvalidManifest ''chain_support required'')
      else case first_err_at validateChainSupport 0 (sp_ChainSupport p) of
        Some e \<Rightarrow> Some e
      | None \<Rightarrow>
          (case first_err_at validateReference 0 (sp_References p) of
             Some e \<Rightarrow> Some e
           | None \<Rightarrow>
               (case sp_SuggestedUserConstraints p of
                  None \<Rightarrow> None
                | Some s \<Rightarrow>
                    if \<not> oneOf (su_KeyRotationModel s) rotation_models
                    then Some (ErrInvalidManifest
                      (''suggested_user_constraints.key_rotation_model '' @
                       Quote (su_KeyRotationModel s)))
                    else None)))"

fun validateProfiles :: "string list \<Rightarrow> nat \<Rightarrow> SolutionProfile list \<Rightarrow> manifest_error option" where
  "validateProfiles seen i [] = None"
| "validateProfiles seen i (p # ps) =
     (case validateSolutionProfile p of
        Some e \<Rightarrow> Some (ErrInProfile i e)
      | None \<Rightarrow>
          if sp_SolutionProfileID p \<in> set seen
          then Some (ErrInvalidManifest
            (''duplicate solution_profile_id '' @ Quote (sp_SolutionProfileID p)))
          else validateProfiles (sp_SolutionProfileID p # seen) (Suc i) ps)"

definition Validate :: "ProviderManifest option \<Rightarrow> manifest_error option" where
  "Validate mo =
     (case mo of
        None \<Rightarrow> Some (ErrInvalidManifest ''nil'')
      | Some m \<Rightarrow>
          if pm_SchemaVersion m \<noteq> SchemaVersionV01
          then Some (ErrInvalidManifest (''schema_version '' @ Quote (pm_SchemaVersion m)))
          else if pm_ProviderID m = '''' \<or> pm_ProviderName m = '''' \<or> pm_ProviderVersion m = ''''
          then Some (ErrInvalidManifest ''provider identity fields required'')
          else if \<not> oneOf (pm_ProviderMaturity m) maturities
          then Some (ErrInvalidManifest (''provider_maturity '' @ Quote (pm_ProviderMaturity m)))
          else if pm_SolutionProfiles m = []
          then Some (ErrInvalidManifest ''solution_profiles required'')
          else validateProfiles [] 0 (pm_SolutionProfiles m))"

definition NormalizeAndValidate :: "ProviderManifest \<Rightarrow> manifest_error + ProviderManifest" where
  "NormalizeAndValidate m =
     (case Validate (Some (Normalize m)) of
        None \<Rightarrow> Inr (Normalize m)
      | Some e \<Rightarrow> Inl e)"

interpretation manifest: normalized_loader Normalize "\<lambda>m. Validate (Some m)" NormalizeAndValidate
  by unfold_locales (simp_all add: NormalizeAndValidate_def)

section \<open>References and suggested constraints\<close>

definition IsUnpinned :: "Reference \<Rightarrow> bool" where
  "IsUnpinned r =
     (if ref_Commit r = UnpinnedPendingFixture \<or> ref_Version r = UnpinnedPendingFixture then True
      else ref_Commit r = '''' \<and> ref_Version r = '''')"

definition HasUnpinnedReferences :: "ProviderManifest option \<Rightarrow> bool" where
  "HasUnpinnedReferences mo =
     (case mo of
        None \<Rightarrow> False
      | Some m \<Rightarrow> list_ex (\<lambda>p. list_ex IsUnpinned (sp_References p)) (pm_SolutionProfiles m))"

datatype suggested_error =
    ContradictNewWallet
  | ContradictContinuity
  | ContradictRotation string string

definition suggested_error_string :: "suggested_error \<Rightarrow> string" where
  "suggested_error_string e =
     ''suggested_user_constraints contradict profile constraints: '' @
     (case e of
        ContradictNewWallet \<Rightarrow>
          ''allow_new_wallet=false but constraints.requires_new_account=true''
      | ContradictContinuity \<Rightarrow>
          ''address_continuity_required=true but constraints.address_continuity_supported=false''
      | ContradictRotation s g \<Rightarrow>
          ''key_rotation_model '' @ Quote s @ '' does not match signature.key_rotation_model '' @ Quote g)"

definition ValidateSuggestedUserConstraints :: "SolutionProfile option \<Rightarrow> suggested_error option" where
  "ValidateSuggestedUserConstraints po =
     (case po of
        None \<Rightarrow> None
      | Some p \<Rightarrow>
          (case sp_SuggestedUserConstraints p of
             None \<Rightarrow> None
           | Some s \<Rightarrow>
               if \<not> su_AllowNewWallet s \<and> pc_RequiresNewAccount (sp_Constraints p)
               then Some ContradictNewWallet
               else if su_AddressContinuityRequired s \<and>
                       \<not> pc_AddressContinuitySupported (sp_Constraints p)
               then Some ContradictContinuity
               else if su_KeyRotationModel s \<noteq> '''' \<and>
                       su_KeyRotationModel s \<noteq> sig_KeyRotationModel (sp_Signature p)
               then Some (ContradictRotation (su_KeyRotationModel s)
                            (sig_KeyRotationModel (sp_Signature p)))
               else None))"

section \<open>What an accepted manifest satisfies\<close>

text \<open>The declarative reading of the checks.\<close>

definition chain_support_wf :: "ChainSupport \<Rightarrow> bool" where
  "chain_support_wf c \<longleftrightarrow>
     0 < cs_ChainID c \<and> cs_Network c \<noteq> '''' \<and> cs_Status c \<in> set chain_statuses"

definition reference_wf :: "Reference \<Rightarrow> bool" where
  "reference_wf r \<longleftrightarrow> ref_Kind r \<in> set reference_kinds \<and> ref_URL r \<noteq> ''''"

definition profile_wf :: "SolutionProfile \<Rightarrow> bool" where
  "profile_wf p \<longleftrightarrow>
     sp_SolutionProfileID p \<noteq> '''' \<and> sp_DisplayName p \<noteq> '''' \<and>
     sp_Maturity p \<in> set maturities \<and>
     sp_ClaimStatus p \<in> set claim_statuses \<and>
     sp_ResultingPosture p \<in> set postures \<and>
     ir_WalletTypes (sp_InputRequirements p) \<noteq> [] \<and>
     sig_Scheme (sp_Signature p) \<noteq> '''' \<and> sig_Family (sp_Signature p) \<noteq> '''' \<and>
     sig_KeyRotationModel (sp_Signature p) \<in> set rotation_models \<and>
     am_Standard (sp_AccountModel p) \<noteq> '''' \<and> am_ExecutionModel (sp_AccountModel p) \<noteq> '''' \<and>
     sp_ChainSupport p \<noteq> [] \<and>
     (\<forall>c \<in> set (sp_ChainSupport p). chain_support_wf c) \<and>
     (\<forall>r \<in> set (sp_References p). reference_wf r) \<and>
     (\<forall>s. sp_SuggestedUserConstraints p = Some s \<longrightarrow> su_KeyRotationModel s \<in> set rotation_models)"

definition manifest_wf :: "ProviderManifest \<Rightarrow> bool" where
  "manifest_wf m \<longleftrightarrow>
     pm_SchemaVersion m = SchemaVersionV01 \<and>
     pm_ProviderID m \<noteq> '''' \<and> pm_ProviderName m \<noteq> '''' \<and> pm_ProviderVersion m \<noteq> '''' \<and>
     pm_ProviderMaturity m \<in> set maturities \<and>
     pm_SolutionProfiles m \<noteq> [] \<and>
     (\<forall>p \<in> set (pm_SolutionProfiles m). profile_wf p) \<and>
     distinct (map sp_SolutionProfileID (pm_SolutionProfiles m))"

lemma validateChainSupport_None: "validateChainSupport i c = None \<longleftrightarrow> chain_support_wf c"
  by (auto simp: validateChainSupport_def chain_support_wf_def oneOf_def)

lemma validateReference_None: "validateReference i r = None \<longleftrightarrow> reference_wf r"
  by (auto simp: validateReference_def reference_wf_def oneOf_def)

lemma claim_statuses_nonempty: "s \<in> set claim_statuses \<Longrightarrow> s \<noteq> ''''"
  by (auto simp: claim_statuses_def)

lemma validateSolutionProfile_None: "validateSolutionProfile p = None \<longleftrightarrow> profile_wf p"
proof -
  have c: "first_err_at validateChainSupport 0 (sp_ChainSupport p) = None \<longleftrightarrow>
      (\<forall>c \<in> set (sp_ChainSupport p). chain_support_wf c)"
    by (rule first_err_at_const_None) (rule validateChainSupport_None)
  have r: "first_err_at validateReference 0 (sp_References p) = None \<longleftrightarrow>
      (\<forall>r \<in> set (sp_References p). reference_wf r)"
    by (rule first_err_at_const_None) (rule validateReference_None)
  show ?thesis
    unfolding profile_wf_def c[symmetric] r[symmetric]
    using claim_statuses_nonempty[of "sp_ClaimStatus p"]
    by (auto simp: validateSolutionProfile_def oneOf_def split: option.splits)
qed

lemma validateProfiles_None:
  "validateProfiles seen i ps = None \<longleftrightarrow>
     (\<forall>p \<in> set ps. profile_wf p) \<and> distinct (map sp_SolutionProfileID ps) \<and>
     sp_SolutionProfileID ` set ps \<inter> set seen = {}"
proof (induction seen i ps rule: validateProfiles.induct)
  case (2 seen i p ps)
  show ?case
  proof (cases "validateSolutionProfile p")
    case None
    then have "profile_wf p" by (simp add: validateSolutionProfile_None)
    with None 2 show ?thesis by (auto simp: image_iff)
  next
    case (Some e)
    then have "\<not> profile_wf p" by (simp flip: validateSolutionProfile_None)
    with Some show ?thesis by simp
  qed
qed simp

lemma Validate_wf: "Validate (Some m) = None \<longleftrightarrow> manifest_wf m"
  by (auto simp: Validate_def manifest_wf_def oneOf_def validateProfiles_None)

section \<open>A concrete manifest\<close>

text \<open>The NiceTry provider of \<^verbatim>\<open>testdata/provider_manifest_nicetry_v0_1.json\<close>, with three of its chains,
  one of them turned to \<^verbatim>\<open>planned\<close>, one reference and one risk note. The witnesses use it.\<close>

definition nicetry_caps :: "string list" where
  "nicetry_caps = [''deploy'', ''sign_userop'', ''rotate_signer'']"

definition nicetry_chains :: "ChainSupport list" where
  "nicetry_chains =
     [\<lparr>cs_ChainID = 11155111, cs_Network = ''sepolia'', cs_Status = ''testnet_supported'',
       cs_Capabilities = nicetry_caps\<rparr>,
      \<lparr>cs_ChainID = 1, cs_Network = ''ethereum-mainnet'', cs_Status = ''production_supported'',
       cs_Capabilities = nicetry_caps\<rparr>,
      \<lparr>cs_ChainID = 137, cs_Network = ''polygon'', cs_Status = ''planned'',
       cs_Capabilities = nicetry_caps\<rparr>]"

definition nicetry_profile :: SolutionProfile where
  "nicetry_profile =
     \<lparr>sp_SolutionProfileID = ''nicetry.fors_c.erc4337.v0_1'',
      sp_DisplayName = ''NiceTry FORS+C ERC-4337 Smart Account'',
      sp_Maturity = ''research'', sp_ClaimStatus = ''declared'', sp_ResultingPosture = ''hybrid'',
      sp_InputRequirements = \<lparr>ir_WalletTypes = [''EOA''], ir_RequiresWalletControlProof = True\<rparr>,
      sp_Signature = \<lparr>sig_Scheme = ''FORS+C'', sig_Family = ''hash_based'',
        sig_KeyRotationModel = ''per_userop''\<rparr>,
      sp_AccountModel = \<lparr>am_Standard = ''ERC-4337'', am_ExecutionModel = ''erc4337_bundler'',
        am_RequiresBundler = True, am_RequiresEntrypoint = True, am_EntrypointVersions = [''0.7'']\<rparr>,
      sp_Constraints = \<lparr>pc_RequiresNewAccount = True, pc_AddressContinuitySupported = False,
        pc_RequiresLocalSignerState = True\<rparr>,
      sp_SuggestedUserConstraints = Some \<lparr>su_AllowNewWallet = True,
        su_AddressContinuityRequired = False, su_KeyRotationModel = ''per_userop''\<rparr>,
      sp_ChainSupport = nicetry_chains,
      sp_References =
        [\<lparr>ref_Kind = ''source_repo'', ref_URL = ''https://github.com/RivaLabs-Core/NiceTry'',
          ref_Commit = ''40a1286d18dee2a92631da82a52e484fa9a3628c'', ref_Version = ''''\<rparr>],
      sp_RiskNotes = [''FORS+C parameters are still presented as tunable.'']\<rparr>"

definition nicetry_manifest :: ProviderManifest where
  "nicetry_manifest =
     \<lparr>pm_SchemaVersion = ''cafe.provider_manifest.v0.1'', pm_ProviderID = ''nicetry'',
      pm_ProviderName = ''NiceTry'', pm_ProviderVersion = ''2026-08'',
      pm_ProviderMaturity = ''research'', pm_Website = ''https://nicetry.xyz'',
      pm_SolutionProfiles = [nicetry_profile]\<rparr>"

text \<open>The same manifest as an operator might type it, with blanks around the fields.\<close>

definition nicetry_raw :: ProviderManifest where
  "nicetry_raw = nicetry_manifest\<lparr>pm_ProviderID := '' nicetry '', pm_Website := ''https://nicetry.xyz ''\<rparr>"

lemma nicetry_load: "NormalizeAndValidate nicetry_raw = Inr nicetry_manifest"
  by code_simp

lemma nicetry_normal: "Normalize nicetry_manifest = nicetry_manifest"
  by code_simp

lemma nicetry_valid: "Validate (Some nicetry_manifest) = None"
  by code_simp

section \<open>Properties\<close>

text \<open>C37. A manifest accepted by \<^verbatim>\<open>NormalizeAndValidate\<close> satisfies every rule of the manifest schema
  (identity, maturity and claim vocabularies, at least one profile, distinct profile ids, well-formed
  chains, references and suggestions), is in normal form, and loads again as itself.\<close>

theorem manifest_load_sound:
  assumes "NormalizeAndValidate m = Inr m'"
  shows "manifest_wf m' \<and> Normalize m' = m' \<and> NormalizeAndValidate m' = Inr m'"
  using manifest.load_valid[OF assms] manifest.load_canonical[OF assms] manifest.load_again[OF assms]
  by (simp add: Validate_wf)

theorem manifest_load_sound_witness:
  "manifest_wf nicetry_manifest \<and> Normalize nicetry_manifest = nicetry_manifest \<and>
   NormalizeAndValidate nicetry_manifest = Inr nicetry_manifest"
  by (rule manifest_load_sound[OF nicetry_load])

end
