(* ===== verification/Provider_Compat.thy ===== *)
theory Provider_Compat
  imports Provider_Manifest
begin

text \<open>
  The compatibility evaluators of \<^verbatim>\<open>internal/domain/provider\<close>: \<^verbatim>\<open>hard_compat.go\<close> (the combined hard
  gate), \<^verbatim>\<open>scan_compat.go\<close> (couche A, against a scan), \<^verbatim>\<open>user_compat.go\<close> (couche B, against the
  user's choices) and \<^verbatim>\<open>soft_compat.go\<close>. Each returns the list of its findings in the source's order;
  a finding carries the source's code, rendered message and field. The lemmas characterise when an
  evaluator reports nothing and relate the combined gate to the two couches; the interface
  \<open>finding_evaluator\<close> states what "reports nothing" means for a client.
\<close>

section \<open>Findings\<close>

definition FindingCodeWalletType :: string where "FindingCodeWalletType = ''incompatible.provider.wallet_type''"
definition FindingCodeNewWallet :: string where "FindingCodeNewWallet = ''incompatible.provider.new_wallet''"
definition FindingCodeContinuity :: string where "FindingCodeContinuity = ''incompatible.provider.continuity''"
definition FindingCodeChain :: string where "FindingCodeChain = ''incompatible.provider.chain''"
definition FindingCodeRotation :: string where "FindingCodeRotation = ''incompatible.provider.rotation''"
definition FindingCodePosture :: string where "FindingCodePosture = ''incompatible.provider.posture''"
definition FindingCodeUnresolved :: string where "FindingCodeUnresolved = ''incompatible.provider.unresolved''"
definition FindingCodeCapability :: string where "FindingCodeCapability = ''incompatible.provider.capability''"
definition FindingCodeErroneousSuggested :: string where
  "FindingCodeErroneousSuggested = ''erroneous.suggested_user_constraints''"
definition FindingCodeRequiresBundler :: string where "FindingCodeRequiresBundler = ''requires_bundler''"
definition FindingCodeRequiresLocalSignerState :: string where
  "FindingCodeRequiresLocalSignerState = ''requires_local_signer_state''"

lemmas finding_code_defs =
  FindingCodeWalletType_def FindingCodeNewWallet_def FindingCodeContinuity_def FindingCodeChain_def
  FindingCodeRotation_def FindingCodePosture_def FindingCodeUnresolved_def FindingCodeCapability_def
  FindingCodeErroneousSuggested_def FindingCodeRequiresBundler_def
  FindingCodeRequiresLocalSignerState_def

record HardFinding =
  hf_Code :: string
  hf_Message :: string
  hf_Field :: string

record HardSelectionRequest =
  hr_RequiredPosture :: string
  hr_TargetChainIDs :: "int64 list"
  hr_AllowNewWallet :: bool
  hr_AddressContinuityRequired :: bool
  hr_KeyRotationModel :: string

record HardObservation =
  ob_AccountKind :: string
  ob_ChainIDs :: "int64 list"

record UserConstraints =
  uc_AllowNewWallet :: bool
  uc_AddressContinuityRequired :: bool
  uc_KeyRotationModel :: string

section \<open>Helpers\<close>

definition normalizeWalletTypeToken :: "string \<Rightarrow> string" where
  "normalizeWalletTypeToken raw =
     (let s = ToLower (TrimSpace raw) in if s = ''eoa'' then ''eoa'' else s)"

definition walletTypeAccepted :: "string \<Rightarrow> string list \<Rightarrow> bool" where
  "walletTypeAccepted accountKind accepted =
     (let normalized = normalizeWalletTypeToken accountKind in
      if normalized = '''' then False
      else list_ex (\<lambda>a. normalizeWalletTypeToken a = normalized) accepted)"

definition findChainSupport :: "ChainSupport list \<Rightarrow> int64 \<Rightarrow> ChainSupport option" where
  "findChainSupport list chainID = find (\<lambda>c. cs_ChainID c = chainID) list"

text \<open>The two checks \<^verbatim>\<open>EvaluateHardCompatibility\<close> and \<^verbatim>\<open>EvaluateScanCompatibility\<close> start with, written
  twice in the source with the same text.\<close>

definition postureFindings :: "string \<Rightarrow> SolutionProfile \<Rightarrow> HardFinding list" where
  "postureFindings requiredPosture profile =
     (let wantPosture = TrimSpace requiredPosture; gotPosture = TrimSpace (sp_ResultingPosture profile) in
      if wantPosture \<noteq> '''' \<and> gotPosture \<noteq> wantPosture
      then [\<lparr>hf_Code = FindingCodePosture,
             hf_Message = ''required_posture '' @ Quote wantPosture @
               '' not satisfied by solution_profile.resulting_posture '' @ Quote gotPosture,
             hf_Field = ''required_posture''\<rparr>]
      else [])"

definition walletTypeFindings :: "HardObservation \<Rightarrow> SolutionProfile \<Rightarrow> HardFinding list" where
  "walletTypeFindings obs profile =
     (if \<not> walletTypeAccepted (ob_AccountKind obs) (ir_WalletTypes (sp_InputRequirements profile))
      then [\<lparr>hf_Code = FindingCodeWalletType,
             hf_Message = ''wallet account_kind '' @ Quote (ob_AccountKind obs) @
               '' not accepted by solution profile wallet_types'',
             hf_Field = ''policy_context.wallet_type''\<rparr>]
      else [])"

section \<open>The combined hard gate\<close>

definition targetChainFindings :: "ChainSupport list \<Rightarrow> int64 \<Rightarrow> HardFinding list" where
  "targetChainFindings supported chainID =
     (if chainID \<le> 0 then []
      else case findChainSupport supported chainID of
        None \<Rightarrow>
          [\<lparr>hf_Code = FindingCodeChain,
            hf_Message = ''target chain_id '' @ FormatInt chainID @ '' not listed in solution chain_support'',
            hf_Field = ''selection_request.target_chain_ids''\<rparr>]
      | Some support \<Rightarrow>
          if cs_Status support = ChainStatusPlanned then
            [\<lparr>hf_Code = FindingCodeChain,
              hf_Message = ''target chain_id '' @ FormatInt chainID @ '' has chain_support status '' @
                Quote (cs_Status support) @ '' (not deployable in v0.1)'',
              hf_Field = ''selection_request.target_chain_ids''\<rparr>]
          else if cs_Capabilities support = [] then
            [\<lparr>hf_Code = FindingCodeChain,
              hf_Message = ''target chain_id '' @ FormatInt chainID @ '' has no capabilities in chain_support'',
              hf_Field = ''selection_request.target_chain_ids''\<rparr>]
          else [])"

definition nilProfileFinding :: HardFinding where
  "nilProfileFinding =
     \<lparr>hf_Code = FindingCodeUnresolved, hf_Message = ''solution profile is nil'', hf_Field = ''''\<rparr>"

definition EvaluateHardCompatibility ::
    "HardObservation \<Rightarrow> HardSelectionRequest \<Rightarrow> SolutionProfile option \<Rightarrow> HardFinding list" where
  "EvaluateHardCompatibility obs req po =
     (case po of
        None \<Rightarrow> [nilProfileFinding]
      | Some profile \<Rightarrow>
          postureFindings (hr_RequiredPosture req) profile @
          walletTypeFindings obs profile @
          (if pc_RequiresNewAccount (sp_Constraints profile) \<and> \<not> hr_AllowNewWallet req
           then [\<lparr>hf_Code = FindingCodeNewWallet,
                  hf_Message = ''solution requires a new account but selection_request.allow_new_wallet is false'',
                  hf_Field = ''selection_request.allow_new_wallet''\<rparr>]
           else []) @
          (if hr_AddressContinuityRequired req \<and> \<not> pc_AddressContinuitySupported (sp_Constraints profile)
           then [\<lparr>hf_Code = FindingCodeContinuity,
                  hf_Message = ''selection_request.address_continuity_required is true but solution does not support EOA address continuity'',
                  hf_Field = ''selection_request.address_continuity_required''\<rparr>]
           else []) @
          (let wantRotation = TrimSpace (hr_KeyRotationModel req) in
           if wantRotation \<noteq> sig_KeyRotationModel (sp_Signature profile)
           then [\<lparr>hf_Code = FindingCodeRotation,
                  hf_Message = ''selection_request.key_rotation_model '' @ Quote wantRotation @
                    '' incompatible with solution signature.key_rotation_model '' @
                    Quote (sig_KeyRotationModel (sp_Signature profile)),
                  hf_Field = ''selection_request.key_rotation_model''\<rparr>]
           else []) @
          (let targets = (if hr_TargetChainIDs req = [] then ob_ChainIDs obs else hr_TargetChainIDs req) in
           concat (map (targetChainFindings (sp_ChainSupport profile)) targets)))"

section \<open>Couche A: scan compatibility\<close>

definition CapabilityDeploy :: string where "CapabilityDeploy = ''deploy''"
definition CapabilitySignUserOp :: string where "CapabilitySignUserOp = ''sign_userop''"
definition CapabilityRotateSigner :: string where "CapabilityRotateSigner = ''rotate_signer''"

definition hasPositiveChainID :: "int64 list \<Rightarrow> bool" where
  "hasPositiveChainID ids = list_ex (\<lambda>cid. 0 < cid) ids"

definition minimumScanCapabilities :: "string \<Rightarrow> string list" where
  "minimumScanCapabilities rotation =
     [CapabilityDeploy, CapabilitySignUserOp] @
     (if rotation = KeyRotationPerUserOp then [CapabilityRotateSigner] else [])"

definition chainHasCapabilities :: "string list \<Rightarrow> string list \<Rightarrow> bool" where
  "chainHasCapabilities have_caps required =
     list_all (\<lambda>need. ToLower (TrimSpace need) \<in> set (map (\<lambda>c. ToLower (TrimSpace c)) have_caps)) required"

text \<open>The loop returns at the first capable chain; \<open>anyNonPlanned\<close> is the flag so far.\<close>

fun scanChainDeployability ::
    "int64 list \<Rightarrow> ChainSupport list \<Rightarrow> string list \<Rightarrow> bool \<Rightarrow> bool \<times> bool" where
  "scanChainDeployability [] support requiredCaps anyNonPlanned = (anyNonPlanned, False)"
| "scanChainDeployability (chainID # rest) support requiredCaps anyNonPlanned =
     (if chainID \<le> 0 then scanChainDeployability rest support requiredCaps anyNonPlanned
      else case findChainSupport support chainID of
        None \<Rightarrow> scanChainDeployability rest support requiredCaps anyNonPlanned
      | Some cs \<Rightarrow>
          if cs_Status cs = ChainStatusPlanned
          then scanChainDeployability rest support requiredCaps anyNonPlanned
          else if chainHasCapabilities (cs_Capabilities cs) requiredCaps then (True, True)
          else scanChainDeployability rest support requiredCaps True)"

definition EvaluateScanCompatibility ::
    "HardObservation \<Rightarrow> string \<Rightarrow> SolutionProfile option \<Rightarrow> HardFinding list" where
  "EvaluateScanCompatibility obs requiredPosture po =
     (case po of
        None \<Rightarrow> [nilProfileFinding]
      | Some profile \<Rightarrow>
          let findings = postureFindings requiredPosture profile @ walletTypeFindings obs profile in
          if \<not> hasPositiveChainID (ob_ChainIDs obs) then findings
          else
            let requiredCaps = minimumScanCapabilities (sig_KeyRotationModel (sp_Signature profile)) in
            (case scanChainDeployability (ob_ChainIDs obs) (sp_ChainSupport profile) requiredCaps False of
               (anyNonPlanned, anyCapable) \<Rightarrow>
                 if \<not> anyCapable then
                   (if anyNonPlanned then
                      findings @
                      [\<lparr>hf_Code = FindingCodeCapability,
                        hf_Message = ''no scan chain advertises required capabilities '' @ fmt_strings requiredCaps,
                        hf_Field = ''chain_support.capabilities''\<rparr>]
                    else
                      findings @
                      [\<lparr>hf_Code = FindingCodeChain,
                        hf_Message = ''no scan chain is deployable (listed with status != planned) for capabilities '' @
                          fmt_strings requiredCaps,
                        hf_Field = ''policy_context.chain_ids''\<rparr>])
                 else findings))"

section \<open>Couche B: the user's constraints\<close>

definition EvaluateUserConstraints :: "UserConstraints \<Rightarrow> SolutionProfile option \<Rightarrow> HardFinding list" where
  "EvaluateUserConstraints uc po =
     (case po of
        None \<Rightarrow> [nilProfileFinding]
      | Some profile \<Rightarrow>
          (if pc_RequiresNewAccount (sp_Constraints profile) \<and> \<not> uc_AllowNewWallet uc
           then [\<lparr>hf_Code = FindingCodeNewWallet,
                  hf_Message = ''solution requires a new account but user_constraints.allow_new_wallet is false'',
                  hf_Field = ''user_constraints.allow_new_wallet''\<rparr>]
           else []) @
          (if uc_AddressContinuityRequired uc \<and> \<not> pc_AddressContinuitySupported (sp_Constraints profile)
           then [\<lparr>hf_Code = FindingCodeContinuity,
                  hf_Message = ''user_constraints.address_continuity_required is true but solution does not support EOA address continuity'',
                  hf_Field = ''user_constraints.address_continuity_required''\<rparr>]
           else []) @
          (let wantRotation = TrimSpace (uc_KeyRotationModel uc) in
           if wantRotation \<noteq> sig_KeyRotationModel (sp_Signature profile)
           then [\<lparr>hf_Code = FindingCodeRotation,
                  hf_Message = ''user_constraints.key_rotation_model '' @ Quote wantRotation @
                    '' incompatible with solution signature.key_rotation_model '' @
                    Quote (sig_KeyRotationModel (sp_Signature profile)),
                  hf_Field = ''user_constraints.key_rotation_model''\<rparr>]
           else []))"

section \<open>Soft findings\<close>

definition EvaluateSoftFindings :: "SolutionProfile option \<Rightarrow> HardFinding list" where
  "EvaluateSoftFindings po =
     (case po of
        None \<Rightarrow> []
      | Some profile \<Rightarrow>
          (if am_RequiresBundler (sp_AccountModel profile)
           then [\<lparr>hf_Code = FindingCodeRequiresBundler,
                  hf_Message = ''solution account_model requires an ERC-4337 bundler'',
                  hf_Field = ''account_model.requires_bundler''\<rparr>]
           else []) @
          (if pc_RequiresLocalSignerState (sp_Constraints profile)
           then [\<lparr>hf_Code = FindingCodeRequiresLocalSignerState,
                  hf_Message = ''solution constraints require local signer state to exercise key rotation'',
                  hf_Field = ''constraints.requires_local_signer_state''\<rparr>]
           else []))"

section \<open>When an evaluator reports nothing\<close>

definition posture_ok :: "string \<Rightarrow> SolutionProfile \<Rightarrow> bool" where
  "posture_ok requiredPosture p \<longleftrightarrow>
     TrimSpace requiredPosture = '''' \<or> TrimSpace (sp_ResultingPosture p) = TrimSpace requiredPosture"

definition chain_deployable :: "SolutionProfile \<Rightarrow> string list \<Rightarrow> int64 \<Rightarrow> bool" where
  "chain_deployable p caps cid \<longleftrightarrow>
     0 < cid \<and> (\<exists>cs. findChainSupport (sp_ChainSupport p) cid = Some cs \<and>
       cs_Status cs \<noteq> ChainStatusPlanned \<and> chainHasCapabilities (cs_Capabilities cs) caps)"

definition scan_ok :: "HardObservation \<Rightarrow> string \<Rightarrow> SolutionProfile \<Rightarrow> bool" where
  "scan_ok obs requiredPosture p \<longleftrightarrow>
     posture_ok requiredPosture p \<and>
     walletTypeAccepted (ob_AccountKind obs) (ir_WalletTypes (sp_InputRequirements p)) \<and>
     ((\<forall>cid \<in> set (ob_ChainIDs obs). cid \<le> 0) \<or>
      (\<exists>cid \<in> set (ob_ChainIDs obs).
         chain_deployable p (minimumScanCapabilities (sig_KeyRotationModel (sp_Signature p))) cid))"

definition user_ok :: "UserConstraints \<Rightarrow> SolutionProfile \<Rightarrow> bool" where
  "user_ok uc p \<longleftrightarrow>
     (pc_RequiresNewAccount (sp_Constraints p) \<longrightarrow> uc_AllowNewWallet uc) \<and>
     (uc_AddressContinuityRequired uc \<longrightarrow> pc_AddressContinuitySupported (sp_Constraints p)) \<and>
     TrimSpace (uc_KeyRotationModel uc) = sig_KeyRotationModel (sp_Signature p)"

lemma postureFindings_Nil: "postureFindings q p = [] \<longleftrightarrow> posture_ok q p"
  by (simp add: postureFindings_def posture_ok_def Let_def)

lemma walletTypeFindings_Nil:
  "walletTypeFindings obs p = [] \<longleftrightarrow>
   walletTypeAccepted (ob_AccountKind obs) (ir_WalletTypes (sp_InputRequirements p))"
  by (simp add: walletTypeFindings_def)

lemma scanChainDeployability_capable:
  "snd (scanChainDeployability ids support caps b) \<longleftrightarrow>
     (\<exists>cid \<in> set ids. 0 < cid \<and> (\<exists>cs. findChainSupport support cid = Some cs \<and>
        cs_Status cs \<noteq> ChainStatusPlanned \<and> chainHasCapabilities (cs_Capabilities cs) caps))"
  by (induction ids support caps b rule: scanChainDeployability.induct) (auto split: option.splits)

lemma scanChainDeployability_nonplanned:
  "fst (scanChainDeployability ids support caps b) \<longleftrightarrow> b \<or>
     (\<exists>cid \<in> set ids. 0 < cid \<and> (\<exists>cs. findChainSupport support cid = Some cs \<and>
        cs_Status cs \<noteq> ChainStatusPlanned))"
  by (induction ids support caps b rule: scanChainDeployability.induct) (auto split: option.splits)

lemma EvaluateScanCompatibility_Nil:
  "EvaluateScanCompatibility obs q (Some p) = [] \<longleftrightarrow> scan_ok obs q p"
proof (cases "hasPositiveChainID (ob_ChainIDs obs)")
  case False
  then have "\<forall>cid \<in> set (ob_ChainIDs obs). cid \<le> 0"
    by (auto simp: hasPositiveChainID_def list_ex_iff not_less)
  with False show ?thesis
    by (simp add: EvaluateScanCompatibility_def Let_def scan_ok_def postureFindings_Nil walletTypeFindings_Nil)
next
  case True
  then have pos: "\<not> (\<forall>cid \<in> set (ob_ChainIDs obs). cid \<le> 0)"
    by (auto simp: hasPositiveChainID_def list_ex_iff not_le)
  let ?caps = "minimumScanCapabilities (sig_KeyRotationModel (sp_Signature p))"
  obtain a b where ab: "scanChainDeployability (ob_ChainIDs obs) (sp_ChainSupport p) ?caps False = (a, b)"
    by (cases "scanChainDeployability (ob_ChainIDs obs) (sp_ChainSupport p) ?caps False")
  have "b \<longleftrightarrow> (\<exists>cid \<in> set (ob_ChainIDs obs). chain_deployable p ?caps cid)"
    using scanChainDeployability_capable[of "ob_ChainIDs obs" "sp_ChainSupport p" ?caps False]
    by (simp add: ab chain_deployable_def)
  with True pos show ?thesis
    by (auto simp: EvaluateScanCompatibility_def Let_def ab scan_ok_def postureFindings_Nil walletTypeFindings_Nil)
qed

lemma EvaluateUserConstraints_Nil: "EvaluateUserConstraints uc (Some p) = [] \<longleftrightarrow> user_ok uc p"
  by (auto simp: EvaluateUserConstraints_def user_ok_def Let_def)

lemma targetChainFindings_Nil:
  "targetChainFindings supported cid = [] \<longleftrightarrow>
     cid \<le> 0 \<or> (\<exists>cs. findChainSupport supported cid = Some cs \<and> cs_Status cs \<noteq> ChainStatusPlanned \<and>
       cs_Capabilities cs \<noteq> [])"
  by (auto simp: targetChainFindings_def split: option.splits)

lemma EvaluateHardCompatibility_Nil:
  "EvaluateHardCompatibility obs req (Some p) = [] \<longleftrightarrow>
     posture_ok (hr_RequiredPosture req) p \<and>
     walletTypeAccepted (ob_AccountKind obs) (ir_WalletTypes (sp_InputRequirements p)) \<and>
     user_ok \<lparr>uc_AllowNewWallet = hr_AllowNewWallet req,
       uc_AddressContinuityRequired = hr_AddressContinuityRequired req,
       uc_KeyRotationModel = hr_KeyRotationModel req\<rparr> p \<and>
     (\<forall>cid \<in> set (if hr_TargetChainIDs req = [] then ob_ChainIDs obs else hr_TargetChainIDs req).
        targetChainFindings (sp_ChainSupport p) cid = [])"
  by (auto simp: EvaluateHardCompatibility_def Let_def user_ok_def postureFindings_Nil walletTypeFindings_Nil)

section \<open>The contract of an evaluator\<close>

text \<open>A client that rejects on the first finding needs to know what no finding means, and that a
  missing profile is always rejected.\<close>

locale finding_evaluator =
  fixes evaluate :: "'i \<Rightarrow> SolutionProfile option \<Rightarrow> HardFinding list"
    and ok :: "'i \<Rightarrow> SolutionProfile \<Rightarrow> bool"
  assumes silent_iff: "evaluate i (Some p) = [] \<longleftrightarrow> ok i p"
    and nil_rejected: "evaluate i None = [nilProfileFinding]"
begin

lemma accepted_profile: "evaluate i po = [] \<longleftrightarrow> (\<exists>p. po = Some p \<and> ok i p)"
  by (cases po) (simp_all add: silent_iff nil_rejected)

lemma rejected_first: "\<not> ok i p \<Longrightarrow> \<exists>f fs. evaluate i (Some p) = f # fs"
  using silent_iff[of i p] by (cases "evaluate i (Some p)") auto

end

interpretation scan: finding_evaluator "\<lambda>(obs, q). EvaluateScanCompatibility obs q" "\<lambda>(obs, q). scan_ok obs q"
  by unfold_locales (auto simp: EvaluateScanCompatibility_Nil, simp add: EvaluateScanCompatibility_def)

interpretation user: finding_evaluator EvaluateUserConstraints user_ok
  by unfold_locales (auto simp: EvaluateUserConstraints_Nil, simp add: EvaluateUserConstraints_def)

section \<open>Properties\<close>

text \<open>C32. The scan evaluation (couche A) reports nothing exactly on a profile that is present, whose
  resulting posture is the required one (when one is required), that accepts the scanned account
  kind, and that can be deployed on at least one scanned chain: not planned and with every
  capability the rotation model needs. A scan without any positive chain id, a greenfield wallet,
  puts no condition on chains.\<close>

theorem scan_compat_exact:
  "EvaluateScanCompatibility obs q po = [] \<longleftrightarrow>
     (\<exists>p. po = Some p \<and> posture_ok q p \<and>
        walletTypeAccepted (ob_AccountKind obs) (ir_WalletTypes (sp_InputRequirements p)) \<and>
        (hasPositiveChainID (ob_ChainIDs obs) =
           list_ex (chain_deployable p (minimumScanCapabilities (sig_KeyRotationModel (sp_Signature p))))
             (ob_ChainIDs obs)))"
proof -
  have "scan_ok obs q p \<longleftrightarrow> posture_ok q p \<and>
        walletTypeAccepted (ob_AccountKind obs) (ir_WalletTypes (sp_InputRequirements p)) \<and>
        (hasPositiveChainID (ob_ChainIDs obs) =
           list_ex (chain_deployable p (minimumScanCapabilities (sig_KeyRotationModel (sp_Signature p))))
             (ob_ChainIDs obs))" for p
    by (auto simp: scan_ok_def hasPositiveChainID_def list_ex_iff chain_deployable_def not_le)
  then show ?thesis using scan.accepted_profile[of "(obs, q)" po] by simp
qed

text \<open>C33. The combined evaluation reports nothing exactly when the posture, the wallet type and the
  user's constraints hold on the profile and every target chain (the scanned ones when the request
  names none) is supported, not planned and has a capability.\<close>

theorem hard_compat_exact:
  "EvaluateHardCompatibility obs req po = [] \<longleftrightarrow>
     (\<exists>p. po = Some p \<and> posture_ok (hr_RequiredPosture req) p \<and>
        walletTypeAccepted (ob_AccountKind obs) (ir_WalletTypes (sp_InputRequirements p)) \<and>
        EvaluateUserConstraints \<lparr>uc_AllowNewWallet = hr_AllowNewWallet req,
          uc_AddressContinuityRequired = hr_AddressContinuityRequired req,
          uc_KeyRotationModel = hr_KeyRotationModel req\<rparr> po = [] \<and>
        list_all (\<lambda>cid. cid \<le> 0 \<or> (\<exists>cs. findChainSupport (sp_ChainSupport p) cid = Some cs \<and>
            cs_Status cs \<noteq> ChainStatusPlanned \<and> cs_Capabilities cs \<noteq> []))
          (if hr_TargetChainIDs req = [] then ob_ChainIDs obs else hr_TargetChainIDs req))"
proof (cases po)
  case None
  then show ?thesis by (simp add: EvaluateHardCompatibility_def)
next
  case (Some p)
  then show ?thesis
    by (simp add: EvaluateHardCompatibility_Nil EvaluateUserConstraints_Nil targetChainFindings_Nil list_all_iff)
qed

end
