(* ===== verification/Provider_Registry.thy ===== *)
theory Provider_Registry
  imports Provider_Manifest
begin

text \<open>
  The provider registry of \<^verbatim>\<open>internal/domain/provider/registry.go\<close> and the load signals of
  \<^verbatim>\<open>load_signals.go\<close>: two maps, one from the lower-cased provider id to its manifest and one from the
  profile key to the resolved profile. The state is the record \<open>Registry\<close>; \<open>AddManifest\<close> returns
  the registry as the call leaves it, also when it fails part way, since the source mutates the
  receiver. The methods' \<^verbatim>\<open>nil\<close> receiver is left to the callers, which all test for it.
  The invariant \<open>registry_inv\<close> ties the two maps together; every operation keeps it, and it gives
  the interface \<open>profile_registry\<close> the clients rely on.
\<close>

section \<open>State and operations\<close>

record ProfileRef =
  pr_ProviderID :: string
  pr_SolutionProfileID :: string
  pr_ManifestVersion :: string

record ResolvedProfile =
  rp_ProviderID :: string
  rp_ProviderVersion :: string
  rp_Profile :: SolutionProfile
  rp_Erroneous :: bool

record Registry =
  reg_byKey :: "ResolvedProfile gomap"
  reg_manifests :: "ProviderManifest gomap"

definition profileKey :: "string \<Rightarrow> string \<Rightarrow> string" where
  "profileKey providerID solutionProfileID =
     ToLower (TrimSpace providerID) @ CHR 0x00 # TrimSpace solutionProfileID"

definition NewRegistry :: Registry where
  "NewRegistry = \<lparr>reg_byKey = [], reg_manifests = []\<rparr>"

text \<open>The loop over the profiles of a manifest: it stops at the first key that is taken, with
  the earlier profiles already indexed.\<close>

fun indexProfiles :: "ProviderManifest \<Rightarrow> SolutionProfile list \<Rightarrow> ResolvedProfile gomap \<Rightarrow>
    ResolvedProfile gomap \<times> manifest_error option" where
  "indexProfiles m [] byKey = (byKey, None)"
| "indexProfiles m (p # ps) byKey =
     (let key = profileKey (pm_ProviderID m) (sp_SolutionProfileID p) in
      case map_of byKey key of
        Some _ \<Rightarrow> (byKey, Some (ErrInvalidManifest
          (''duplicate solution profile '' @ pm_ProviderID m @ ''/'' @ sp_SolutionProfileID p)))
      | None \<Rightarrow> indexProfiles m ps
          (AList.update key
             \<lparr>rp_ProviderID = pm_ProviderID m, rp_ProviderVersion = pm_ProviderVersion m,
              rp_Profile = p, rp_Erroneous = False\<rparr> byKey))"

definition AddManifest :: "Registry \<Rightarrow> ProviderManifest option \<Rightarrow> Registry \<times> manifest_error option" where
  "AddManifest r mo =
     (case mo of
        None \<Rightarrow> (r, Some (ErrInvalidManifest ''nil registry or manifest''))
      | Some m \<Rightarrow>
          let providerID = ToLower (TrimSpace (pm_ProviderID m)) in
          case map_of (reg_manifests r) providerID of
            Some _ \<Rightarrow> (r, Some (ErrInvalidManifest (''duplicate provider_id '' @ pm_ProviderID m)))
          | None \<Rightarrow>
              (case indexProfiles m (pm_SolutionProfiles m) (reg_byKey r) of
                 (byKey', e) \<Rightarrow>
                   (\<lparr>reg_byKey = byKey',
                     reg_manifests = AList.update providerID m (reg_manifests r)\<rparr>, e)))"

definition Lookup :: "Registry \<Rightarrow> ProfileRef \<Rightarrow> ResolvedProfile option" where
  "Lookup r ref =
     (case map_of (reg_byKey r) (profileKey (pr_ProviderID ref) (pr_SolutionProfileID ref)) of
        None \<Rightarrow> None
      | Some got \<Rightarrow>
          let wantVer = TrimSpace (pr_ManifestVersion ref) in
          if wantVer \<noteq> '''' \<and> wantVer \<noteq> rp_ProviderVersion got then None else Some got)"

definition List :: "Registry \<Rightarrow> ProviderManifest list" where
  "List r = sort_key (\<lambda>m. ToLower (pm_ProviderID m)) (map snd (reg_manifests r))"

definition Get :: "Registry \<Rightarrow> string \<Rightarrow> ProviderManifest option" where
  "Get r providerID = map_of (reg_manifests r) (ToLower (TrimSpace providerID))"

definition ProfilesForProvider :: "Registry \<Rightarrow> string \<Rightarrow> ResolvedProfile list" where
  "ProfilesForProvider r providerID =
     (case Get r providerID of
        None \<Rightarrow> []
      | Some m \<Rightarrow>
          sort_key (\<lambda>rp. sp_SolutionProfileID (rp_Profile rp))
            (List.map_filter
               (\<lambda>p. map_of (reg_byKey r) (profileKey (pm_ProviderID m) (sp_SolutionProfileID p)))
               (pm_SolutionProfiles m)))"

text \<open>\<^verbatim>\<open>ApplyManifestLoadSignals\<close>: marks the contradictory profiles; its result is the number of
  them, here with the logged entries.\<close>

definition markErroneous :: "ResolvedProfile \<Rightarrow> ResolvedProfile" where
  "markErroneous rp =
     (case ValidateSuggestedUserConstraints (Some (rp_Profile rp)) of
        None \<Rightarrow> rp
      | Some _ \<Rightarrow> rp\<lparr>rp_Erroneous := True\<rparr>)"

definition ApplyManifestLoadSignals :: "Registry \<Rightarrow> Registry \<times> nat" where
  "ApplyManifestLoadSignals r =
     (r\<lparr>reg_byKey := map (\<lambda>(k, rp). (k, markErroneous rp)) (reg_byKey r)\<rparr>,
      length (filter (\<lambda>(k, rp). ValidateSuggestedUserConstraints (Some (rp_Profile rp)) \<noteq> None)
        (reg_byKey r)))"

section \<open>The invariant\<close>

text \<open>A manifest the loader hands to the registry: accepted by \<open>NormalizeAndValidate\<close>, and its
  provider id free of the NUL byte that separates the two halves of a profile key.\<close>

definition loaded_manifest :: "ProviderManifest \<Rightarrow> bool" where
  "loaded_manifest m \<longleftrightarrow> Normalize m = m \<and> manifest_wf m \<and> CHR 0x00 \<notin> set (pm_ProviderID m)"

definition entry_of :: "ProviderManifest \<Rightarrow> SolutionProfile \<Rightarrow> bool \<Rightarrow> ResolvedProfile" where
  "entry_of m p b =
     \<lparr>rp_ProviderID = pm_ProviderID m, rp_ProviderVersion = pm_ProviderVersion m,
      rp_Profile = p, rp_Erroneous = b\<rparr>"

definition registry_inv :: "Registry \<Rightarrow> bool" where
  "registry_inv r \<longleftrightarrow>
     distinct (map fst (reg_byKey r)) \<and> distinct (map fst (reg_manifests r)) \<and>
     (\<forall>k m. (k, m) \<in> set (reg_manifests r) \<longrightarrow> k = ToLower (pm_ProviderID m) \<and> loaded_manifest m) \<and>
     (\<forall>k m p. (k, m) \<in> set (reg_manifests r) \<longrightarrow> p \<in> set (pm_SolutionProfiles m) \<longrightarrow>
        (\<exists>b. map_of (reg_byKey r) (profileKey (pm_ProviderID m) (sp_SolutionProfileID p)) =
          Some (entry_of m p b))) \<and>
     (\<forall>k rp. (k, rp) \<in> set (reg_byKey r) \<longrightarrow>
        (\<exists>k' m p b. (k', m) \<in> set (reg_manifests r) \<and> p \<in> set (pm_SolutionProfiles m) \<and>
          rp = entry_of m p b \<and> k = profileKey (pm_ProviderID m) (sp_SolutionProfileID p)))"

lemma registry_inv_distinct:
  assumes "registry_inv r"
  shows "distinct (map fst (reg_byKey r))" and "distinct (map fst (reg_manifests r))"
  using assms by (simp_all add: registry_inv_def)

lemma registry_inv_manifest:
  assumes "registry_inv r" and "(k, m) \<in> set (reg_manifests r)"
  shows "k = ToLower (pm_ProviderID m)" and "loaded_manifest m"
  using assms by (auto simp: registry_inv_def)

lemma registry_inv_indexed:
  assumes "registry_inv r" and "(k, m) \<in> set (reg_manifests r)" and "p \<in> set (pm_SolutionProfiles m)"
  obtains b where "map_of (reg_byKey r) (profileKey (pm_ProviderID m) (sp_SolutionProfileID p)) =
    Some (entry_of m p b)"
proof -
  from assms have "\<exists>b. map_of (reg_byKey r) (profileKey (pm_ProviderID m) (sp_SolutionProfileID p)) =
      Some (entry_of m p b)"
    unfolding registry_inv_def by blast
  then show thesis using that by blast
qed

lemma registry_inv_entry:
  assumes "registry_inv r" and "(k, rp) \<in> set (reg_byKey r)"
  obtains k' m p b where "(k', m) \<in> set (reg_manifests r)" and "p \<in> set (pm_SolutionProfiles m)"
    and "rp = entry_of m p b" and "k = profileKey (pm_ProviderID m) (sp_SolutionProfileID p)"
proof -
  from assms have "\<exists>k' m p b. (k', m) \<in> set (reg_manifests r) \<and> p \<in> set (pm_SolutionProfiles m) \<and>
      rp = entry_of m p b \<and> k = profileKey (pm_ProviderID m) (sp_SolutionProfileID p)"
    unfolding registry_inv_def by blast
  then show thesis using that by blast
qed

lemma loaded_manifest_trimmed:
  assumes "loaded_manifest m"
  shows "TrimSpace (pm_ProviderID m) = pm_ProviderID m"
    and "TrimSpace (pm_ProviderVersion m) = pm_ProviderVersion m"
    and "p \<in> set (pm_SolutionProfiles m) \<Longrightarrow> TrimSpace (sp_SolutionProfileID p) = sp_SolutionProfileID p"
proof -
  have n: "Normalize m = m" using assms by (simp add: loaded_manifest_def)
  have "pm_ProviderID (Normalize m) = TrimSpace (pm_ProviderID m)"
    and "pm_ProviderVersion (Normalize m) = TrimSpace (pm_ProviderVersion m)"
    and sp: "pm_SolutionProfiles (Normalize m) = map normalizeSolutionProfile (pm_SolutionProfiles m)"
    by (simp_all add: Normalize_def)
  then show "TrimSpace (pm_ProviderID m) = pm_ProviderID m"
    and "TrimSpace (pm_ProviderVersion m) = pm_ProviderVersion m"
    by (simp_all add: n)
  assume "p \<in> set (pm_SolutionProfiles m)"
  then obtain q where "p = normalizeSolutionProfile q"
    using sp n by (metis in_set_conv_nth length_map nth_map)
  then show "TrimSpace (sp_SolutionProfileID p) = sp_SolutionProfileID p"
    by (simp add: normalizeSolutionProfile_def)
qed

lemma loaded_manifest_load: "NormalizeAndValidate m0 = Inr m \<Longrightarrow> CHR 0x00 \<notin> set (pm_ProviderID m) \<Longrightarrow>
    loaded_manifest m"
  using manifest.load_valid[of m0 m] manifest.load_canonical[of m0 m]
  by (simp add: loaded_manifest_def Validate_wf)

lemma profileKey_eq:
  assumes "CHR 0x00 \<notin> set a" "CHR 0x00 \<notin> set a'"
  shows "profileKey a b = profileKey a' b' \<longleftrightarrow>
    ToLower (TrimSpace a) = ToLower (TrimSpace a') \<and> TrimSpace b = TrimSpace b'"
proof -
  have "CHR 0x00 \<notin> set (ToLower (TrimSpace a))" "CHR 0x00 \<notin> set (ToLower (TrimSpace a'))"
    using assms set_TrimSpace[of a] set_TrimSpace[of a'] by (auto intro!: nul_free_ToLower)
  then show ?thesis by (simp add: profileKey_def append_sep_eq)
qed

lemma indexProfiles_ok:
  "distinct (map (\<lambda>p. profileKey (pm_ProviderID m) (sp_SolutionProfileID p)) ps) \<Longrightarrow>
   (\<forall>p \<in> set ps. profileKey (pm_ProviderID m) (sp_SolutionProfileID p) \<notin> fst ` set byKey) \<Longrightarrow>
   indexProfiles m ps byKey =
     (byKey @ map (\<lambda>p. (profileKey (pm_ProviderID m) (sp_SolutionProfileID p), entry_of m p False)) ps, None)"
proof (induction ps arbitrary: byKey)
  case (Cons p ps)
  let ?k = "profileKey (pm_ProviderID m) (sp_SolutionProfileID p)"
  have fresh: "map_of byKey ?k = None" using Cons.prems(2) by (simp add: map_of_new_key)
  then have upd: "AList.update ?k v byKey = byKey @ [(?k, v)]" for v
    by (simp add: update_new_key map_of_new_key)
  have "indexProfiles m ps (byKey @ [(?k, entry_of m p False)]) =
      ((byKey @ [(?k, entry_of m p False)]) @
       map (\<lambda>p. (profileKey (pm_ProviderID m) (sp_SolutionProfileID p), entry_of m p False)) ps, None)"
    using Cons.prems by (intro Cons.IH) (auto simp: image_iff)
  then show ?case
    using fresh by (simp add: Let_def upd flip: entry_of_def)
qed simp

text \<open>The keys of a loaded manifest's profiles are distinct, and new in a registry that has no
  manifest of the same provider.\<close>

lemma loaded_keys_distinct:
  assumes "loaded_manifest m"
  shows "distinct (map (\<lambda>p. profileKey (pm_ProviderID m) (sp_SolutionProfileID p)) (pm_SolutionProfiles m))"
proof -
  have nul: "CHR 0x00 \<notin> set (pm_ProviderID m)" and d: "distinct (map sp_SolutionProfileID (pm_SolutionProfiles m))"
    using assms by (simp_all add: loaded_manifest_def manifest_wf_def)
  have "inj_on (\<lambda>p. profileKey (pm_ProviderID m) (sp_SolutionProfileID p)) (set (pm_SolutionProfiles m))"
    using d by (auto simp: inj_on_def profileKey_eq[OF nul nul] loaded_manifest_trimmed[OF assms] distinct_map)
  moreover have "distinct (pm_SolutionProfiles m)" using d by (simp add: distinct_map)
  ultimately show ?thesis by (simp add: distinct_map)
qed

lemma loaded_keys_fresh:
  assumes inv: "registry_inv r" and m: "loaded_manifest m"
    and new: "map_of (reg_manifests r) (ToLower (TrimSpace (pm_ProviderID m))) = None"
    and p: "p \<in> set (pm_SolutionProfiles m)"
  shows "profileKey (pm_ProviderID m) (sp_SolutionProfileID p) \<notin> fst ` set (reg_byKey r)"
proof
  assume "profileKey (pm_ProviderID m) (sp_SolutionProfileID p) \<in> fst ` set (reg_byKey r)"
  then obtain rp where "(profileKey (pm_ProviderID m) (sp_SolutionProfileID p), rp) \<in> set (reg_byKey r)"
    by force
  then obtain k' m' and p' :: SolutionProfile where m': "(k', m') \<in> set (reg_manifests r)"
    and eq: "profileKey (pm_ProviderID m) (sp_SolutionProfileID p) =
      profileKey (pm_ProviderID m') (sp_SolutionProfileID p')"
    by (rule registry_inv_entry[OF inv]) blast
  note l = registry_inv_manifest(2)[OF inv m'] and k' = registry_inv_manifest(1)[OF inv m']
  from eq have "ToLower (TrimSpace (pm_ProviderID m)) = k'"
    using m l k' by (simp add: profileKey_eq loaded_manifest_def loaded_manifest_trimmed[OF l])
  with new m' show False by (force simp: map_of_new_key)
qed

lemma AddManifest_new:
  assumes inv: "registry_inv r" and m: "loaded_manifest m"
    and new: "map_of (reg_manifests r) (ToLower (TrimSpace (pm_ProviderID m))) = None"
  shows "AddManifest r (Some m) =
    (\<lparr>reg_byKey = reg_byKey r @ map (\<lambda>p. (profileKey (pm_ProviderID m) (sp_SolutionProfileID p),
         entry_of m p False)) (pm_SolutionProfiles m),
      reg_manifests = reg_manifests r @ [(ToLower (pm_ProviderID m), m)]\<rparr>, None)"
proof -
  have "indexProfiles m (pm_SolutionProfiles m) (reg_byKey r) =
    (reg_byKey r @ map (\<lambda>p. (profileKey (pm_ProviderID m) (sp_SolutionProfileID p),
       entry_of m p False)) (pm_SolutionProfiles m), None)"
    using loaded_keys_distinct[OF m] loaded_keys_fresh[OF assms] by (intro indexProfiles_ok) auto
  moreover have "map_of (reg_manifests r) (ToLower (pm_ProviderID m)) = None"
    using new by (simp add: loaded_manifest_trimmed[OF m])
  moreover from this have "ToLower (pm_ProviderID m) \<notin> fst ` set (reg_manifests r)"
    by (simp only: map_of_new_key not_False_eq_True simp_thms)
  ultimately show ?thesis
    by (simp add: AddManifest_def update_new_key loaded_manifest_trimmed[OF m] Let_def)
qed

lemma AddManifest_duplicate:
  "map_of (reg_manifests r) (ToLower (TrimSpace (pm_ProviderID m))) = Some m' \<Longrightarrow>
   AddManifest r (Some m) = (r, Some (ErrInvalidManifest (''duplicate provider_id '' @ pm_ProviderID m)))"
  by (simp add: AddManifest_def)


section \<open>The operations keep the invariant\<close>

lemma registry_inv_New: "registry_inv NewRegistry"
  by (simp add: registry_inv_def NewRegistry_def)

text \<open>A registry extended by a loaded manifest, when no key and no provider id occurs twice.\<close>

lemma registry_inv_extend:
  defines "key \<equiv> \<lambda>(m :: ProviderManifest) (p :: SolutionProfile). profileKey (pm_ProviderID m) (sp_SolutionProfileID p)"
  assumes inv: "registry_inv r" and m: "loaded_manifest m"
    and keys: "distinct (map fst (reg_byKey r @ map (\<lambda>p. (key m p, entry_of m p False)) (pm_SolutionProfiles m)))"
    and names: "distinct (map fst (reg_manifests r @ [(ToLower (pm_ProviderID m), m)]))"
  shows "registry_inv \<lparr>reg_byKey = reg_byKey r @ map (\<lambda>p. (key m p, entry_of m p False)) (pm_SolutionProfiles m),
    reg_manifests = reg_manifests r @ [(ToLower (pm_ProviderID m), m)]\<rparr>" (is "registry_inv \<lparr>reg_byKey = ?keys, reg_manifests = ?names\<rparr>")
  unfolding registry_inv_def Registry.simps
proof (intro conjI allI impI)
  show "distinct (map fst ?keys)" "distinct (map fst ?names)" by (rule keys names)+
next
  fix k m' assume "(k, m') \<in> set ?names"
  then show "k = ToLower (pm_ProviderID m')" "loaded_manifest m'" using registry_inv_manifest[OF inv] m by auto
next
  fix k m' p assume k: "(k, m') \<in> set ?names" and p: "p \<in> set (pm_SolutionProfiles m')"
  have "\<exists>b. map_of ?keys (key m' p) = Some (entry_of m' p b)"
  proof (cases "(k, m') \<in> set (reg_manifests r)")
    case True
    obtain b where "map_of (reg_byKey r) (key m' p) = Some (entry_of m' p b)"
      using registry_inv_indexed[OF inv True p] unfolding key_def .
    then have "map_of ?keys (key m' p) = Some (entry_of m' p b)"
      using keys by (intro map_of_is_SomeI) (auto dest: map_of_SomeD)
    then show ?thesis by blast
  next
    case False
    with k p have "map_of ?keys (key m' p) = Some (entry_of m' p False)" using keys by (intro map_of_is_SomeI) auto
    then show ?thesis by blast
  qed
  then show "\<exists>b. map_of ?keys (profileKey (pm_ProviderID m') (sp_SolutionProfileID p)) = Some (entry_of m' p b)"
    unfolding key_def .
next
  fix k rp assume k: "(k, rp) \<in> set ?keys"
  show "\<exists>k' m' p b. (k', m') \<in> set ?names \<and> p \<in> set (pm_SolutionProfiles m') \<and> rp = entry_of m' p b \<and>
      k = profileKey (pm_ProviderID m') (sp_SolutionProfileID p)"
  proof (cases "(k, rp) \<in> set (reg_byKey r)")
    case True
    obtain k' m' p b where "(k', m') \<in> set (reg_manifests r)" "p \<in> set (pm_SolutionProfiles m')"
      "rp = entry_of m' p b" "k = profileKey (pm_ProviderID m') (sp_SolutionProfileID p)"
      using registry_inv_entry[OF inv True] .
    then show ?thesis by (intro exI[of _ k'] exI[of _ m'] exI[of _ p] exI[of _ b]) simp
  next
    case False
    with k obtain p where "p \<in> set (pm_SolutionProfiles m)" "rp = entry_of m p False" "k = key m p" by auto
    then show ?thesis by (intro exI[of _ "ToLower (pm_ProviderID m)"] exI[of _ m] exI[of _ p] exI[of _ False]) (simp add: key_def)
  qed
qed

lemma registry_inv_AddManifest:
  assumes inv: "registry_inv r" and m: "loaded_manifest m"
  shows "registry_inv (fst (AddManifest r (Some m)))"
proof (cases "map_of (reg_manifests r) (ToLower (TrimSpace (pm_ProviderID m)))")
  case (Some m')
  then show ?thesis using inv by (simp add: AddManifest_duplicate)
next
  case None
  let ?new = "map (\<lambda>p. (profileKey (pm_ProviderID m) (sp_SolutionProfileID p), entry_of m p False)) (pm_SolutionProfiles m)"
  have fresh: "profileKey (pm_ProviderID m) (sp_SolutionProfileID p) \<notin> fst ` set (reg_byKey r)"
    if "p \<in> set (pm_SolutionProfiles m)" for p
    by (rule loaded_keys_fresh[OF inv m None that])
  have "distinct (map fst (reg_byKey r @ ?new))"
    using registry_inv_distinct(1)[OF inv] loaded_keys_distinct[OF m]
    by (auto simp: comp_def dest!: fresh) force
  moreover have "distinct (map fst (reg_manifests r @ [(ToLower (pm_ProviderID m), m)]))"
    using registry_inv_distinct(2)[OF inv] None loaded_manifest_trimmed[OF m]
    by (auto simp: map_of_eq_None_iff)
  ultimately show ?thesis
    using registry_inv_extend[OF inv m] by (simp only: AddManifest_new[OF inv m None] fst_conv)
qed

lemma markErroneous_fields [simp]:
  "rp_ProviderID (markErroneous rp) = rp_ProviderID rp"
  "rp_ProviderVersion (markErroneous rp) = rp_ProviderVersion rp"
  "rp_Profile (markErroneous rp) = rp_Profile rp"
  by (simp_all add: markErroneous_def split: option.split)

lemma markErroneous_entry: "\<exists>b'. markErroneous (entry_of m p b) = entry_of m p b'"
  by (auto simp: markErroneous_def entry_of_def split: option.split)

lemma reg_byKey_signals:
  "reg_byKey (fst (ApplyManifestLoadSignals r)) = map (\<lambda>(k, rp). (k, markErroneous rp)) (reg_byKey r)"
  by (simp add: ApplyManifestLoadSignals_def)

lemma reg_manifests_signals [simp]:
  "reg_manifests (fst (ApplyManifestLoadSignals r)) = reg_manifests r"
  by (simp add: ApplyManifestLoadSignals_def)

lemma map_of_signals:
  "map_of (reg_byKey (fst (ApplyManifestLoadSignals r))) k =
   map_option markErroneous (map_of (reg_byKey r) k)"
  unfolding reg_byKey_signals by (rule map_of_map_snd)

lemma registry_inv_signals:
  assumes inv: "registry_inv r"
  shows "registry_inv (fst (ApplyManifestLoadSignals r))"
  unfolding registry_inv_def reg_manifests_signals map_of_signals
proof (intro conjI allI impI)
  show "distinct (map fst (reg_byKey (fst (ApplyManifestLoadSignals r))))"
    unfolding reg_byKey_signals fst_map_snd by (rule registry_inv_distinct(1)[OF inv])
  show "distinct (map fst (reg_manifests r))" by (rule registry_inv_distinct(2)[OF inv])
next
  fix k m assume "(k, m) \<in> set (reg_manifests r)"
  then show "k = ToLower (pm_ProviderID m)" "loaded_manifest m"
    using registry_inv_manifest[OF inv] by auto
next
  fix k m p assume "(k, m) \<in> set (reg_manifests r)" "p \<in> set (pm_SolutionProfiles m)"
  then show "\<exists>b. map_option markErroneous (map_of (reg_byKey r)
      (profileKey (pm_ProviderID m) (sp_SolutionProfileID p))) = Some (entry_of m p b)"
    using registry_inv_indexed[OF inv] markErroneous_entry[of m p]
    by (metis option.map(2))
next
  fix k rp assume "(k, rp) \<in> set (reg_byKey (fst (ApplyManifestLoadSignals r)))"
  then obtain rp0 where "(k, rp0) \<in> set (reg_byKey r)" and rp: "rp = markErroneous rp0"
    unfolding reg_byKey_signals by auto
  then show "\<exists>k' m p b. (k', m) \<in> set (reg_manifests r) \<and> p \<in> set (pm_SolutionProfiles m) \<and>
      rp = entry_of m p b \<and> k = profileKey (pm_ProviderID m) (sp_SolutionProfileID p)"
    using registry_inv_entry[OF inv, of k rp0] markErroneous_entry by metis
qed

section \<open>What the reads return\<close>

lemma Get_Some:
  assumes "registry_inv r" and "Get r providerID = Some m"
  shows "(ToLower (pm_ProviderID m), m) \<in> set (reg_manifests r)" and "loaded_manifest m"
    and "ToLower (pm_ProviderID m) = ToLower (TrimSpace providerID)"
proof -
  have "(ToLower (TrimSpace providerID), m) \<in> set (reg_manifests r)"
    using assms(2) by (simp add: Get_def map_of_SomeD)
  then show "(ToLower (pm_ProviderID m), m) \<in> set (reg_manifests r)" "loaded_manifest m"
    "ToLower (pm_ProviderID m) = ToLower (TrimSpace providerID)"
    using registry_inv_manifest[OF assms(1)] by metis+
qed

text \<open>The unsorted list behind \<open>ProfilesForProvider\<close>: every profile of the manifest, none skipped.\<close>

lemma map_filter_indexed:
  assumes inv: "registry_inv r" and m: "(k, m) \<in> set (reg_manifests r)"
    and ps: "set ps \<subseteq> set (pm_SolutionProfiles m)"
  shows "map rp_Profile (List.map_filter
      (\<lambda>p. map_of (reg_byKey r) (profileKey (pm_ProviderID m) (sp_SolutionProfileID p))) ps) = ps"
  using ps
proof (induction ps)
  case (Cons p ps)
  then obtain b where "map_of (reg_byKey r) (profileKey (pm_ProviderID m) (sp_SolutionProfileID p)) =
      Some (entry_of m p b)"
    using registry_inv_indexed[OF inv m, of p] by auto
  with Cons show ?case by (simp add: List.map_filter_simps entry_of_def)
qed (simp add: List.map_filter_simps)

lemma ProfilesForProvider_entry:
  assumes inv: "registry_inv r" and rp: "rp \<in> set (ProfilesForProvider r providerID)"
  obtains m p b where "Get r providerID = Some m" and "p \<in> set (pm_SolutionProfiles m)"
    and "rp = entry_of m p b"
    and "map_of (reg_byKey r) (profileKey (pm_ProviderID m) (sp_SolutionProfileID p)) = Some rp"
proof -
  obtain m where m: "Get r providerID = Some m"
    using rp by (cases "Get r providerID") (auto simp: ProfilesForProvider_def)
  from rp m obtain p where p: "p \<in> set (pm_SolutionProfiles m)"
    and lk: "map_of (reg_byKey r) (profileKey (pm_ProviderID m) (sp_SolutionProfileID p)) = Some rp"
    by (auto simp: ProfilesForProvider_def List.map_filter_def)
  from registry_inv_indexed[OF inv Get_Some(1)[OF inv m] p] lk
  obtain b where "rp = entry_of m p b" by auto
  with that m p lk show thesis by blast
qed

lemma ProfilesForProvider_lookup:
  assumes inv: "registry_inv r" and rp: "rp \<in> set (ProfilesForProvider r providerID)"
  shows "Lookup r \<lparr>pr_ProviderID = rp_ProviderID rp,
      pr_SolutionProfileID = sp_SolutionProfileID (rp_Profile rp),
      pr_ManifestVersion = rp_ProviderVersion rp\<rparr> = Some rp"
proof -
  obtain m p b where m: "Get r providerID = Some m" and e: "rp = entry_of m p b"
    and lk: "map_of (reg_byKey r) (profileKey (pm_ProviderID m) (sp_SolutionProfileID p)) = Some rp"
    using ProfilesForProvider_entry[OF assms] .
  show ?thesis
    using lk loaded_manifest_trimmed(2)[OF Get_Some(2)[OF inv m]]
    by (simp add: Lookup_def e entry_of_def Let_def)
qed

lemma ProfilesForProvider_ids:
  assumes inv: "registry_inv r" and m: "Get r providerID = Some m"
  shows "mset (map rp_Profile (ProfilesForProvider r providerID)) = mset (pm_SolutionProfiles m)"
    and "sorted_wrt (<) (map (\<lambda>rp. sp_SolutionProfileID (rp_Profile rp)) (ProfilesForProvider r providerID))"
proof -
  let ?f = "\<lambda>p. map_of (reg_byKey r) (profileKey (pm_ProviderID m) (sp_SolutionProfileID p))"
  let ?l = "List.map_filter ?f (pm_SolutionProfiles m)"
  have prof: "map rp_Profile ?l = pm_SolutionProfiles m"
    by (rule map_filter_indexed[OF inv Get_Some(1)[OF inv m]]) simp
  have eq: "ProfilesForProvider r providerID = sort_key (\<lambda>rp. sp_SolutionProfileID (rp_Profile rp)) ?l"
    by (simp add: ProfilesForProvider_def m)
  show "mset (map rp_Profile (ProfilesForProvider r providerID)) = mset (pm_SolutionProfiles m)"
    unfolding eq using arg_cong[OF prof, of mset] by simp
  have "distinct (map (\<lambda>rp. sp_SolutionProfileID (rp_Profile rp)) ?l)"
    using arg_cong[OF prof, of "map sp_SolutionProfileID"] Get_Some(2)[OF inv m]
    by (simp add: comp_def loaded_manifest_def manifest_wf_def)
  then show "sorted_wrt (<) (map (\<lambda>rp. sp_SolutionProfileID (rp_Profile rp)) (ProfilesForProvider r providerID))"
    unfolding eq by (rule sort_key_strict)
qed

section \<open>The interface of the registry\<close>

text \<open>What the explore and catalogue code rely on: the profiles listed for a provider are resolved
  again by a lookup pinned to their version, and they come in strictly increasing order of their
  ids.\<close>

locale profile_registry =
  fixes invar :: "'r \<Rightarrow> bool"
    and profiles_for :: "'r \<Rightarrow> string \<Rightarrow> ResolvedProfile list"
    and lookup :: "'r \<Rightarrow> ProfileRef \<Rightarrow> ResolvedProfile option"
  assumes listed_resolves: "invar r \<Longrightarrow> rp \<in> set (profiles_for r pid) \<Longrightarrow>
      lookup r \<lparr>pr_ProviderID = rp_ProviderID rp,
        pr_SolutionProfileID = sp_SolutionProfileID (rp_Profile rp),
        pr_ManifestVersion = rp_ProviderVersion rp\<rparr> = Some rp"
    and listed_sorted: "invar r \<Longrightarrow>
      sorted_wrt (<) (map (\<lambda>rp. sp_SolutionProfileID (rp_Profile rp)) (profiles_for r pid))"
begin

lemma listed_distinct:
  assumes "invar r"
  shows "distinct (map (\<lambda>rp. sp_SolutionProfileID (rp_Profile rp)) (profiles_for r pid))"
  using listed_sorted[OF assms, of pid] by (simp add: strict_sorted_iff)

lemma listed_by_id:
  assumes "invar r" and "rp \<in> set (profiles_for r pid)" and "rp' \<in> set (profiles_for r pid)"
    and "sp_SolutionProfileID (rp_Profile rp) = sp_SolutionProfileID (rp_Profile rp')"
  shows "rp = rp'"
  using listed_distinct[OF assms(1), of pid] assms(2-4) by (auto simp: distinct_map inj_on_def)

end

interpretation registry: profile_registry registry_inv ProfilesForProvider Lookup
proof unfold_locales
  fix r rp pid assume "registry_inv r" "rp \<in> set (ProfilesForProvider r pid)"
  then show "Lookup r \<lparr>pr_ProviderID = rp_ProviderID rp,
        pr_SolutionProfileID = sp_SolutionProfileID (rp_Profile rp),
        pr_ManifestVersion = rp_ProviderVersion rp\<rparr> = Some rp"
    by (rule ProfilesForProvider_lookup)
next
  fix r pid assume inv: "registry_inv r"
  show "sorted_wrt (<) (map (\<lambda>rp. sp_SolutionProfileID (rp_Profile rp)) (ProfilesForProvider r pid))"
  proof (cases "Get r pid")
    case None
    then show ?thesis by (simp add: ProfilesForProvider_def)
  next
    case (Some m)
    then show ?thesis using ProfilesForProvider_ids(2)[OF inv] by blast
  qed
qed

section \<open>A concrete registry\<close>

definition nicetry_registry :: Registry where
  "nicetry_registry = fst (AddManifest NewRegistry (Some nicetry_manifest))"

lemma nicetry_loaded: "loaded_manifest nicetry_manifest"
  using nicetry_normal nicetry_valid by (simp add: loaded_manifest_def Validate_wf nicetry_manifest_def)

lemma nicetry_registry_inv: "registry_inv nicetry_registry"
  unfolding nicetry_registry_def by (rule registry_inv_AddManifest[OF registry_inv_New nicetry_loaded])

section \<open>Built registries\<close>

text \<open>The registries the loader builds from manifests whose provider ids contain no NUL byte: it starts
  from the empty one, adds manifests that passed \<^verbatim>\<open>NormalizeAndValidate\<close> and marks the contradictory
  profiles. The source has no check for the NUL byte; with one in a provider id two different pairs
  of ids can share a profile key, and a manifest refused for that key stays registered
  (\<open>nul_id_stays_registered\<close> below). What is proved of built registries excludes that case.\<close>

inductive registry_built :: "Registry \<Rightarrow> bool" where
  built_New: "registry_built NewRegistry"
| built_Add: "registry_built r \<Longrightarrow> NormalizeAndValidate m0 = Inr m \<Longrightarrow> CHR 0x00 \<notin> set (pm_ProviderID m) \<Longrightarrow>
    registry_built (fst (AddManifest r (Some m)))"
| built_Signals: "registry_built r \<Longrightarrow> registry_built (fst (ApplyManifestLoadSignals r))"

lemma registry_built_inv: "registry_built r \<Longrightarrow> registry_inv r"
  by (induction rule: registry_built.induct)
    (auto intro: registry_inv_New registry_inv_AddManifest registry_inv_signals loaded_manifest_load)

lemma nicetry_registry_built: "registry_built nicetry_registry"
  unfolding nicetry_registry_def
  by (rule built_Add[OF built_New nicetry_load]) (simp add: nicetry_manifest_def)

text \<open>Why the condition is there: two accepted manifests whose profile keys collide through a NUL byte.
  The second is refused, yet found under its id afterwards, while its profile resolves to the
  profile of the first.\<close>

definition nul_manifest :: "string \<Rightarrow> string \<Rightarrow> ProviderManifest" where
  "nul_manifest pid spid = nicetry_manifest\<lparr>pm_ProviderID := pid,
     pm_SolutionProfiles := [nicetry_profile\<lparr>sp_SolutionProfileID := spid\<rparr>]\<rparr>"

lemma nul_id_stays_registered:
  defines "m1 \<equiv> nul_manifest ''a'' [CHR ''b'', CHR 0x00, CHR ''c'']" and "m2 \<equiv> nul_manifest [CHR ''a'', CHR 0x00, CHR ''b''] ''c''"
  shows "NormalizeAndValidate m1 = Inr m1" and "NormalizeAndValidate m2 = Inr m2"
    and "snd (AddManifest (fst (AddManifest NewRegistry (Some m1))) (Some m2)) \<noteq> None"
    and "Get (fst (AddManifest (fst (AddManifest NewRegistry (Some m1))) (Some m2))) (pm_ProviderID m2) = Some m2"
    and "Lookup (fst (AddManifest (fst (AddManifest NewRegistry (Some m1))) (Some m2)))
      \<lparr>pr_ProviderID = pm_ProviderID m2, pr_SolutionProfileID = ''c'', pr_ManifestVersion = ''''\<rparr> =
      Some (entry_of m1 (hd (pm_SolutionProfiles m1)) False)"
  unfolding m1_def m2_def by code_simp+

lemma Lookup_indexed:
  assumes inv: "registry_inv r" and m: "Get r pid = Some m" and p: "p \<in> set (pm_SolutionProfiles m)"
  obtains b where "\<And>v. Lookup r \<lparr>pr_ProviderID = pid, pr_SolutionProfileID = sp_SolutionProfileID p,
      pr_ManifestVersion = v\<rparr> =
    (if TrimSpace v = '''' \<or> TrimSpace v = pm_ProviderVersion m then Some (entry_of m p b) else None)"
proof -
  obtain b where b: "map_of (reg_byKey r) (profileKey (pm_ProviderID m) (sp_SolutionProfileID p)) = Some (entry_of m p b)"
    using registry_inv_indexed[OF inv Get_Some(1)[OF inv m] p] .
  have "profileKey pid (sp_SolutionProfileID p) = profileKey (pm_ProviderID m) (sp_SolutionProfileID p)"
    using Get_Some(3)[OF inv m] loaded_manifest_trimmed(1)[OF Get_Some(2)[OF inv m]] by (simp add: profileKey_def)
  then have "Lookup r \<lparr>pr_ProviderID = pid, pr_SolutionProfileID = sp_SolutionProfileID p, pr_ManifestVersion = v\<rparr> =
      (if TrimSpace v = '''' \<or> TrimSpace v = pm_ProviderVersion m then Some (entry_of m p b) else None)" for v
    by (simp add: Lookup_def b Let_def entry_of_def)
  then show thesis by (rule that)
qed

section \<open>Properties\<close>

text \<open>C36. In every registry the loader builds from manifests whose provider ids contain no NUL byte, each
  profile of each registered manifest is resolved by \<^verbatim>\<open>Lookup\<close> under its provider id (up to case and surrounding blanks) and its profile
  id, with no version or the manifest's version; any other version resolves to nothing.\<close>

theorem registry_lookup_complete:
  assumes "registry_built r" and "Get r pid = Some m" and "p \<in> set (pm_SolutionProfiles m)"
  shows "\<exists>b. \<forall>v. Lookup r \<lparr>pr_ProviderID = pid, pr_SolutionProfileID = sp_SolutionProfileID p,
      pr_ManifestVersion = v\<rparr> =
    (if TrimSpace v = '''' \<or> TrimSpace v = pm_ProviderVersion m then Some (entry_of m p b) else None)"
  using Lookup_indexed[OF registry_built_inv[OF assms(1)] assms(2,3)] by metis

lemma nicetry_Get: "Get nicetry_registry '' NiceTry'' = Some nicetry_manifest"
  by code_simp

theorem registry_lookup_complete_witness:
  "\<exists>b. \<forall>v. Lookup nicetry_registry \<lparr>pr_ProviderID = '' NiceTry'',
      pr_SolutionProfileID = sp_SolutionProfileID nicetry_profile, pr_ManifestVersion = v\<rparr> =
    (if TrimSpace v = '''' \<or> TrimSpace v = pm_ProviderVersion nicetry_manifest
     then Some (entry_of nicetry_manifest nicetry_profile b) else None)"
  by (rule registry_lookup_complete[OF nicetry_registry_built nicetry_Get]) (simp add: nicetry_manifest_def)

text \<open>Adding a loaded manifest to a built registry either fails because the provider id is taken
  (up to case) and leaves the registry unchanged, or succeeds; then the manifest is found under
  its id and every other provider id finds what it found before.\<close>

lemma registry_add_spec:
  assumes "registry_built r" and "loaded_manifest m"
  shows "case AddManifest r (Some m) of
     (r', Some e) \<Rightarrow> Get r (pm_ProviderID m) \<noteq> None \<and> r' = r
   | (r', None) \<Rightarrow> Get r (pm_ProviderID m) = None \<and>
       (\<forall>pid. Get r' pid =
         (if ToLower (TrimSpace pid) = ToLower (pm_ProviderID m) then Some m else Get r pid))"
proof (cases "Get r (pm_ProviderID m)")
  case (Some m')
  then show ?thesis by (simp add: Get_def AddManifest_duplicate)
next
  case None
  then have new: "map_of (reg_manifests r) (ToLower (TrimSpace (pm_ProviderID m))) = None"
    by (simp add: Get_def)
  show ?thesis
    using None loaded_manifest_trimmed(1)[OF assms(2)] new
    by (auto simp: AddManifest_new[OF registry_built_inv[OF assms(1)] assms(2) new] Get_def map_add_def
        split: option.split)
qed

text \<open>\<^verbatim>\<open>ProfilesForProvider\<close> of a built registry returns exactly the profiles of the provider's
  manifest, in strictly increasing order of their ids, and each entry is found again by a lookup
  pinned to the entry's own version.\<close>

lemma profiles_for_provider_spec:
  assumes "registry_built r" and "Get r pid = Some m"
  shows "mset (map rp_Profile (ProfilesForProvider r pid)) = mset (pm_SolutionProfiles m) \<and>
    sorted_wrt (<) (map (\<lambda>rp. sp_SolutionProfileID (rp_Profile rp)) (ProfilesForProvider r pid)) \<and>
    (\<forall>rp \<in> set (ProfilesForProvider r pid).
       Lookup r \<lparr>pr_ProviderID = rp_ProviderID rp, pr_SolutionProfileID = sp_SolutionProfileID (rp_Profile rp),
         pr_ManifestVersion = rp_ProviderVersion rp\<rparr> = Some rp)"
  using ProfilesForProvider_ids(1)[OF registry_built_inv[OF assms(1)] assms(2)]
    registry.listed_sorted[OF registry_built_inv[OF assms(1)]]
    registry.listed_resolves[OF registry_built_inv[OF assms(1)]]
  by blast

end
