(* ===== verification/Crypto_Policy.thy ===== *)
theory Crypto_Policy
  imports Provider_Compat Provider_Registry
begin

text \<open>
  The catalogued crypto policy and what the catalogue derives from it
  (\<^verbatim>\<open>internal/domain/vocabulary\<close> and, in \<^verbatim>\<open>internal/domain/policy\<close>: \<^verbatim>\<open>crypto_policy.go\<close>, \<^verbatim>\<open>chains.go\<close>,
  \<^verbatim>\<open>solution_profile_ref.go\<close>, \<^verbatim>\<open>assessment_result.go\<close>, \<^verbatim>\<open>findings.go\<close>, \<^verbatim>\<open>catalogue_signals.go\<close>,
  \<^verbatim>\<open>compatible_networks.go\<close>, \<^verbatim>\<open>allowed_provider_summaries.go\<close>, \<^verbatim>\<open>composition_view.go\<close>). A \<^verbatim>\<open>*CryptoPolicy\<close>
  or \<^verbatim>\<open>*provider.Registry\<close> that the code tests for \<^verbatim>\<open>nil\<close> is an option. The lemmas show that a loaded
  policy is canonical and valid, that the derived networks are exactly the deployable chains of the
  allowed providers, sorted and without repetition, and that the orphan test finds exactly the
  policies no allowed provider can satisfy.
\<close>

section \<open>Vocabulary\<close>

definition PQPostureClassicalOnly :: string where "PQPostureClassicalOnly = ''classical_only''"
definition PQPostureHybrid :: string where "PQPostureHybrid = ''hybrid''"
definition PQPostureFullPQ :: string where "PQPostureFullPQ = ''full_pq''"
definition PQPostureUnknown :: string where "PQPostureUnknown = ''unknown''"

definition posture_IsValid :: "string \<Rightarrow> bool" where
  "posture_IsValid p \<longleftrightarrow>
     p \<in> set [PQPostureClassicalOnly, PQPostureHybrid, PQPostureFullPQ, PQPostureUnknown]"

section \<open>Normalising slices\<close>

definition normalizeChainIDs :: "int64 list \<Rightarrow> int64 list" where
  "normalizeChainIDs ids = sort (dedupe_by (\<lambda>i. i) [] ids)"

fun normalizeStrings_loop :: "string list \<Rightarrow> string list \<Rightarrow> string list" where
  "normalizeStrings_loop seen [] = []"
| "normalizeStrings_loop seen (s # rest) =
     (if s = '''' then normalizeStrings_loop seen rest
      else if s \<in> set seen then normalizeStrings_loop seen rest
      else s # normalizeStrings_loop (s # seen) rest)"

definition normalizeStringsPreserveOrder :: "string list \<Rightarrow> string list" where
  "normalizeStringsPreserveOrder xs = normalizeStrings_loop [] xs"

lemma normalizeChainIDs_props [simp]:
  "set (normalizeChainIDs ids) = set ids" "sorted (normalizeChainIDs ids)" "distinct (normalizeChainIDs ids)"
  by (simp_all add: normalizeChainIDs_def)

text \<open>The sorted, duplicate-free list is determined by the set of ids.\<close>

lemma normalizeChainIDs_eq: "normalizeChainIDs ids = sorted_list_of_set (set ids)"
  by (rule sorted_distinct_set_unique) simp_all

lemma normalizeStrings_loop_eq:
  "normalizeStrings_loop seen xs = dedupe_by (\<lambda>s. s) seen (filter (\<lambda>s. s \<noteq> []) xs)"
  by (induction seen xs rule: normalizeStrings_loop.induct) auto

lemma normalizeStrings_props [simp]:
  "set (normalizeStringsPreserveOrder xs) = set xs - {[]}"
  "distinct (normalizeStringsPreserveOrder xs)"
  by (auto simp: normalizeStringsPreserveOrder_def normalizeStrings_loop_eq)

lemma normalizeStrings_id: "distinct xs \<Longrightarrow> [] \<notin> set xs \<Longrightarrow> normalizeStringsPreserveOrder xs = xs"
proof -
  assume d: "distinct xs" and ne: "[] \<notin> set xs"
  have "filter (\<lambda>s. s \<noteq> []) xs = xs" using ne by (auto simp: filter_id_conv)
  with d show "normalizeStringsPreserveOrder xs = xs"
    by (simp add: normalizeStringsPreserveOrder_def normalizeStrings_loop_eq dedupe_id_distinct_id)
qed

lemma normalizeStrings_idem [simp]:
  "normalizeStringsPreserveOrder (normalizeStringsPreserveOrder xs) = normalizeStringsPreserveOrder xs"
  by (rule normalizeStrings_id) simp_all

section \<open>The crypto policy\<close>

record CryptoPolicy =
  cp_ID :: string
  cp_Name :: string
  cp_Version :: string
  cp_Description :: string
  cp_RequiredPosture :: string
  cp_AllowedProviders :: "string list"

datatype crypto_policy_error =
    CryptoPolicyNil
  | ErrCryptoPolicyIDRequired
  | ErrCryptoPolicyNameRequired
  | ErrCryptoPolicyVersionRequired
  | ErrCryptoPolicyRequiredPostureRequired
  | ErrCryptoPolicyRequiredPostureInvalid string
  | ErrCryptoPolicyAllowedProvidersRequired
  | ErrCryptoPolicyAllowedProviderEmpty

definition CryptoPolicy_Normalize :: "CryptoPolicy \<Rightarrow> CryptoPolicy" where
  "CryptoPolicy_Normalize c =
     c\<lparr>cp_ID := TrimSpace (cp_ID c),
       cp_Name := TrimSpace (cp_Name c),
       cp_Version := TrimSpace (cp_Version c),
       cp_Description := TrimSpace (cp_Description c),
       cp_AllowedProviders := normalizeStringsPreserveOrder (cp_AllowedProviders c)\<rparr>"

definition CryptoPolicy_Validate :: "CryptoPolicy option \<Rightarrow> crypto_policy_error option" where
  "CryptoPolicy_Validate co =
     (case co of
        None \<Rightarrow> Some CryptoPolicyNil
      | Some c \<Rightarrow>
          if cp_ID c = '''' then Some ErrCryptoPolicyIDRequired
          else if cp_Name c = '''' then Some ErrCryptoPolicyNameRequired
          else if cp_Version c = '''' then Some ErrCryptoPolicyVersionRequired
          else if cp_RequiredPosture c = '''' then Some ErrCryptoPolicyRequiredPostureRequired
          else if \<not> posture_IsValid (cp_RequiredPosture c) \<or> cp_RequiredPosture c = PQPostureUnknown
          then Some (ErrCryptoPolicyRequiredPostureInvalid (Quote (cp_RequiredPosture c)))
          else if cp_AllowedProviders c = [] then Some ErrCryptoPolicyAllowedProvidersRequired
          else first_err (\<lambda>pid. if TrimSpace pid = '''' then Some ErrCryptoPolicyAllowedProviderEmpty else None)
                 (cp_AllowedProviders c))"

definition CryptoPolicy_NormalizeAndValidate :: "CryptoPolicy \<Rightarrow> crypto_policy_error + CryptoPolicy" where
  "CryptoPolicy_NormalizeAndValidate c =
     (case CryptoPolicy_Validate (Some (CryptoPolicy_Normalize c)) of
        None \<Rightarrow> Inr (CryptoPolicy_Normalize c)
      | Some e \<Rightarrow> Inl e)"

lemma CryptoPolicy_Normalize_idem [simp]:
  "CryptoPolicy_Normalize (CryptoPolicy_Normalize c) = CryptoPolicy_Normalize c"
  by (simp add: CryptoPolicy_Normalize_def)

interpretation crypto_policy: normalized_loader CryptoPolicy_Normalize
  "\<lambda>c. CryptoPolicy_Validate (Some c)" CryptoPolicy_NormalizeAndValidate
  by unfold_locales (simp_all add: CryptoPolicy_NormalizeAndValidate_def)

definition crypto_policy_wf :: "CryptoPolicy \<Rightarrow> bool" where
  "crypto_policy_wf c \<longleftrightarrow>
     cp_ID c \<noteq> '''' \<and> cp_Name c \<noteq> '''' \<and> cp_Version c \<noteq> '''' \<and>
     cp_RequiredPosture c \<in> set postures \<and>
     cp_AllowedProviders c \<noteq> [] \<and> (\<forall>pid \<in> set (cp_AllowedProviders c). TrimSpace pid \<noteq> '''')"

lemma postures_iff: "p \<in> set postures \<longleftrightarrow> posture_IsValid p \<and> p \<noteq> PQPostureUnknown"
  by (auto simp: postures_def posture_IsValid_def PQPostureClassicalOnly_def PQPostureHybrid_def
      PQPostureFullPQ_def PQPostureUnknown_def)

lemma postures_nonempty: "p \<in> set postures \<Longrightarrow> p \<noteq> ''''"
  by (auto simp: postures_def)

lemma postures_trimmed: "p \<in> set postures \<Longrightarrow> TrimSpace p = p"
  by (auto simp: postures_def visible_def byte_of_def intro!: TrimSpace_visible)

lemma CryptoPolicy_Validate_wf: "CryptoPolicy_Validate (Some c) = None \<longleftrightarrow> crypto_policy_wf c"
  using postures_nonempty[of "cp_RequiredPosture c"]
  by (auto simp: CryptoPolicy_Validate_def crypto_policy_wf_def postures_iff)

section \<open>References and findings\<close>

record SolutionProfileRef =
  spr_ProviderID :: string
  spr_SolutionProfileID :: string
  spr_ManifestVersion :: string
  spr_VerificationDate :: string

datatype profile_ref_error =
    ErrSolutionProfileRefRequired
  | ErrSolutionProfileRefProviderIDRequired
  | ErrSolutionProfileRefSolutionIDRequired
  | ErrSolutionProfileRefManifestVersionRequired

definition SolutionProfileRef_Validate :: "SolutionProfileRef \<Rightarrow> profile_ref_error option" where
  "SolutionProfileRef_Validate r =
     (if spr_ProviderID r = '''' \<and> spr_SolutionProfileID r = '''' \<and> spr_ManifestVersion r = '''' \<and>
         spr_VerificationDate r = ''''
      then Some ErrSolutionProfileRefRequired
      else if spr_ProviderID r = '''' then Some ErrSolutionProfileRefProviderIDRequired
      else if spr_SolutionProfileID r = '''' then Some ErrSolutionProfileRefSolutionIDRequired
      else if spr_ManifestVersion r = '''' then Some ErrSolutionProfileRefManifestVersionRequired
      else None)"

lemma SolutionProfileRef_Validate_None:
  "SolutionProfileRef_Validate r = None \<longleftrightarrow>
     spr_ProviderID r \<noteq> '''' \<and> spr_SolutionProfileID r \<noteq> '''' \<and> spr_ManifestVersion r \<noteq> ''''"
  by (simp add: SolutionProfileRef_Validate_def)

definition profile_ref_error_string :: "profile_ref_error \<Rightarrow> string" where
  "profile_ref_error_string e =
     (case e of
        ErrSolutionProfileRefRequired \<Rightarrow> ''instance solution_profile_ref is required''
      | ErrSolutionProfileRefProviderIDRequired \<Rightarrow> ''solution_profile_ref provider_id is required''
      | ErrSolutionProfileRefSolutionIDRequired \<Rightarrow>
          ''solution_profile_ref solution_profile_id is required''
      | ErrSolutionProfileRefManifestVersionRequired \<Rightarrow>
          ''solution_profile_ref manifest_version is required'')"

datatype AssessmentStatus =
    AssessmentStatusPending
  | AssessmentStatusCompatibleAndDeployable
  | AssessmentStatusCompatibleButNotDeployable
  | AssessmentStatusIncompatible
  | AssessmentStatusError
  | AssessmentStatusErroneous

datatype AssessmentFindingSeverity =
    AssessmentFindingSeverityInfo
  | AssessmentFindingSeverityWarning
  | AssessmentFindingSeverityBlocking

record AssessmentFinding =
  af_Code :: string
  af_Message :: string
  af_Severity :: AssessmentFindingSeverity
  af_Field :: string
  af_Details :: "string gomap"

definition blockingFinding :: "string \<Rightarrow> string \<Rightarrow> AssessmentFinding" where
  "blockingFinding code message =
     \<lparr>af_Code = code, af_Message = message, af_Severity = AssessmentFindingSeverityBlocking,
      af_Field = '''', af_Details = []\<rparr>"

definition fieldFinding :: "string \<Rightarrow> string \<Rightarrow> string \<Rightarrow> AssessmentFinding" where
  "fieldFinding code message field = (blockingFinding code message)\<lparr>af_Field := field\<rparr>"

section \<open>Catalogue signals\<close>

definition HasPostureCompatibleProvider :: "CryptoPolicy option \<Rightarrow> Registry option \<Rightarrow> bool" where
  "HasPostureCompatibleProvider co ro =
     (case co of
        None \<Rightarrow> False
      | Some cp \<Rightarrow>
          if cp_AllowedProviders cp = [] then False
          else
            let required = TrimSpace (cp_RequiredPosture cp) in
            (case ro of
               None \<Rightarrow> False
             | Some reg \<Rightarrow>
                 if required = '''' then False
                 else list_ex (\<lambda>pid.
                   let providerID = TrimSpace pid in
                   if providerID = '''' then False
                   else list_ex (\<lambda>resolved. TrimSpace (sp_ResultingPosture (rp_Profile resolved)) = required)
                          (ProfilesForProvider reg providerID))
                   (cp_AllowedProviders cp)))"

text \<open>The loop counts the orphans; the logged policies are kept beside the count.\<close>

definition CheckPostureOrphanage :: "CryptoPolicy option list \<Rightarrow> Registry option \<Rightarrow> nat \<times> CryptoPolicy list" where
  "CheckPostureOrphanage cps reg =
     (let orphans = filter (\<lambda>cp. \<not> HasPostureCompatibleProvider (Some cp) reg)
        (List.map_filter (\<lambda>c. c) cps)
      in (length orphans, orphans))"

section \<open>Networks and summaries\<close>

record CompatibleNetwork =
  cn_ChainID :: int64
  cn_Network :: string
  cn_Status :: string
  cn_Capabilities :: "string list"

definition network_of :: "ChainSupport \<Rightarrow> CompatibleNetwork" where
  "network_of cs =
     \<lparr>cn_ChainID = cs_ChainID cs, cn_Network = cs_Network cs, cn_Status = cs_Status cs,
      cn_Capabilities = cs_Capabilities cs\<rparr>"

definition deployable_entry :: "ChainSupport \<Rightarrow> bool" where
  "deployable_entry cs \<longleftrightarrow> \<not> (cs_Status cs = ChainStatusPlanned \<or> cs_ChainID cs \<le> 0)"

text \<open>The innermost loop of both derivations: it threads the set of chain ids seen and the output
  slice through the entries.\<close>

fun collectNetworks :: "ChainSupport list \<Rightarrow> int64 list \<times> CompatibleNetwork list \<Rightarrow>
    int64 list \<times> CompatibleNetwork list" where
  "collectNetworks [] acc = acc"
| "collectNetworks (cs # rest) (seen, out) =
     (if cs_Status cs = ChainStatusPlanned \<or> cs_ChainID cs \<le> 0 then collectNetworks rest (seen, out)
      else if cs_ChainID cs \<in> set seen then collectNetworks rest (seen, out)
      else collectNetworks rest (cs_ChainID cs # seen, out @ [network_of cs]))"

definition DeriveCompatibleNetworks :: "CryptoPolicy option \<Rightarrow> Registry option \<Rightarrow> CompatibleNetwork list" where
  "DeriveCompatibleNetworks co ro =
     (case (co, ro) of
        (Some cp, Some reg) \<Rightarrow>
          sort_key cn_ChainID
            (snd (fold (\<lambda>providerID acc.
                    fold (\<lambda>resolved acc. collectNetworks (sp_ChainSupport (rp_Profile resolved)) acc)
                      (ProfilesForProvider reg providerID) acc)
                  (cp_AllowedProviders cp) ([], [])))
      | _ \<Rightarrow> [])"

definition deployableNetworksFromProfile :: "SolutionProfile option \<Rightarrow> CompatibleNetwork list" where
  "deployableNetworksFromProfile po =
     (case po of
        None \<Rightarrow> []
      | Some p \<Rightarrow> sort_key cn_ChainID (snd (collectNetworks (sp_ChainSupport p) ([], []))))"

record ProviderSignatureSummary =
  pss_Scheme :: string
  pss_Family :: string

record AllowedProviderSummary =
  aps_ProviderID :: string
  aps_Signature :: ProviderSignatureSummary
  aps_Networks :: "CompatibleNetwork list"

fun pickCatalogProfile_loop :: "ResolvedProfile option \<Rightarrow> ResolvedProfile list \<Rightarrow> string \<Rightarrow> ResolvedProfile option" where
  "pickCatalogProfile_loop first [] requiredPosture = first"
| "pickCatalogProfile_loop first (resolved # rest) requiredPosture =
     (let first' = (case first of None \<Rightarrow> Some resolved | Some f \<Rightarrow> Some f) in
      if requiredPosture \<noteq> '''' \<and> TrimSpace (sp_ResultingPosture (rp_Profile resolved)) = requiredPosture
      then Some resolved
      else pickCatalogProfile_loop first' rest requiredPosture)"

definition pickCatalogProfile :: "ResolvedProfile list \<Rightarrow> string \<Rightarrow> ResolvedProfile option" where
  "pickCatalogProfile profiles requiredPosture = pickCatalogProfile_loop None profiles requiredPosture"

definition summaryForProvider :: "Registry \<Rightarrow> string \<Rightarrow> string \<Rightarrow> AllowedProviderSummary option" where
  "summaryForProvider reg required pid =
     (let providerID = TrimSpace pid in
      if providerID = '''' then None
      else
        case pickCatalogProfile (ProfilesForProvider reg providerID) required of
          None \<Rightarrow> None
        | Some chosen \<Rightarrow>
            Some \<lparr>aps_ProviderID = providerID,
              aps_Signature = \<lparr>pss_Scheme = sig_Scheme (sp_Signature (rp_Profile chosen)),
                pss_Family = sig_Family (sp_Signature (rp_Profile chosen))\<rparr>,
              aps_Networks = deployableNetworksFromProfile (Some (rp_Profile chosen))\<rparr>)"

definition DeriveAllowedProviderSummaries :: "CryptoPolicy option \<Rightarrow> Registry option \<Rightarrow> AllowedProviderSummary list" where
  "DeriveAllowedProviderSummaries co ro =
     (case (co, ro) of
        (Some cp, Some reg) \<Rightarrow>
          List.map_filter (summaryForProvider reg (TrimSpace (cp_RequiredPosture cp))) (cp_AllowedProviders cp)
      | _ \<Rightarrow> [])"

record CryptoPolicyCatalogItem =
  ci_ID :: string
  ci_Name :: string
  ci_Version :: string
  ci_Description :: string
  ci_RequiredPosture :: string
  ci_AllowedProviders :: "string list"
  ci_CompatibleNetworks :: "CompatibleNetwork list"
  ci_AllowedProviderSummaries :: "AllowedProviderSummary list"

definition CatalogItemFromCryptoPolicy :: "CryptoPolicy option \<Rightarrow> Registry option \<Rightarrow> CryptoPolicyCatalogItem" where
  "CatalogItemFromCryptoPolicy co ro =
     (case co of
        None \<Rightarrow> \<lparr>ci_ID = '''', ci_Name = '''', ci_Version = '''', ci_Description = '''', ci_RequiredPosture = '''',
          ci_AllowedProviders = [], ci_CompatibleNetworks = [], ci_AllowedProviderSummaries = []\<rparr>
      | Some cp \<Rightarrow>
          \<lparr>ci_ID = cp_ID cp, ci_Name = cp_Name cp, ci_Version = cp_Version cp,
           ci_Description = cp_Description cp, ci_RequiredPosture = cp_RequiredPosture cp,
           ci_AllowedProviders = cp_AllowedProviders cp,
           ci_CompatibleNetworks = DeriveCompatibleNetworks (Some cp) ro,
           ci_AllowedProviderSummaries = DeriveAllowedProviderSummaries (Some cp) ro\<rparr>)"

section \<open>The composition view\<close>

record CompositionAccountModel =
  ca_Standard :: string
  ca_ExecutionModel :: string
  ca_RequiresBundler :: bool
  ca_RequiresEntrypoint :: bool
  ca_EntrypointVersions :: "string list"

record CompositionSignature =
  cg_Scheme :: string
  cg_Family :: string
  cg_KeyRotationModel :: string

record CompositionConstraints =
  cc_RequiresNewAccount :: bool
  cc_AddressContinuitySupported :: bool
  cc_RequiresLocalSignerState :: bool

record CompositionView =
  cv_AccountModel :: CompositionAccountModel
  cv_Signature :: CompositionSignature
  cv_Constraints :: CompositionConstraints

definition DeriveCompositionView :: "SolutionProfile option \<Rightarrow> CompositionView" where
  "DeriveCompositionView po =
     (case po of
        None \<Rightarrow>
          \<lparr>cv_AccountModel = \<lparr>ca_Standard = '''', ca_ExecutionModel = '''', ca_RequiresBundler = False,
             ca_RequiresEntrypoint = False, ca_EntrypointVersions = []\<rparr>,
           cv_Signature = \<lparr>cg_Scheme = '''', cg_Family = '''', cg_KeyRotationModel = ''''\<rparr>,
           cv_Constraints = \<lparr>cc_RequiresNewAccount = False, cc_AddressContinuitySupported = False,
             cc_RequiresLocalSignerState = False\<rparr>\<rparr>
      | Some p \<Rightarrow>
          \<lparr>cv_AccountModel = \<lparr>ca_Standard = am_Standard (sp_AccountModel p),
             ca_ExecutionModel = am_ExecutionModel (sp_AccountModel p),
             ca_RequiresBundler = am_RequiresBundler (sp_AccountModel p),
             ca_RequiresEntrypoint = am_RequiresEntrypoint (sp_AccountModel p),
             ca_EntrypointVersions = am_EntrypointVersions (sp_AccountModel p)\<rparr>,
           cv_Signature = \<lparr>cg_Scheme = sig_Scheme (sp_Signature p), cg_Family = sig_Family (sp_Signature p),
             cg_KeyRotationModel = sig_KeyRotationModel (sp_Signature p)\<rparr>,
           cv_Constraints = \<lparr>cc_RequiresNewAccount = pc_RequiresNewAccount (sp_Constraints p),
             cc_AddressContinuitySupported = pc_AddressContinuitySupported (sp_Constraints p),
             cc_RequiresLocalSignerState = pc_RequiresLocalSignerState (sp_Constraints p)\<rparr>\<rparr>)"

section \<open>What the catalogue derives\<close>

lemma collectNetworks_eq:
  "collectNetworks xs (seen, out) =
     (let new = dedupe_by cs_ChainID seen (filter deployable_entry xs) in
      (rev (map cs_ChainID new) @ seen, out @ map network_of new))"
proof (induction xs arbitrary: seen out)
  case (Cons cs xs)
  then show ?case by (simp add: deployable_entry_def Let_def)
qed simp

lemma collectNetworks_append: "collectNetworks (xs @ ys) acc = collectNetworks ys (collectNetworks xs acc)"
proof (induction xs arbitrary: acc)
  case (Cons x xs)
  then show ?case by (cases acc) simp
qed simp

lemma fold_collectNetworks: "fold (\<lambda>x. collectNetworks (f x)) xs = collectNetworks (concat (map f xs))"
proof (rule ext)
  show "fold (\<lambda>x. collectNetworks (f x)) xs acc = collectNetworks (concat (map f xs)) acc" for acc
    by (induction xs arbitrary: acc) (simp_all add: collectNetworks_append)
qed

text \<open>The chain entries of every profile of the allowed providers, in the order the loops meet them.\<close>

definition allowed_entries :: "Registry \<Rightarrow> CryptoPolicy \<Rightarrow> ChainSupport list" where
  "allowed_entries reg cp =
     concat (map (\<lambda>pid. concat (map (\<lambda>r. sp_ChainSupport (rp_Profile r)) (ProfilesForProvider reg pid)))
       (cp_AllowedProviders cp))"

lemma DeriveCompatibleNetworks_eq:
  "DeriveCompatibleNetworks (Some cp) (Some reg) =
     sort_key cn_ChainID
       (map network_of (dedupe_by cs_ChainID [] (filter deployable_entry (allowed_entries reg cp))))"
  by (simp add: DeriveCompatibleNetworks_def fold_collectNetworks collectNetworks_eq allowed_entries_def Let_def)

lemma cn_ChainID_network_of [simp]: "cn_ChainID (network_of cs) = cs_ChainID cs"
  by (simp add: network_of_def)

lemma deployable_networks_sorted:
  "sorted_wrt (<) (map cn_ChainID (sort_key cn_ChainID (map network_of (dedupe_by cs_ChainID [] es))))"
proof (rule sort_key_strict)
  have "map cn_ChainID (map network_of (dedupe_by cs_ChainID [] es)) = map cs_ChainID (dedupe_by cs_ChainID [] es)"
    by simp
  then show "distinct (map cn_ChainID (map network_of (dedupe_by cs_ChainID [] es)))"
    by (simp only: distinct_dedupe_by)
qed

lemma deployable_networks_ids:
  "cn_ChainID ` set (sort_key cn_ChainID (map network_of (dedupe_by cs_ChainID [] es))) = cs_ChainID ` set es"
  using keys_dedupe_by[of cs_ChainID "[]" es] by (simp add: image_image)

lemma deployable_networks_from:
  "n \<in> set (sort_key cn_ChainID (map network_of (dedupe_by cs_ChainID [] es))) \<Longrightarrow> \<exists>cs \<in> set es. n = network_of cs"
  by (auto dest: dedupe_by_in)

lemma set_allowed_entries:
  "set (allowed_entries reg cp) =
     (\<Union>pid \<in> set (cp_AllowedProviders cp). \<Union>r \<in> set (ProfilesForProvider reg pid). set (sp_ChainSupport (rp_Profile r)))"
  by (simp add: allowed_entries_def)

lemma pickCatalogProfile_loop_eq:
  "pickCatalogProfile_loop (Some f) ps q =
     (case find (\<lambda>r. q \<noteq> '''' \<and> TrimSpace (sp_ResultingPosture (rp_Profile r)) = q) ps of
        Some r \<Rightarrow> Some r | None \<Rightarrow> Some f)"
  by (induction ps) (auto simp: Let_def)

lemma pickCatalogProfile_eq:
  "pickCatalogProfile ps q =
     (case find (\<lambda>r. q \<noteq> '''' \<and> TrimSpace (sp_ResultingPosture (rp_Profile r)) = q) ps of
        Some r \<Rightarrow> Some r
      | None \<Rightarrow> (case ps of [] \<Rightarrow> None | r # _ \<Rightarrow> Some r))"
  by (cases ps) (auto simp: pickCatalogProfile_def pickCatalogProfile_loop_eq Let_def split: option.split)

lemma Get_TrimSpace [simp]: "Get r (TrimSpace pid) = Get r pid"
  by (simp add: Get_def)

lemma ProfilesForProvider_TrimSpace [simp]: "ProfilesForProvider r (TrimSpace pid) = ProfilesForProvider r pid"
  by (simp add: ProfilesForProvider_def)

lemma loaded_profile_posture:
  assumes "loaded_manifest m" and "p \<in> set (pm_SolutionProfiles m)"
  shows "sp_ResultingPosture p \<in> set postures" and "profile_wf p"
  using assms by (auto simp: loaded_manifest_def manifest_wf_def profile_wf_def)

lemma ProfilesForProvider_profiles:
  assumes "registry_inv reg" and "Get reg pid = Some m"
  shows "rp_Profile ` set (ProfilesForProvider reg pid) = set (pm_SolutionProfiles m)"
  using arg_cong[OF ProfilesForProvider_ids(1)[OF assms], of set_mset] by simp

lemma provider_posture_iff:
  assumes inv: "registry_inv reg"
  shows "(\<exists>r \<in> set (ProfilesForProvider reg pid). TrimSpace (sp_ResultingPosture (rp_Profile r)) = q) \<longleftrightarrow>
    (\<exists>m. Get reg pid = Some m \<and> (\<exists>p \<in> set (pm_SolutionProfiles m). sp_ResultingPosture p = q))"
proof (cases "Get reg pid")
  case None
  then show ?thesis by (simp add: ProfilesForProvider_def)
next
  case (Some m)
  have t: "TrimSpace (sp_ResultingPosture p) = sp_ResultingPosture p" if "p \<in> set (pm_SolutionProfiles m)" for p
    using loaded_profile_posture(1)[OF Get_Some(2)[OF inv Some] that] by (rule postures_trimmed)
  have "(\<exists>r \<in> set (ProfilesForProvider reg pid). TrimSpace (sp_ResultingPosture (rp_Profile r)) = q) \<longleftrightarrow>
      (\<exists>p \<in> rp_Profile ` set (ProfilesForProvider reg pid). TrimSpace (sp_ResultingPosture p) = q)"
    by simp
  also have "\<dots> \<longleftrightarrow> (\<exists>p \<in> set (pm_SolutionProfiles m). sp_ResultingPosture p = q)"
    unfolding ProfilesForProvider_profiles[OF inv Some] using t by (intro bex_cong) simp_all
  finally show ?thesis using Some by simp
qed

lemma HasPostureCompatibleProvider_iff:
  assumes inv: "registry_inv reg" and wf: "crypto_policy_wf cp"
  shows "HasPostureCompatibleProvider (Some cp) (Some reg) \<longleftrightarrow>
    (\<exists>pid \<in> set (cp_AllowedProviders cp). \<exists>m. Get reg pid = Some m \<and>
       (\<exists>p \<in> set (pm_SolutionProfiles m). sp_ResultingPosture p = cp_RequiredPosture cp))"
proof -
  have q: "TrimSpace (cp_RequiredPosture cp) = cp_RequiredPosture cp" "cp_RequiredPosture cp \<noteq> ''''"
    using wf by (auto simp: crypto_policy_wf_def postures_trimmed dest: postures_nonempty)
  have "HasPostureCompatibleProvider (Some cp) (Some reg) \<longleftrightarrow>
      (\<exists>pid \<in> set (cp_AllowedProviders cp). \<exists>r \<in> set (ProfilesForProvider reg pid).
        TrimSpace (sp_ResultingPosture (rp_Profile r)) = cp_RequiredPosture cp)"
    using wf q by (auto simp: HasPostureCompatibleProvider_def Let_def list_ex_iff crypto_policy_wf_def)
  then show ?thesis by (simp only: provider_posture_iff[OF inv])
qed

section \<open>A concrete policy\<close>

text \<open>\<^verbatim>\<open>testdata/crypto_policy_pq_account_validation_v1.json\<close>, of which only the first provider is registered.\<close>

definition pq_policy :: CryptoPolicy where
  "pq_policy =
     \<lparr>cp_ID = ''cpm_pq_account_validation_v1'', cp_Name = ''PQ account validation'', cp_Version = ''v0.1'',
      cp_Description = ''CAFE intention'', cp_RequiredPosture = ''hybrid'',
      cp_AllowedProviders = [''nicetry'', ''nicetry2'']\<rparr>"

lemma pq_policy_load: "CryptoPolicy_NormalizeAndValidate pq_policy = Inr pq_policy"
  by code_simp

lemma pq_policy_wf: "crypto_policy_wf pq_policy"
  using crypto_policy.load_valid[OF pq_policy_load] by (simp add: CryptoPolicy_Validate_wf)

section \<open>Properties\<close>

text \<open>C38. A crypto policy accepted by \<^verbatim>\<open>NormalizeAndValidate\<close> has its identity fields, a required posture
  among the three real postures (never the unknown one) and at least one allowed provider, none of
  them blank; it is in normal form and loads again as itself.\<close>

theorem crypto_policy_load_sound:
  assumes "CryptoPolicy_NormalizeAndValidate c = Inr c'"
  shows "crypto_policy_wf c' \<and> CryptoPolicy_Normalize c' = c' \<and> CryptoPolicy_NormalizeAndValidate c' = Inr c'"
  using crypto_policy.load_valid[OF assms] crypto_policy.load_canonical[OF assms] crypto_policy.load_again[OF assms]
  by (simp add: CryptoPolicy_Validate_wf)

theorem crypto_policy_load_sound_witness:
  "crypto_policy_wf pq_policy \<and> CryptoPolicy_Normalize pq_policy = pq_policy \<and>
   CryptoPolicy_NormalizeAndValidate pq_policy = Inr pq_policy"
  by (rule crypto_policy_load_sound[OF pq_policy_load])

text \<open>The compatible networks of a policy are strictly sorted by chain id (so no chain appears
  twice), each is a chain entry of a profile of an allowed provider that is not planned, and every
  such chain id appears.\<close>

lemma compatible_networks_exact:
  "sorted_wrt (<) (map cn_ChainID (DeriveCompatibleNetworks (Some cp) (Some reg))) \<and>
   cn_ChainID ` set (DeriveCompatibleNetworks (Some cp) (Some reg)) =
     {cs_ChainID cs | cs pid r. pid \<in> set (cp_AllowedProviders cp) \<and> r \<in> set (ProfilesForProvider reg pid) \<and>
        cs \<in> set (sp_ChainSupport (rp_Profile r)) \<and> cs_Status cs \<noteq> ChainStatusPlanned \<and> 0 < cs_ChainID cs} \<and>
   set (DeriveCompatibleNetworks (Some cp) (Some reg)) \<subseteq>
     {network_of cs | cs pid r. pid \<in> set (cp_AllowedProviders cp) \<and> r \<in> set (ProfilesForProvider reg pid) \<and>
        cs \<in> set (sp_ChainSupport (rp_Profile r)) \<and> cs_Status cs \<noteq> ChainStatusPlanned \<and> 0 < cs_ChainID cs}"
proof (intro conjI)
  show "sorted_wrt (<) (map cn_ChainID (DeriveCompatibleNetworks (Some cp) (Some reg)))"
    unfolding DeriveCompatibleNetworks_eq by (rule deployable_networks_sorted)
  show "cn_ChainID ` set (DeriveCompatibleNetworks (Some cp) (Some reg)) =
     {cs_ChainID cs | cs pid r. pid \<in> set (cp_AllowedProviders cp) \<and> r \<in> set (ProfilesForProvider reg pid) \<and>
        cs \<in> set (sp_ChainSupport (rp_Profile r)) \<and> cs_Status cs \<noteq> ChainStatusPlanned \<and> 0 < cs_ChainID cs}"
    unfolding DeriveCompatibleNetworks_eq deployable_networks_ids
    by (auto simp: set_allowed_entries deployable_entry_def not_le)
  show "set (DeriveCompatibleNetworks (Some cp) (Some reg)) \<subseteq>
     {network_of cs | cs pid r. pid \<in> set (cp_AllowedProviders cp) \<and> r \<in> set (ProfilesForProvider reg pid) \<and>
        cs \<in> set (sp_ChainSupport (rp_Profile r)) \<and> cs_Status cs \<noteq> ChainStatusPlanned \<and> 0 < cs_ChainID cs}"
    unfolding DeriveCompatibleNetworks_eq
    by (auto simp: set_allowed_entries deployable_entry_def not_le dest!: deployable_networks_from dedupe_by_in) blast
qed

text \<open>The orphan check of the catalogue: on a registry the loader built, a loaded policy counts as
  offered exactly when some allowed provider is registered with a profile whose resulting posture
  is the required one; chains and wallet types play no part.\<close>

lemma posture_orphanage_exact:
  assumes "registry_built reg" and "crypto_policy_wf cp"
  shows "HasPostureCompatibleProvider (Some cp) (Some reg) \<longleftrightarrow>
    (\<exists>pid \<in> set (cp_AllowedProviders cp). \<exists>m. Get reg pid = Some m \<and>
       (\<exists>p \<in> set (pm_SolutionProfiles m). sp_ResultingPosture p = cp_RequiredPosture cp))"
  by (rule HasPostureCompatibleProvider_iff[OF registry_built_inv[OF assms(1)] assms(2)])



text \<open>The catalogue row of a provider shows its first profile (in the order of profile ids) with
  the required posture; a provider without one shows its first profile, and a provider with no
  profile has no row.\<close>

lemma catalog_profile_choice:
  "pickCatalogProfile ps q =
     (case find (\<lambda>r. q \<noteq> [] \<and> TrimSpace (sp_ResultingPosture (rp_Profile r)) = q) ps of
        Some r \<Rightarrow> Some r
      | None \<Rightarrow> (case ps of [] \<Rightarrow> None | r # _ \<Rightarrow> Some r))"
  by (rule pickCatalogProfile_eq)

end
