(* ===== verification/Sha256.thy ===== *)
theory Sha256
  imports Go_Text "HOL-Library.Word"
begin

text \<open>
  SHA-256 (\<^verbatim>\<open>crypto/sha256.Sum256\<close>) at 32-bit words, which \<^verbatim>\<open>internal/payloadhash\<close> applies to the
  canonical bytes of a payload. Bytes are natural numbers below 256. The lemmas give the shape of
  the digest: 32 bytes, hence 64 lower-case hexadecimal characters.
\<close>

unbundle bit_operations_syntax

type_synonym w32 = "32 word"

definition rotr :: "nat \<Rightarrow> w32 \<Rightarrow> w32" where
  "rotr n w = (drop_bit n w) OR (push_bit (32 - n) w)"

definition sha_K :: "w32 list" where
  "sha_K =
    [1116352408, 1899447441, 3049323471, 3921009573, 961987163, 1508970993, 2453635748, 2870763221,
     3624381080, 310598401, 607225278, 1426881987, 1925078388, 2162078206, 2614888103, 3248222580,
     3835390401, 4022224774, 264347078, 604807628, 770255983, 1249150122, 1555081692, 1996064986,
     2554220882, 2821834349, 2952996808, 3210313671, 3336571891, 3584528711, 113926993, 338241895,
     666307205, 773529912, 1294757372, 1396182291, 1695183700, 1986661051, 2177026350, 2456956037,
     2730485921, 2820302411, 3259730800, 3345764771, 3516065817, 3600352804, 4094571909, 275423344,
     430227734, 506948616, 659060556, 883997877, 958139571, 1322822218, 1537002063, 1747873779,
     1955562222, 2024104815, 2227730452, 2361852424, 2428436474, 2756734187, 3204031479, 3329325298]"

text \<open>The eight working variables.\<close>

datatype sha_state = Sha w32 w32 w32 w32 w32 w32 w32 w32

definition sha_init :: sha_state where
  "sha_init = Sha 1779033703 3144134277 1013904242 2773480762 1359893119 2600822924 528734635 1541459225"

fun sha_round :: "w32 \<times> w32 \<Rightarrow> sha_state \<Rightarrow> sha_state" where
  "sha_round (k, w) (Sha a b c d e f g h) =
     (let s1 = rotr 6 e XOR rotr 11 e XOR rotr 25 e;
          ch = (e AND f) XOR ((NOT e) AND g);
          t1 = h + s1 + ch + k + w;
          s0 = rotr 2 a XOR rotr 13 a XOR rotr 22 a;
          maj = (a AND b) XOR (a AND c) XOR (b AND c);
          t2 = s0 + maj
      in Sha (t1 + t2) a b c (d + t1) e f g)"

fun sha_add :: "sha_state \<Rightarrow> sha_state \<Rightarrow> sha_state" where
  "sha_add (Sha a b c d e f g h) (Sha a' b' c' d' e' f' g' h') =
     Sha (a + a') (b + b') (c + c') (d + d') (e + e') (f + f') (g + g') (h + h')"

text \<open>The message schedule, kept newest word first: \<open>sha_extend n ws\<close> adds \<open>n\<close> words.\<close>

fun sha_extend :: "nat \<Rightarrow> w32 list \<Rightarrow> w32 list" where
  "sha_extend 0 ws = ws"
| "sha_extend (Suc n) ws =
     (let x = ws ! 14; y = ws ! 1;
          s0 = rotr 7 x XOR rotr 18 x XOR drop_bit 3 x;
          s1 = rotr 17 y XOR rotr 19 y XOR drop_bit 10 y
      in sha_extend n ((ws ! 15 + s0 + ws ! 6 + s1) # ws))"

definition sha_compress :: "w32 list \<Rightarrow> sha_state \<Rightarrow> sha_state" where
  "sha_compress block H =
     sha_add H (fold sha_round (zip sha_K (rev (sha_extend 48 (rev block)))) H)"

definition be_word :: "nat list \<Rightarrow> w32" where
  "be_word bs = of_nat (foldl (\<lambda>acc b. 256 * acc + b) 0 bs)"

definition word_bytes :: "w32 \<Rightarrow> nat list" where
  "word_bytes w = map (\<lambda>i. unat (drop_bit i w) mod 256) [24, 16, 8, 0]"

text \<open>Cutting a list in pieces of \<open>n\<close> elements, the last one possibly shorter.\<close>

function chunks :: "nat \<Rightarrow> 'a list \<Rightarrow> 'a list list" where
  "chunks n xs = (if xs = [] \<or> n = 0 then [] else take n xs # chunks n (drop n xs))"
  by pat_completeness auto
termination by (relation "measure (\<lambda>(n, xs). length xs)") auto

declare chunks.simps [simp del]

definition sha_pad :: "nat list \<Rightarrow> nat list" where
  "sha_pad msg =
     (let l = length msg; bits = 8 * l; zeros = (119 - l mod 64) mod 64 in
      msg @ [128] @ replicate zeros 0 @ map (\<lambda>i. bits div 256 ^ i mod 256) [7, 6, 5, 4, 3, 2, 1, 0])"

fun sha_output :: "sha_state \<Rightarrow> nat list" where
  "sha_output (Sha a b c d e f g h) = concat (map word_bytes [a, b, c, d, e, f, g, h])"

definition Sum256 :: "nat list \<Rightarrow> nat list" where
  "Sum256 msg =
     sha_output (fold (\<lambda>blk. sha_compress (map be_word (chunks 4 blk))) (chunks 64 (sha_pad msg)) sha_init)"

lemma length_word_bytes [simp]: "length (word_bytes w) = 4"
  by (simp add: word_bytes_def)

lemma word_bytes_bound: "b \<in> set (word_bytes w) \<Longrightarrow> b < 256"
  by (auto simp: word_bytes_def)

lemma length_sha_output [simp]: "length (sha_output s) = 32"
  by (cases s) simp

lemma sha_output_bound: "b \<in> set (sha_output s) \<Longrightarrow> b < 256"
  by (cases s) (auto dest: word_bytes_bound)

lemma length_Sum256 [simp]: "length (Sum256 msg) = 32"
  by (simp add: Sum256_def)

lemma Sum256_bound: "b \<in> set (Sum256 msg) \<Longrightarrow> b < 256"
  unfolding Sum256_def by (rule sha_output_bound)

lemma sha_pad_total:
  assumes r: "r < (64::nat)"
  shows "(64 * q + r + 1 + (119 - r) mod 64 + 8) mod 64 = 0"
proof (cases "r \<le> 55")
  case True
  then have "119 - r = 55 - r + 64" by simp
  then have "(119 - r) mod 64 = (55 - r) mod 64" by (simp only: mod_add_self2)
  then have "(119 - r) mod 64 = 55 - r" by simp
  with True show ?thesis by simp
next
  case False
  then have "(119 - r) mod 64 = 119 - r" by simp
  with False r have "64 * q + r + 1 + (119 - r) mod 64 + 8 = 64 * (q + 2)" by simp
  then show ?thesis by (simp only: mod_mult_self1_is_0)
qed

lemma length_sha_pad: "length (sha_pad msg) mod 64 = 0"
  using sha_pad_total[of "length msg mod 64" "length msg div 64"]
  by (simp add: sha_pad_def Let_def add.assoc)

definition bytes_of :: "string \<Rightarrow> nat list" where
  "bytes_of s = map byte_of s"

definition hex_digest :: "string \<Rightarrow> string" where
  "hex_digest s = hex_encode (Sum256 (bytes_of s))"

lemma hex_digest_shape: "length (hex_digest s) = 64" "list_all lower_hex (hex_digest s)"
  by (auto simp: hex_digest_def length_hex_encode intro!: hex_encode_lower Sum256_bound)

end
