(* ===== verification/Payload_Hash.thy ===== *)
theory Payload_Hash
  imports Go_Json Sha256
begin

text \<open>
  The payload digest of \<^verbatim>\<open>internal/payloadhash\<close> (\<^verbatim>\<open>digest.go\<close>, \<^verbatim>\<open>normalize.go\<close>, \<^verbatim>\<open>errors.go\<close>): the closed set of
  top-level fields, the ban on numbers and \<^verbatim>\<open>null\<close>, the normalisation of the accepted findings and
  the SHA-256 of the canonical bytes. The canonicalisation itself, \<^verbatim>\<open>jcs.Transform\<close> of the package
  \<^verbatim>\<open>gowebpki/jcs\<close>, is the parameter \<open>jcs\<close>. The lemmas show which payloads are accepted, that the
  canonical object is a fixed point with the same digest, and that the digest does not depend on
  the order of the fields nor on the order and repetition of the findings.
\<close>

section \<open>Errors\<close>

record hash_error =
  he_Reason :: string
  he_Path :: string
  he_Message :: string

definition ReasonNotObject :: string where "ReasonNotObject = ''hashed_payload_not_object''"
definition ReasonMissingField :: string where "ReasonMissingField = ''hashed_payload_missing_field''"
definition ReasonUnknownField :: string where "ReasonUnknownField = ''hashed_payload_unknown_field''"
definition ReasonNullForbidden :: string where "ReasonNullForbidden = ''hashed_payload_null_forbidden''"
definition ReasonNumberForbidden :: string where "ReasonNumberForbidden = ''hashed_payload_number_forbidden''"
definition ReasonFindingsNotArray :: string where "ReasonFindingsNotArray = ''accepted_findings_not_array''"
definition ReasonFindingsItemType :: string where "ReasonFindingsItemType = ''accepted_findings_item_not_string''"
definition ReasonCanonicalizeFailed :: string where "ReasonCanonicalizeFailed = ''jcs_canonicalize_failed''"

definition reject :: "string \<Rightarrow> string \<Rightarrow> string \<Rightarrow> hash_error" where
  "reject reason path message = \<lparr>he_Reason = reason, he_Path = path, he_Message = message\<rparr>"

definition hash_error_Error :: "hash_error \<Rightarrow> string" where
  "hash_error_Error e =
     (if he_Path e \<noteq> '''' then he_Reason e @ '': '' @ he_Message e @ '' ('' @ he_Path e @ '')''
      else if he_Message e \<noteq> '''' then he_Reason e @ '': '' @ he_Message e
      else he_Reason e)"

section \<open>Normalising the findings\<close>

text \<open>The loop of \<^verbatim>\<open>NormalizeAcceptedFindings\<close> compacts the sorted copy in place: \<open>i\<close> reads, \<open>n\<close> is the
  next position to write, and the comparison looks at the slot before \<open>i\<close> of the same array.\<close>

function compact :: "nat \<Rightarrow> nat \<Rightarrow> string list \<Rightarrow> string list" where
  "compact i n out =
     (if i < length out then
        (let s = out ! i in
         if 0 < i \<and> s = out ! (i - 1) then compact (Suc i) n out
         else compact (Suc i) (Suc n) (out[n := s]))
      else take n out)"
  by pat_completeness auto
termination by (relation "measure (\<lambda>(i, n, out). length out - i)") auto

declare compact.simps [simp del]

definition NormalizeAcceptedFindings :: "string list \<Rightarrow> string list" where
  "NormalizeAcceptedFindings findings =
     (if findings = [] then [] else compact 0 0 (sort findings))"

section \<open>The digest\<close>

definition closedFields :: "string list" where
  "closedFields =
     [''schema_version'', ''crypto_policy_id'', ''required_posture'', ''user_constraints'',
      ''solution_profile_ref'', ''accepted_provider_snapshot'', ''accepted_findings'']"

fun assertAllowedSubtree :: "json \<Rightarrow> string \<Rightarrow> hash_error option"
  and assertAllowedFields :: "(string \<times> json) list \<Rightarrow> string \<Rightarrow> hash_error option"
  and assertAllowedItems :: "json list \<Rightarrow> nat \<Rightarrow> string \<Rightarrow> hash_error option" where
  "assertAllowedSubtree JNull path = Some (reject ReasonNullForbidden path ''null forbidden in hashed subtree'')"
| "assertAllowedSubtree (JNum f) path =
     Some (reject ReasonNumberForbidden path (''number forbidden in hashed subtree (got '' @ fl_Text f @ '')''))"
| "assertAllowedSubtree (JBool b) path = None"
| "assertAllowedSubtree (JStr s) path = None"
| "assertAllowedSubtree (JObj kvs) path = assertAllowedFields kvs path"
| "assertAllowedSubtree (JArr xs) path = assertAllowedItems xs 0 path"
| "assertAllowedFields [] path = None"
| "assertAllowedFields ((k, child) # rest) path =
     (case assertAllowedSubtree child (path @ ''.'' @ k) of
        Some e \<Rightarrow> Some e
      | None \<Rightarrow> assertAllowedFields rest path)"
| "assertAllowedItems [] i path = None"
| "assertAllowedItems (child # rest) i path =
     (case assertAllowedSubtree child (path @ ''['' @ FormatInt (int i) @ '']'') of
        Some e \<Rightarrow> Some e
      | None \<Rightarrow> assertAllowedItems rest (Suc i) path)"

fun findingsAsStrings_loop :: "json list \<Rightarrow> nat \<Rightarrow> string \<Rightarrow> hash_error + string list" where
  "findingsAsStrings_loop [] i path = Inr []"
| "findingsAsStrings_loop (JStr s # rest) i path =
     (case findingsAsStrings_loop rest (Suc i) path of Inl e \<Rightarrow> Inl e | Inr out \<Rightarrow> Inr (s # out))"
| "findingsAsStrings_loop (_ # rest) i path =
     Inl (reject ReasonFindingsItemType (path @ ''['' @ FormatInt (int i) @ '']'')
       ''accepted_findings items must be strings'')"

definition findingsAsStrings :: "json option \<Rightarrow> string \<Rightarrow> hash_error + string list" where
  "findingsAsStrings v path =
     (case v of
        Some (JArr arr) \<Rightarrow> findingsAsStrings_loop arr 0 path
      | _ \<Rightarrow> Inl (reject ReasonFindingsNotArray path ''accepted_findings must be a JSON array''))"

definition closedObject :: "(string \<times> json) list \<Rightarrow> string list \<Rightarrow> (string \<times> json) list" where
  "closedObject obj normalized =
     map (\<lambda>f. (f, if f = ''accepted_findings'' then JArr (map JStr normalized) else the (map_of obj f)))
       closedFields"

definition DigestCanonical ::
    "(string \<Rightarrow> string + string) \<Rightarrow> json \<Rightarrow> hash_error + string \<times> (string \<times> json) list" where
  "DigestCanonical jcs root =
     (case root of
        JObj obj \<Rightarrow>
          (case find (\<lambda>(key, _). key \<notin> set closedFields) obj of
             Some (key, _) \<Rightarrow> Inl (reject ReasonUnknownField (''$.'' @ key) ''unknown top-level hashed field'')
           | None \<Rightarrow>
          (case find (\<lambda>f. map_of obj f = None) closedFields of
             Some f \<Rightarrow> Inl (reject ReasonMissingField (''$.'' @ f) ''required closed field missing'')
           | None \<Rightarrow>
          (case assertAllowedSubtree (JObj obj) ''$'' of
             Some e \<Rightarrow> Inl e
           | None \<Rightarrow>
          (case findingsAsStrings (map_of obj ''accepted_findings'') ''$.accepted_findings'' of
             Inl e \<Rightarrow> Inl e
           | Inr findings \<Rightarrow>
          (let normalized = NormalizeAcceptedFindings findings;
               closed = closedObject obj normalized in
           case jcs (Marshal (JObj closed)) of
             Inl err \<Rightarrow> Inl (reject ReasonCanonicalizeFailed ''$'' err)
           | Inr canon \<Rightarrow> Inr (hex_digest canon, closed))))))
      | _ \<Rightarrow> Inl (reject ReasonNotObject ''$'' ''hashed payload must be a JSON object''))"

text \<open>The entry point on bytes; the parse of the body is the argument, \<open>Inl\<close> with the library's
  message when the bytes are not JSON.\<close>

definition DigestCanonicalJSON ::
    "(string \<Rightarrow> string + string) \<Rightarrow> string + json \<Rightarrow> hash_error + string \<times> (string \<times> json) list" where
  "DigestCanonicalJSON jcs raw =
     (case raw of
        Inl err \<Rightarrow> Inl (reject ReasonNotObject ''$'' (''invalid JSON: '' @ err))
      | Inr root \<Rightarrow> DigestCanonical jcs root)"

definition DigestJSON :: "(string \<Rightarrow> string + string) \<Rightarrow> string + json \<Rightarrow> hash_error + string" where
  "DigestJSON jcs raw =
     (case DigestCanonicalJSON jcs raw of Inl e \<Rightarrow> Inl e | Inr (digest, _) \<Rightarrow> Inr digest)"

section \<open>The findings in normal form\<close>

lemma remdups_adj_snoc:
  "remdups_adj (xs @ [x]) = (if xs \<noteq> [] \<and> last xs = x then remdups_adj xs else remdups_adj xs @ [x])"
  by (induction xs rule: remdups_adj.induct) auto

lemma distinct_remdups_adj_sorted: "sorted xs \<Longrightarrow> distinct (remdups_adj xs)"
  by (induction xs rule: remdups_adj.induct) auto

lemma compact_remdups_adj:
  assumes "length out = length xs" and "i \<le> length xs" and "n \<le> i"
    and "take n out = remdups_adj (take i xs)" and "n = length (remdups_adj (take i xs))"
    and "\<And>j. i \<le> Suc j \<Longrightarrow> j < length xs \<Longrightarrow> out ! j = xs ! j"
  shows "compact i n out = remdups_adj xs"
  using assms
proof (induction "length xs - i" arbitrary: i n out)
  case 0
  then show ?case by (simp add: compact.simps[of i])
next
  case (Suc m)
  then have i: "i < length xs" by simp
  then have s: "out ! i = xs ! i" using Suc.prems(6) by simp
  have tk: "take (Suc i) xs = take i xs @ [xs ! i]" using i by (rule take_Suc_conv_app_nth)
  have last: "take i xs \<noteq> []" "last (take i xs) = xs ! (i - 1)" if "0 < i"
  proof -
    show "take i xs \<noteq> []" using that i by auto
    then show "last (take i xs) = xs ! (i - 1)" using that i by (simp add: last_conv_nth min_def)
  qed
  show ?case
  proof (cases "0 < i \<and> xs ! i = xs ! (i - 1)")
    case True
    have "remdups_adj (take (Suc i) xs) = remdups_adj (take i xs)"
      using True last by (simp add: tk remdups_adj_snoc)
    then have "compact (Suc i) n out = remdups_adj xs"
      using Suc.prems Suc.hyps(2) i by (intro Suc.hyps(1)) auto
    then show ?thesis
      using True i s Suc.prems by (simp add: compact.simps[of i] Let_def)
  next
    case False
    have rd: "remdups_adj (take (Suc i) xs) = remdups_adj (take i xs) @ [xs ! i]"
      unfolding tk using False last by (cases "0 < i") (auto simp: remdups_adj_snoc)
    have n: "n < length out" using Suc.prems i by simp
    have "compact (Suc i) (Suc n) (out[n := xs ! i]) = remdups_adj xs"
    proof (rule Suc.hyps(1))
      show "take (Suc n) (out[n := xs ! i]) = remdups_adj (take (Suc i) xs)"
        using n Suc.prems(4) by (simp add: rd take_Suc_conv_app_nth)
      show "Suc n = length (remdups_adj (take (Suc i) xs))" using Suc.prems(5) by (simp add: rd)
      show "out[n := xs ! i] ! j = xs ! j" if "Suc i \<le> Suc j" "j < length xs" for j
        using that Suc.prems(1,3,6) by (cases "j = n") auto
    qed (use Suc.prems Suc.hyps(2) i in auto)
    then show ?thesis
      using False i s Suc.prems by (auto simp: compact.simps[of i] Let_def)
  qed
qed

lemma NormalizeAcceptedFindings_eq: "NormalizeAcceptedFindings xs = sorted_list_of_set (set xs)"
proof (cases "xs = []")
  case False
  have "compact 0 0 (sort xs) = remdups_adj (sort xs)"
    by (rule compact_remdups_adj) simp_all
  moreover have "remdups_adj (sort xs) = sorted_list_of_set (set xs)"
    by (rule sorted_distinct_set_unique) (simp_all add: distinct_remdups_adj_sorted)
  ultimately show ?thesis using False by (simp add: NormalizeAcceptedFindings_def)
qed (simp add: NormalizeAcceptedFindings_def)

section \<open>Which payloads have a digest\<close>

fun allowed_tree :: "json \<Rightarrow> bool" where
  "allowed_tree JNull = False"
| "allowed_tree (JNum f) = False"
| "allowed_tree (JBool b) = True"
| "allowed_tree (JStr s) = True"
| "allowed_tree (JObj kvs) = (\<forall>v \<in> snd ` set kvs. allowed_tree v)"
| "allowed_tree (JArr xs) = (\<forall>v \<in> set xs. allowed_tree v)"

lemma assertAllowed_None:
  shows "assertAllowedSubtree v path = None \<longleftrightarrow> allowed_tree v"
    and "assertAllowedFields kvs path = None \<longleftrightarrow> (\<forall>v \<in> snd ` set kvs. allowed_tree v)"
    and "assertAllowedItems xs i path = None \<longleftrightarrow> (\<forall>v \<in> set xs. allowed_tree v)"
  by (induction v path and kvs path and xs i path
      rule: assertAllowedSubtree_assertAllowedFields_assertAllowedItems.induct)
    (auto split: option.splits)

lemma findingsAsStrings_loop_map [simp]: "findingsAsStrings_loop (map JStr out) i path = Inr out"
  by (induction out arbitrary: i) simp_all

lemma findingsAsStrings_loop_Inr: "findingsAsStrings_loop xs i path = Inr out \<longleftrightarrow> xs = map JStr out"
proof
  show "findingsAsStrings_loop xs i path = Inr out \<Longrightarrow> xs = map JStr out"
    by (induction xs i path arbitrary: out rule: findingsAsStrings_loop.induct) (auto split: sum.splits)
qed simp

lemma findingsAsStrings_Inr: "findingsAsStrings v path = Inr out \<longleftrightarrow> v = Some (JArr (map JStr out))"
  by (auto simp: findingsAsStrings_def findingsAsStrings_loop_Inr split: option.splits json.splits)

definition closed_payload :: "(string \<times> json) list \<Rightarrow> bool" where
  "closed_payload obj \<longleftrightarrow> fst ` set obj = set closedFields \<and> allowed_tree (JObj obj)"

lemma unknown_None: "find (\<lambda>(key, _). key \<notin> set closedFields) obj = None \<longleftrightarrow> fst ` set obj \<subseteq> set closedFields"
  by (auto simp: find_None_iff)

lemma missing_None: "find (\<lambda>f. map_of obj f = None) closedFields = None \<longleftrightarrow> set closedFields \<subseteq> fst ` set obj"
  by (auto simp: find_None_iff map_of_eq_None_iff)

lemma DigestCanonical_closed:
  assumes "closed_payload obj"
  shows "DigestCanonical jcs (JObj obj) =
     (case findingsAsStrings (map_of obj ''accepted_findings'') ''$.accepted_findings'' of
        Inl e \<Rightarrow> Inl e
      | Inr findings \<Rightarrow>
          (let c = closedObject obj (NormalizeAcceptedFindings findings) in
           case jcs (Marshal (JObj c)) of
             Inl err \<Rightarrow> Inl (reject ReasonCanonicalizeFailed ''$'' err)
           | Inr canon \<Rightarrow> Inr (hex_digest canon, c)))"
proof -
  have "find (\<lambda>(key, _). key \<notin> set closedFields) obj = None"
    and "find (\<lambda>f. map_of obj f = None) closedFields = None"
    and "assertAllowedSubtree (JObj obj) ''$'' = None"
    using assms unknown_None[of obj] missing_None[of obj] assertAllowed_None(1)[of "JObj obj" "''$''"]
    by (simp_all add: closed_payload_def)
  then show ?thesis by (simp only: DigestCanonical_def json.case option.case Let_def)
qed

lemma DigestCanonical_Inr:
  "DigestCanonical jcs (JObj obj) = Inr (d, c) \<longleftrightarrow>
     (\<exists>fs canon. closed_payload obj \<and> map_of obj ''accepted_findings'' = Some (JArr (map JStr fs)) \<and>
        c = closedObject obj (sorted_list_of_set (set fs)) \<and>
        jcs (Marshal (JObj c)) = Inr canon \<and> d = hex_digest canon)"
    (is "?l \<longleftrightarrow> ?r")
proof (cases "closed_payload obj")
  case False
  then have "\<not> ?l"
    using unknown_None[of obj] missing_None[of obj] assertAllowed_None(1)[of "JObj obj" "''$''"]
    by (auto simp: DigestCanonical_def closed_payload_def split: option.splits prod.splits)
  with False show ?thesis by blast
next
  case True
  note eq = DigestCanonical_closed[OF True]
  show ?thesis
  proof (cases "findingsAsStrings (map_of obj ''accepted_findings'') ''$.accepted_findings''")
    case (Inl e)
    then have "map_of obj ''accepted_findings'' \<noteq> Some (JArr (map JStr fs))" for fs
      using findingsAsStrings_Inr[of "map_of obj ''accepted_findings''" "''$.accepted_findings''" fs] by auto
    with Inl show ?thesis by (simp add: eq)
  next
    case (Inr fs)
    then have m: "map_of obj ''accepted_findings'' = Some (JArr (map JStr fs))"
      by (simp only: findingsAsStrings_Inr)
    have u: "Some (JArr (map JStr fs)) = Some (JArr (map JStr fs')) \<longleftrightarrow> fs' = fs" for fs'
      by (auto simp: inj_map_eq_map inj_def)
    let ?c = "closedObject obj (sorted_list_of_set (set fs))"
    have "DigestCanonical jcs (JObj obj) =
        (case jcs (Marshal (JObj ?c)) of
           Inl err \<Rightarrow> Inl (reject ReasonCanonicalizeFailed ''$'' err)
         | Inr canon \<Rightarrow> Inr (hex_digest canon, ?c))"
      unfolding eq Inr sum.case Let_def NormalizeAcceptedFindings_eq ..
    then have "DigestCanonical jcs (JObj obj) = Inr (d, c) \<longleftrightarrow>
        (\<exists>canon. c = ?c \<and> jcs (Marshal (JObj ?c)) = Inr canon \<and> d = hex_digest canon)"
      by (cases "jcs (Marshal (JObj ?c))") auto
    also have "\<dots> \<longleftrightarrow> (\<exists>fs' canon. closed_payload obj \<and> Some (JArr (map JStr fs)) = Some (JArr (map JStr fs')) \<and>
        c = closedObject obj (sorted_list_of_set (set fs')) \<and>
        jcs (Marshal (JObj c)) = Inr canon \<and> d = hex_digest canon)"
      unfolding u using True by blast
    finally show ?thesis unfolding m .
  qed
qed

section \<open>The canonical object\<close>

lemma closedObject_keys: "map fst (closedObject obj fs) = closedFields"
  by (simp add: closedObject_def comp_def)

lemma closedFields_distinct: "distinct closedFields"
  by (simp add: closedFields_def)

lemma accepted_findings_closed: "''accepted_findings'' \<in> set closedFields"
  by (simp add: closedFields_def)

lemma map_of_closedObject:
  "f \<in> set closedFields \<Longrightarrow> map_of (closedObject obj fs) f =
     Some (if f = ''accepted_findings'' then JArr (map JStr fs) else the (map_of obj f))"
  unfolding closedObject_def by (simp add: map_of_map_pair)

lemma closed_payload_closedObject:
  assumes "closed_payload obj"
  shows "closed_payload (closedObject obj fs)"
proof -
  have "allowed_tree (the (map_of obj f))" if "f \<in> set closedFields" for f
  proof -
    from that assms have "f \<in> fst ` set obj" by (simp add: closed_payload_def)
    then obtain v where "map_of obj f = Some v" by (metis map_of_eq_None_iff not_None_eq)
    then show ?thesis using assms map_of_SomeD[of obj f v] by (force simp: closed_payload_def)
  qed
  moreover have "fst ` set (closedObject obj fs) = set closedFields"
    using arg_cong[OF closedObject_keys[of obj fs], of set] by simp
  ultimately show ?thesis
    by (auto simp: closed_payload_def closedObject_def)
qed

lemma closedObject_cong:
  "(\<And>f. f \<in> set closedFields \<Longrightarrow> f \<noteq> ''accepted_findings'' \<Longrightarrow> map_of obj f = map_of obj' f) \<Longrightarrow>
   closedObject obj fs = closedObject obj' fs"
  by (auto simp: closedObject_def)

lemma closedObject_again: "closedObject (closedObject obj fs) fs' = closedObject obj fs'"
  unfolding closedObject_def[of "closedObject obj fs"] closedObject_def[of obj fs']
  by (rule map_cong) (simp_all add: map_of_closedObject)

lemma DigestCanonical_object: "DigestCanonical jcs root = Inr dc \<Longrightarrow> \<exists>obj. root = JObj obj"
  by (cases root) (simp_all add: DigestCanonical_def)

lemma DigestCanonical_again:
  assumes "DigestCanonical jcs root = Inr (d, c)"
  shows "DigestCanonical jcs (JObj c) = Inr (d, c)"
proof -
  obtain obj where root: "root = JObj obj" using DigestCanonical_object[OF assms] by blast
  from assms obtain fs canon where p: "closed_payload obj"
    and c: "c = closedObject obj (sorted_list_of_set (set fs))"
    and j: "jcs (Marshal (JObj c)) = Inr canon" and d: "d = hex_digest canon"
    unfolding root DigestCanonical_Inr by blast
  have "map_of c ''accepted_findings'' = Some (JArr (map JStr (sorted_list_of_set (set fs))))"
    unfolding c by (subst map_of_closedObject) (simp_all add: accepted_findings_closed)
  moreover have "closed_payload c" unfolding c by (rule closed_payload_closedObject[OF p])
  moreover have "c = closedObject c (sorted_list_of_set (set (sorted_list_of_set (set fs))))"
    by (simp add: c closedObject_again)
  ultimately show ?thesis unfolding DigestCanonical_Inr using j d by blast
qed

lemma DigestCanonical_digest:
  assumes "DigestCanonical jcs root = Inr (d, c)"
  shows "length d = 64" "list_all lower_hex d" "map fst c = closedFields"
proof -
  obtain obj where root: "root = JObj obj" using DigestCanonical_object[OF assms] by blast
  have "(\<exists>b. d = hex_digest b) \<and> (\<exists>fs. c = closedObject obj fs)"
    using assms unfolding root DigestCanonical_Inr by blast
  then show "length d = 64" "list_all lower_hex d" "map fst c = closedFields"
    by (auto simp: hex_digest_shape closedObject_def comp_def)
qed

lemma DigestCanonical_content:
  assumes "DigestCanonical jcs (JObj obj) = Inr (d, c)"
    and "distinct (map fst obj')" and "fst ` set obj' = set closedFields"
    and "\<forall>f \<in> set closedFields - {''accepted_findings''}. map_of obj' f = map_of obj f"
    and "map_of obj ''accepted_findings'' = Some (JArr (map JStr fs))"
    and "map_of obj' ''accepted_findings'' = Some (JArr (map JStr fs'))"
    and "set fs' = set fs"
  shows "DigestCanonical jcs (JObj obj') = Inr (d, c)"
proof -
  obtain b where p: "closed_payload obj" and c: "c = closedObject obj (sorted_list_of_set (set fs))"
    and b: "jcs (Marshal (JObj c)) = Inr b" "d = hex_digest b"
    using assms(1,5) unfolding DigestCanonical_Inr by (auto simp: inj_map_eq_map inj_def)
  have "allowed_tree v" if "(k, v) \<in> set obj'" for k v
  proof -
    have v: "map_of obj' k = Some v" using that assms(2) by simp
    have k: "k \<in> set closedFields" unfolding assms(3)[symmetric] using that by force
    show ?thesis
    proof (cases "k = ''accepted_findings''")
      case True
      with v assms(6) show ?thesis by auto
    next
      case False
      with v k assms(4) have "(k, v) \<in> set obj" by (simp add: map_of_SomeD)
      with p show ?thesis by (force simp: closed_payload_def)
    qed
  qed
  then have "closed_payload obj'" using assms(3) by (auto simp: closed_payload_def)
  moreover have "c = closedObject obj' (sorted_list_of_set (set fs'))"
    unfolding c assms(7) using assms(4) by (intro closedObject_cong) simp
  ultimately show ?thesis
    unfolding DigestCanonical_Inr using assms(6) b by blast
qed

text \<open>A payload that agrees with a canonical one on the closed fields, once cut to them, has its digest.\<close>

lemma map_of_cut: "map_of (filter (\<lambda>(k, _). P k) obj) f = (if P f then map_of obj f else None)"
  by (induction obj) auto

lemma DigestCanonical_cut:
  assumes "DigestCanonical jcs root = Inr (d, c)" and "distinct (map fst obj)"
    and "\<And>f. f \<in> set closedFields \<Longrightarrow> map_of obj f = map_of c f"
  shows "DigestCanonical jcs (JObj (filter (\<lambda>(k, _). k \<in> set closedFields) obj)) = Inr (d, c)"
proof -
  let ?cut = "filter (\<lambda>(k, _). k \<in> set closedFields) obj"
  note again = DigestCanonical_again[OF assms(1)]
  obtain fs where fs: "map_of c ''accepted_findings'' = Some (JArr (map JStr fs))"
    using again unfolding DigestCanonical_Inr by blast
  have m: "map_of ?cut f = map_of c f" if "f \<in> set closedFields" for f
    using that assms(3) by (simp add: map_of_cut)
  have "set closedFields \<subseteq> fst ` set obj"
  proof
    fix f assume f: "f \<in> set closedFields"
    have "f \<in> fst ` set c" using f arg_cong[OF DigestCanonical_digest(3)[OF assms(1)], of set] by simp
    then have "map_of obj f \<noteq> None" unfolding assms(3)[OF f] by (simp add: map_of_eq_None_iff)
    then show "f \<in> fst ` set obj" by (simp add: map_of_eq_None_iff)
  qed
  then have keys: "fst ` set ?cut = set closedFields" by force
  have "distinct (map fst ?cut)" using assms(2) by (rule distinct_map_filter)
  from DigestCanonical_content[OF again this keys _ fs _ refl] show ?thesis
    using m fs by (simp add: accepted_findings_closed)
qed

section \<open>Properties\<close>

text \<open>\<^verbatim>\<open>NormalizeAcceptedFindings\<close>, an in-place compaction of a sorted copy, returns exactly the
  strictly increasing list of the distinct findings.\<close>

lemma normalize_findings_exact: "NormalizeAcceptedFindings xs = sorted_list_of_set (set xs)"
  by (rule NormalizeAcceptedFindings_eq)

text \<open>C27. A payload has a digest exactly when it is an object whose keys are the closed set of fields,
  without number or \<^verbatim>\<open>null\<close> anywhere, whose accepted findings are an array of strings, and whose
  canonicalisation succeeds; the digest is then the hexadecimal SHA-256 of the canonical bytes of
  the object with its findings sorted and deduplicated.\<close>

theorem digest_accepts_iff:
  "DigestCanonical jcs root = Inr (d, c) \<longleftrightarrow>
     (\<exists>obj fs canon. root = JObj obj \<and> fst ` set obj = set closedFields \<and> allowed_tree (JObj obj) \<and>
        map_of obj ''accepted_findings'' = Some (JArr (map JStr fs)) \<and>
        c = closedObject obj (sorted_list_of_set (set fs)) \<and>
        jcs (Marshal (JObj c)) = Inr canon \<and> d = hex_digest canon)"
proof (cases "\<exists>obj. root = JObj obj")
  case True
  then obtain obj where "root = JObj obj" by blast
  then show ?thesis by (auto simp: DigestCanonical_Inr closed_payload_def)
next
  case False
  then show ?thesis using DigestCanonical_object[of jcs root] by blast
qed

text \<open>C29. The canonical object returned with a digest is a fixed point: digesting it again gives the
  same digest and the same object, so what is stored hashes to what was challenged. The digest is
  64 lower-case hexadecimal characters.\<close>

theorem digest_canonical_fixpoint:
  assumes "DigestCanonical jcs root = Inr (d, c)"
  shows "DigestCanonical jcs (JObj c) = Inr (d, c) \<and> length d = 64 \<and> list_all lower_hex d"
  using DigestCanonical_again[OF assms] DigestCanonical_digest[OF assms] by blast

text \<open>The minimal payload of \<^verbatim>\<open>internal/contract/testdata/payload_sha256\<close>, with its findings in the wrong
  order and one of them repeated.\<close>

definition minimal_snapshot :: json where
  "minimal_snapshot = JObj
     [(''maturity'', JStr ''research''), (''claim_status'', JStr ''declared''),
      (''resulting_posture'', JStr ''hybrid''),
      (''input_requirements'', JObj [(''wallet_types'', JArr [JStr ''EOA'']), (''requires_wallet_control_proof'', JBool True)]),
      (''signature'', JObj [(''scheme'', JStr ''FORS+C''), (''family'', JStr ''hash_based''),
         (''key_rotation_model'', JStr ''per_userop'')]),
      (''account_model'', JObj [(''standard'', JStr ''ERC-4337''), (''execution_model'', JStr ''erc4337_bundler''),
         (''requires_bundler'', JBool True)]),
      (''constraints'', JObj [(''requires_new_account'', JBool True), (''requires_local_signer_state'', JBool True)]),
      (''chain_support_used'', JArr [JObj [(''chain_id'', JStr ''1''), (''status'', JStr ''production_supported''),
         (''capabilities'', JArr [JStr ''deploy'', JStr ''sign_userop'', JStr ''rotate_signer''])]]),
      (''references'', JArr [JObj [(''kind'', JStr ''source_repo''), (''url'', JStr ''https://example.com/a''),
         (''commit'', JStr ''deadbeef'')]]),
      (''accepted_findings'', JArr [JStr ''requires_bundler'', JStr ''requires_local_signer_state''])]"

definition minimal_payload :: "(string \<times> json) list" where
  "minimal_payload =
     [(''schema_version'', JStr ''cafe.crypto_policy.v0.2''),
      (''crypto_policy_id'', JStr ''cpm_pq_account_validation_v1''),
      (''required_posture'', JStr ''hybrid''),
      (''user_constraints'', JObj [(''allow_new_wallet'', JBool True), (''address_continuity_required'', JBool False),
         (''key_rotation_model'', JStr ''per_userop'')]),
      (''solution_profile_ref'', JObj [(''provider_id'', JStr ''nicetry''),
         (''solution_profile_id'', JStr ''nicetry.fors_c.erc4337.v0_1''), (''manifest_version'', JStr ''2026-08'')]),
      (''accepted_provider_snapshot'', minimal_snapshot),
      (''accepted_findings'', JArr [JStr ''requires_local_signer_state'', JStr ''requires_bundler'',
         JStr ''requires_bundler''])]"

definition minimal_findings :: "string list" where
  "minimal_findings = [''requires_local_signer_state'', ''requires_bundler'', ''requires_bundler'']"

definition minimal_canonical :: "(string \<times> json) list" where
  "minimal_canonical = closedObject minimal_payload (sorted_list_of_set (set minimal_findings))"

lemma minimal_payload_digest:
  "DigestCanonical Inr (JObj minimal_payload) =
     Inr (hex_digest (Marshal (JObj minimal_canonical)), minimal_canonical)"
proof -
  have "closed_payload minimal_payload" unfolding closed_payload_def by code_simp
  moreover have "map_of minimal_payload ''accepted_findings'' = Some (JArr (map JStr minimal_findings))"
    by code_simp
  ultimately show ?thesis
    unfolding DigestCanonical_Inr minimal_canonical_def by blast
qed

theorem digest_canonical_fixpoint_witness:
  "DigestCanonical Inr (JObj minimal_canonical) =
     Inr (hex_digest (Marshal (JObj minimal_canonical)), minimal_canonical) \<and>
   length (hex_digest (Marshal (JObj minimal_canonical))) = 64 \<and>
   list_all lower_hex (hex_digest (Marshal (JObj minimal_canonical)))"
  by (rule digest_canonical_fixpoint[OF minimal_payload_digest])

text \<open>C28. The digest is a function of the content: if a payload has a digest, every payload that agrees
  with it on the closed fields and whose accepted findings are equal as a set has the same digest
  and the same canonical object, whatever the order of its keys and findings.\<close>

theorem digest_content_only:
  assumes "DigestCanonical jcs (JObj obj) = Inr (d, c)"
    and "distinct (map fst obj')" and "fst ` set obj' = set closedFields"
    and "\<forall>f \<in> set closedFields - {''accepted_findings''}. map_of obj' f = map_of obj f"
    and "map_of obj ''accepted_findings'' = Some (JArr (map JStr fs))"
    and "map_of obj' ''accepted_findings'' = Some (JArr (map JStr fs'))"
    and "set fs' = set fs"
  shows "DigestCanonical jcs (JObj obj') = Inr (d, c)"
  by (rule DigestCanonical_content[OF assms])

theorem digest_content_only_witness:
  "DigestCanonical Inr (JObj (rev minimal_payload)) =
     Inr (hex_digest (Marshal (JObj minimal_canonical)), minimal_canonical)"
proof (rule digest_content_only[OF minimal_payload_digest])
  show "distinct (map fst (rev minimal_payload))" by code_simp
  show "fst ` set (rev minimal_payload) = set closedFields" by code_simp
  show "\<forall>f \<in> set closedFields - {''accepted_findings''}. map_of (rev minimal_payload) f = map_of minimal_payload f"
    by code_simp
  show "map_of minimal_payload ''accepted_findings'' = Some (JArr (map JStr minimal_findings))" by code_simp
  show "map_of (rev minimal_payload) ''accepted_findings'' = Some (JArr (map JStr minimal_findings))" by code_simp
qed simp

end
