(* ===== verification/Persist_Payload.thy ===== *)
theory Persist_Payload
  imports Crypto_Policy Payload_Hash "HOL-Library.Monad_Syntax"
begin

text \<open>
  The persist gate of \<^verbatim>\<open>internal/domain/policy/persist_payload.go\<close>: decoding of the payload, its
  normalisation, and the checks a payload must pass before it is stored, up to the replay of
  couches A and B and of the combined hard gate against the accepted snapshot. The lemmas
  characterise exactly which payloads pass.
\<close>

section \<open>The payload\<close>

definition CryptoPolicySchemaVersionV02 :: string where
  "CryptoPolicySchemaVersionV02 = ''cafe.crypto_policy.v0.2''"

datatype persist_error =
    ErrCryptoPolicyPayloadInvalid string
  | ErrProviderRefsUnpinned string
  | ErrProviderSoftFindingsRequired string
  | ErrProviderChainPlanned
  | ErrProviderScanCompatFailed string
  | ErrProviderUserConstraintsIncompatible string
  | ErrAcceptedFindingsDivergent

record SnapshotChainSupport =
  sc_ChainID :: int64
  sc_Status :: string
  sc_Capabilities :: "string list"

record AcceptedProviderSnapshot =
  as_Maturity :: string
  as_ClaimStatus :: string
  as_ResultingPosture :: string
  as_InputRequirements :: InputRequirements
  as_Signature :: SignatureProfile
  as_AccountModel :: AccountModel
  as_Constraints :: ProfileConstraints
  as_ChainSupportUsed :: "SnapshotChainSupport list"
  as_References :: "Reference list"
  as_AcceptedFindings :: "string list"
  as_AcceptedRiskNotes :: "string list"

record CryptoPolicyPersistPayload =
  pp_SchemaVersion :: string
  pp_PolicyKind :: string
  pp_CryptoPolicyID :: string
  pp_RequiredPosture :: string
  pp_UserConstraints :: UserConstraints
  pp_SolutionProfileRef :: SolutionProfileRef
  pp_AcceptedProviderSnapshot :: AcceptedProviderSnapshot
  pp_AcceptedFindings :: "string list"

section \<open>Decoding\<close>

text \<open>\<^verbatim>\<open>FlexibleChainID.UnmarshalJSON\<close>; a missing key leaves zero.\<close>

definition FlexibleChainID_Unmarshal :: "json option \<Rightarrow> int64 option" where
  "FlexibleChainID_Unmarshal v =
     (case v of
        None \<Rightarrow> Some 0
      | Some JNull \<Rightarrow> Some 0
      | Some (JStr s) \<Rightarrow> (let s = TrimSpace s in if s = '''' then Some 0 else ParseInt s)
      | Some (JNum f) \<Rightarrow> if fl_Integral f \<and> in_int64 (fl_Trunc f) then Some (fl_Trunc f) else None
      | _ \<Rightarrow> None)"

definition FlexibleChainID_Marshal :: "int64 \<Rightarrow> json" where
  "FlexibleChainID_Marshal c = JStr (FormatInt c)"

definition dec_UserConstraints :: "(string \<times> json) list \<Rightarrow> UserConstraints option" where
  "dec_UserConstraints o' = do {
     a \<leftarrow> dec_bool (field o' ''allow_new_wallet'');
     b \<leftarrow> dec_bool (field o' ''address_continuity_required'');
     k \<leftarrow> dec_string (field o' ''key_rotation_model'');
     Some \<lparr>uc_AllowNewWallet = a, uc_AddressContinuityRequired = b, uc_KeyRotationModel = k\<rparr> }"

definition dec_SolutionProfileRef :: "(string \<times> json) list \<Rightarrow> SolutionProfileRef option" where
  "dec_SolutionProfileRef o' = do {
     p \<leftarrow> dec_string (field o' ''provider_id'');
     s \<leftarrow> dec_string (field o' ''solution_profile_id'');
     m \<leftarrow> dec_string (field o' ''manifest_version'');
     v \<leftarrow> dec_string (field o' ''verification_date'');
     Some \<lparr>spr_ProviderID = p, spr_SolutionProfileID = s, spr_ManifestVersion = m, spr_VerificationDate = v\<rparr> }"

definition dec_InputRequirements :: "(string \<times> json) list \<Rightarrow> InputRequirements option" where
  "dec_InputRequirements o' = do {
     w \<leftarrow> dec_list dec_string (field o' ''wallet_types'');
     r \<leftarrow> dec_bool (field o' ''requires_wallet_control_proof'');
     Some \<lparr>ir_WalletTypes = w, ir_RequiresWalletControlProof = r\<rparr> }"

definition dec_SignatureProfile :: "(string \<times> json) list \<Rightarrow> SignatureProfile option" where
  "dec_SignatureProfile o' = do {
     s \<leftarrow> dec_string (field o' ''scheme'');
     f \<leftarrow> dec_string (field o' ''family'');
     k \<leftarrow> dec_string (field o' ''key_rotation_model'');
     Some \<lparr>sig_Scheme = s, sig_Family = f, sig_KeyRotationModel = k\<rparr> }"

definition dec_AccountModel :: "(string \<times> json) list \<Rightarrow> AccountModel option" where
  "dec_AccountModel o' = do {
     s \<leftarrow> dec_string (field o' ''standard'');
     e \<leftarrow> dec_string (field o' ''execution_model'');
     b \<leftarrow> dec_bool (field o' ''requires_bundler'');
     r \<leftarrow> dec_bool (field o' ''requires_entrypoint'');
     v \<leftarrow> dec_list dec_string (field o' ''entrypoint_versions'');
     Some \<lparr>am_Standard = s, am_ExecutionModel = e, am_RequiresBundler = b, am_RequiresEntrypoint = r,
       am_EntrypointVersions = v\<rparr> }"

definition dec_ProfileConstraints :: "(string \<times> json) list \<Rightarrow> ProfileConstraints option" where
  "dec_ProfileConstraints o' = do {
     n \<leftarrow> dec_bool (field o' ''requires_new_account'');
     a \<leftarrow> dec_bool (field o' ''address_continuity_supported'');
     l \<leftarrow> dec_bool (field o' ''requires_local_signer_state'');
     Some \<lparr>pc_RequiresNewAccount = n, pc_AddressContinuitySupported = a, pc_RequiresLocalSignerState = l\<rparr> }"

definition dec_SnapshotChainSupport :: "(string \<times> json) list \<Rightarrow> SnapshotChainSupport option" where
  "dec_SnapshotChainSupport o' = do {
     c \<leftarrow> FlexibleChainID_Unmarshal (field o' ''chain_id'');
     s \<leftarrow> dec_string (field o' ''status'');
     k \<leftarrow> dec_list dec_string (field o' ''capabilities'');
     Some \<lparr>sc_ChainID = c, sc_Status = s, sc_Capabilities = k\<rparr> }"

definition dec_Reference :: "(string \<times> json) list \<Rightarrow> Reference option" where
  "dec_Reference o' = do {
     k \<leftarrow> dec_string (field o' ''kind'');
     u \<leftarrow> dec_string (field o' ''url'');
     c \<leftarrow> dec_string (field o' ''commit'');
     v \<leftarrow> dec_string (field o' ''version'');
     Some \<lparr>ref_Kind = k, ref_URL = u, ref_Commit = c, ref_Version = v\<rparr> }"

definition dec_AcceptedProviderSnapshot :: "(string \<times> json) list \<Rightarrow> AcceptedProviderSnapshot option" where
  "dec_AcceptedProviderSnapshot o' = do {
     m \<leftarrow> dec_string (field o' ''maturity'');
     c \<leftarrow> dec_string (field o' ''claim_status'');
     p \<leftarrow> dec_string (field o' ''resulting_posture'');
     i \<leftarrow> dec_struct dec_InputRequirements (field o' ''input_requirements'');
     s \<leftarrow> dec_struct dec_SignatureProfile (field o' ''signature'');
     a \<leftarrow> dec_struct dec_AccountModel (field o' ''account_model'');
     k \<leftarrow> dec_struct dec_ProfileConstraints (field o' ''constraints'');
     ch \<leftarrow> dec_list (dec_struct dec_SnapshotChainSupport) (field o' ''chain_support_used'');
     r \<leftarrow> dec_list (dec_struct dec_Reference) (field o' ''references'');
     f \<leftarrow> dec_list dec_string (field o' ''accepted_findings'');
     n \<leftarrow> dec_list dec_string (field o' ''accepted_risk_notes'');
     Some \<lparr>as_Maturity = m, as_ClaimStatus = c, as_ResultingPosture = p, as_InputRequirements = i,
       as_Signature = s, as_AccountModel = a, as_Constraints = k, as_ChainSupportUsed = ch,
       as_References = r, as_AcceptedFindings = f, as_AcceptedRiskNotes = n\<rparr> }"

definition dec_CryptoPolicyPersistPayload :: "(string \<times> json) list \<Rightarrow> CryptoPolicyPersistPayload option" where
  "dec_CryptoPolicyPersistPayload o' = do {
     s \<leftarrow> dec_string (field o' ''schema_version'');
     k \<leftarrow> dec_string (field o' ''policy_kind'');
     c \<leftarrow> dec_string (field o' ''crypto_policy_id'');
     p \<leftarrow> dec_string (field o' ''required_posture'');
     u \<leftarrow> dec_struct dec_UserConstraints (field o' ''user_constraints'');
     r \<leftarrow> dec_struct dec_SolutionProfileRef (field o' ''solution_profile_ref'');
     a \<leftarrow> dec_struct dec_AcceptedProviderSnapshot (field o' ''accepted_provider_snapshot'');
     f \<leftarrow> dec_list dec_string (field o' ''accepted_findings'');
     Some \<lparr>pp_SchemaVersion = s, pp_PolicyKind = k, pp_CryptoPolicyID = c, pp_RequiredPosture = p,
       pp_UserConstraints = u, pp_SolutionProfileRef = r, pp_AcceptedProviderSnapshot = a,
       pp_AcceptedFindings = f\<rparr> }"

section \<open>Shape checks on the raw object\<close>

definition legacyKeys :: "string list" where
  "legacyKeys = [''allow_new_wallet'', ''address_continuity_required'', ''key_rotation_model'']"

definition rejectLegacyPersistShape :: "(string \<times> json) list \<Rightarrow> persist_error option" where
  "rejectLegacyPersistShape raw =
     (if map_of raw ''template_id'' \<noteq> None
      then Some (ErrCryptoPolicyPayloadInvalid ''template_id is not allowed; use crypto_policy_id'')
      else if map_of raw ''selection_request'' \<noteq> None
      then Some (ErrCryptoPolicyPayloadInvalid ''selection_request is not allowed on persist payload'')
      else case find (\<lambda>key. map_of raw key \<noteq> None) legacyKeys of
        Some key \<Rightarrow> Some (ErrCryptoPolicyPayloadInvalid (key @ '' must be nested under user_constraints''))
      | None \<Rightarrow>
          if map_of raw ''crypto_policy_id'' = None
          then Some (ErrCryptoPolicyPayloadInvalid ''crypto_policy_id is required'')
          else None)"

definition requirePersistUserConstraints :: "(string \<times> json) list \<Rightarrow> persist_error option" where
  "requirePersistUserConstraints raw =
     (case map_of raw ''user_constraints'' of
        None \<Rightarrow> Some (ErrCryptoPolicyPayloadInvalid ''user_constraints is required'')
      | Some JNull \<Rightarrow> Some (ErrCryptoPolicyPayloadInvalid ''user_constraints is required'')
      | Some (JObj uc) \<Rightarrow>
          (case find (\<lambda>key. map_of uc key = None) legacyKeys of
             Some key \<Rightarrow> Some (ErrCryptoPolicyPayloadInvalid (''user_constraints.'' @ key @ '' is required''))
           | None \<Rightarrow> None)
      | Some _ \<Rightarrow> Some (ErrCryptoPolicyPayloadInvalid ''user_constraints must be an object''))"

definition stringFromAny :: "json option \<Rightarrow> string" where
  "stringFromAny v = (case v of Some (JStr s) \<Rightarrow> TrimSpace s | _ \<Rightarrow> '''')"

text \<open>\<^verbatim>\<open>int64(f)\<close> of a \<^verbatim>\<open>float64\<close>; out of range the language leaves the value to the implementation, here
  that of amd64.\<close>

definition int64_of_float :: "gofloat \<Rightarrow> int64" where
  "int64_of_float f = (if in_int64 (fl_Trunc f) then fl_Trunc f else - (2 ^ 63))"

text \<open>The values come from \<^verbatim>\<open>Unmarshal\<close> into \<^verbatim>\<open>any\<close>, so of the cases of the type switch only \<^verbatim>\<open>[]any\<close> with
  \<^verbatim>\<open>float64\<close> items arises; other items are skipped.\<close>

definition int64SliceFromAny :: "json option \<Rightarrow> int64 list" where
  "int64SliceFromAny v =
     (case v of
        Some (JArr items) \<Rightarrow>
          List.map_filter (\<lambda>i. case i of JNum f \<Rightarrow> Some (int64_of_float f) | _ \<Rightarrow> None) items
      | _ \<Rightarrow> [])"

definition observationFromPersistRaw :: "(string \<times> json) list \<Rightarrow> HardObservation" where
  "observationFromPersistRaw raw =
     (let obs =
        (case map_of raw ''policy_context'' of
           Some (JObj pc) \<Rightarrow>
             (let k = stringFromAny (map_of pc ''wallet_type'') in
              \<lparr>ob_AccountKind = (if k = '''' then stringFromAny (map_of pc ''account_kind'') else k),
               ob_ChainIDs = int64SliceFromAny (map_of pc ''chain_ids'')\<rparr>)
         | _ \<Rightarrow> \<lparr>ob_AccountKind = '''', ob_ChainIDs = []\<rparr>)
      in if ob_AccountKind obs = '''' then obs\<lparr>ob_AccountKind := ''EOA''\<rparr> else obs)"

section \<open>Normalisation\<close>

definition trimNonEmpty :: "string list \<Rightarrow> string list" where
  "trimNonEmpty xs = filter (\<lambda>s. s \<noteq> '''') (map TrimSpace xs)"

definition normalizeSnapshot :: "AcceptedProviderSnapshot \<Rightarrow> AcceptedProviderSnapshot" where
  "normalizeSnapshot s =
     s\<lparr>as_Maturity := TrimSpace (as_Maturity s),
       as_ClaimStatus := TrimSpace (as_ClaimStatus s),
       as_ResultingPosture := TrimSpace (as_ResultingPosture s),
       as_Signature := normalizeSignature (as_Signature s),
       as_ChainSupportUsed := map (\<lambda>c. c\<lparr>sc_Status := TrimSpace (sc_Status c)\<rparr>) (as_ChainSupportUsed s),
       as_References := map normalizeReference (as_References s),
       as_AcceptedFindings := trimNonEmpty (as_AcceptedFindings s),
       as_AcceptedRiskNotes := trimNonEmpty (as_AcceptedRiskNotes s)\<rparr>"

definition normalizeRef :: "SolutionProfileRef \<Rightarrow> SolutionProfileRef" where
  "normalizeRef r =
     \<lparr>spr_ProviderID = TrimSpace (spr_ProviderID r),
      spr_SolutionProfileID = TrimSpace (spr_SolutionProfileID r),
      spr_ManifestVersion = TrimSpace (spr_ManifestVersion r),
      spr_VerificationDate = TrimSpace (spr_VerificationDate r)\<rparr>"

definition normalizePayload :: "CryptoPolicyPersistPayload \<Rightarrow> CryptoPolicyPersistPayload" where
  "normalizePayload p =
     p\<lparr>pp_SchemaVersion := TrimSpace (pp_SchemaVersion p),
       pp_PolicyKind := TrimSpace (pp_PolicyKind p),
       pp_CryptoPolicyID := TrimSpace (pp_CryptoPolicyID p),
       pp_RequiredPosture := TrimSpace (pp_RequiredPosture p),
       pp_UserConstraints := (pp_UserConstraints p)
         \<lparr>uc_KeyRotationModel := TrimSpace (uc_KeyRotationModel (pp_UserConstraints p))\<rparr>,
       pp_SolutionProfileRef := normalizeRef (pp_SolutionProfileRef p),
       pp_AcceptedProviderSnapshot := normalizeSnapshot (pp_AcceptedProviderSnapshot p)\<rparr>"

section \<open>The checks\<close>

definition validatePersistIdentity :: "CryptoPolicyPersistPayload \<Rightarrow> persist_error option" where
  "validatePersistIdentity p =
     (if pp_SchemaVersion p \<noteq> CryptoPolicySchemaVersionV02
      then Some (ErrCryptoPolicyPayloadInvalid (''schema_version '' @ Quote (pp_SchemaVersion p)))
      else if pp_CryptoPolicyID p = ''''
      then Some (ErrCryptoPolicyPayloadInvalid ''crypto_policy_id is required'')
      else if \<not> posture_IsValid (pp_RequiredPosture p) \<or> pp_RequiredPosture p = PQPostureUnknown
      then Some (ErrCryptoPolicyPayloadInvalid (''required_posture '' @ Quote (pp_RequiredPosture p)))
      else if \<not> oneOf (uc_KeyRotationModel (pp_UserConstraints p)) [''none'', ''per_userop'']
      then Some (ErrCryptoPolicyPayloadInvalid
        (''user_constraints.key_rotation_model '' @ Quote (uc_KeyRotationModel (pp_UserConstraints p))))
      else case SolutionProfileRef_Validate (pp_SolutionProfileRef p) of
        Some e \<Rightarrow> Some (ErrCryptoPolicyPayloadInvalid (''solution_profile_ref: '' @ profile_ref_error_string e))
      | None \<Rightarrow> None)"

definition validateSnapshotChain :: "nat \<Rightarrow> SnapshotChainSupport \<Rightarrow> persist_error option" where
  "validateSnapshotChain i c =
     (if sc_ChainID c \<le> 0 \<or> sc_Status c = ''''
      then Some (ErrCryptoPolicyPayloadInvalid
        (''chain_support_used['' @ FormatInt (int i) @ ''] chain_id/status required''))
      else if sc_Status c = ChainStatusPlanned then Some ErrProviderChainPlanned
      else None)"

definition validatePersistSnapshot :: "CryptoPolicyPersistPayload \<Rightarrow> persist_error option" where
  "validatePersistSnapshot p =
     (let s = pp_AcceptedProviderSnapshot p in
      if as_Maturity s = '''' \<or> as_ClaimStatus s = '''' \<or> as_ResultingPosture s = ''''
      then Some (ErrCryptoPolicyPayloadInvalid
        ''accepted_provider_snapshot maturity/claim_status/resulting_posture required'')
      else if \<not> oneOf (as_ClaimStatus s) [''declared'', ''cafe_reviewed'', ''externally_audited'', ''executed_observed'']
      then Some (ErrCryptoPolicyPayloadInvalid (''claim_status '' @ Quote (as_ClaimStatus s)))
      else if \<not> oneOf (as_ResultingPosture s) [''classical_only'', ''hybrid'', ''full_pq'']
      then Some (ErrCryptoPolicyPayloadInvalid (''resulting_posture '' @ Quote (as_ResultingPosture s)))
      else if sig_Scheme (as_Signature s) = '''' \<or> sig_Family (as_Signature s) = ''''
      then Some (ErrCryptoPolicyPayloadInvalid ''accepted_provider_snapshot.signature scheme/family required'')
      else if as_ChainSupportUsed s = []
      then Some (ErrCryptoPolicyPayloadInvalid ''chain_support_used must be a non-empty array'')
      else first_err_at validateSnapshotChain 0 (as_ChainSupportUsed s))"

definition softFindingsForPersist :: "CryptoPolicyPersistPayload \<Rightarrow> persist_error + string list" where
  "softFindingsForPersist p =
     (let top = NormalizeAcceptedFindings (pp_AcceptedFindings p);
          snap = NormalizeAcceptedFindings (as_AcceptedFindings (pp_AcceptedProviderSnapshot p)) in
      if top \<noteq> [] \<and> snap \<noteq> [] \<and> top \<noteq> snap then Inl ErrAcceptedFindingsDivergent
      else if top \<noteq> [] then Inr top
      else Inr snap)"

definition requireAcceptedSoftFindings :: "CryptoPolicyPersistPayload \<Rightarrow> persist_error option" where
  "requireAcceptedSoftFindings p =
     (let s = pp_AcceptedProviderSnapshot p in
      case softFindingsForPersist p of
        Inl e \<Rightarrow> Some e
      | Inr softFindings \<Rightarrow>
          let missing =
            (if am_RequiresBundler (as_AccountModel s) \<and> FindingCodeRequiresBundler \<notin> set softFindings
             then [FindingCodeRequiresBundler] else []) @
            (if pc_RequiresLocalSignerState (as_Constraints s) \<and>
                FindingCodeRequiresLocalSignerState \<notin> set softFindings
             then [FindingCodeRequiresLocalSignerState] else [])
          in if missing \<noteq> [] then Some (ErrProviderSoftFindingsRequired (''missing '' @ Join missing '', ''))
             else None)"

definition requirePinnedReferences :: "CryptoPolicyPersistPayload \<Rightarrow> persist_error option" where
  "requirePinnedReferences p =
     (let refs = as_References (pp_AcceptedProviderSnapshot p) in
      if refs = [] then Some (ErrProviderRefsUnpinned ''references required'')
      else first_err_at (\<lambda>i ref. if IsUnpinned ref
        then Some (ErrProviderRefsUnpinned (''references['' @ FormatInt (int i) @ ''] commit/version is '' @
               UnpinnedPendingFixture @ '' or empty''))
        else None) 0 refs)"

definition snapshotAsProfile :: "CryptoPolicyPersistPayload \<Rightarrow> SolutionProfile" where
  "snapshotAsProfile p =
     (let s = pp_AcceptedProviderSnapshot p in
      \<lparr>sp_SolutionProfileID = spr_SolutionProfileID (pp_SolutionProfileRef p), sp_DisplayName = '''',
       sp_Maturity = as_Maturity s, sp_ClaimStatus = as_ClaimStatus s,
       sp_ResultingPosture = as_ResultingPosture s, sp_InputRequirements = as_InputRequirements s,
       sp_Signature = as_Signature s, sp_AccountModel = as_AccountModel s,
       sp_Constraints = as_Constraints s, sp_SuggestedUserConstraints = None,
       sp_ChainSupport = map (\<lambda>c. \<lparr>cs_ChainID = sc_ChainID c, cs_Network = '''',
         cs_Status = sc_Status c, cs_Capabilities = sc_Capabilities c\<rparr>) (as_ChainSupportUsed s),
       sp_References = as_References s, sp_RiskNotes = []\<rparr>)"

definition hardRequestOf :: "CryptoPolicyPersistPayload \<Rightarrow> HardObservation \<Rightarrow> HardSelectionRequest" where
  "hardRequestOf p obs =
     \<lparr>hr_RequiredPosture = pp_RequiredPosture p, hr_TargetChainIDs = ob_ChainIDs obs,
      hr_AllowNewWallet = uc_AllowNewWallet (pp_UserConstraints p),
      hr_AddressContinuityRequired = uc_AddressContinuityRequired (pp_UserConstraints p),
      hr_KeyRotationModel = uc_KeyRotationModel (pp_UserConstraints p)\<rparr>"

definition couche_b_detail :: "HardFinding \<Rightarrow> string" where
  "couche_b_detail f = ''['' @ hf_Code f @ ''] '' @ hf_Message f"

definition replayCoucheAB :: "CryptoPolicyPersistPayload \<Rightarrow> HardObservation \<Rightarrow> persist_error option" where
  "replayCoucheAB p obs =
     (let profile = snapshotAsProfile p in
      case EvaluateScanCompatibility obs (pp_RequiredPosture p) (Some profile) of
        f # _ \<Rightarrow> Some (ErrProviderScanCompatFailed (hf_Message f))
      | [] \<Rightarrow>
      (case EvaluateUserConstraints (pp_UserConstraints p) (Some profile) of
         f # _ \<Rightarrow> Some (ErrProviderUserConstraintsIncompatible (couche_b_detail f))
       | [] \<Rightarrow>
      (case EvaluateHardCompatibility obs (hardRequestOf p obs) (Some profile) of
         f # _ \<Rightarrow> Some (ErrProviderUserConstraintsIncompatible (couche_b_detail f))
       | [] \<Rightarrow> None)))"

definition ValidateForPersist :: "CryptoPolicyPersistPayload option \<Rightarrow> HardObservation \<Rightarrow> persist_error option" where
  "ValidateForPersist po obs =
     (case po of
        None \<Rightarrow> Some (ErrCryptoPolicyPayloadInvalid ''nil'')
      | Some p0 \<Rightarrow>
          let p = normalizePayload p0 in
          (case validatePersistIdentity p of Some e \<Rightarrow> Some e | None \<Rightarrow>
          (case validatePersistSnapshot p of Some e \<Rightarrow> Some e | None \<Rightarrow>
          (case requireAcceptedSoftFindings p of Some e \<Rightarrow> Some e | None \<Rightarrow>
          (case requirePinnedReferences p of Some e \<Rightarrow> Some e | None \<Rightarrow>
            replayCoucheAB p obs)))))"

definition ValidatePayloadForPersist :: "(string \<times> json) list option \<Rightarrow> persist_error option" where
  "ValidatePayloadForPersist ro =
     (case ro of
        None \<Rightarrow> Some (ErrCryptoPolicyPayloadInvalid ''payload is nil'')
      | Some raw \<Rightarrow>
          (case rejectLegacyPersistShape raw of Some e \<Rightarrow> Some e | None \<Rightarrow>
          (case requirePersistUserConstraints raw of Some e \<Rightarrow> Some e | None \<Rightarrow>
          (case dec_CryptoPolicyPersistPayload raw of
             None \<Rightarrow> Some (ErrCryptoPolicyPayloadInvalid ''decode'')
           | Some p \<Rightarrow> ValidateForPersist (Some p) (observationFromPersistRaw raw)))))"

section \<open>The finding code of a couche B error\<close>

definition persist_error_string :: "persist_error \<Rightarrow> string" where
  "persist_error_string e =
     (case e of
        ErrCryptoPolicyPayloadInvalid d \<Rightarrow> ''crypto policy persist payload is invalid: '' @ d
      | ErrProviderRefsUnpinned d \<Rightarrow> ''provider references are unpinned or absent: '' @ d
      | ErrProviderSoftFindingsRequired d \<Rightarrow> ''provider soft findings must be listed in accepted_findings: '' @ d
      | ErrProviderChainPlanned \<Rightarrow> ''provider chain_support_used status planned is not persistable''
      | ErrProviderScanCompatFailed d \<Rightarrow> ''provider scan compatibility failed at persist: '' @ d
      | ErrProviderUserConstraintsIncompatible d \<Rightarrow> ''provider user_constraints incompatible at persist: '' @ d
      | ErrAcceptedFindingsDivergent \<Rightarrow>
          ''accepted_provider_snapshot.accepted_findings diverges from top-level accepted_findings'')"

definition UserConstraintsIncompatibleFindingCode :: "persist_error option \<Rightarrow> string" where
  "UserConstraintsIncompatibleFindingCode eo =
     (case eo of
        Some (ErrProviderUserConstraintsIncompatible d) \<Rightarrow>
          (let msg = persist_error_string (ErrProviderUserConstraintsIncompatible d) in
           case (Index msg (CHR ''[''), Index msg (CHR '']'')) of
             (Some start, Some stop) \<Rightarrow>
               if stop \<le> start + 1 then '''' else TrimSpace (take (stop - (start + 1)) (drop (start + 1) msg))
           | _ \<Rightarrow> '''')
      | _ \<Rightarrow> '''')"

section \<open>What the gate accepts\<close>

text \<open>The findings that count: the top-level list is the authority when it is not empty.\<close>

definition effective_findings :: "CryptoPolicyPersistPayload \<Rightarrow> string set" where
  "effective_findings p =
     (if pp_AcceptedFindings p \<noteq> [] then set (pp_AcceptedFindings p)
      else set (as_AcceptedFindings (pp_AcceptedProviderSnapshot p)))"

definition findings_ok :: "CryptoPolicyPersistPayload \<Rightarrow> bool" where
  "findings_ok p \<longleftrightarrow>
     (let s = pp_AcceptedProviderSnapshot p in
      (pp_AcceptedFindings p = [] \<or> as_AcceptedFindings s = [] \<or>
        set (pp_AcceptedFindings p) = set (as_AcceptedFindings s)) \<and>
      (am_RequiresBundler (as_AccountModel s) \<longrightarrow> FindingCodeRequiresBundler \<in> effective_findings p) \<and>
      (pc_RequiresLocalSignerState (as_Constraints s) \<longrightarrow>
        FindingCodeRequiresLocalSignerState \<in> effective_findings p))"

definition identity_ok :: "CryptoPolicyPersistPayload \<Rightarrow> bool" where
  "identity_ok p \<longleftrightarrow>
     pp_SchemaVersion p = CryptoPolicySchemaVersionV02 \<and> pp_CryptoPolicyID p \<noteq> '''' \<and>
     pp_RequiredPosture p \<in> set postures \<and>
     uc_KeyRotationModel (pp_UserConstraints p) \<in> set rotation_models \<and>
     spr_ProviderID (pp_SolutionProfileRef p) \<noteq> '''' \<and>
     spr_SolutionProfileID (pp_SolutionProfileRef p) \<noteq> '''' \<and>
     spr_ManifestVersion (pp_SolutionProfileRef p) \<noteq> ''''"

definition snapshot_ok :: "AcceptedProviderSnapshot \<Rightarrow> bool" where
  "snapshot_ok s \<longleftrightarrow>
     as_Maturity s \<noteq> '''' \<and> as_ClaimStatus s \<in> set claim_statuses \<and> as_ResultingPosture s \<in> set postures \<and>
     sig_Scheme (as_Signature s) \<noteq> '''' \<and> sig_Family (as_Signature s) \<noteq> '''' \<and>
     as_ChainSupportUsed s \<noteq> [] \<and>
     (\<forall>c \<in> set (as_ChainSupportUsed s). 0 < sc_ChainID c \<and> sc_Status c \<noteq> '''' \<and> sc_Status c \<noteq> ChainStatusPlanned)"

definition references_ok :: "Reference list \<Rightarrow> bool" where
  "references_ok refs \<longleftrightarrow> refs \<noteq> [] \<and> (\<forall>r \<in> set refs. \<not> IsUnpinned r)"

definition persistable :: "CryptoPolicyPersistPayload \<Rightarrow> HardObservation \<Rightarrow> bool" where
  "persistable p obs \<longleftrightarrow>
     identity_ok p \<and> snapshot_ok (pp_AcceptedProviderSnapshot p) \<and> findings_ok p \<and>
     references_ok (as_References (pp_AcceptedProviderSnapshot p)) \<and>
     scan_ok obs (pp_RequiredPosture p) (snapshotAsProfile p) \<and>
     user_ok (pp_UserConstraints p) (snapshotAsProfile p) \<and>
     (\<forall>c \<in> set (ob_ChainIDs obs). targetChainFindings (sp_ChainSupport (snapshotAsProfile p)) c = [])"

lemma validatePersistIdentity_None: "validatePersistIdentity p = None \<longleftrightarrow> identity_ok p"
  using SolutionProfileRef_Validate_None[of "pp_SolutionProfileRef p"]
  by (auto simp: validatePersistIdentity_def identity_ok_def postures_iff oneOf_def rotation_models_def
      split: option.splits)

lemma validateSnapshotChain_None:
  "validateSnapshotChain i c = None \<longleftrightarrow> 0 < sc_ChainID c \<and> sc_Status c \<noteq> '''' \<and> sc_Status c \<noteq> ChainStatusPlanned"
  by (auto simp: validateSnapshotChain_def)

lemma validatePersistSnapshot_None:
  "validatePersistSnapshot p = None \<longleftrightarrow> snapshot_ok (pp_AcceptedProviderSnapshot p)"
proof -
  let ?s = "pp_AcceptedProviderSnapshot p"
  have "first_err_at validateSnapshotChain 0 (as_ChainSupportUsed ?s) = None \<longleftrightarrow>
      (\<forall>c \<in> set (as_ChainSupportUsed ?s). 0 < sc_ChainID c \<and> sc_Status c \<noteq> '''' \<and> sc_Status c \<noteq> ChainStatusPlanned)"
    by (rule first_err_at_const_None) (rule validateSnapshotChain_None)
  then show ?thesis
    using claim_statuses_nonempty[of "as_ClaimStatus ?s"] postures_nonempty[of "as_ResultingPosture ?s"]
    by (auto simp: validatePersistSnapshot_def snapshot_ok_def Let_def oneOf_def claim_statuses_def postures_def)
qed

lemma softFindingsForPersist_eq:
  "softFindingsForPersist p =
     (if pp_AcceptedFindings p \<noteq> [] \<and> as_AcceptedFindings (pp_AcceptedProviderSnapshot p) \<noteq> [] \<and>
         set (pp_AcceptedFindings p) \<noteq> set (as_AcceptedFindings (pp_AcceptedProviderSnapshot p))
      then Inl ErrAcceptedFindingsDivergent
      else Inr (sorted_list_of_set (effective_findings p)))"
  by (simp add: softFindingsForPersist_def Let_def NormalizeAcceptedFindings_eq effective_findings_def
      sorted_list_of_set_inject)

lemma finite_effective_findings [simp]: "finite (effective_findings p)"
  by (simp add: effective_findings_def)

lemma requireAcceptedSoftFindings_None: "requireAcceptedSoftFindings p = None \<longleftrightarrow> findings_ok p"
  by (auto simp: requireAcceptedSoftFindings_def findings_ok_def softFindingsForPersist_eq Let_def)

lemma requirePinnedReferences_None:
  "requirePinnedReferences p = None \<longleftrightarrow> references_ok (as_References (pp_AcceptedProviderSnapshot p))"
proof -
  have "first_err_at (\<lambda>i ref. if IsUnpinned ref
        then Some (ErrProviderRefsUnpinned (''references['' @ FormatInt (int i) @ ''] commit/version is '' @
               UnpinnedPendingFixture @ '' or empty''))
        else None) 0 refs = None \<longleftrightarrow> (\<forall>r \<in> set refs. \<not> IsUnpinned r)" for refs
    by (rule first_err_at_const_None) simp
  then show ?thesis by (simp add: requirePinnedReferences_def references_ok_def Let_def)
qed

lemma user_ok_request:
  "user_ok \<lparr>uc_AllowNewWallet = hr_AllowNewWallet (hardRequestOf p obs),
     uc_AddressContinuityRequired = hr_AddressContinuityRequired (hardRequestOf p obs),
     uc_KeyRotationModel = hr_KeyRotationModel (hardRequestOf p obs)\<rparr> q \<longleftrightarrow> user_ok (pp_UserConstraints p) q"
  by (simp add: user_ok_def hardRequestOf_def)

lemma replayCoucheAB_None:
  "replayCoucheAB p obs = None \<longleftrightarrow>
     scan_ok obs (pp_RequiredPosture p) (snapshotAsProfile p) \<and> user_ok (pp_UserConstraints p) (snapshotAsProfile p) \<and>
     (\<forall>c \<in> set (ob_ChainIDs obs). targetChainFindings (sp_ChainSupport (snapshotAsProfile p)) c = [])"
proof -
  have h: "EvaluateHardCompatibility obs (hardRequestOf p obs) (Some (snapshotAsProfile p)) = [] \<longleftrightarrow>
      posture_ok (pp_RequiredPosture p) (snapshotAsProfile p) \<and>
      walletTypeAccepted (ob_AccountKind obs) (ir_WalletTypes (sp_InputRequirements (snapshotAsProfile p))) \<and>
      user_ok (pp_UserConstraints p) (snapshotAsProfile p) \<and>
      (\<forall>c \<in> set (ob_ChainIDs obs). targetChainFindings (sp_ChainSupport (snapshotAsProfile p)) c = [])"
    unfolding EvaluateHardCompatibility_Nil user_ok_request by (simp add: hardRequestOf_def)
  have "replayCoucheAB p obs = None \<longleftrightarrow>
      EvaluateScanCompatibility obs (pp_RequiredPosture p) (Some (snapshotAsProfile p)) = [] \<and>
      EvaluateUserConstraints (pp_UserConstraints p) (Some (snapshotAsProfile p)) = [] \<and>
      EvaluateHardCompatibility obs (hardRequestOf p obs) (Some (snapshotAsProfile p)) = []"
    by (auto simp: replayCoucheAB_def Let_def split: list.splits)
  then show ?thesis
    unfolding h EvaluateScanCompatibility_Nil EvaluateUserConstraints_Nil by (auto simp: scan_ok_def)
qed

lemma ValidateForPersist_None:
  "ValidateForPersist (Some p0) obs = None \<longleftrightarrow> persistable (normalizePayload p0) obs"
  unfolding persistable_def validatePersistIdentity_None[symmetric] validatePersistSnapshot_None[symmetric]
    requireAcceptedSoftFindings_None[symmetric] requirePinnedReferences_None[symmetric]
    replayCoucheAB_None[symmetric]
  by (simp add: ValidateForPersist_def Let_def split: option.split)

definition persist_shape :: "(string \<times> json) list \<Rightarrow> bool" where
  "persist_shape raw \<longleftrightarrow>
     (\<forall>k \<in> set ([''template_id'', ''selection_request''] @ legacyKeys). map_of raw k = None) \<and>
     map_of raw ''crypto_policy_id'' \<noteq> None \<and>
     (\<exists>uc. map_of raw ''user_constraints'' = Some (JObj uc) \<and> (\<forall>k \<in> set legacyKeys. map_of uc k \<noteq> None))"

lemma persist_shape_iff:
  "rejectLegacyPersistShape raw = None \<and> requirePersistUserConstraints raw = None \<longleftrightarrow> persist_shape raw"
proof -
  have a: "find (\<lambda>key. map_of m key \<noteq> None) legacyKeys = None \<longleftrightarrow> (\<forall>k \<in> set legacyKeys. map_of m k = None)" for m
    by (auto simp: find_None_iff)
  have b: "find (\<lambda>key. map_of m key = None) legacyKeys = None \<longleftrightarrow> (\<forall>k \<in> set legacyKeys. map_of m k \<noteq> None)" for m
    by (auto simp: find_None_iff)
  have "rejectLegacyPersistShape raw = None \<longleftrightarrow>
      (\<forall>k \<in> set ([''template_id'', ''selection_request''] @ legacyKeys). map_of raw k = None) \<and>
      map_of raw ''crypto_policy_id'' \<noteq> None"
    using a[of raw] by (simp add: rejectLegacyPersistShape_def split: option.split) auto
  moreover have "requirePersistUserConstraints raw = None \<longleftrightarrow>
      (\<exists>uc. map_of raw ''user_constraints'' = Some (JObj uc) \<and> (\<forall>k \<in> set legacyKeys. map_of uc k \<noteq> None))"
  proof (cases "\<exists>uc. map_of raw ''user_constraints'' = Some (JObj uc)")
    case True
    then obtain uc where "map_of raw ''user_constraints'' = Some (JObj uc)" by blast
    then show ?thesis
      using b[of uc] by (cases "find (\<lambda>key. map_of uc key = None) legacyKeys")
        (auto simp: requirePersistUserConstraints_def)
  next
    case False
    then show ?thesis by (auto simp: requirePersistUserConstraints_def split: option.split json.split)
  qed
  ultimately show ?thesis unfolding persist_shape_def by blast
qed

lemma ValidatePayloadForPersist_None:
  "ValidatePayloadForPersist (Some raw) = None \<longleftrightarrow>
     persist_shape raw \<and>
     (\<exists>p. dec_CryptoPolicyPersistPayload raw = Some p \<and>
        persistable (normalizePayload p) (observationFromPersistRaw raw))"
  unfolding persist_shape_iff[symmetric] ValidateForPersist_None[symmetric]
  by (auto simp: ValidatePayloadForPersist_def split: option.splits)

section \<open>Closed payloads\<close>

text \<open>A payload that came out of the digest has no \<^verbatim>\<open>policy_context\<close> field, so the gate sees a wallet of
  kind EOA on no chain at all.\<close>

definition greenfield :: HardObservation where
  "greenfield = \<lparr>ob_AccountKind = ''EOA'', ob_ChainIDs = []\<rparr>"

lemma closed_no_context:
  assumes "fst ` set obj = set closedFields"
  shows "observationFromPersistRaw obj = greenfield"
proof -
  have "''policy_context'' \<notin> fst ` set obj" unfolding assms by (simp add: closedFields_def)
  then have "map_of obj ''policy_context'' = None" by (simp add: map_of_eq_None_iff)
  then show ?thesis by (simp add: observationFromPersistRaw_def greenfield_def)
qed

lemma scan_ok_greenfield:
  "scan_ok greenfield q p \<longleftrightarrow>
     posture_ok q p \<and> walletTypeAccepted ''EOA'' (ir_WalletTypes (sp_InputRequirements p))"
  by (simp add: scan_ok_def greenfield_def)

lemma persistable_greenfield:
  "persistable p greenfield \<longleftrightarrow>
     identity_ok p \<and> snapshot_ok (pp_AcceptedProviderSnapshot p) \<and> findings_ok p \<and>
     references_ok (as_References (pp_AcceptedProviderSnapshot p)) \<and>
     as_ResultingPosture (pp_AcceptedProviderSnapshot p) = pp_RequiredPosture p \<and>
     walletTypeAccepted ''EOA'' (ir_WalletTypes (as_InputRequirements (pp_AcceptedProviderSnapshot p))) \<and>
     user_ok (pp_UserConstraints p) (snapshotAsProfile p)"
proof -
  have "posture_ok (pp_RequiredPosture p) (snapshotAsProfile p) \<longleftrightarrow>
      as_ResultingPosture (pp_AcceptedProviderSnapshot p) = pp_RequiredPosture p"
    if "identity_ok p" "snapshot_ok (pp_AcceptedProviderSnapshot p)"
    using that postures_nonempty[of "pp_RequiredPosture p"]
    by (auto simp: posture_ok_def snapshotAsProfile_def Let_def identity_ok_def snapshot_ok_def postures_trimmed)
  then show ?thesis
    unfolding persistable_def scan_ok_greenfield by (auto simp: greenfield_def snapshotAsProfile_def Let_def)
qed

section \<open>The finding code of a couche B error\<close>

lemma Index_skip: "c \<notin> set p \<Longrightarrow> Index (p @ c # t) c = Some (length p)"
  by (rule Index_append)

lemma finding_code_extract:
  assumes "CHR '']'' \<notin> set code" and "CHR ''['' \<notin> set code" and "code \<noteq> []" and "TrimSpace code = code"
  shows "UserConstraintsIncompatibleFindingCode
    (Some (ErrProviderUserConstraintsIncompatible (''['' @ code @ ''] '' @ msg))) = code"
proof -
  let ?p = "''provider user_constraints incompatible at persist: ''"
  have m: "persist_error_string (ErrProviderUserConstraintsIncompatible (''['' @ code @ ''] '' @ msg)) =
      ?p @ CHR ''['' # code @ CHR '']'' # CHR '' '' # msg"
    by (simp add: persist_error_string_def)
  have a: "Index (?p @ CHR ''['' # code @ CHR '']'' # CHR '' '' # msg) (CHR ''['') = Some (length ?p)"
    by (rule Index_append) simp
  have "?p @ CHR ''['' # code @ CHR '']'' # CHR '' '' # msg =
      (?p @ CHR ''['' # code) @ CHR '']'' # CHR '' '' # msg" by simp
  then have b: "Index (?p @ CHR ''['' # code @ CHR '']'' # CHR '' '' # msg) (CHR '']'') =
      Some (length (?p @ CHR ''['' # code))"
    using assms(1) Index_append[of "CHR '']''" "?p @ CHR ''['' # code" "CHR '' '' # msg"] by simp
  have "drop (length ?p + 1) (?p @ CHR ''['' # code @ CHR '']'' # CHR '' '' # msg) =
      code @ CHR '']'' # CHR '' '' # msg" by simp
  then show ?thesis
    using assms(3,4) unfolding UserConstraintsIncompatibleFindingCode_def m option.case persist_error.case Let_def a b
    by simp
qed

definition couche_b_codes :: "string list" where
  "couche_b_codes = [FindingCodeNewWallet, FindingCodeContinuity, FindingCodeRotation, FindingCodeChain]"

lemma couche_b_codes_shape:
  "c \<in> set couche_b_codes \<Longrightarrow> CHR '']'' \<notin> set c \<and> CHR ''['' \<notin> set c \<and> c \<noteq> [] \<and> TrimSpace c = c"
  by (auto simp: couche_b_codes_def finding_code_defs visible_def byte_of_def intro!: TrimSpace_visible)

lemma EvaluateUserConstraints_codes:
  "f \<in> set (EvaluateUserConstraints uc (Some p)) \<Longrightarrow> hf_Code f \<in> set couche_b_codes"
  by (auto simp: EvaluateUserConstraints_def couche_b_codes_def Let_def split: if_splits)

lemma targetChainFindings_codes: "f \<in> set (targetChainFindings s c) \<Longrightarrow> hf_Code f = FindingCodeChain"
  by (auto simp: targetChainFindings_def split: if_splits option.splits)

lemma EvaluateHardCompatibility_codes:
  assumes "posture_ok (hr_RequiredPosture req) p"
    and "walletTypeAccepted (ob_AccountKind obs) (ir_WalletTypes (sp_InputRequirements p))"
    and "f \<in> set (EvaluateHardCompatibility obs req (Some p))"
  shows "hf_Code f \<in> set couche_b_codes"
proof -
  have "postureFindings (hr_RequiredPosture req) p = []" "walletTypeFindings obs p = []"
    using assms(1,2) by (simp_all add: postureFindings_Nil walletTypeFindings_Nil)
  with assms(3) show ?thesis
    by (auto simp: EvaluateHardCompatibility_def couche_b_codes_def Let_def dest!: targetChainFindings_codes
        split: if_splits)
qed

lemma replayCoucheAB_code:
  assumes "replayCoucheAB p obs = Some (ErrProviderUserConstraintsIncompatible d)"
  obtains f where "hf_Code f \<in> set couche_b_codes" and "d = couche_b_detail f"
proof -
  let ?q = "snapshotAsProfile p"
  have scan: "EvaluateScanCompatibility obs (pp_RequiredPosture p) (Some ?q) = []"
    using assms by (auto simp: replayCoucheAB_def Let_def split: list.splits)
  then have ok: "posture_ok (pp_RequiredPosture p) ?q"
    "walletTypeAccepted (ob_AccountKind obs) (ir_WalletTypes (sp_InputRequirements ?q))"
    unfolding EvaluateScanCompatibility_Nil by (simp_all add: scan_ok_def)
  consider f fs where "EvaluateUserConstraints (pp_UserConstraints p) (Some ?q) = f # fs" "d = couche_b_detail f"
    | f fs where "EvaluateHardCompatibility obs (hardRequestOf p obs) (Some ?q) = f # fs" "d = couche_b_detail f"
    using assms scan by (auto simp: replayCoucheAB_def Let_def split: list.splits)
  then show thesis
  proof cases
    case (1 f fs)
    have "hf_Code f \<in> set couche_b_codes"
      by (rule EvaluateUserConstraints_codes[of f "pp_UserConstraints p" ?q]) (simp add: 1)
    then show thesis using 1(2) by (rule that)
  next
    case (2 f fs)
    have "hf_Code f \<in> set couche_b_codes"
      by (rule EvaluateHardCompatibility_codes[of "hardRequestOf p obs" ?q obs f])
        (simp_all add: 2 ok, simp add: hardRequestOf_def ok)
    then show thesis using 2(2) by (rule that)
  qed
qed

section \<open>Properties\<close>

text \<open>C9. The persist gate accepts a payload exactly when it has the shape of version 0.2 (no legacy
  field, the three user constraints present), it decodes, and after normalisation its identity
  and snapshot are complete, every chain it pins is positive and not planned, its soft findings
  are accepted and its two lists of findings agree, its references are pinned, couche A and
  couche B hold on the snapshot, and every observed chain is deployable.\<close>

theorem persist_gate_exact:
  "ValidatePayloadForPersist (Some raw) = None \<longleftrightarrow>
     persist_shape raw \<and>
     (\<exists>p. dec_CryptoPolicyPersistPayload raw = Some p \<and>
        persistable (normalizePayload p) (observationFromPersistRaw raw))"
  by (rule ValidatePayloadForPersist_None)

text \<open>C34. On a payload with the closed set of fields, the one the persist route submits, couche A
  reduces to the posture and to the wallet type EOA: the scanned chains play no part and the
  combined gate adds nothing to couches A and B.\<close>

theorem closed_payload_gate:
  assumes "fst ` set obj = set closedFields" and "dec_CryptoPolicyPersistPayload obj = Some p0"
    and "p = normalizePayload p0"
  shows "ValidatePayloadForPersist (Some obj) = None \<longleftrightarrow>
     persist_shape obj \<and> identity_ok p \<and> snapshot_ok (pp_AcceptedProviderSnapshot p) \<and> findings_ok p \<and>
     references_ok (as_References (pp_AcceptedProviderSnapshot p)) \<and>
     as_ResultingPosture (pp_AcceptedProviderSnapshot p) = pp_RequiredPosture p \<and>
     walletTypeAccepted ''EOA'' (ir_WalletTypes (as_InputRequirements (pp_AcceptedProviderSnapshot p))) \<and>
     user_ok (pp_UserConstraints p) (snapshotAsProfile p)"
  unfolding ValidatePayloadForPersist_None closed_no_context[OF assms(1)] assms(2,3) persistable_greenfield[symmetric]
  by simp

definition minimal_decoded :: CryptoPolicyPersistPayload where
  "minimal_decoded = the (dec_CryptoPolicyPersistPayload minimal_payload)"

lemma minimal_decodes: "dec_CryptoPolicyPersistPayload minimal_payload = Some minimal_decoded"
proof -
  have "dec_CryptoPolicyPersistPayload minimal_payload \<noteq> None" by code_simp
  then show ?thesis by (auto simp: minimal_decoded_def)
qed

lemma minimal_closed: "fst ` set minimal_payload = set closedFields"
  by code_simp

lemma minimal_persists: "ValidatePayloadForPersist (Some minimal_payload) = None"
  by code_simp

theorem closed_payload_gate_witness:
  "identity_ok (normalizePayload minimal_decoded) \<and> findings_ok (normalizePayload minimal_decoded)"
  using closed_payload_gate[OF minimal_closed minimal_decodes refl] minimal_persists by blast

text \<open>When the gate refuses a payload because of the user's constraints, the finding code the
  caller extracts from the error text is the code of the finding that caused it, one of the four
  couche B codes.\<close>

lemma persist_finding_code:
  assumes "replayCoucheAB p obs = Some (ErrProviderUserConstraintsIncompatible d)"
  shows "\<exists>f. d = couche_b_detail f \<and> hf_Code f \<in> set couche_b_codes \<and>
    UserConstraintsIncompatibleFindingCode (Some (ErrProviderUserConstraintsIncompatible d)) = hf_Code f"
proof -
  obtain f where "hf_Code f \<in> set couche_b_codes" and "d = couche_b_detail f"
    using replayCoucheAB_code[OF assms] .
  then show ?thesis
    using finding_code_extract[of "hf_Code f" "hf_Message f"] couche_b_codes_shape[of "hf_Code f"]
    by (auto simp: couche_b_detail_def)
qed

text \<open>A chain id written by \<^verbatim>\<open>MarshalJSON\<close> is read back by \<^verbatim>\<open>UnmarshalJSON\<close>, and the two spellings of
  a chain id, number and decimal string, read as the same value.\<close>

lemma chain_id_roundtrip:
  assumes "in_int64 c"
  shows "FlexibleChainID_Unmarshal (Some (FlexibleChainID_Marshal c)) = Some c \<and>
    FlexibleChainID_Unmarshal (Some (jint c)) = Some c"
  using assms TrimSpace_visible[OF FormatInt_visible[of c]]
  by (simp add: FlexibleChainID_Unmarshal_def FlexibleChainID_Marshal_def ParseInt_FormatInt)

end
