(* ===== verification/Persist_Handlers.thy ===== *)
theory Persist_Handlers
  imports Http Wallet_Auth Persist_Payload
begin

text \<open>
  The signed persistence flow of \<^verbatim>\<open>internal/app\<close>: the wallet challenge
  (\<^verbatim>\<open>wallet_challenge_routes.go\<close>), the signed create (\<^verbatim>\<open>policy_persist_routes.go\<close>), the check that a scan is
  the latest completed one (\<^verbatim>\<open>w2_engagement.go\<close> and the Discovery list request of \<^verbatim>\<open>auth.go\<close>), and the
  mapping of their errors (\<^verbatim>\<open>persist_gate_errors.go\<close>, \<^verbatim>\<open>wallet_authorization_errors.go\<close>).

  What lies outside is a parameter: Discovery as a function from an outgoing request to a status
  and body (\<open>None\<close>: the request could not be built or sent, or the body not read), the
  Ethereum library and the JSON canonicaliser of \<^verbatim>\<open>walletauth\<close> and \<^verbatim>\<open>payloadhash\<close>, the reading of a JSON
  document inside a token, the store as its interface, and the clock readings. The theory shows that the store is written only behind the scan check,
  the signature and the gate, and that a challenge signed by its wallet is accepted.
\<close>

section \<open>Configuration and the outside\<close>

record authConfig =
  cf_Required :: bool
  cf_SessionValidationURL :: string
  cf_SessionValidationTimeoutSec :: int
  cf_SessionValidationServiceToken :: string
  cf_ScanAuthorizationURL :: string
  cf_ScanAuthorizationTimeoutSec :: int
  cf_ScanAuthorizationServiceToken :: string
  cf_ClockSkewSec :: int
  cf_DiscoveryHTTPBaseURL :: string
  cf_DiscoveryHTTPTimeoutSec :: int
  cf_WalletAuthDomain :: string

record OutRequest =
  or_Method :: string
  or_URL :: string
  or_Query :: "string gomap"
  or_Header :: "string gomap"
  or_Body :: "json option"
  or_TimeoutSec :: int

type_synonym network = "OutRequest \<Rightarrow> (int \<times> body) option"

record 'pub Env =
  en_RequestID :: "int \<times> nat"
  en_Net :: network
  en_Eth :: "'pub eth"
  en_Jcs :: "string \<Rightarrow> string + string"
  en_Unmarshal :: "string \<Rightarrow> json option"

text \<open>\<^verbatim>\<open>time.Duration(sec) * time.Second\<close> on 64 bits\<close>

definition seconds64 :: "int \<Rightarrow> duration" where
  "seconds64 n = (n * second + 2 ^ 63) mod 2 ^ 64 - 2 ^ 63"

text \<open>A struct read from a document: the last key equal to the field's name up to case, as for
  \<^const>\<open>field\<close> exact where no two keys name the same field.\<close>

definition doc_field :: "json gomap \<Rightarrow> string \<Rightarrow> json option" where
  "doc_field kvs name =
     (case filter (\<lambda>(k, _). EqualFold k name) kvs of [] \<Rightarrow> None | ms \<Rightarrow> Some (snd (last ms)))"

section \<open>The latest completed scan\<close>

record walletScanListItem =
  wl_ScanID :: string
  wl_Status :: string

record walletScanListEnvelope =
  we_Items :: "walletScanListItem list"
  we_Total :: int
  we_Limit :: int

definition dec_walletScanListItem :: "json gomap \<Rightarrow> walletScanListItem option" where
  "dec_walletScanListItem kvs = do {
     s \<leftarrow> dec_string (doc_field kvs ''scan_id'');
     t \<leftarrow> dec_string (doc_field kvs ''status'');
     Some \<lparr>wl_ScanID = s, wl_Status = t\<rparr> }"

definition dec_walletScanListEnvelope :: "json gomap \<Rightarrow> walletScanListEnvelope option" where
  "dec_walletScanListEnvelope kvs = do {
     items \<leftarrow> dec_list (dec_struct dec_walletScanListItem) (doc_field kvs ''items'');
     total \<leftarrow> dec_int64 (doc_field kvs ''total'');
     limit \<leftarrow> dec_int64 (doc_field kvs ''limit'');
     Some \<lparr>we_Items = items, we_Total = total, we_Limit = limit\<rparr> }"

text \<open>The error cases carry no text: no caller reads it. The only caller passes no \<^verbatim>\<open>limit\<close>, so the
  correction of \<^verbatim>\<open>Limit\<close> never applies and is left out.\<close>

definition fetchWalletScanList ::
  "network \<Rightarrow> authConfig \<Rightarrow> string \<Rightarrow> string \<Rightarrow> string \<Rightarrow> string gomap \<Rightarrow> walletScanListEnvelope option" where
  "fetchWalletScanList net cfg authorization rid targetAddress extra =
     (let timeout = (if cf_DiscoveryHTTPTimeoutSec cfg \<le> 0 then 5 else cf_DiscoveryHTTPTimeoutSec cfg);
          base = TrimSuffix (TrimSpace (cf_DiscoveryHTTPBaseURL cfg)) ''/'';
          req = \<lparr>or_Method = ''GET'', or_URL = base @ ''/discovery/v1/wallets/scans'',
            or_Query = (''address'', TrimSpace targetAddress) # extra,
            or_Header = (if TrimSpace authorization \<noteq> '''' then [(''Authorization'', authorization)] else []) @
              (if rid \<noteq> '''' then [(''X-Request-Id'', rid)] else []),
            or_Body = None, or_TimeoutSec = timeout\<rparr> in
      case net req of
        Some (st, JsonBody j) \<Rightarrow>
          if st \<noteq> 200 then None
          else (case dec_struct dec_walletScanListEnvelope (Some j) of
             None \<Rightarrow> None
           | Some e \<Rightarrow> Some (if we_Total e = 0 \<and> length (we_Items e) = 1 then e\<lparr>we_Total := 1\<rparr> else e))
      | _ \<Rightarrow> None)"

definition fetchWalletLatestCompletedScanID ::
  "network \<Rightarrow> authConfig \<Rightarrow> string \<Rightarrow> string \<Rightarrow> string \<Rightarrow> string option" where
  "fetchWalletLatestCompletedScanID net cfg authorization rid targetAddress =
     (case fetchWalletScanList net cfg authorization rid targetAddress [(''latest'', ''true'')] of
        None \<Rightarrow> None
      | Some l \<Rightarrow> (case we_Items l of [] \<Rightarrow> Some '''' | item # _ \<Rightarrow> Some (TrimSpace (wl_ScanID item))))"

record w2GateError =
  w2_code :: string
  w2_message :: string
  w2_status :: int

definition discoveryUnavailable :: w2GateError where
  "discoveryUnavailable =
     \<lparr>w2_code = ''DISCOVERY_UNAVAILABLE'', w2_message = ''discovery is unavailable'', w2_status = 503\<rparr>"

definition scanNotLatest :: w2GateError where
  "scanNotLatest = \<lparr>w2_code = ''SCAN_NOT_LATEST'',
     w2_message = ''scan_id is not the latest completed wallet scan for this address'', w2_status = 422\<rparr>"

definition ensureOwnerScopedW2 ::
  "network \<Rightarrow> Request \<Rightarrow> authConfig \<Rightarrow> string \<Rightarrow> string \<Rightarrow> string \<Rightarrow> w2GateError option" where
  "ensureOwnerScopedW2 net r cfg rid walletAddress scanID =
     (if TrimSpace (cf_DiscoveryHTTPBaseURL cfg) = '''' then Some discoveryUnavailable
      else case fetchWalletLatestCompletedScanID net cfg (Header_Get r ''Authorization'') rid walletAddress of
        None \<Rightarrow> Some discoveryUnavailable
      | Some latest \<Rightarrow>
          if TrimSpace latest = '''' then Some scanNotLatest
          else case NormalizeDiscoveryScanID latest of
            None \<Rightarrow> Some discoveryUnavailable
          | Some normLatest \<Rightarrow>
              if \<not> EqualFold normLatest (TrimSpace scanID) then Some scanNotLatest else None)"

section \<open>Errors of the flow\<close>

definition writeWalletAuthorizationError :: "int \<times> nat \<Rightarrow> Request \<Rightarrow> int \<times> string \<times> string \<Rightarrow> Response" where
  "writeWalletAuthorizationError gen r e =
     (case e of (status, code, message) \<Rightarrow> writeAuthError gen r status code message [])"

definition VerificationError_Error :: "VerificationError \<Rightarrow> string" where
  "VerificationError_Error e = (if ve_Message e \<noteq> '''' then ve_Message e else code_string (ve_Code e))"

text \<open>The error is always a \<^verbatim>\<open>VerificationError\<close>, so the branch without a code is not reachable.\<close>

definition mapWalletAuthorizationVerificationError :: "VerificationError \<Rightarrow> int \<times> string \<times> string" where
  "mapWalletAuthorizationVerificationError e =
     ((case ve_Code e of
         CodeWalletControlProofRequired \<Rightarrow> 400
       | CodeWalletAuthorizationNotYetValid \<Rightarrow> 400
       | CodeWalletAuthorizationValidityLong \<Rightarrow> 400
       | CodePayloadSHA256Mismatch \<Rightarrow> 400
       | CodeInvalidWalletSignature \<Rightarrow> 401
       | CodeWalletSignatureAddressMismatch \<Rightarrow> 401
       | CodeWalletAuthorizationExpired \<Rightarrow> 410
       | CodeWalletAuthorizationScanMismatch \<Rightarrow> 409
       | CodeWalletAuthorizationWalletMismatch \<Rightarrow> 409
       | CodeWalletAuthorizationChainMismatch \<Rightarrow> 409
       | CodeWalletAuthorizationActionMismatch \<Rightarrow> 409),
      code_string (ve_Code e), VerificationError_Error e)"

definition mapPersistProviderGateError :: "persist_error \<Rightarrow> int \<times> string \<times> string" where
  "mapPersistProviderGateError e =
     (400,
      case e of
        ErrProviderRefsUnpinned _ \<Rightarrow> ''PROVIDER_REFS_UNPINNED''
      | ErrProviderSoftFindingsRequired _ \<Rightarrow> ''PROVIDER_SOFT_FINDINGS_REQUIRED''
      | ErrProviderChainPlanned \<Rightarrow> ''PROVIDER_CHAIN_PLANNED''
      | ErrProviderScanCompatFailed _ \<Rightarrow> ''PROVIDER_SCAN_COMPAT_FAILED''
      | ErrProviderUserConstraintsIncompatible _ \<Rightarrow> ''PROVIDER_USER_CONSTRAINTS_INCOMPATIBLE''
      | ErrAcceptedFindingsDivergent \<Rightarrow> ''CRYPTO_POLICY_PAYLOAD_INVALID''
      | ErrCryptoPolicyPayloadInvalid _ \<Rightarrow> ''CRYPTO_POLICY_PAYLOAD_INVALID'',
      persist_error_string e)"

definition cryptoPolicyIDFromPayload :: "json gomap \<Rightarrow> string" where
  "cryptoPolicyIDFromPayload payload =
     (case map_of payload ''crypto_policy_id'' of Some (JStr v) \<Rightarrow> TrimSpace v | _ \<Rightarrow> '''')"

definition cryptoPolicyPayloadInvalidMessage :: "hash_error \<Rightarrow> string" where
  "cryptoPolicyPayloadInvalidMessage e =
     (if he_Message e \<noteq> '''' then he_Message e
      else if hash_error_Error e \<noteq> '''' then hash_error_Error e
      else ''crypto policy payload is invalid'')"

text \<open>\<^verbatim>\<open>persist_observability.go\<close>\<close>

definition recordPersistUserConstraintsIncompatible :: "Request \<Rightarrow> string \<Rightarrow> string \<Rightarrow> trace_event list" where
  "recordPersistUserConstraintsIncompatible r cryptoPolicyID findingCode =
     (let findingCode = (if findingCode = '''' then ''unknown'' else findingCode);
          cp = TrimSpace cryptoPolicyID;
          rid = TrimSpace (Header_Get r ''X-Request-Id'');
          lines = [''event='' @ Quote ''cpm.persist.user_constraints_incompatible'',
            ''adr_signal='' @ Quote ''runtime.no_provider_after_user_constraints'',
            ''finding_code='' @ Quote findingCode] @
            (if cp \<noteq> '''' then [''crypto_policy_id='' @ Quote cp] else []) @
            (if rid \<noteq> '''' then [''request_id='' @ Quote rid] else []) in
      [IncPersistUserConstraintsIncompatible, LogLine (Join lines '' '')])"

definition walletAuthDomain :: "Request \<Rightarrow> authConfig \<Rightarrow> string" where
  "walletAuthDomain r cfg =
     (let d = TrimSpace (cf_WalletAuthDomain cfg); host = TrimSpace (rq_Host r) in
      if d \<noteq> '''' then d
      else if host \<noteq> '''' then
        (case Index host (CHR '':'') of Some i \<Rightarrow> if 0 < i then take i host else host | None \<Rightarrow> host)
      else ''localhost'')"

section \<open>The wallet challenge\<close>

text \<open>\<^verbatim>\<open>json.RawMessage\<close> keeps the payload as it is: \<open>None\<close> when the key is absent.\<close>

record walletChallengeRequest =
  wq_WalletAddress :: string
  wq_ChainID :: int64
  wq_ScanID :: string
  wq_Action :: string
  wq_Payload :: "json option"

definition dec_walletChallengeRequest :: "json gomap \<Rightarrow> walletChallengeRequest option" where
  "dec_walletChallengeRequest kvs = do {
     w \<leftarrow> dec_string (doc_field kvs ''wallet_address'');
     c \<leftarrow> dec_int64 (doc_field kvs ''chain_id'');
     s \<leftarrow> dec_string (doc_field kvs ''scan_id'');
     a \<leftarrow> dec_string (doc_field kvs ''action'');
     Some \<lparr>wq_WalletAddress = w, wq_ChainID = c, wq_ScanID = s, wq_Action = a,
       wq_Payload = doc_field kvs ''payload''\<rparr> }"

text \<open>\<^verbatim>\<open>json.Unmarshal\<close> of a body, which refuses bytes after the value, and the one \<^verbatim>\<open>Decode\<close> of a
  \<^verbatim>\<open>json.NewDecoder\<close> over it, which does not look at them.\<close>

definition decode_body :: "(json gomap \<Rightarrow> 'a option) \<Rightarrow> body \<Rightarrow> 'a option" where
  "decode_body d b = (case b of JsonBody j \<Rightarrow> dec_struct d (Some j) | _ \<Rightarrow> None)"

definition decode_first :: "(json gomap \<Rightarrow> 'a option) \<Rightarrow> body \<Rightarrow> 'a option" where
  "decode_first d b =
     (case b of
        JsonBody j \<Rightarrow> dec_struct d (Some j)
      | TrailingBody j _ \<Rightarrow> dec_struct d (Some j)
      | _ \<Rightarrow> None)"

definition payload_absent :: "json option \<Rightarrow> bool" where
  "payload_absent p \<longleftrightarrow> p = None \<or> p = Some JNull"

definition decodeWalletChallengeRequest :: "Request \<Rightarrow> (string \<times> string) + walletChallengeRequest" where
  "decodeWalletChallengeRequest r =
     (case decode_first dec_walletChallengeRequest (rq_Body r) of
        None \<Rightarrow> Inl (''WALLET_ADDRESS_REQUIRED'', ''request body must be a JSON object'')
      | Some req \<Rightarrow>
          if TrimSpace (wq_WalletAddress req) = ''''
          then Inl (''WALLET_ADDRESS_REQUIRED'', ''wallet_address is required'')
          else if wq_ChainID req < 1 then Inl (''CHAIN_ID_REQUIRED'', ''chain_id is required'')
          else if TrimSpace (wq_ScanID req) = '''' then Inl (''SCAN_NOT_FOUND'', ''scan_id is required'')
          else if payload_absent (wq_Payload req)
          then Inl (''CRYPTO_POLICY_PAYLOAD_INVALID'', ''payload is required'')
          else if TrimSpace (wq_Action req) = ''''
          then Inl (''WALLET_AUTHORIZATION_ACTION_MISMATCH'', ''action is required'')
          else if TrimSpace (wq_Action req) \<noteq> ActionPersistCryptoPolicy
          then Inl (''WALLET_AUTHORIZATION_ACTION_MISMATCH'', ''unsupported authorization action'')
          else Inr req)"

record walletChallengeResponse =
  wr_Message :: string
  wr_WalletAddress :: string
  wr_ChainID :: int64
  wr_ScanID :: string
  wr_Action :: string
  wr_PayloadSHA256 :: string
  wr_IssuedAt :: string
  wr_ExpiresAt :: string

definition challengeJSON :: "walletChallengeResponse \<Rightarrow> json" where
  "challengeJSON w = JObj [(''message'', JStr (wr_Message w)), (''wallet_address'', JStr (wr_WalletAddress w)),
     (''chain_id'', jint (wr_ChainID w)), (''scan_id'', JStr (wr_ScanID w)), (''action'', JStr (wr_Action w)),
     (''payload_sha256'', JStr (wr_PayloadSHA256 w)), (''issued_at'', JStr (wr_IssuedAt w)),
     (''expires_at'', JStr (wr_ExpiresAt w))]"

text \<open>The checks the two routes share, in the order both make them: address, scan id, latest scan.\<close>

definition engage :: "'pub Env \<Rightarrow> authConfig \<Rightarrow> Request \<Rightarrow> string \<Rightarrow> string \<Rightarrow> (int \<times> string \<times> string) + (string \<times> string)" where
  "engage env cfg r wallet scan =
     ebind (of_opt (400, ''INVALID_WALLET_ADDRESS'', ''wallet address is invalid'')
       (NormalizeWalletTargetAddress wallet)) (\<lambda>normWallet.
     ebind (of_opt (400, ''SCAN_NOT_FOUND'', ''scan not found'') (NormalizeDiscoveryScanID scan)) (\<lambda>normScanID.
     case ensureOwnerScopedW2 (en_Net env) r cfg (fst (ensureRequestID (en_RequestID env) r)) normWallet normScanID of
       Some e \<Rightarrow> Inl (w2_status e, w2_code e, w2_message e)
     | None \<Rightarrow> Inr (normWallet, normScanID)))"

definition digestFailed :: "hash_error \<Rightarrow> int \<times> string \<times> string" where
  "digestFailed e = (400, ''CRYPTO_POLICY_PAYLOAD_INVALID'', cryptoPolicyPayloadInvalidMessage e)"

definition truncateSecond :: "gotime \<Rightarrow> gotime" where
  "truncateSecond t = t div second * second"

definition challengeFields :: "string \<Rightarrow> string \<Rightarrow> int64 \<Rightarrow> string \<Rightarrow> string \<Rightarrow> gotime \<Rightarrow> Fields" where
  "challengeFields host wallet chainID scanID digest issuedAt =
     \<lparr>fd_Domain = host, fd_Action = ActionPersistCryptoPolicy, fd_WalletAddress = wallet, fd_ChainID = chainID,
      fd_ScanID = scanID, fd_PayloadSHA256 = digest, fd_IssuedAt = issuedAt,
      fd_ExpiresAt = issuedAt + MaxValidityWindow\<rparr>"

definition buildChallenge ::
  "'pub Env \<Rightarrow> authConfig \<Rightarrow> gotime \<Rightarrow> Request \<Rightarrow> walletChallengeRequest \<Rightarrow>
    (int \<times> string \<times> string) + walletChallengeResponse" where
  "buildChallenge env cfg now r req =
     ebind (engage env cfg r (wq_WalletAddress req) (wq_ScanID req)) (\<lambda>(normWallet, normScanID).
     case DigestJSON (en_Jcs env) (Inr (the (wq_Payload req))) of
       Inl e \<Rightarrow> Inl (digestFailed e)
     | Inr digest \<Rightarrow>
         let issuedAt = truncateSecond now;
             fd = challengeFields (walletAuthDomain r cfg) normWallet (wq_ChainID req) normScanID digest issuedAt in
         Inr \<lparr>wr_Message = BuildMessage fd, wr_WalletAddress = normWallet, wr_ChainID = wq_ChainID req,
           wr_ScanID = normScanID, wr_Action = ActionPersistCryptoPolicy, wr_PayloadSHA256 = digest,
           wr_IssuedAt = FormatRFC3339 issuedAt, wr_ExpiresAt = FormatRFC3339 (issuedAt + MaxValidityWindow)\<rparr>)"

definition handleWalletChallenge :: "'pub Env \<Rightarrow> authConfig \<Rightarrow> gotime \<Rightarrow> Request \<Rightarrow> Response" where
  "handleWalletChallenge env cfg now r0 =
     (let gen = en_RequestID env; r = snd (ensureRequestID gen r0) in
      case rq_Principal r of
        None \<Rightarrow> principalMissing gen r0
      | Some _ \<Rightarrow>
          (case decodeWalletChallengeRequest r of
             Inl (code, message) \<Rightarrow> writeWalletAuthorizationError gen r (400, code, message)
           | Inr req \<Rightarrow>
               (case buildChallenge env cfg now r req of
                  Inl e \<Rightarrow> writeWalletAuthorizationError gen r e
                | Inr w \<Rightarrow> writeJSON 200 (challengeJSON w))))"

section \<open>The signed create\<close>

record policyPersistRequest =
  pq_WalletAddress :: string
  pq_ChainID :: int64
  pq_ScanID :: string
  pq_SignedMessage :: string
  pq_Signature :: string
  pq_Payload :: "json option"
  pq_PayloadSHA256 :: string

definition dec_policyPersistRequest :: "json gomap \<Rightarrow> policyPersistRequest option" where
  "dec_policyPersistRequest kvs = do {
     w \<leftarrow> dec_string (doc_field kvs ''wallet_address'');
     c \<leftarrow> dec_int64 (doc_field kvs ''chain_id'');
     s \<leftarrow> dec_string (doc_field kvs ''scan_id'');
     m \<leftarrow> dec_string (doc_field kvs ''signed_message'');
     g \<leftarrow> dec_string (doc_field kvs ''signature'');
     h \<leftarrow> dec_string (doc_field kvs ''payload_sha256'');
     Some \<lparr>pq_WalletAddress = w, pq_ChainID = c, pq_ScanID = s, pq_SignedMessage = m, pq_Signature = g,
       pq_Payload = doc_field kvs ''payload'', pq_PayloadSHA256 = h\<rparr> }"

definition decodePolicyPersistRequest :: "Request \<Rightarrow> (int \<times> string \<times> string) + policyPersistRequest" where
  "decodePolicyPersistRequest r =
     (case decode_first dec_policyPersistRequest (rq_Body r) of
        None \<Rightarrow> Inl (400, ''WALLET_CONTROL_PROOF_REQUIRED'', ''request body must be a JSON object'')
      | Some req \<Rightarrow>
          if TrimSpace (pq_WalletAddress req) = ''''
          then Inl (400, ''WALLET_ADDRESS_REQUIRED'', ''wallet_address is required'')
          else if pq_ChainID req < 1 then Inl (400, ''CHAIN_ID_REQUIRED'', ''chain_id is required'')
          else if TrimSpace (pq_ScanID req) = '''' then Inl (400, ''SCAN_NOT_FOUND'', ''scan_id is required'')
          else if payload_absent (pq_Payload req)
          then Inl (400, ''CRYPTO_POLICY_PAYLOAD_INVALID'', ''payload is required'')
          else Inr req)"

definition proofRequired :: string where
  "proofRequired = ''Persisting a Crypto Policy for a wallet requires a valid signed wallet authorization.''"

definition authorizationInput ::
  "authConfig \<Rightarrow> gotime \<Rightarrow> Request \<Rightarrow> policyPersistRequest \<Rightarrow> string \<Rightarrow> string \<Rightarrow> string \<Rightarrow> VerifyInput" where
  "authorizationInput cfg now r req normWallet normScanID digest =
     (let skew = seconds64 (cf_ClockSkewSec cfg) in
      \<lparr>vi_Domain = walletAuthDomain r cfg, vi_WalletAddress = normWallet, vi_ChainID = pq_ChainID req,
       vi_ScanID = normScanID, vi_PayloadSHA256 = digest, vi_SignedMessage = pq_SignedMessage req,
       vi_Signature = pq_Signature req, vi_Now = now,
       vi_ClockSkew = (if skew \<le> 0 then DefaultClockSkew else skew)\<rparr>)"

text \<open>The checks between the decoded request and the store; an error is the response's status, code and
  message with what was recorded on the way. \<open>now\<close> and \<open>now'\<close> are the two clock readings.\<close>

definition authorizePersist ::
  "'pub Env \<Rightarrow> authConfig \<Rightarrow> gotime \<Rightarrow> gotime \<Rightarrow> Request \<Rightarrow> policyPersistRequest \<Rightarrow>
    (trace_event list \<times> int \<times> string \<times> string) + CreatePolicyInput" where
  "authorizePersist env cfg now now' r req =
     (if TrimSpace (pq_SignedMessage req) = '''' \<or> TrimSpace (pq_Signature req) = ''''
      then Inl ([], 403, ''WALLET_CONTROL_PROOF_REQUIRED'', proofRequired)
      else case engage env cfg r (pq_WalletAddress req) (pq_ScanID req) of
        Inl e \<Rightarrow> Inl ([], e)
      | Inr (normWallet, normScanID) \<Rightarrow>
          (case DigestCanonicalJSON (en_Jcs env) (Inr (the (pq_Payload req))) of
             Inl e \<Rightarrow> Inl ([], digestFailed e)
           | Inr (digest, canonical) \<Rightarrow>
               (case VerifyAuthorization (en_Eth env) now
                  (authorizationInput cfg now r req normWallet normScanID digest) of
                  Some e \<Rightarrow> Inl ([], mapWalletAuthorizationVerificationError e)
                | None \<Rightarrow>
                    (case ValidatePayloadForPersist (Some canonical) of
                       Some e \<Rightarrow>
                         Inl ((case e of
                               ErrProviderUserConstraintsIncompatible _ \<Rightarrow>
                                 recordPersistUserConstraintsIncompatible r (cryptoPolicyIDFromPayload canonical)
                                   (UserConstraintsIncompatibleFindingCode (Some e))
                             | _ \<Rightarrow> []), mapPersistProviderGateError e)
                     | None \<Rightarrow>
                         (case ParseMessage (pq_SignedMessage req) of
                            Inl _ \<Rightarrow> Inl ([], 400, ''WALLET_CONTROL_PROOF_REQUIRED'', proofRequired)
                          | Inr parsed \<Rightarrow>
                              Inr \<lparr>ci_ScanID = normScanID, ci_WalletAddress = normWallet, ci_ChainID = pq_ChainID req,
                                ci_Payload = Some canonical, ci_PayloadSHA256 = digest,
                                ci_SignedMessageHash = hex_encode (eth_TextHash (en_Eth env) (pq_SignedMessage req)),
                                ci_WalletControlMethod = ''eoa_signature'', ci_WalletControlVerifiedAt = now',
                                ci_ChallengeIssuedAt = Some (fd_IssuedAt parsed),
                                ci_ChallengeExpiresAt = Some (fd_ExpiresAt parsed)\<rparr>)))))"

definition mapCreateError :: "store_error \<Rightarrow> int \<times> string \<times> string" where
  "mapCreateError e =
     (case e of
        ErrPolicyAlreadyExists \<Rightarrow> (409, ''POLICY_ALREADY_EXISTS'', ''an active crypto policy already exists for this wallet'')
      | ErrPersistenceUnavailable \<Rightarrow> (503, ''PERSISTENCE_UNAVAILABLE'', ''persistence is temporarily unavailable'')
      | _ \<Rightarrow> (500, ''internal_error'', ''internal server error''))"

definition persistJSON :: "CreatePolicyResult \<Rightarrow> json" where
  "persistJSON res = JObj [(''policy_id'', JStr (cr_PolicyID res)), (''scan_id'', JStr (cr_ScanID res)),
     (''wallet_address'', JStr (cr_WalletAddress res)), (''chain_id'', jint (cr_ChainID res)),
     (''status'', JStr ''persisted''), (''ownership_status'', JStr ''verified''),
     (''wallet_control_method'', JStr ''eoa_signature''), (''payload_sha256'', JStr (cr_PayloadSHA256 res)),
     (''persisted_at'', JStr (FormatRFC3339 (cr_PersistedAt res)))]"

definition handlePolicyPersist ::
  "'s PolicyStore \<Rightarrow> 'pub Env \<Rightarrow> authConfig \<Rightarrow> gotime \<Rightarrow> gotime \<Rightarrow> Request \<Rightarrow> 's \<Rightarrow> Response \<times> 's" where
  "handlePolicyPersist store env cfg now now' r0 s =
     (let gen = en_RequestID env; r = snd (ensureRequestID gen r0) in
      case rq_Principal r of
        None \<Rightarrow> (principalMissing gen r0, s)
      | Some prin \<Rightarrow>
          (case decodePolicyPersistRequest r of
             Inl e \<Rightarrow> (writeWalletAuthorizationError gen r e, s)
           | Inr req \<Rightarrow>
               (case authorizePersist env cfg now now' r req of
                  Inl (ts, e) \<Rightarrow> (traced ts (writeWalletAuthorizationError gen r e), s)
                | Inr inp \<Rightarrow>
                    (case op_Create store prin inp s of
                       (Inl e, s') \<Rightarrow> (writeWalletAuthorizationError gen r (mapCreateError e), s')
                     | (Inr res, s') \<Rightarrow> (writeJSON 200 (persistJSON res), s')))))"

section \<open>What the checks establish\<close>

lemma decode_request_same [simp]:
  "decodePolicyPersistRequest (snd (ensureRequestID gen r)) = decodePolicyPersistRequest r"
  "decodeWalletChallengeRequest (snd (ensureRequestID gen r)) = decodeWalletChallengeRequest r"
  "walletAuthDomain (snd (ensureRequestID gen r)) cfg = walletAuthDomain r cfg"
  by (simp_all add: decodePolicyPersistRequest_def decodeWalletChallengeRequest_def walletAuthDomain_def)

lemma W2_None:
  assumes "NormalizeDiscoveryScanID scan = Some s"
  shows "ensureOwnerScopedW2 net r cfg rid wallet s = None \<longleftrightarrow>
    TrimSpace (cf_DiscoveryHTTPBaseURL cfg) \<noteq> '''' \<and>
    (\<exists>latest. fetchWalletLatestCompletedScanID net cfg (Header_Get r ''Authorization'') rid wallet = Some latest \<and>
       NormalizeDiscoveryScanID latest = Some s)"
proof -
  have s: "ToLower s = s" "TrimSpace s = s"
    using scan_normal[OF assms] by (simp_all add: normal_scan_def TrimSpace_visible)
  have "EqualFold l s \<longleftrightarrow> l = s" if "NormalizeDiscoveryScanID latest = Some l" for latest l
    using scan_normal[OF that] s(1) by (auto simp: normal_scan_def EqualFold_def)
  moreover have "TrimSpace latest \<noteq> ''''" if "NormalizeDiscoveryScanID latest = Some l" for latest l
    using that by (auto simp: NormalizeDiscoveryScanID_def scanUUID_matches_def)
  ultimately show ?thesis
    by (auto simp: ensureOwnerScopedW2_def s(2) split: option.splits)
qed

text \<open>What Discovery has said about a wallet and a scan when the shared checks pass.\<close>

definition engaged :: "'pub Env \<Rightarrow> authConfig \<Rightarrow> Request \<Rightarrow> string \<Rightarrow> string \<Rightarrow> bool" where
  "engaged env cfg r wallet scan \<longleftrightarrow>
     TrimSpace (cf_DiscoveryHTTPBaseURL cfg) \<noteq> '''' \<and>
     (\<exists>latest. fetchWalletLatestCompletedScanID (en_Net env) cfg (Header_Get r ''Authorization'')
         (fst (ensureRequestID (en_RequestID env) r)) wallet = Some latest \<and>
       NormalizeDiscoveryScanID latest = Some scan)"

lemma engaged_same: "engaged env cfg (snd (ensureRequestID (en_RequestID env) r)) w s = engaged env cfg r w s"
  by (simp add: engaged_def ensureRequestID_header ensureRequestID_again)

lemma of_opt_Inr [simp]: "of_opt e x = Inr y \<longleftrightarrow> x = Some y"
  by (cases x) (simp_all add: of_opt_def)

lemma ebind_Inr_iff: "ebind x f = Inr y \<longleftrightarrow> (\<exists>a. x = Inr a \<and> f a = Inr y)"
  by (cases x) (simp_all add: ebind_def)

lemma engage_Inr:
  "engage env cfg r wallet scan = Inr (w, s) \<longleftrightarrow>
     NormalizeWalletTargetAddress wallet = Some w \<and> NormalizeDiscoveryScanID scan = Some s \<and> engaged env cfg r w s"
proof -
  have "ensureOwnerScopedW2 (en_Net env) r cfg (fst (ensureRequestID (en_RequestID env) r)) w' s' = None \<longleftrightarrow>
      engaged env cfg r w' s'" if "NormalizeDiscoveryScanID scan = Some s'" for w' s'
    unfolding W2_None[OF that] engaged_def ..
  then show ?thesis
    by (auto simp: engage_def ebind_Inr_iff split: option.splits)
qed

lemma authorizePersist_Inr:
  "authorizePersist env cfg now now' r req = Inr inp \<longleftrightarrow>
     (\<exists>w s digest canonical parsed.
        NormalizeWalletTargetAddress (pq_WalletAddress req) = Some w \<and>
        NormalizeDiscoveryScanID (pq_ScanID req) = Some s \<and> engaged env cfg r w s \<and>
        DigestCanonical (en_Jcs env) (the (pq_Payload req)) = Inr (digest, canonical) \<and>
        VerifyAuthorization (en_Eth env) now (authorizationInput cfg now r req w s digest) = None \<and>
        ValidatePayloadForPersist (Some canonical) = None \<and>
        ParseMessage (pq_SignedMessage req) = Inr parsed \<and>
        inp = \<lparr>ci_ScanID = s, ci_WalletAddress = w, ci_ChainID = pq_ChainID req, ci_Payload = Some canonical,
          ci_PayloadSHA256 = digest,
          ci_SignedMessageHash = hex_encode (eth_TextHash (en_Eth env) (pq_SignedMessage req)),
          ci_WalletControlMethod = ''eoa_signature'', ci_WalletControlVerifiedAt = now',
          ci_ChallengeIssuedAt = Some (fd_IssuedAt parsed), ci_ChallengeExpiresAt = Some (fd_ExpiresAt parsed)\<rparr>)"
proof (cases "TrimSpace (pq_SignedMessage req) = '''' \<or> TrimSpace (pq_Signature req) = ''''")
  case True
  then have "VerifyAuthorization (en_Eth env) now (authorizationInput cfg now r req w s d) \<noteq> None" for w s d
    by (auto simp: VerifyAuthorization_def authorizationInput_def Let_def)
  with True show ?thesis by (auto simp: authorizePersist_def)
next
  case False
  note signed = this
  note engage = engage_Inr[of env cfg r "pq_WalletAddress req" "pq_ScanID req"]
  show ?thesis
  proof (cases "engage env cfg r (pq_WalletAddress req) (pq_ScanID req)")
    case (Inl e)
    then show ?thesis using signed engage by (auto simp: authorizePersist_def)
  next
    case (Inr ws)
    obtain w s where ws: "ws = (w, s)" by (cases ws)
    note facts = engage[of w s, unfolded Inr ws, simplified]
    from facts have "NormalizeWalletTargetAddress (pq_WalletAddress req) = Some w"
      "NormalizeDiscoveryScanID (pq_ScanID req) = Some s" "engaged env cfg r w s" by simp_all
    then show ?thesis using signed
      by (auto simp: authorizePersist_def Inr ws DigestCanonicalJSON_def split: sum.splits option.splits)
  qed
qed

section \<open>The cases of a persist request\<close>

lemma W2_status: "ensureOwnerScopedW2 net r cfg rid w s = Some e \<Longrightarrow> w2_status e \<in> {422, 503}"
  by (auto simp: ensureOwnerScopedW2_def discoveryUnavailable_def scanNotLatest_def split: if_splits option.splits)

lemma engage_status: "engage env cfg r wallet scan = Inl (st, c, m) \<Longrightarrow> st \<in> {400, 422, 503}"
  by (auto simp: engage_def ebind_def of_opt_def split: option.splits sum.splits dest!: W2_status)

lemma decodePolicyPersist_status: "decodePolicyPersistRequest r = Inl (st, c, m) \<Longrightarrow> st = 400"
  by (auto simp: decodePolicyPersistRequest_def split: option.splits if_splits)

lemma authorizePersist_status:
  "authorizePersist env cfg now now' r req = Inl (ts, st, c, m) \<Longrightarrow> st \<in> {400, 401, 403, 409, 410, 422, 503}"
  by (auto simp: authorizePersist_def digestFailed_def mapPersistProviderGateError_def
      mapWalletAuthorizationVerificationError_def
      split: if_splits sum.splits option.splits VerificationCode.splits dest!: engage_status)

lemma writeError_status [simp]: "rs_Status (writeWalletAuthorizationError gen r (st, c, m)) = st"
  by (simp add: writeWalletAuthorizationError_def writeAuthError_def writeJSON_def)

lemma traced_status [simp]: "rs_Status (traced ts rs) = rs_Status rs" "rs_Body (traced ts rs) = rs_Body rs"
  by (simp_all add: traced_def)

lemma principalMissing_status [simp]: "rs_Status (principalMissing gen r) = 401"
  by (simp add: principalMissing_def case_prod_unfold Let_def writeAuthError_def writeJSON_def)

lemma writeJSON_fields [simp]: "rs_Status (writeJSON st j) = st" "rs_Body (writeJSON st j) = Some j"
  by (simp_all add: writeJSON_def)

lemma mapCreateError_status: "fst (mapCreateError e) \<in> {409, 500, 503}"
  by (cases e) (simp_all add: mapCreateError_def)

lemma handlePolicyPersist_cases:
  assumes "handlePolicyPersist store env cfg now now' r s = (rs, s')"
  obtains (refused) "s' = s" and "rs_Status rs \<in> {400, 401, 403, 409, 410, 422, 503}"
  | (create) prin req inp where "rq_Principal r = Some prin" and "decodePolicyPersistRequest r = Inr req"
    and "authorizePersist env cfg now now' (snd (ensureRequestID (en_RequestID env) r)) req = Inr inp"
    and "s' = snd (op_Create store prin inp s)"
    and "rs = (case fst (op_Create store prin inp s) of
       Inl e \<Rightarrow> writeWalletAuthorizationError (en_RequestID env) (snd (ensureRequestID (en_RequestID env) r)) (mapCreateError e)
     | Inr res \<Rightarrow> writeJSON 200 (persistJSON res))"
proof -
  let ?gen = "en_RequestID env" and ?r = "snd (ensureRequestID (en_RequestID env) r)"
  note h = assms[unfolded handlePolicyPersist_def Let_def ensureRequestID_keeps decode_request_same]
  show ?thesis
  proof (cases "rq_Principal r")
    case None
    then show ?thesis using h by (intro refused) auto
  next
    case (Some prin)
    show ?thesis
    proof (cases "decodePolicyPersistRequest r")
      case (Inl e)
      then show ?thesis using h Some decodePolicyPersist_status[of r]
        by (intro refused) (cases e; auto)+
    next
      case (Inr req)
      show ?thesis
      proof (cases "authorizePersist env cfg now now' ?r req")
        case (Inl e)
        then show ?thesis using h Some Inr authorizePersist_status[of env cfg now now' ?r req]
          by (intro refused) (cases e; force)+
      next
        case a: (Inr inp)
        show ?thesis using h Some Inr a by (intro create[OF Some Inr a]) (auto split: prod.splits sum.splits)
      qed
    qed
  qed
qed

section \<open>The signed create on the in-memory store\<close>

lemma claims_norm:
  assumes "NormalizeWalletTargetAddress a = Some w"
  shows "NormalizeWalletTargetAddress w = Some w" "TrimSpace w = w"
  using Wallet_idem[OF assms] normal_address_shape(1)[OF Normalize_result[OF assms]] by simp_all

text \<open>A success: the authorized input was created.\<close>

lemma handlePolicyPersist_200:
  assumes "handlePolicyPersist (devStore n rnd) env cfg now now' r s = (rs, s')" and "rs_Status rs = 200"
  obtains prin req inp res where "rq_Principal r = Some prin" and "decodePolicyPersistRequest r = Inr req"
    and "authorizePersist env cfg now now' (snd (ensureRequestID (en_RequestID env) r)) req = Inr inp"
    and "CreatePolicy n rnd s prin inp = (Inr res, s')" and "rs = writeJSON 200 (persistJSON res)"
  using assms(1)
proof (cases rule: handlePolicyPersist_cases)
  case refused
  then show ?thesis using assms(2) by auto
next
  case (create prin req inp)
  obtain out s2 where c: "CreatePolicy n rnd s prin inp = (out, s2)" by fastforce
  show ?thesis
  proof (cases out)
    case (Inl e)
    then have "rs_Status rs = fst (mapCreateError e)"
      using create(5) c by (cases "mapCreateError e") (simp add: devStore_def)
    then show ?thesis using assms(2) mapCreateError_status[of e] by auto
  next
    case (Inr res)
    then show ?thesis using create c by (intro that[of prin req inp res]) (simp_all add: devStore_def)
  qed
qed

text \<open>What the authorized input is, when the rest of the flow is not of interest.\<close>

lemma authorizePersist_input:
  assumes "authorizePersist env cfg now now' r req = Inr inp"
  obtains w s digest canonical where "NormalizeWalletTargetAddress (pq_WalletAddress req) = Some w"
    and "NormalizeDiscoveryScanID (pq_ScanID req) = Some s"
    and "DigestCanonical (en_Jcs env) (the (pq_Payload req)) = Inr (digest, canonical)"
    and "ci_WalletAddress inp = w" and "ci_ScanID inp = s" and "ci_ChainID inp = pq_ChainID req"
    and "ci_Payload inp = Some canonical" and "ci_PayloadSHA256 inp = digest"
  using assms unfolding authorizePersist_Inr by auto

lemma enrichPayload_distinct: "distinct (map fst pl) \<Longrightarrow> distinct (map fst (enrichPayload pl a b c d))"
  unfolding enrichPayload_def by (intro distinct_delete distinct_update)

lemma enrichPayload_closed:
  assumes "f \<in> set closedFields"
  shows "map_of (enrichPayload pl scan w c t) f = map_of pl f"
proof -
  have "list_all (\<lambda>f. f \<notin> {''scan_id'', ''wallet_address'', ''chain_id'', ''ownership_status'', ''wallet_control_method'',
      ''wallet_control_verified_at'', ''persisted_at'', ''signed_message'', ''signature'', ''payload_sha256''}) closedFields"
    by code_simp
  then show ?thesis using assms unfolding map_of_enrichPayload list_all_iff by simp
qed

lemma digest_trimmed:
  assumes "DigestCanonical jcs root = Inr (d, c)"
  shows "TrimSpace d = d" "d \<noteq> ''''" "list_all visible d"
proof -
  show v: "list_all visible d"
    using DigestCanonical_digest(2)[OF assms] by (auto simp: list_all_iff lower_hex_visible)
  then show "TrimSpace d = d" by (rule TrimSpace_visible)
  show "d \<noteq> ''''" using DigestCanonical_digest(1)[OF assms] by auto
qed

lemma persisted_integrity:
  assumes "CreatePolicy n rnd s prin inp = (Inr res, s')"
    and "DigestCanonical jcs root = Inr (d, c)" and "ci_Payload inp = Some c" and "ci_PayloadSHA256 inp = d"
  obtains r pl where "GetPolicy s' prin (cr_PolicyID res) = Inr r" and "po_Payload r = Some pl"
    and "po_PayloadSHA256 r = d"
    and "DigestCanonical jcs (JObj (filter (\<lambda>(k, _). k \<in> set closedFields) pl)) = Inr (d, c)"
proof -
  let ?r = "createdRecord prin inp c (cr_WalletAddress res) (cr_PersistedAt res) (cr_PolicyID res)"
  let ?pl = "enrichPayload c (TrimSpace (ci_ScanID inp)) (cr_WalletAddress res) (ci_ChainID inp) (cr_PersistedAt res)"
  have "distinct (map fst c)"
  proof -
    have "distinct closedFields" by code_simp
    then show ?thesis by (simp add: DigestCanonical_digest(3)[OF assms(2)])
  qed
  then have "DigestCanonical jcs (JObj (filter (\<lambda>(k, _). k \<in> set closedFields) ?pl)) = Inr (d, c)"
    by (intro DigestCanonical_cut[OF assms(2)] enrichPayload_distinct) (simp_all add: enrichPayload_closed)
  then show ?thesis
    using CreatePolicy_Get[OF assms(1,3)] digest_trimmed(1)[OF assms(2)] assms(4)
    by (intro that[of ?r ?pl]) (simp_all add: createdRecord_def)
qed

text \<open>What the store does with an authorized input: only a policy of the owner for the wallet, or a failing
  random source, stands in the way.\<close>

lemma authorized_create:
  assumes "decodePolicyPersistRequest r = Inr req" and "authorizePersist env cfg now now' r' req = Inr inp"
    and "NormalizeWalletTargetAddress (pq_WalletAddress req) = Some w" and "Principal_Validate prin = None"
  shows "list_ex (\<lambda>(k, x). claimsWallet prin w x) (st_policies s) \<Longrightarrow>
      CreatePolicy n rnd s prin inp = (Inl ErrPolicyAlreadyExists, s)"
    and "\<not> list_ex (\<lambda>(k, x). claimsWallet prin w x) (st_policies s) \<Longrightarrow> rnd \<noteq> None \<Longrightarrow>
      \<exists>res s'. CreatePolicy n rnd s prin inp = (Inr res, s')"
proof -
  obtain scan digest canonical where scan: "NormalizeDiscoveryScanID (pq_ScanID req) = Some scan"
    and d: "DigestCanonical (en_Jcs env) (the (pq_Payload req)) = Inr (digest, canonical)"
    and inp: "ci_WalletAddress inp = w" "ci_ScanID inp = scan" "ci_ChainID inp = pq_ChainID req"
      "ci_Payload inp = Some canonical" "ci_PayloadSHA256 inp = digest"
    using assms(2,3) by (auto elim: authorizePersist_input)
  have ok: "TrimSpace scan \<noteq> ''''" "\<not> pq_ChainID req < 1" "TrimSpace digest \<noteq> ''''" "NormalizeWalletTargetAddress w = Some w"
    using scan_normal[OF scan] assms(1) digest_trimmed(1,2)[OF d] claims_norm(1)[OF assms(3)]
    by (auto simp: normal_scan_def TrimSpace_visible scanUUID_matches_def decodePolicyPersistRequest_def
        split: option.splits if_splits)
  note step = CreatePolicy_def inp ok assms(4)
  show "CreatePolicy n rnd s prin inp = (Inl ErrPolicyAlreadyExists, s)"
    if "list_ex (\<lambda>(k, x). claimsWallet prin w x) (st_policies s)"
    using that by (simp add: step)
  show "\<exists>res s'. CreatePolicy n rnd s prin inp = (Inr res, s')"
    if "\<not> list_ex (\<lambda>(k, x). claimsWallet prin w x) (st_policies s)" "rnd \<noteq> None"
    using that by (auto simp: step newPolicyID_def)
qed

lemma replay_conflict:
  assumes "decodePolicyPersistRequest r = Inr req" and "authorizePersist env cfg now now' r' req = Inr inp"
    and "NormalizeWalletTargetAddress (pq_WalletAddress req) = Some w" and "Principal_Validate prin = None"
    and "GetPolicy s prin i = Inr rec" and "claimsWallet prin w rec"
  shows "CreatePolicy n rnd s prin inp = (Inl ErrPolicyAlreadyExists, s)"
proof (rule authorized_create(1)[OF assms(1-4)])
  have "(i, rec) \<in> set (st_policies s)" using assms(5) by (auto simp: GetPolicy_Inr dest: map_of_SomeD)
  then show "list_ex (\<lambda>(k, x). claimsWallet prin w x) (st_policies s)" using assms(6) by (force simp: list_ex_iff)
qed

section \<open>A challenge signed by its wallet verifies\<close>

lemma seconds_skew: "0 < vi_ClockSkew (authorizationInput cfg now r req w s d)"
  by (simp add: authorizationInput_def Let_def DefaultClockSkew_def second_def)

lemma authorizationInput_fields [simp]:
  "vi_WalletAddress (authorizationInput cfg now r req w s d) = w" "vi_Now (authorizationInput cfg now r req w s d) = now"
  "vi_SignedMessage (authorizationInput cfg now r req w s d) = pq_SignedMessage req"
  "vi_Signature (authorizationInput cfg now r req w s d) = pq_Signature req"
  by (simp_all add: authorizationInput_def Let_def)

lemma expected_is_challenge:
  assumes "NormalizeWalletTargetAddress a = Some w" and "NormalizeDiscoveryScanID b = Some s"
    and "DigestCanonical jcs root = Inr (d, c)"
  shows "expectedFields (authorizationInput cfg now r req w s d) i (i + MaxValidityWindow) =
    challengeFields (walletAuthDomain r cfg) w (pq_ChainID req) s d i"
  using claims_norm[OF assms(1)] scan_normal[OF assms(2)] digest_trimmed(1)[OF assms(3)]
  by (simp add: expectedFields_def authorizationInput_def Let_def challengeFields_def normalizedWalletForMessage_def
      normal_scan_def TrimSpace_visible)

lemma challengeFields_ok:
  assumes "NormalizeWalletTargetAddress a = Some w" and "NormalizeDiscoveryScanID b = Some s"
    and "DigestCanonical jcs root = Inr (d, c)" and "one_line (TrimSpace dmn)" and "1 \<le> n" and "in_int64 n"
    and "rfc3339_range i" and "rfc3339_range (i + MaxValidityWindow)"
  shows "fields_ok (challengeFields dmn w n s d i)"
proof -
  have v: "list_all visible ActionPersistCryptoPolicy" by code_simp
  have w: "list_all visible w" by (rule normal_address_shape(4)[OF Normalize_result[OF assms(1)]])
  have s: "list_all visible s" using scan_normal[OF assms(2)] by (simp add: normal_scan_def)
  note d = digest_trimmed[OF assms(3)]
  show ?thesis
    using assms(4-8) d(1,2) visible_no_newline[OF d(3)] visible_no_newline[OF w] visible_no_newline[OF s] visible_no_newline[OF v]
    by (simp add: fields_ok_def challengeFields_def one_line_def TrimSpace_visible v w s)
qed

lemma truncate_second: "truncateSecond t mod second = 0" "truncateSecond t \<le> t"
proof -
  show "truncateSecond t mod second = 0" by (simp add: truncateSecond_def)
  have "t div second * second + t mod second = t" by simp
  moreover have "0 \<le> t mod second" by (rule pos_mod_sign) (simp add: second_def)
  ultimately show "truncateSecond t \<le> t" unfolding truncateSecond_def by linarith
qed

lemma challenge_verifies:
  assumes wal: "NormalizeWalletTargetAddress a = Some w" and scn: "NormalizeDiscoveryScanID b = Some s"
    and dig: "DigestCanonical jcs root = Inr (d, c)"
    and one: "one_line (TrimSpace (walletAuthDomain r cfg))" and ch: "1 \<le> pq_ChainID req" "in_int64 (pq_ChainID req)"
    and rng: "rfc3339_range (truncateSecond t)" "rfc3339_range (truncateSecond t + MaxValidityWindow)"
    and msg: "pq_SignedMessage req =
      BuildMessage (challengeFields (walletAuthDomain r cfg) w (pq_ChainID req) s d (truncateSecond t))"
    and now: "t \<le> now" "now \<le> truncateSecond t + MaxValidityWindow" "\<not> IsZero now"
    and sig: "TrimSpace (pq_Signature req) \<noteq> ''''" "RecoverSignerAddress eth (pq_SignedMessage req) (pq_Signature req) = Inr w"
  shows "VerifyAuthorization eth clock (authorizationInput cfg now r req w s d) = None"
proof -
  let ?inp = "authorizationInput cfg now r req w s d" and ?i = "truncateSecond t"
  note e = expected_is_challenge[OF wal scn dig, of cfg now r req ?i]
  have v: "verify_now clock ?inp = now" using now(3) by (simp add: verify_now_def)
  show ?thesis
  proof (rule VerifyAuthorization_built[of _ ?i "?i + MaxValidityWindow" _ w])
    show "vi_SignedMessage ?inp = BuildMessage (expectedFields ?inp ?i (?i + MaxValidityWindow))"
      unfolding e by (simp add: msg)
    show "fields_ok (expectedFields ?inp ?i (?i + MaxValidityWindow))"
      unfolding e by (rule challengeFields_ok[OF wal scn dig one ch rng])
    show "?i mod second = 0" "(?i + MaxValidityWindow) mod second = 0"
      using truncate_second(1)[of t] by (auto simp: MaxValidityWindow_def mod_eq_0_iff_dvd)
    show "?i + MaxValidityWindow - ?i \<le> MaxValidityWindow" by simp
    show "verify_now clock ?inp \<le> ?i + MaxValidityWindow" using now(2) by (simp add: v)
    show "?i \<le> verify_now clock ?inp + verify_skew ?inp"
      using now(1) truncate_second(2)[of t] seconds_skew[of cfg now r req w s d] by (simp add: v verify_skew_def)
    show "NormalizeWalletTargetAddress (vi_WalletAddress ?inp) = Some w" by (simp add: claims_norm[OF wal])
  qed (use sig in simp_all)
qed

lemma buildChallenge_message:
  assumes "buildChallenge env cfg t r q = Inr ch"
  shows "wr_Message ch = BuildMessage (challengeFields (walletAuthDomain r cfg) (wr_WalletAddress ch) (wr_ChainID ch)
    (wr_ScanID ch) (wr_PayloadSHA256 ch) (truncateSecond t))"
  using assms by (cases "DigestJSON (en_Jcs env) (Inr (the (wq_Payload q)))")
    (auto simp: buildChallenge_def ebind_Inr_iff Let_def)

lemma challenge_parses:
  assumes "VerifyAuthorization eth clock (authorizationInput cfg now r req w s d) = None"
  shows "\<exists>parsed. ParseMessage (pq_SignedMessage req) = Inr parsed"
  using assms unfolding VerifyAuthorization_None by auto

section \<open>Clients of the store contract\<close>

context owner_scoped
begin

lemma persist_error_keeps:
  assumes "handlePolicyPersist store env cfg now now' r s = (rs, s')" and "rs_Status rs \<noteq> 200"
  shows "s' = s"
  using assms(1)
proof (cases rule: handlePolicyPersist_cases)
  case (create prin req inp)
  obtain out s2 where c: "op_Create store prin inp s = (out, s2)" by fastforce
  then show ?thesis using create assms(2) create_fails[of prin inp s _ s2] by (cases out) auto
qed

lemma persist_keeps_inv:
  assumes "inv s" and "handlePolicyPersist store env cfg now now' r s = (rs, s')"
  shows "inv s'"
  using assms(2)
proof (cases rule: handlePolicyPersist_cases)
  case (create prin req inp)
  then show ?thesis using create_inv[OF assms(1)] by simp
qed (simp add: assms(1))

end

section \<open>A concrete flow\<close>

text \<open>Discovery answers that the scan is the latest one of the wallet; the canonicaliser is the identity;
  the payload is the minimal payload of the contract tests.\<close>

definition sample_scan :: string where
  "sample_scan = ''705c9704-9428-45e0-882d-fae4cb9d2a0b''"

definition stub_net :: network where
  "stub_net q = Some (200, JsonBody (JObj [(''items'', JArr [JObj [(''scan_id'', JStr sample_scan)]])]))"

definition sample_env :: "unit Env" where
  "sample_env = \<lparr>en_RequestID = (0, 1), en_Net = stub_net, en_Eth = stub_eth, en_Jcs = Inr,
     en_Unmarshal = (\<lambda>b. None)\<rparr>"

definition sample_cfg :: authConfig where
  "sample_cfg = \<lparr>cf_Required = True, cf_SessionValidationURL = ''http://discovery/validate'',
     cf_SessionValidationTimeoutSec = 3, cf_SessionValidationServiceToken = '''',
     cf_ScanAuthorizationURL = ''http://discovery/scans'', cf_ScanAuthorizationTimeoutSec = 3,
     cf_ScanAuthorizationServiceToken = '''', cf_ClockSkewSec = 30,
     cf_DiscoveryHTTPBaseURL = ''http://discovery'', cf_DiscoveryHTTPTimeoutSec = 5,
     cf_WalletAuthDomain = ''cafe.example''\<rparr>"

definition sample_digest :: string where
  "sample_digest = hex_digest (Marshal (JObj minimal_canonical))"

definition sample_message :: string where
  "sample_message = BuildMessage (challengeFields ''cafe.example'' sample_wallet 1 sample_scan sample_digest sample_time)"

definition post_request :: "string \<Rightarrow> json \<Rightarrow> Request" where
  "post_request path b = \<lparr>rq_Method = ''POST'', rq_Path = path, rq_Header = [], rq_Query = [], rq_Host = ''cafe.example'',
     rq_Body = JsonBody b, rq_Principal = Some alice\<rparr>"

definition challenge_request :: Request where
  "challenge_request = post_request WalletChallenges (JObj [(''wallet_address'', JStr sample_hex), (''chain_id'', jint 1),
     (''scan_id'', JStr sample_scan), (''action'', JStr ''persist_crypto_policy''), (''payload'', JObj minimal_payload)])"

definition persist_body :: "string \<Rightarrow> string \<Rightarrow> json \<Rightarrow> json gomap" where
  "persist_body m g p = [(''wallet_address'', JStr sample_hex), (''chain_id'', jint 1), (''scan_id'', JStr sample_scan),
     (''signed_message'', JStr m), (''signature'', JStr g), (''payload'', p)]"

definition persist_request :: Request where
  "persist_request = post_request Policies
     (JObj (persist_body sample_message (vi_Signature sample_input) (JObj minimal_payload)))"

definition persist_req :: policyPersistRequest where
  "persist_req = \<lparr>pq_WalletAddress = sample_hex, pq_ChainID = 1, pq_ScanID = sample_scan,
     pq_SignedMessage = sample_message, pq_Signature = vi_Signature sample_input,
     pq_Payload = Some (JObj minimal_payload), pq_PayloadSHA256 = ''''\<rparr>"

lemma doc_field_persist_body:
  "doc_field (persist_body m g p) ''wallet_address'' = Some (JStr sample_hex)"
  "doc_field (persist_body m g p) ''chain_id'' = Some (jint 1)"
  "doc_field (persist_body m g p) ''scan_id'' = Some (JStr sample_scan)"
  "doc_field (persist_body m g p) ''signed_message'' = Some (JStr m)"
  "doc_field (persist_body m g p) ''signature'' = Some (JStr g)"
  "doc_field (persist_body m g p) ''payload_sha256'' = None"
  "doc_field (persist_body m g p) ''payload'' = Some p"
proof -
  have "EqualFold a b = (a = b)"
    if "a \<in> set [''wallet_address'', ''chain_id'', ''scan_id'', ''signed_message'', ''signature'', ''payload'']"
      "b \<in> set [''wallet_address'', ''chain_id'', ''scan_id'', ''signed_message'', ''signature'', ''payload_sha256'', ''payload'']" for a b
  proof -
    have "list_all (\<lambda>a. list_all (\<lambda>b. EqualFold a b = (a = b))
        [''wallet_address'', ''chain_id'', ''scan_id'', ''signed_message'', ''signature'', ''payload_sha256'', ''payload''])
        [''wallet_address'', ''chain_id'', ''scan_id'', ''signed_message'', ''signature'', ''payload'']" by code_simp
    then show ?thesis using that unfolding list_all_iff by blast
  qed
  then show "doc_field (persist_body m g p) ''wallet_address'' = Some (JStr sample_hex)"
    "doc_field (persist_body m g p) ''chain_id'' = Some (jint 1)"
    "doc_field (persist_body m g p) ''scan_id'' = Some (JStr sample_scan)"
    "doc_field (persist_body m g p) ''signed_message'' = Some (JStr m)"
    "doc_field (persist_body m g p) ''signature'' = Some (JStr g)"
    "doc_field (persist_body m g p) ''payload_sha256'' = None"
    "doc_field (persist_body m g p) ''payload'' = Some p"
    by (simp_all add: doc_field_def persist_body_def)
qed

lemma persist_request_decodes: "decodePolicyPersistRequest persist_request = Inr persist_req"
proof -
  have "in_int64 1" by (simp add: in_int64_def)
  moreover have "TrimSpace sample_hex \<noteq> ''''" "TrimSpace sample_scan \<noteq> ''''" by code_simp+
  ultimately show ?thesis
    by (simp add: decodePolicyPersistRequest_def persist_request_def post_request_def decode_first_def dec_struct_def
        dec_policyPersistRequest_def doc_field_persist_body dec_string_def dec_int64_def persist_req_def payload_absent_def)
qed

lemma sample_scan_normal: "NormalizeDiscoveryScanID sample_scan = Some sample_scan"
  by code_simp

lemma sample_latest: "fetchWalletLatestCompletedScanID stub_net sample_cfg authorization rid w = Some sample_scan"
proof -
  have "dec_struct dec_walletScanListEnvelope
      (Some (JObj [(''items'', JArr [JObj [(''scan_id'', JStr sample_scan)]])])) =
      Some \<lparr>we_Items = [\<lparr>wl_ScanID = sample_scan, wl_Status = ''''\<rparr>], we_Total = 0, we_Limit = 0\<rparr>" by code_simp
  moreover have "TrimSpace sample_scan = sample_scan" by code_simp
  ultimately show ?thesis
    by (simp add: fetchWalletLatestCompletedScanID_def fetchWalletScanList_def Let_def stub_net_def)
qed

lemma sample_engaged: "engaged sample_env sample_cfg r sample_wallet sample_scan"
proof -
  have "TrimSpace ''http://discovery'' \<noteq> ''''" by code_simp
  then show ?thesis
    by (auto simp: engaged_def sample_env_def sample_latest sample_scan_normal) (simp add: sample_cfg_def)
qed

lemma sample_gate: "ValidatePayloadForPersist (Some minimal_canonical) = None"
  by code_simp

lemma sample_digest: "DigestCanonical Inr (JObj minimal_payload) = Inr (sample_digest, minimal_canonical)"
  unfolding sample_digest_def by (rule minimal_payload_digest)

lemma sample_dom: "walletAuthDomain r sample_cfg = ''cafe.example''"
proof -
  have "TrimSpace ''cafe.example'' = ''cafe.example''" by code_simp
  then show ?thesis by (simp add: walletAuthDomain_def sample_cfg_def)
qed

lemma sample_now: "truncateSecond sample_time = sample_time" "\<not> IsZero (sample_time + 5 * second)"
  "rfc3339_range sample_time" "rfc3339_range (sample_time + MaxValidityWindow)"
  by (simp_all add: truncateSecond_def sample_time_def second_def days_before_year_def IsZero_def zeroTime_def
      rfc3339_range_def MaxValidityWindow_def)

lemma sample_hex_wallet: "NormalizeWalletTargetAddress sample_hex = Some sample_wallet"
  by code_simp

lemma sample_authorized:
  "VerifyAuthorization stub_eth clock
     (authorizationInput sample_cfg (sample_time + 5 * second) r persist_req sample_wallet sample_scan sample_digest) = None"
proof (rule challenge_verifies[OF sample_wallet_normal sample_scan_normal sample_digest, where t = sample_time])
  have "TrimSpace ''cafe.example'' = ''cafe.example''" by code_simp
  then show "one_line (TrimSpace (walletAuthDomain r sample_cfg))" by (simp add: sample_dom one_line_def)
  have "TrimSpace (vi_Signature sample_input) \<noteq> ''''" by code_simp
  then show "TrimSpace (pq_Signature persist_req) \<noteq> ''''" by (simp add: persist_req_def)
  show "RecoverSignerAddress stub_eth (pq_SignedMessage persist_req) (pq_Signature persist_req) = Inr sample_wallet"
    unfolding persist_req_def using sample_recovers by simp
  show "rfc3339_range (truncateSecond sample_time + MaxValidityWindow)" using sample_now by simp
  show "\<not> IsZero (sample_time + 5 * second)" by (rule sample_now(2))
  show "sample_time \<le> sample_time + 5 * second"
    "sample_time + 5 * second \<le> truncateSecond sample_time + MaxValidityWindow"
    by (simp_all add: sample_now(1) second_def MaxValidityWindow_def)
qed (simp_all add: sample_now persist_req_def in_int64_def sample_dom sample_message_def)

lemma sample_authorizes:
  "\<exists>inp. authorizePersist sample_env sample_cfg (sample_time + 5 * second) now' r persist_req = Inr inp \<and>
     ci_WalletAddress inp = sample_wallet \<and> ci_ScanID inp = sample_scan \<and> ci_ChainID inp = 1 \<and>
     ci_Payload inp = Some minimal_canonical \<and> ci_PayloadSHA256 inp = sample_digest"
proof -
  obtain parsed where "ParseMessage (pq_SignedMessage persist_req) = Inr parsed"
    using challenge_parses[OF sample_authorized] by blast
  then show ?thesis
    unfolding authorizePersist_Inr
    using sample_engaged sample_authorized sample_gate sample_digest sample_hex_wallet sample_scan_normal
    by (auto simp: persist_req_def sample_env_def)
qed

lemma sample_persisted:
  "\<exists>rs s'. handlePolicyPersist (devStore 7 (Some [1])) sample_env sample_cfg (sample_time + 5 * second) now'
     persist_request NewOwnerScopedStore = (rs, s') \<and> rs_Status rs = 200"
proof -
  let ?r = "snd (ensureRequestID (en_RequestID sample_env) persist_request)"
  obtain inp where a: "authorizePersist sample_env sample_cfg (sample_time + 5 * second) now' ?r persist_req = Inr inp"
    and inp: "ci_WalletAddress inp = sample_wallet" "ci_ScanID inp = sample_scan" "ci_ChainID inp = 1"
      "ci_Payload inp = Some minimal_canonical" "ci_PayloadSHA256 inp = sample_digest"
    using sample_authorizes by blast
  have "TrimSpace sample_scan \<noteq> ''''" by code_simp
  then have "\<exists>res s'. CreatePolicy 7 (Some [1]) NewOwnerScopedStore alice inp = (Inr res, s')"
    using digest_trimmed(1,2)[OF sample_digest]
    by (simp add: CreatePolicy_def inp alice_valid sample_wallet_normal NewOwnerScopedStore_def newPolicyID_def)
  moreover have "rq_Principal persist_request = Some alice" by (simp add: persist_request_def post_request_def)
  ultimately show ?thesis
    using a by (auto simp: handlePolicyPersist_def Let_def persist_request_decodes devStore_def)
qed

section \<open>Properties\<close>

text \<open>C10. Nothing is written without authority: if a persist request changes the store, whatever the
  store, then it carries a principal; Discovery named its scan as the latest completed one of its
  wallet; its payload has a digest; the signed message authorizes exactly this wallet, chain, scan
  and digest; the canonical payload passes the persist gate; and what was submitted to the store
  is that canonical payload with that digest, wallet and scan.\<close>

theorem persist_writes_only_authorized:
  assumes "handlePolicyPersist store env cfg now now' r s = (rs, s')" and "s' \<noteq> s"
  shows "\<exists>prin req w scan digest canonical inp.
    rq_Principal r = Some prin \<and> decodePolicyPersistRequest r = Inr req \<and>
    NormalizeWalletTargetAddress (pq_WalletAddress req) = Some w \<and>
    NormalizeDiscoveryScanID (pq_ScanID req) = Some scan \<and> engaged env cfg r w scan \<and>
    DigestCanonical (en_Jcs env) (the (pq_Payload req)) = Inr (digest, canonical) \<and>
    VerifyAuthorization (en_Eth env) now (authorizationInput cfg now r req w scan digest) = None \<and>
    ValidatePayloadForPersist (Some canonical) = None \<and>
    s' = snd (op_Create store prin inp s) \<and> ci_Payload inp = Some canonical \<and> ci_PayloadSHA256 inp = digest \<and>
    ci_WalletAddress inp = w \<and> ci_ScanID inp = scan \<and> ci_ChainID inp = pq_ChainID req"
  using assms(1)
proof (cases rule: handlePolicyPersist_cases)
  case refused
  then show ?thesis using assms(2) by simp
next
  case (create prin req inp)
  have "authorizationInput cfg now (snd (ensureRequestID (en_RequestID env) r)) = authorizationInput cfg now r"
    by (intro ext) (simp add: authorizationInput_def)
  with create(3) obtain w scan digest canonical where
    "NormalizeWalletTargetAddress (pq_WalletAddress req) = Some w" "NormalizeDiscoveryScanID (pq_ScanID req) = Some scan"
    "engaged env cfg r w scan" "DigestCanonical (en_Jcs env) (the (pq_Payload req)) = Inr (digest, canonical)"
    "VerifyAuthorization (en_Eth env) now (authorizationInput cfg now r req w scan digest) = None"
    "ValidatePayloadForPersist (Some canonical) = None" "ci_Payload inp = Some canonical" "ci_PayloadSHA256 inp = digest"
    "ci_WalletAddress inp = w" "ci_ScanID inp = scan" "ci_ChainID inp = pq_ChainID req"
    unfolding authorizePersist_Inr engaged_same by auto
  then show ?thesis using create(1,2,4) by blast
qed

theorem persist_writes_only_authorized_witness:
  "\<exists>prin req w scan digest canonical. rq_Principal persist_request = Some prin \<and>
    decodePolicyPersistRequest persist_request = Inr req \<and> engaged sample_env sample_cfg persist_request w scan \<and>
    DigestCanonical Inr (the (pq_Payload req)) = Inr (digest, canonical) \<and>
    ValidatePayloadForPersist (Some canonical) = None"
proof -
  obtain rs s' where h: "handlePolicyPersist (devStore 7 (Some [1])) sample_env sample_cfg (sample_time + 5 * second) 7
     persist_request NewOwnerScopedStore = (rs, s')" and rs: "rs_Status rs = 200" using sample_persisted by blast
  from h rs obtain prin inp res where "CreatePolicy 7 (Some [1]) NewOwnerScopedStore prin inp = (Inr res, s')"
    by (rule handlePolicyPersist_200)
  then have "s' \<noteq> NewOwnerScopedStore"
    by (rule CreatePolicy_ok) (auto simp: NewOwnerScopedStore_def)
  from persist_writes_only_authorized[OF h this] show ?thesis by (auto simp: sample_env_def)
qed

text \<open>C14. The challenge is accepted: a persist request that presents the message of a challenge, signed by
  the wallet it was issued for, within the ten minutes of its validity, for a payload with the
  same digest that passes the gate, whose scan is still the latest one, is answered 200 by a store
  in which the owner has no policy for the wallet.\<close>

theorem challenge_then_persist:
  assumes "buildChallenge env cfg t r0 q = Inr ch"
    and "rq_Principal r = Some prin" and "Principal_Validate prin = None" and "decodePolicyPersistRequest r = Inr req"
    and "NormalizeWalletTargetAddress (pq_WalletAddress req) = Some (wr_WalletAddress ch)"
    and "NormalizeDiscoveryScanID (pq_ScanID req) = Some (wr_ScanID ch)" and "pq_ChainID req = wr_ChainID ch"
    and "in_int64 (pq_ChainID req)"
    and "DigestCanonical (en_Jcs env) (the (pq_Payload req)) = Inr (wr_PayloadSHA256 ch, canonical)"
    and "walletAuthDomain r cfg = walletAuthDomain r0 cfg" and "one_line (TrimSpace (walletAuthDomain r cfg))"
    and "pq_SignedMessage req = wr_Message ch" and "TrimSpace (pq_Signature req) \<noteq> ''''"
    and "RecoverSignerAddress (en_Eth env) (wr_Message ch) (pq_Signature req) = Inr (wr_WalletAddress ch)"
    and "t \<le> now" and "now \<le> truncateSecond t + MaxValidityWindow" and "\<not> IsZero now"
    and "rfc3339_range (truncateSecond t)" and "rfc3339_range (truncateSecond t + MaxValidityWindow)"
    and "engaged env cfg r (wr_WalletAddress ch) (wr_ScanID ch)" and "ValidatePayloadForPersist (Some canonical) = None"
    and "\<not> list_ex (\<lambda>(k, r). claimsWallet prin (wr_WalletAddress ch) r) (st_policies s)" and "rnd \<noteq> None"
  shows "rs_Status (fst (handlePolicyPersist (devStore n rnd) env cfg now now' r s)) = 200"
proof -
  let ?r = "snd (ensureRequestID (en_RequestID env) r)"
  have msg: "pq_SignedMessage req = BuildMessage (challengeFields (walletAuthDomain ?r cfg) (wr_WalletAddress ch)
      (pq_ChainID req) (wr_ScanID ch) (wr_PayloadSHA256 ch) (truncateSecond t))"
    unfolding assms(7,12) decode_request_same assms(10) by (rule buildChallenge_message[OF assms(1)])
  have chain: "1 \<le> pq_ChainID req"
    using assms(4) by (auto simp: decodePolicyPersistRequest_def split: option.splits if_splits)
  have ver: "VerifyAuthorization (en_Eth env) now (authorizationInput cfg now ?r req (wr_WalletAddress ch) (wr_ScanID ch)
      (wr_PayloadSHA256 ch)) = None"
    by (rule challenge_verifies[OF assms(5,6,9) _ chain assms(8,18,19) msg assms(15,16,17)])
      (use assms(11,12,13,14) in simp_all)
  obtain parsed where "ParseMessage (pq_SignedMessage req) = Inr parsed" using challenge_parses[OF ver] by blast
  then have "\<exists>inp. authorizePersist env cfg now now' ?r req = Inr inp \<and> ci_WalletAddress inp = wr_WalletAddress ch \<and>
      ci_ScanID inp = wr_ScanID ch \<and> ci_ChainID inp = pq_ChainID req \<and> ci_Payload inp = Some canonical \<and>
      ci_PayloadSHA256 inp = wr_PayloadSHA256 ch"
    unfolding authorizePersist_Inr using assms(5,6,9,20,21) ver by (auto simp: engaged_same)
  then obtain inp where a: "authorizePersist env cfg now now' ?r req = Inr inp"
    and inp: "ci_WalletAddress inp = wr_WalletAddress ch" "ci_ScanID inp = wr_ScanID ch" "ci_ChainID inp = pq_ChainID req"
      "ci_Payload inp = Some canonical" "ci_PayloadSHA256 inp = wr_PayloadSHA256 ch" by blast
  have "TrimSpace (wr_ScanID ch) \<noteq> ''''"
    using scan_normal[OF assms(6)] by (auto simp: normal_scan_def TrimSpace_visible scanUUID_matches_def)
  then have "\<exists>res s'. CreatePolicy n rnd s prin inp = (Inr res, s')"
    using digest_trimmed(1,2)[OF assms(9)] claims_norm(1)[OF assms(5)] chain assms(3,22,23)
    by (auto simp: CreatePolicy_def inp newPolicyID_def)
  then show ?thesis
    using a assms(2,4) by (auto simp: handlePolicyPersist_def Let_def devStore_def)
qed

definition challenge_q :: walletChallengeRequest where
  "challenge_q = \<lparr>wq_WalletAddress = sample_hex, wq_ChainID = 1, wq_ScanID = sample_scan,
     wq_Action = ''persist_crypto_policy'', wq_Payload = Some (JObj minimal_payload)\<rparr>"

definition sample_challenge :: walletChallengeResponse where
  "sample_challenge = \<lparr>wr_Message = sample_message, wr_WalletAddress = sample_wallet, wr_ChainID = 1,
     wr_ScanID = sample_scan, wr_Action = ActionPersistCryptoPolicy, wr_PayloadSHA256 = sample_digest,
     wr_IssuedAt = FormatRFC3339 sample_time, wr_ExpiresAt = FormatRFC3339 (sample_time + MaxValidityWindow)\<rparr>"

lemma sample_challenge_built:
  "buildChallenge sample_env sample_cfg sample_time challenge_request challenge_q = Inr sample_challenge"
proof -
  have e: "engage sample_env sample_cfg challenge_request sample_hex sample_scan = Inr (sample_wallet, sample_scan)"
    unfolding engage_Inr using sample_hex_wallet sample_scan_normal sample_engaged by blast
  have d: "DigestJSON Inr (Inr (JObj minimal_payload)) = Inr sample_digest"
    by (simp add: DigestJSON_def DigestCanonicalJSON_def sample_digest)
  have j: "en_Jcs sample_env = Inr" by (simp add: sample_env_def)
  show ?thesis
    by (simp add: buildChallenge_def challenge_q_def e ebind_def j d Let_def sample_now sample_dom sample_challenge_def
        sample_message_def)
qed

theorem challenge_then_persist_witness:
  "rs_Status (fst (handlePolicyPersist (devStore 7 (Some [1])) sample_env sample_cfg (sample_time + 5 * second) 7
     persist_request NewOwnerScopedStore)) = 200"
proof (rule challenge_then_persist[OF sample_challenge_built, of _ alice persist_req minimal_canonical])
  have "TrimSpace (vi_Signature sample_input) \<noteq> ''''" by code_simp
  then show "TrimSpace (pq_Signature persist_req) \<noteq> ''''" by (simp add: persist_req_def)
  show "RecoverSignerAddress (en_Eth sample_env) (wr_Message sample_challenge) (pq_Signature persist_req) =
      Inr (wr_WalletAddress sample_challenge)"
    using sample_recovers by (simp add: sample_env_def sample_challenge_def persist_req_def)
  have "TrimSpace ''cafe.example'' = ''cafe.example''" by code_simp
  then show "one_line (TrimSpace (walletAuthDomain persist_request sample_cfg))" by (simp add: sample_dom one_line_def)
  show "decodePolicyPersistRequest persist_request = Inr persist_req" by (rule persist_request_decodes)
  show "ValidatePayloadForPersist (Some minimal_canonical) = None" by (rule sample_gate)
  show "rfc3339_range (truncateSecond sample_time + MaxValidityWindow)" using sample_now by simp
  show "\<not> IsZero (sample_time + 5 * second)" by (rule sample_now(2))
  show "DigestCanonical (en_Jcs sample_env) (the (pq_Payload persist_req)) =
      Inr (wr_PayloadSHA256 sample_challenge, minimal_canonical)"
    using sample_digest by (simp add: sample_env_def persist_req_def sample_challenge_def)
  show "sample_time + 5 * second \<le> truncateSecond sample_time + MaxValidityWindow" "sample_time \<le> sample_time + 5 * second"
    by (simp_all add: sample_now(1) second_def MaxValidityWindow_def)
  show "engaged sample_env sample_cfg persist_request (wr_WalletAddress sample_challenge) (wr_ScanID sample_challenge)"
    using sample_engaged by (simp add: sample_challenge_def)
qed (simp_all add: persist_request_def post_request_def alice_valid persist_req_def sample_challenge_def sample_hex_wallet
      sample_scan_normal in_int64_def sample_dom sample_now NewOwnerScopedStore_def)

text \<open>A deletion opens the window again: on the store without the created policy, the same input is
  accepted once more.\<close>

lemma replay_after_delete:
  assumes "rq_Principal r = Some prin" and "decodePolicyPersistRequest r = Inr req"
    and "authorizePersist env cfg now now' (snd (ensureRequestID (en_RequestID env) r)) req = Inr inp"
    and "CreatePolicy n rnd s prin inp = (Inr res, s')" and "rnd2 \<noteq> None"
  shows "\<exists>s2. DeletePolicy s' prin (cr_PolicyID res) = (None, s2) \<and>
    rs_Status (fst (handlePolicyPersist (devStore n2 rnd2) env cfg now now' r s2)) = 200"
proof -
  obtain pl w pid where pv: "Principal_Validate prin = None" and pl: "ci_Payload inp = Some pl"
    and w: "NormalizeWalletTargetAddress (ci_WalletAddress inp) = Some w"
    and free: "\<forall>x \<in> set (st_policies s). \<not> claimsWallet prin w (snd x)"
    and r: "res = createdResult inp w (verifiedAtOr n inp) pid"
    and s': "s' = s\<lparr>st_policies := AList.update pid (createdRecord prin inp pl w (verifiedAtOr n inp) pid) (st_policies s)\<rparr>"
    using assms(4) by (rule CreatePolicy_ok)
  let ?s2 = "s'\<lparr>st_policies := AList.delete pid (st_policies s')\<rparr>"
  have rw: "NormalizeWalletTargetAddress (pq_WalletAddress req) = Some w"
    using assms(3) w claims_norm(1) by (auto elim!: authorizePersist_input)
  have "st_policies ?s2 = AList.delete pid (st_policies s)" by (simp add: s' AList.delete_update_same)
  then have "set (st_policies ?s2) \<subseteq> set (st_policies s)" by (auto simp: AList.delete_eq)
  then have "\<not> list_ex (\<lambda>(k, x). claimsWallet prin w x) (st_policies ?s2)"
    using free by (fastforce simp: list_ex_iff)
  then obtain res2 s3 where "CreatePolicy n2 rnd2 ?s2 prin inp = (Inr res2, s3)"
    using authorized_create(2)[OF assms(2,3) rw pv _ assms(5)] by blast
  then have "rs_Status (fst (handlePolicyPersist (devStore n2 rnd2) env cfg now now' r ?s2)) = 200"
    using assms(1-3) by (simp add: handlePolicyPersist_def Let_def devStore_def)
  moreover have "DeletePolicy s' prin (cr_PolicyID res) = (None, ?s2)"
    using CreatePolicy_Get[OF assms(4) pl] by (simp add: GetPolicy_Inr DeletePolicy_def r createdResult_def)
  ultimately show ?thesis by blast
qed

text \<open>C15. Replay is controlled by the stored policy. Once a persist request was answered 200 the owner
  reads the created policy under the id of the answer. In every store that holds a policy of that
  owner for that wallet, the created one or another, and so for as long as the owner has not deleted
  it, presenting the same request again, at any time and in any environment, changes nothing and is
  not answered 200; where its authorization is still accepted, the answer is 409. There is no nonce:
  once the owner deletes the created policy, the same request is accepted again, as long as the
  environment and the time are ones in which it was accepted and the random source works.\<close>

theorem persist_replay_refused:
  fixes env :: "'pub Env"
  assumes "handlePolicyPersist (devStore n rnd) env cfg now now' r s = (rs, s')" and "rs_Status rs = 200"
  shows "\<exists>prin req res rec. rq_Principal r = Some prin \<and> decodePolicyPersistRequest r = Inr req \<and>
    rs = writeJSON 200 (persistJSON res) \<and> GetPolicy s' prin (cr_PolicyID res) = Inr rec \<and>
    claimsWallet prin (cr_WalletAddress res) rec \<and>
    (\<forall>s2 i rec2 n2 rnd2 (env2 :: 'pub Env) cfg2 now2 now2' rs2 s3.
       GetPolicy s2 prin i = Inr rec2 \<and> claimsWallet prin (cr_WalletAddress res) rec2 \<and>
       handlePolicyPersist (devStore n2 rnd2) env2 cfg2 now2 now2' r s2 = (rs2, s3) \<longrightarrow>
         s3 = s2 \<and> rs_Status rs2 \<noteq> 200 \<and>
         (isl (authorizePersist env2 cfg2 now2 now2' (snd (ensureRequestID (en_RequestID env2) r)) req) \<or>
          rs_Status rs2 = 409)) \<and>
    (\<forall>n2 rnd2. rnd2 \<noteq> None \<longrightarrow> (\<exists>s2. DeletePolicy s' prin (cr_PolicyID res) = (None, s2) \<and>
       rs_Status (fst (handlePolicyPersist (devStore n2 rnd2) env cfg now now' r s2)) = 200))"
proof (rule handlePolicyPersist_200[OF assms])
  fix prin req inp res
  assume p: "rq_Principal r = Some prin" and req: "decodePolicyPersistRequest r = Inr req"
    and a: "authorizePersist env cfg now now' (snd (ensureRequestID (en_RequestID env) r)) req = Inr inp"
    and c: "CreatePolicy n rnd s prin inp = (Inr res, s')" and rs: "rs = writeJSON 200 (persistJSON res)"
  obtain pl w pid where pv: "Principal_Validate prin = None" and pl: "ci_Payload inp = Some pl"
    and w: "NormalizeWalletTargetAddress (ci_WalletAddress inp) = Some w"
    and "res = createdResult inp w (verifiedAtOr n inp) pid"
    using c by (rule CreatePolicy_ok)
  then have cw: "cr_WalletAddress res = w" by (simp add: createdResult_def)
  have rw: "NormalizeWalletTargetAddress (pq_WalletAddress req) = Some w"
    using a w claims_norm(1) by (auto elim!: authorizePersist_input)
  have replay: "s3 = s2 \<and> rs_Status rs2 \<noteq> 200 \<and>
      (isl (authorizePersist env2 cfg2 now2 now2' (snd (ensureRequestID (en_RequestID env2) r)) req) \<or> rs_Status rs2 = 409)"
    if g: "GetPolicy s2 prin i = Inr rec2" "claimsWallet prin w rec2"
      and h: "handlePolicyPersist (devStore n2 rnd2) env2 cfg2 now2 now2' r s2 = (rs2, s3)"
    for s2 i rec2 n2 rnd2 cfg2 now2 now2' rs2 s3 and env2 :: "'pub Env"
    using h
  proof (cases rule: handlePolicyPersist_cases)
    case refused
    show ?thesis
    proof (cases "authorizePersist env2 cfg2 now2 now2' (snd (ensureRequestID (en_RequestID env2) r)) req")
      case (Inr inp2)
      then show ?thesis using refused h p req replay_conflict[OF req Inr rw pv g(1)] g(2)
        by (auto simp: handlePolicyPersist_def Let_def devStore_def mapCreateError_def)
    qed (use refused in auto)
  next
    case (create prin2 req2 inp2)
    then have a2: "authorizePersist env2 cfg2 now2 now2' (snd (ensureRequestID (en_RequestID env2) r)) req = Inr inp2"
      and "prin2 = prin" using p req by simp_all
    then show ?thesis using create(4,5) replay_conflict[OF req a2 rw pv g(1)] g(2)
      by (simp add: devStore_def mapCreateError_def)
  qed
  have "\<exists>rec. GetPolicy s' prin (cr_PolicyID res) = Inr rec \<and> claimsWallet prin (cr_WalletAddress res) rec"
    using CreatePolicy_Get[OF c pl] claimsWallet_created[OF w] by (simp add: cw)
  then show ?thesis using p req rs replay[folded cw] replay_after_delete[OF p req a c] by blast
qed

theorem persist_replay_refused_witness:
  "\<exists>s' rs2 s3. s' \<noteq> NewOwnerScopedStore \<and>
    handlePolicyPersist (devStore 8 (Some [2])) sample_env sample_cfg (sample_time + 5 * second) 8 persist_request s' = (rs2, s3) \<and>
    s3 = s' \<and> rs_Status rs2 \<noteq> 200"
proof -
  obtain rs s' where h: "handlePolicyPersist (devStore 7 (Some [1])) sample_env sample_cfg (sample_time + 5 * second) 7
     persist_request NewOwnerScopedStore = (rs, s')" and rs: "rs_Status rs = 200" using sample_persisted by blast
  from h rs obtain prin inp res where "CreatePolicy 7 (Some [1]) NewOwnerScopedStore prin inp = (Inr res, s')"
    by (rule handlePolicyPersist_200)
  then have "s' \<noteq> NewOwnerScopedStore" by (rule CreatePolicy_ok) (auto simp: NewOwnerScopedStore_def)
  moreover obtain rs2 s3 where "handlePolicyPersist (devStore 8 (Some [2])) sample_env sample_cfg
      (sample_time + 5 * second) 8 persist_request s' = (rs2, s3)" by fastforce
  ultimately show ?thesis using persist_replay_refused[OF h rs] by blast
qed

text \<open>What is stored is what was signed: after a persist request answered 200 the owner reads a policy
  whose payload, cut to the closed fields, has the stored digest, and that is the digest of the
  payload in the request.\<close>

lemma persisted_payload_integrity:
  assumes "handlePolicyPersist (devStore n rnd) env cfg now now' r s = (rs, s')" and "rs_Status rs = 200"
  shows "\<exists>prin req pid rec pl canonical. rq_Principal r = Some prin \<and> decodePolicyPersistRequest r = Inr req \<and>
    GetPolicy s' prin pid = Inr rec \<and> po_Payload rec = Some pl \<and>
    DigestCanonical (en_Jcs env) (the (pq_Payload req)) = Inr (po_PayloadSHA256 rec, canonical) \<and>
    DigestCanonical (en_Jcs env) (JObj (filter (\<lambda>(k, _). k \<in> set closedFields) pl)) =
      Inr (po_PayloadSHA256 rec, canonical)"
proof (rule handlePolicyPersist_200[OF assms])
  fix prin req inp res
  assume p: "rq_Principal r = Some prin" and req: "decodePolicyPersistRequest r = Inr req"
    and a: "authorizePersist env cfg now now' (snd (ensureRequestID (en_RequestID env) r)) req = Inr inp"
    and c: "CreatePolicy n rnd s prin inp = (Inr res, s')"
  obtain digest canonical where d: "DigestCanonical (en_Jcs env) (the (pq_Payload req)) = Inr (digest, canonical)"
    and i: "ci_Payload inp = Some canonical" "ci_PayloadSHA256 inp = digest"
    using a by (rule authorizePersist_input)
  from c d i obtain rec pl where "GetPolicy s' prin (cr_PolicyID res) = Inr rec" "po_Payload rec = Some pl"
    "po_PayloadSHA256 rec = digest"
    "DigestCanonical (en_Jcs env) (JObj (filter (\<lambda>(k, _). k \<in> set closedFields) pl)) = Inr (digest, canonical)"
    by (rule persisted_integrity)
  then show ?thesis using p req d by metis
qed

end
