(* ===== verification/Auth_Session.thy ===== *)
theory Auth_Session
  imports Persist_Handlers
begin

text \<open>
  Session authentication of \<^verbatim>\<open>internal/app/auth.go\<close>: the bearer token (a base64url envelope with a payload
  and two signatures), its claims, and the validation of the session by Discovery. Discovery and
  the reading of JSON bytes are parameters of the environment; base64 is written out.
\<close>

section \<open>Base64 without padding\<close>

definition b64_val :: "char \<Rightarrow> nat option" where
  "b64_val c =
     (let n = byte_of c in
      if 65 \<le> n \<and> n \<le> 90 then Some (n - 65)
      else if 97 \<le> n \<and> n \<le> 122 then Some (n - 71)
      else if 48 \<le> n \<and> n \<le> 57 then Some (n + 4)
      else if c = CHR ''-'' then Some 62
      else if c = CHR ''_'' then Some 63
      else None)"

text \<open>\<^verbatim>\<open>base64.RawURLEncoding.DecodeString\<close>: line breaks are skipped, a single left-over character is an
  error, left-over bits are dropped.\<close>

fun b64_bytes :: "nat list \<Rightarrow> nat list option" where
  "b64_bytes [] = Some []"
| "b64_bytes [a] = None"
| "b64_bytes [a, b] = Some [a * 4 + b div 16]"
| "b64_bytes [a, b, c] = Some [a * 4 + b div 16, b mod 16 * 16 + c div 4]"
| "b64_bytes (a # b # c # d # rest) =
     (case b64_bytes rest of
        None \<Rightarrow> None
      | Some bs \<Rightarrow> Some ((a * 4 + b div 16) # (b mod 16 * 16 + c div 4) # (c mod 4 * 64 + d) # bs))"

definition RawURLDecode :: "string \<Rightarrow> string option" where
  "RawURLDecode s = do {
     vs \<leftarrow> all_some (map b64_val (filter (\<lambda>c. byte_of c \<noteq> 10 \<and> byte_of c \<noteq> 13) s));
     bs \<leftarrow> b64_bytes vs;
     Some (map char_of bs) }"

section \<open>The token\<close>

record tokenSignature =
  ts_Protected :: string
  ts_Signature :: string

record tokenEnvelope =
  te_Payload :: string
  te_Signatures :: "tokenSignature list"

definition dec_tokenSignature :: "json gomap \<Rightarrow> tokenSignature option" where
  "dec_tokenSignature kvs = do {
     p \<leftarrow> dec_string (doc_field kvs ''protected'');
     s \<leftarrow> dec_string (doc_field kvs ''signature'');
     Some \<lparr>ts_Protected = p, ts_Signature = s\<rparr> }"

definition dec_tokenEnvelope :: "json gomap \<Rightarrow> tokenEnvelope option" where
  "dec_tokenEnvelope kvs = do {
     p \<leftarrow> dec_string (doc_field kvs ''payload'');
     ss \<leftarrow> dec_list (dec_struct dec_tokenSignature) (doc_field kvs ''signatures'');
     Some \<lparr>te_Payload = p, te_Signatures = ss\<rparr> }"

text \<open>A \<^verbatim>\<open>map[string]any\<close>: an object, or \<^verbatim>\<open>null\<close> for no entries.\<close>

definition dec_map :: "json option \<Rightarrow> json gomap option" where
  "dec_map v = (case v of Some (JObj kvs) \<Rightarrow> Some kvs | Some JNull \<Rightarrow> Some [] | _ \<Rightarrow> None)"

definition stringClaim :: "json gomap \<Rightarrow> string \<Rightarrow> string" where
  "stringClaim m k = (case map_of m k of Some (JStr s) \<Rightarrow> s | _ \<Rightarrow> '''')"

definition claimAsUnix :: "json option \<Rightarrow> int64 option" where
  "claimAsUnix v = (case v of Some (JNum f) \<Rightarrow> Some (int64_of_float f) | _ \<Rightarrow> None)"

definition wrap64 :: "int \<Rightarrow> int64" where
  "wrap64 n = (n + 2 ^ 63) mod 2 ^ 64 - 2 ^ 63"

text \<open>\<open>unixNow\<close> is \<^verbatim>\<open>time.Now().Unix()\<close>; the sum with the leeway is on 64 bits.\<close>

definition validateDiscoveryClaims :: "int64 \<Rightarrow> json gomap \<Rightarrow> int \<Rightarrow> bool" where
  "validateDiscoveryClaims unixNow claims clockSkewSec =
     (case claimAsUnix (map_of claims ''exp'') of
        None \<Rightarrow> False
      | Some e \<Rightarrow> \<not> wrap64 (e + clockSkewSec) < unixNow)"

text \<open>The algorithms named by the signature headers; \<open>None\<close> when an entry is incomplete or unreadable.\<close>

fun signatureAlgorithms :: "(string \<Rightarrow> json option) \<Rightarrow> tokenSignature list \<Rightarrow> string list option" where
  "signatureAlgorithms unmarshal [] = Some []"
| "signatureAlgorithms unmarshal (s # ss) =
     (if ts_Protected s = '''' \<or> ts_Signature s = '''' then None
      else do {
        protected \<leftarrow> RawURLDecode (ts_Protected s);
        header \<leftarrow> dec_map (unmarshal protected);
        algs \<leftarrow> signatureAlgorithms unmarshal ss;
        Some (stringClaim header ''alg'' # algs) })"

definition parseAndValidateDiscoveryToken ::
  "(string \<Rightarrow> json option) \<Rightarrow> int64 \<Rightarrow> string \<Rightarrow> int \<Rightarrow> json gomap option" where
  "parseAndValidateDiscoveryToken unmarshal unixNow rawToken clockSkewSec = do {
     raw \<leftarrow> RawURLDecode rawToken;
     j \<leftarrow> unmarshal raw;
     envelope \<leftarrow> dec_struct dec_tokenEnvelope (Some j);
     if te_Payload envelope = '''' \<or> length (te_Signatures envelope) < 2 then None else do {
       algorithms \<leftarrow> signatureAlgorithms unmarshal (te_Signatures envelope);
       if ''EdDSA'' \<notin> set algorithms \<or> ''ML-DSA-65'' \<notin> set algorithms then None else do {
         claimBytes \<leftarrow> RawURLDecode (te_Payload envelope);
         claims \<leftarrow> dec_map (unmarshal claimBytes);
         if \<not> validateDiscoveryClaims unixNow claims clockSkewSec then None
         else case map_of claims ''email'' of
           Some (JStr _) \<Rightarrow> Some claims
         | _ \<Rightarrow> None } } }"

section \<open>Validation by Discovery\<close>

record discoveryValidationResponse =
  dv_Accepted :: bool
  dv_ErrorMessage :: string
  dv_Claims :: "json gomap option"

definition dec_claims :: "json option \<Rightarrow> json gomap option option" where
  "dec_claims v = (case v of None \<Rightarrow> Some None | Some JNull \<Rightarrow> Some None | Some (JObj kvs) \<Rightarrow> Some (Some kvs) | _ \<Rightarrow> None)"

definition dec_discoveryValidationResponse :: "json gomap \<Rightarrow> discoveryValidationResponse option" where
  "dec_discoveryValidationResponse kvs = do {
     a \<leftarrow> dec_bool (doc_field kvs ''accepted'');
     e \<leftarrow> dec_string (doc_field kvs ''error'');
     c \<leftarrow> dec_claims (doc_field kvs ''claims'');
     Some \<lparr>dv_Accepted = a, dv_ErrorMessage = e, dv_Claims = c\<rparr> }"

definition plainlyAccepted :: discoveryValidationResponse where
  "plainlyAccepted = \<lparr>dv_Accepted = True, dv_ErrorMessage = '''', dv_Claims = None\<rparr>"

definition sessionRequest :: "authConfig \<Rightarrow> string \<Rightarrow> string \<Rightarrow> OutRequest" where
  "sessionRequest cfg token rid =
     \<lparr>or_Method = ''POST'', or_URL = cf_SessionValidationURL cfg, or_Query = [],
      or_Header = [(''Content-Type'', ''application/json'')] @
        (if rid \<noteq> '''' then [(''X-Request-Id'', rid)] else []) @
        (if cf_SessionValidationServiceToken cfg \<noteq> ''''
         then [(''Authorization'', ''Bearer '' @ cf_SessionValidationServiceToken cfg)] else []),
      or_Body = Some (JObj [(''token'', JStr token)]),
      or_TimeoutSec = (if seconds64 (cf_SessionValidationTimeoutSec cfg) \<le> 0 then 3 else cf_SessionValidationTimeoutSec cfg)\<rparr>"

text \<open>The two corrections of the \<^verbatim>\<open>accepted\<close> flag.\<close>

definition settleAccepted :: "discoveryValidationResponse \<Rightarrow> discoveryValidationResponse" where
  "settleAccepted parsed =
     (let parsed = (if \<not> dv_Accepted parsed \<and> dv_ErrorMessage parsed = '''' \<and> dv_Claims parsed \<noteq> None
        then parsed\<lparr>dv_Accepted := True\<rparr> else parsed) in
      if \<not> dv_Accepted parsed \<and> dv_ErrorMessage parsed = '''' then parsed\<lparr>dv_Accepted := True\<rparr> else parsed)"

text \<open>\<open>None\<close> is an error. A 200 whose body is missing or does not decode counts as accepted.\<close>

definition validateTokenWithDiscovery ::
  "network \<Rightarrow> authConfig \<Rightarrow> string \<Rightarrow> string \<Rightarrow> discoveryValidationResponse option" where
  "validateTokenWithDiscovery net cfg token rid =
     (case net (sessionRequest cfg token rid) of
        None \<Rightarrow> None
      | Some (st, b) \<Rightarrow>
          if st = 401 \<or> st = 403 then
            Some \<lparr>dv_Accepted = False, dv_ErrorMessage = ''discovery rejected token ('' @ FormatInt st @ '')'', dv_Claims = None\<rparr>
          else if 500 \<le> st then None
          else if st \<noteq> 200 then None
          else case decode_body dec_discoveryValidationResponse b of
            None \<Rightarrow> Some plainlyAccepted
          | Some parsed \<Rightarrow> Some (settleAccepted parsed))"

section \<open>The principal of a request\<close>

record APIError =
  ae_Code :: string
  ae_Message :: string
  ae_Details :: "json gomap"

definition unauthenticated :: "string \<Rightarrow> APIError \<times> int \<times> string" where
  "unauthenticated reason =
     (\<lparr>ae_Code = ''AUTH_UNAUTHENTICATED'', ae_Message = ''authentication required'', ae_Details = reasonDetails reason\<rparr>,
      401, reason)"

text \<open>\<open>Inl\<close> holds the error, its status and the reason that is logged.\<close>

definition authenticateBearerToken ::
  "'pub Env \<Rightarrow> authConfig \<Rightarrow> int64 \<Rightarrow> Request \<Rightarrow> string \<Rightarrow> (APIError \<times> int \<times> string) + Principal" where
  "authenticateBearerToken env cfg unixNow r rid =
     (let header = TrimSpace (Header_Get r ''Authorization'') in
      if \<not> HasPrefix (ToLower header) ''bearer '' then Inl (unauthenticated ''missing_or_malformed_authorization_header'')
      else
        let rawToken = TrimSpace (drop (length ''Bearer '') header) in
        if rawToken = '''' then Inl (unauthenticated ''empty_bearer_token'')
        else case parseAndValidateDiscoveryToken (en_Unmarshal env) unixNow rawToken (cf_ClockSkewSec cfg) of
          None \<Rightarrow> Inl (unauthenticated ''malformed_or_expired_session_token'')
        | Some tokenClaims \<Rightarrow>
            (case validateTokenWithDiscovery (en_Net env) cfg rawToken rid of
               None \<Rightarrow> Inl (\<lparr>ae_Code = ''AUTH_VALIDATION_UNAVAILABLE'',
                   ae_Message = ''authentication validation unavailable'',
                   ae_Details = reasonDetails ''session_validation_unavailable''\<rparr>, 503, ''session_validation_unavailable'')
             | Some validation \<Rightarrow>
                 if \<not> dv_Accepted validation then Inl (unauthenticated ''session_validation_rejected'')
                 else
                   let claims = (case dv_Claims validation of Some c \<Rightarrow> c | None \<Rightarrow> tokenClaims);
                       userID = stringClaim claims ''user_id'' in
                   if TrimSpace userID = '''' then Inl (unauthenticated ''missing_user_id_claim'')
                   else
                     let prin = \<lparr>pn_UserID = userID, pn_Subject = userID, pn_TenantID = stringClaim claims ''tenant_id'',
                           pn_Claims = claims\<rparr> in
                     if Principal_Validate prin \<noteq> None then Inl (unauthenticated ''invalid_principal'')
                     else Inr prin))"

section \<open>What an authenticated principal rests on\<close>

lemma settleAccepted_flag: "dv_Accepted (settleAccepted p) \<longleftrightarrow> dv_Accepted p \<or> dv_ErrorMessage p = ''''"
  by (simp add: settleAccepted_def Let_def)

lemma validateToken_accepted:
  "(\<exists>v. validateTokenWithDiscovery net cfg token rid = Some v \<and> dv_Accepted v) \<longleftrightarrow>
     (\<exists>b. net (sessionRequest cfg token rid) = Some (200, b) \<and>
        (case decode_body dec_discoveryValidationResponse b of
           None \<Rightarrow> True | Some p \<Rightarrow> dv_Accepted p \<or> dv_ErrorMessage p = ''''))"
proof (cases "net (sessionRequest cfg token rid)")
  case None
  then show ?thesis by (simp add: validateTokenWithDiscovery_def)
next
  case (Some p)
  obtain st b where p: "p = (st, b)" by (cases p)
  show ?thesis
  proof (cases "st = 200")
    case False
    then show ?thesis using Some by (simp add: validateTokenWithDiscovery_def p)
  next
    case True
    show ?thesis
    proof (cases "decode_body dec_discoveryValidationResponse b")
      case None
      then show ?thesis using Some True by (simp add: validateTokenWithDiscovery_def p plainlyAccepted_def)
    next
      case a: (Some a)
      have v: "validateTokenWithDiscovery net cfg token rid = Some (settleAccepted a)"
        unfolding validateTokenWithDiscovery_def Some p option.case prod.case True a by simp
      show ?thesis unfolding v Some p True using a by (auto simp: settleAccepted_flag)
    qed
  qed
qed

lemma authenticate_Inr:
  assumes "authenticateBearerToken env cfg unixNow r rid = Inr prin"
  obtains token tokenClaims v where
    "token = TrimSpace (drop (length ''Bearer '') (TrimSpace (Header_Get r ''Authorization'')))"
    and "parseAndValidateDiscoveryToken (en_Unmarshal env) unixNow token (cf_ClockSkewSec cfg) = Some tokenClaims"
    and "validateTokenWithDiscovery (en_Net env) cfg token rid = Some v" and "dv_Accepted v"
    and "Principal_Validate prin = None" and "pn_Subject prin = pn_UserID prin"
    and "pn_Claims prin = (case dv_Claims v of Some c \<Rightarrow> c | None \<Rightarrow> tokenClaims)"
    and "pn_UserID prin = stringClaim (pn_Claims prin) ''user_id''"
    and "pn_TenantID prin = stringClaim (pn_Claims prin) ''tenant_id''"
proof -
  let ?token = "TrimSpace (drop (length ''Bearer '') (TrimSpace (Header_Get r ''Authorization'')))"
  note a = assms[unfolded authenticateBearerToken_def Let_def]
  obtain c where c: "parseAndValidateDiscoveryToken (en_Unmarshal env) unixNow ?token (cf_ClockSkewSec cfg) = Some c"
    using a by (cases "parseAndValidateDiscoveryToken (en_Unmarshal env) unixNow ?token (cf_ClockSkewSec cfg)")
      (simp_all only: option.case sum.distinct split: if_split_asm)
  obtain v where v: "validateTokenWithDiscovery (en_Net env) cfg ?token rid = Some v" and acc: "dv_Accepted v"
    using a unfolding c option.case by (cases "validateTokenWithDiscovery (en_Net env) cfg ?token rid")
      (simp_all only: option.case sum.distinct split: if_split_asm)
  let ?claims = "case dv_Claims v of Some c \<Rightarrow> c | None \<Rightarrow> c"
  let ?prin = "\<lparr>pn_UserID = stringClaim ?claims ''user_id'', pn_Subject = stringClaim ?claims ''user_id'',
    pn_TenantID = stringClaim ?claims ''tenant_id'', pn_Claims = ?claims\<rparr>"
  have "prin = ?prin" "Principal_Validate prin = None"
    using a unfolding c v option.case by (simp_all only: sum.inject sum.distinct split: if_split_asm)
  then show ?thesis using that[OF refl c v acc] by simp
qed

lemma signatureAlgorithms_length:
  "signatureAlgorithms u ss = Some algs \<Longrightarrow>
     length algs = length ss \<and> (\<forall>s \<in> set ss. ts_Protected s \<noteq> '''' \<and> ts_Signature s \<noteq> '''')"
  by (induction ss arbitrary: algs) (auto split: if_splits simp: bind_eq_Some_conv)

lemma parseToken_Some:
  assumes "parseAndValidateDiscoveryToken u unixNow raw skew = Some claims"
  obtains b j e algs cb where "RawURLDecode raw = Some b" and "u b = Some j"
    and "dec_struct dec_tokenEnvelope (Some j) = Some e" and "2 \<le> length (te_Signatures e)"
    and "signatureAlgorithms u (te_Signatures e) = Some algs" and "''EdDSA'' \<in> set algs" and "''ML-DSA-65'' \<in> set algs"
    and "RawURLDecode (te_Payload e) = Some cb" and "dec_map (u cb) = Some claims"
    and "validateDiscoveryClaims unixNow claims skew"
  using assms unfolding parseAndValidateDiscoveryToken_def
  by (auto simp: bind_eq_Some_conv split: if_splits option.splits json.splits)

end
