(* ===== verification/Owner_Handlers.thy ===== *)
theory Owner_Handlers
  imports Persist_Handlers
begin

text \<open>
  The owner routes of \<^verbatim>\<open>internal/app\<close>: reading and deleting policies (\<^verbatim>\<open>owner_routes.go\<close>), the count of
  policies per wallet (\<^verbatim>\<open>owner_routes_wallet_target_context.go\<close>) and the public form of a record
  (\<^verbatim>\<open>policy_contract.go\<close>), over the store interface. The theory shows what a foreign principal gets
  for a policy it does not own, and that reads change nothing.
\<close>

section \<open>The public record\<close>

record policyRecordResponse =
  rr_ID :: string
  rr_ScanID :: string
  rr_Payload :: "json gomap option"
  rr_PayloadSHA256 :: string
  rr_CreatedAt :: string
  rr_UpdatedAt :: string

definition policyRecordResponseFromStore :: "PolicyRecord \<Rightarrow> policyRecordResponse" where
  "policyRecordResponseFromStore r =
     \<lparr>rr_ID = po_ID r, rr_ScanID = TrimSpace (po_ScanID r), rr_Payload = po_Payload r,
      rr_PayloadSHA256 = TrimSpace (po_PayloadSHA256 r),
      rr_CreatedAt = FormatRFC3339Nano (po_CreatedAt r), rr_UpdatedAt = FormatRFC3339Nano (po_UpdatedAt r)\<rparr>"

definition policyRecordResponsesFromStore :: "PolicyRecord list \<Rightarrow> policyRecordResponse list" where
  "policyRecordResponsesFromStore rs = map policyRecordResponseFromStore rs"

text \<open>Its JSON: \<^verbatim>\<open>scan_id\<close> and \<^verbatim>\<open>payload_sha256\<close> are omitted when empty, a nil payload is \<^verbatim>\<open>null\<close>.\<close>

definition recordJSON :: "policyRecordResponse \<Rightarrow> json" where
  "recordJSON r =
     JObj ([(''id'', JStr (rr_ID r))] @
       (if rr_ScanID r \<noteq> '''' then [(''scan_id'', JStr (rr_ScanID r))] else []) @
       [(''payload'', case rr_Payload r of None \<Rightarrow> JNull | Some m \<Rightarrow> JObj m)] @
       (if rr_PayloadSHA256 r \<noteq> '''' then [(''payload_sha256'', JStr (rr_PayloadSHA256 r))] else []) @
       [(''created_at'', JStr (rr_CreatedAt r)), (''updated_at'', JStr (rr_UpdatedAt r))])"

section \<open>Errors\<close>

definition mapPersistenceError :: "int \<times> nat \<Rightarrow> Request \<Rightarrow> Principal \<Rightarrow> store_error \<Rightarrow> Response" where
  "mapPersistenceError gen r prin e =
     (let rid = fst (ensureRequestID gen r) in
      case e of
        ErrForbidden \<Rightarrow>
          traced (recordDecision r rid ''owner_authz'' ''denied'' ''AUTHZ_OWNER_FORBIDDEN'' ''owner_forbidden''
              (pn_UserID prin) (pn_TenantID prin) @
            [AuditEvent \<lparr>au_Category = ''owner_authz'', au_Outcome = ''denied'', au_Code = ''AUTHZ_OWNER_FORBIDDEN'',
               au_RequestID = rid, au_Route = classifyRoute (rq_Method r) (rq_Path r), au_Method = rq_Method r,
               au_UserID = pn_UserID prin, au_TenantID = pn_TenantID prin\<rparr>])
            (writeAuthError gen r 403 ''AUTHZ_OWNER_FORBIDDEN'' ''owner access denied'' (reasonDetails ''owner_forbidden''))
      | ErrPolicyNotFound \<Rightarrow> writeJSON 404 (errorJSON ''not found'')
      | ErrPersistenceUnavailable \<Rightarrow>
          writeJSON 503 (apiErrorJSON ''PERSISTENCE_UNAVAILABLE'' ''persistence is temporarily unavailable'')
      | ErrUnsupportedStoreOperation \<Rightarrow>
          writeJSON 422 (apiErrorJSON ''internal_error'' ''operation is not supported when CPM_STORE=persistence'')
      | ErrPrincipalRequired \<Rightarrow>
          traced (recordDecision r rid ''owner_authz'' ''denied'' ''AUTHZ_PRINCIPAL_REQUIRED'' ''principal_missing'' '''' '''')
            (writeAuthError gen r 401 ''AUTHZ_PRINCIPAL_REQUIRED'' ''authentication required''
              (reasonDetails ''principal_missing''))
      | _ \<Rightarrow> writeJSON 500 (errorJSON ''internal server error''))"

section \<open>Handlers\<close>

definition handleOwnerGETPolicies :: "'s PolicyStore \<Rightarrow> int \<times> nat \<Rightarrow> Request \<Rightarrow> 's \<Rightarrow> Response \<times> 's" where
  "handleOwnerGETPolicies store gen r0 s =
     (let r = snd (ensureRequestID gen r0) in
      case rq_Principal r of
        None \<Rightarrow> (principalMissing gen r0, s)
      | Some prin \<Rightarrow>
          (let i = TrimSpace (Query_Get r ''id''); scanID = TrimSpace (Query_Get r ''scan_id'') in
           if i \<noteq> '''' \<and> scanID \<noteq> '''' then (writeJSON 400 (errorJSON ''id and scan_id are mutually exclusive''), s)
           else if i = '''' \<and> scanID = '''' then (writeJSON 400 (errorJSON ''exactly one of id or scan_id is required''), s)
           else if i \<noteq> '''' then
             (case op_Get store prin i s of
                (Inl e, s') \<Rightarrow> (mapPersistenceError gen r prin e, s')
              | (Inr rec, s') \<Rightarrow> (writeJSON 200 (recordJSON (policyRecordResponseFromStore rec)), s'))
           else
             (case NormalizeDiscoveryScanID scanID of
                None \<Rightarrow> (writeJSON 400 (errorJSON ''scan_id must be a valid UUID''), s)
              | Some norm \<Rightarrow>
                  (case op_List store prin norm s of
                     (Inl e, s') \<Rightarrow>
                       (if e = ErrPrincipalRequired then writeJSON 400 (errorJSON ''principal is required'')
                        else writeJSON 500 (errorJSON ''internal server error''), s')
                   | (Inr rs, s') \<Rightarrow>
                       (let total = int (length rs); limit = (if total < 1 then 1 else total) in
                        (writeJSON 200 (JObj [(''items'', JArr (map recordJSON (policyRecordResponsesFromStore rs))),
                           (''total'', jint total), (''limit'', jint limit), (''offset'', jint 0)]), s'))))))"

text \<open>\<^verbatim>\<open>logDeleteReasonBestEffort\<close>; \<^verbatim>\<open>%q\<close> quotes the reason.\<close>

definition logDeleteReasonBestEffort :: "string \<Rightarrow> string \<Rightarrow> string \<Rightarrow> trace_event list" where
  "logDeleteReasonBestEffort reason policyID userID =
     (let reason = TrimSpace reason in
      if reason = '''' then []
      else [LogLine (''cpm: policy delete reason policy_id='' @ TrimSpace policyID @ '' user_id='' @ TrimSpace userID @
        '' reason='' @ Quote reason)])"

definition handleOwnerDELETEPolicies :: "'s PolicyStore \<Rightarrow> int \<times> nat \<Rightarrow> Request \<Rightarrow> 's \<Rightarrow> Response \<times> 's" where
  "handleOwnerDELETEPolicies store gen r0 s =
     (let r = snd (ensureRequestID gen r0) in
      case rq_Principal r of
        None \<Rightarrow> (principalMissing gen r0, s)
      | Some prin \<Rightarrow>
          (let i = TrimSpace (Query_Get r ''id'') in
           if i = '''' then (writeJSON 400 (errorJSON ''id is required''), s)
           else case op_Delete store prin i s of
             (err, s') \<Rightarrow>
               (traced (logDeleteReasonBestEffort (Query_Get r ''reason'') i (pn_UserID prin))
                 (case err of
                    None \<Rightarrow> WriteHeader 204
                  | Some ErrPolicyNotFound \<Rightarrow> writeJSON 404 (errorJSON ''not found'')
                  | Some ErrForbidden \<Rightarrow> writeJSON 404 (errorJSON ''not found'')
                  | Some ErrPrincipalRequired \<Rightarrow> principalMissing gen r
                  | Some _ \<Rightarrow> writeJSON 500 (errorJSON ''internal server error'')), s')))"

text \<open>The address is not blank here, so its error text is the second of the two.\<close>

definition handleOwnerGETWalletTargetContext ::
  "'s PolicyStore \<Rightarrow> int \<times> nat \<Rightarrow> Request \<Rightarrow> 's \<Rightarrow> Response \<times> 's" where
  "handleOwnerGETWalletTargetContext store gen r0 s =
     (let r = snd (ensureRequestID gen r0) in
      case rq_Principal r of
        None \<Rightarrow> (principalMissing gen r0, s)
      | Some prin \<Rightarrow>
          (let raw = TrimSpace (Query_Get r ''target_address'') in
           if raw = '''' then
             (writeJSON 400 (apiErrorJSON ''TARGET_ADDRESS_REQUIRED'' ''target_address query parameter is required''), s)
           else case NormalizeWalletTargetAddress raw of
             None \<Rightarrow> (writeJSON 400 (apiErrorJSON ''TARGET_ADDRESS_INVALID''
               ''target_address must be a normalized EVM address''), s)
           | Some norm \<Rightarrow>
               (case op_Count store prin norm s of
                  (Inl e, s') \<Rightarrow>
                    (if e = ErrPersistenceUnavailable
                     then writeJSON 503 (apiErrorJSON ''PERSISTENCE_UNAVAILABLE'' ''persistence is temporarily unavailable'')
                     else writeJSON 500 (errorJSON ''internal server error''), s')
                | (Inr counts, s') \<Rightarrow>
                    (writeJSON 200 (JObj [(''exists'', JBool (wc_Exists counts)), (''policy_count'', jint (wc_PolicyCount counts)),
                       (''target_address'', JStr norm)]), s'))))"

section \<open>What the handlers do with the store\<close>

lemma WriteHeader_fields [simp]: "rs_Status (WriteHeader st) = st" "rs_Body (WriteHeader st) = None"
  by (simp_all add: WriteHeader_def)

lemma Query_Get_keeps [simp]: "Query_Get (snd (ensureRequestID gen r)) k = Query_Get r k"
  by (simp add: Query_Get_def)

lemma writeAuthError_fields [simp]:
  "rs_Status (writeAuthError gen r st c m d) = st"
  "rs_Body (writeAuthError gen r st c m d) = Some (authErrorPayload c m d (fst (ensureRequestID gen r)))"
  by (simp_all add: writeAuthError_def)

lemma handleOwnerDELETE_op:
  assumes "rq_Principal r = Some prin" and "TrimSpace (Query_Get r ''id'') = i" and "i \<noteq> ''''"
  shows "snd (handleOwnerDELETEPolicies store gen r s) = snd (op_Delete store prin i s)"
    and "rs_Status (fst (handleOwnerDELETEPolicies store gen r s)) =
      (case fst (op_Delete store prin i s) of
         None \<Rightarrow> 204
       | Some e \<Rightarrow> if e \<in> {ErrPolicyNotFound, ErrForbidden} then 404 else if e = ErrPrincipalRequired then 401 else 500)"
  using assms unfolding handleOwnerDELETEPolicies_def Let_def
  by (auto split: prod.splits option.splits store_error.splits)

lemma handleOwnerGET_id:
  assumes "rq_Principal r = Some prin" and "TrimSpace (Query_Get r ''id'') = i" and "i \<noteq> ''''"
    and "TrimSpace (Query_Get r ''scan_id'') = ''''"
  shows "handleOwnerGETPolicies store gen r s =
    (case op_Get store prin i s of
       (Inl e, s') \<Rightarrow> (mapPersistenceError gen (snd (ensureRequestID gen r)) prin e, s')
     | (Inr rec, s') \<Rightarrow> (writeJSON 200 (recordJSON (policyRecordResponseFromStore rec)), s'))"
  using assms by (simp add: handleOwnerGETPolicies_def)

text \<open>For the in-memory store, errors of a valid principal are two.\<close>

lemma GetPolicy_errors:
  "Principal_Validate p = None \<Longrightarrow> GetPolicy s p i = Inl e \<Longrightarrow> e \<in> {ErrPolicyNotFound, ErrForbidden}"
  by (auto simp: GetPolicy_def split: option.splits if_splits)

lemma GetPolicy_gone:
  assumes "DeletePolicy s p i = (None, s')"
  shows "GetPolicy s' p i = Inl ErrPolicyNotFound"
  using assms by (auto simp: DeletePolicy_def GetPolicy_def delete_conv' split: if_splits option.splits)

section \<open>Properties\<close>

text \<open>C16. Deleting through the API: on a reachable store a valid principal's DELETE of an id either is
  answered 204, and then the principal could read the policy before and no longer finds it, or is
  answered 404, changes nothing, and the policy was not one the principal could read. The answer
  does not tell a foreign policy from a missing one.\<close>

theorem owner_delete_exact:
  assumes "store_reachable s" and "rq_Principal r = Some prin" and "Principal_Validate prin = None"
    and "TrimSpace (Query_Get r ''id'') = i" and "i \<noteq> ''''"
    and "handleOwnerDELETEPolicies (devStore n rnd) gen r s = (rs, s')"
  shows "(case GetPolicy s prin i of
      Inr rec \<Rightarrow> rs_Status rs = 204 \<and> GetPolicy s' prin i = Inl ErrPolicyNotFound
    | Inl e \<Rightarrow> rs_Status rs = 404 \<and> rs_Body rs = Some (errorJSON ''not found'') \<and> s' = s)"
proof -
  obtain err s2 where d: "DeletePolicy s prin i = (err, s2)" by fastforce
  have op: "op_Delete (devStore n rnd) prin i s = (err, s2)" by (simp add: devStore_def d)
  have s': "s' = s2" using handleOwnerDELETE_op(1)[OF assms(2,4,5), of "devStore n rnd" gen s] assms(6) op by simp
  show ?thesis
  proof (cases err)
    case None
    then obtain rec where "GetPolicy s prin i = Inr rec"
      using dev.delete_ok[OF store_reachable_inv[OF assms(1)], of n rnd prin i s2] op by (auto simp: devStore_def)
    moreover have "rs_Status rs = 204"
      using handleOwnerDELETE_op(2)[OF assms(2,4,5), of "devStore n rnd" gen s] assms(6) op None by simp
    ultimately show ?thesis using GetPolicy_gone[OF d[unfolded None]] by (simp add: s')
  next
    case (Some e)
    then have g: "GetPolicy s prin i = Inl e" and "s2 = s"
      using dev.delete_fails[of n rnd prin i s e s2] op by (auto simp: devStore_def)
    moreover have "e \<in> {ErrPolicyNotFound, ErrForbidden}" by (rule GetPolicy_errors[OF assms(3) g])
    ultimately show ?thesis
      using assms(2,4,5,6) op Some by (auto simp: handleOwnerDELETEPolicies_def s')
  qed
qed

definition owner_request :: "string \<Rightarrow> Principal \<Rightarrow> string \<Rightarrow> Request" where
  "owner_request meth prin i = \<lparr>rq_Method = meth, rq_Path = Policies, rq_Header = [], rq_Query = [(''id'', i)],
     rq_Host = ''cafe.example'', rq_Body = NoBody, rq_Principal = Some prin\<rparr>"

lemma owner_request_id:
  "rq_Principal (owner_request meth p ''01'') = Some p"
  "TrimSpace (Query_Get (owner_request meth p ''01'') ''id'') = ''01''"
  "TrimSpace (Query_Get (owner_request meth p ''01'') ''scan_id'') = ''''"
proof -
  have "TrimSpace ''01'' = ''01''" "TrimSpace '''' = ''''" by code_simp+
  then show "rq_Principal (owner_request meth p ''01'') = Some p"
    "TrimSpace (Query_Get (owner_request meth p ''01'') ''id'') = ''01''"
    "TrimSpace (Query_Get (owner_request meth p ''01'') ''scan_id'') = ''''"
    by (simp_all add: owner_request_def Query_Get_def)
qed

theorem owner_delete_exact_witness:
  "rs_Status (fst (handleOwnerDELETEPolicies (devStore 7 None) (0, 1) (owner_request ''DELETE'' alice ''01'') one_policy)) = 204"
proof -
  obtain rs s' where h: "handleOwnerDELETEPolicies (devStore 7 None) (0, 1) (owner_request ''DELETE'' alice ''01'') one_policy = (rs, s')"
    by fastforce
  show ?thesis unfolding h
    using owner_delete_exact[OF one_policy_reachable owner_request_id(1) alice_valid(1) owner_request_id(2) _ h]
    by (simp add: one_policy_Get)
qed

text \<open>C17. A foreign principal reads nothing: asking for a policy of another owner is answered 403 with a
  body that holds only the error and the request id, whatever the record, is audited, and changes
  nothing.\<close>

theorem owner_get_foreign:
  assumes "GetPolicy s q i = Inr rec" and "rq_Principal r = Some prin" and "Principal_Validate prin = None"
    and "\<not> sameOwner (pn_UserID q) (pn_TenantID q) (pn_UserID prin) (pn_TenantID prin)"
    and "TrimSpace (Query_Get r ''id'') = i" and "i \<noteq> ''''" and "TrimSpace (Query_Get r ''scan_id'') = ''''"
    and "handleOwnerGETPolicies (devStore n rnd) gen r s = (rs, s')"
  shows "s' = s \<and> rs_Status rs = 403 \<and>
    rs_Body rs = Some (authErrorPayload ''AUTHZ_OWNER_FORBIDDEN'' ''owner access denied'' (reasonDetails ''owner_forbidden'')
      (fst (ensureRequestID gen r))) \<and>
    (\<exists>a. AuditEvent a \<in> set (rs_Trace rs) \<and> au_UserID a = pn_UserID prin \<and> au_Code a = ''AUTHZ_OWNER_FORBIDDEN'')"
proof -
  have "GetPolicy s prin i = Inl ErrForbidden"
    using assms(1,3,4) unfolding GetPolicy_Inr by (auto simp: GetPolicy_def sameOwner_def)
  then have "handleOwnerGETPolicies (devStore n rnd) gen r s =
      (mapPersistenceError gen (snd (ensureRequestID gen r)) prin ErrForbidden, s)"
    using handleOwnerGET_id[OF assms(2,5,6,7), of "devStore n rnd" gen s] by (simp add: devStore_def)
  then have rs: "rs = mapPersistenceError gen (snd (ensureRequestID gen r)) prin ErrForbidden" and s': "s' = s"
    using assms(8) by simp_all
  have "rs_Status rs = 403" "rs_Body rs = Some (authErrorPayload ''AUTHZ_OWNER_FORBIDDEN'' ''owner access denied''
      (reasonDetails ''owner_forbidden'') (fst (ensureRequestID gen r)))"
    unfolding rs mapPersistenceError_def Let_def store_error.case by (simp_all add: ensureRequestID_again)
  moreover have "AuditEvent \<lparr>au_Category = ''owner_authz'', au_Outcome = ''denied'', au_Code = ''AUTHZ_OWNER_FORBIDDEN'',
      au_RequestID = fst (ensureRequestID gen r), au_Route = classifyRoute (rq_Method r) (rq_Path r),
      au_Method = rq_Method r, au_UserID = pn_UserID prin, au_TenantID = pn_TenantID prin\<rparr> \<in> set (rs_Trace rs)"
    unfolding rs mapPersistenceError_def Let_def store_error.case traced_def by (simp add: ensureRequestID_again)
  ultimately show ?thesis unfolding s' by (meson authAuditEvent.select_convs(3,7))
qed

theorem owner_get_foreign_witness:
  "rs_Status (fst (handleOwnerGETPolicies (devStore 7 None) (0, 1) (owner_request ''GET'' bob ''01'') one_policy)) = 403"
proof -
  obtain rs s' where h: "handleOwnerGETPolicies (devStore 7 None) (0, 1) (owner_request ''GET'' bob ''01'') one_policy = (rs, s')"
    by fastforce
  have "\<not> sameOwner (pn_UserID alice) (pn_TenantID alice) (pn_UserID bob) (pn_TenantID bob)"
    by (simp add: alice_def bob_def sameOwner_def)
  from owner_get_foreign[OF one_policy_Get owner_request_id(1) alice_valid(2) this owner_request_id(2) _ owner_request_id(3) h]
  show ?thesis unfolding h by simp
qed

end
