(* ===== verification/Auth_Middleware.thy ===== *)
theory Auth_Middleware
  imports Auth_Session Owner_Handlers
begin

text \<open>
  The authentication middleware of \<^verbatim>\<open>internal/app/auth.go\<close>: the scan ids a request names and their
  authorization by Discovery, the guard of the explore route, and the wrapper that runs a handler
  only for an authenticated principal. A handler is a function of the request and the store.
\<close>

section \<open>The scan ids of a request\<close>

definition noError :: APIError where
  "noError = \<lparr>ae_Code = '''', ae_Message = '''', ae_Details = []\<rparr>"

definition scanIDMalformed :: APIError where
  "scanIDMalformed = \<lparr>ae_Code = ''AUTHZ_SCAN_ID_MALFORMED'', ae_Message = ''scan_id is malformed'',
     ae_Details = reasonDetails ''scan_id_malformed''\<rparr>"

definition scanIDConflict :: "string \<Rightarrow> string \<Rightarrow> APIError" where
  "scanIDConflict message reason = \<lparr>ae_Code = ''AUTHZ_SCAN_ID_CONFLICT'', ae_Message = message,
     ae_Details = reasonDetails reason\<rparr>"

text \<open>The closure \<^verbatim>\<open>add\<close>: \<open>None\<close> is a value that is not a string.\<close>

definition addScanID :: "json option \<Rightarrow> string list option" where
  "addScanID raw =
     (case raw of
        None \<Rightarrow> Some []
      | Some JNull \<Rightarrow> Some []
      | Some (JStr v) \<Rightarrow> Some (if TrimSpace v = '''' then [] else [TrimSpace v])
      | _ \<Rightarrow> None)"

definition collectScanIDs :: "json gomap \<Rightarrow> string list option" where
  "collectScanIDs payload = do {
     top \<leftarrow> addScanID (map_of payload ''scan_id'');
     nested \<leftarrow> (case map_of payload ''policy_context'' of
         Some (JObj pc) \<Rightarrow> addScanID (map_of pc ''scan_id'')
       | _ \<Rightarrow> Some []);
     Some (top @ nested) }"

definition scanIDsFromOwnerPoliciesGETQuery :: "Request \<Rightarrow> (APIError \<times> int) + string list" where
  "scanIDsFromOwnerPoliciesGETQuery r =
     (let i = TrimSpace (Query_Get r ''id''); scanID = TrimSpace (Query_Get r ''scan_id'') in
      if i \<noteq> '''' \<and> scanID \<noteq> ''''
      then Inl (scanIDConflict ''id and scan_id are mutually exclusive'' ''mutually_exclusive_query_params'', 400)
      else if scanID = '''' then Inr []
      else case NormalizeDiscoveryScanID scanID of
        None \<Rightarrow> Inl (scanIDMalformed, 400)
      | Some norm \<Rightarrow> Inr [norm])"

definition isOwnerPoliciesGETPath :: "string \<Rightarrow> bool" where
  "isOwnerPoliciesGETPath path \<longleftrightarrow> path = Policies"

text \<open>A body that is missing, is not JSON, is not an object or goes on after its value names no scan;
  reading it cannot fail here.\<close>

definition extractScanIDsForAuthorization :: "Request \<Rightarrow> (APIError \<times> int) + string list" where
  "extractScanIDsForAuthorization r =
     (if rq_Method r = ''POST'' \<and> rq_Path r = PoliciesAssessmentRequest then Inr []
      else if rq_Method r = ''GET'' \<and> isOwnerPoliciesGETPath (rq_Path r) then scanIDsFromOwnerPoliciesGETQuery r
      else if rq_Method r \<notin> {''POST'', ''PUT'', ''PATCH''} then Inr []
      else case rq_Body r of
        JsonBody (JObj payload) \<Rightarrow>
          (case collectScanIDs payload of
             None \<Rightarrow> Inl (scanIDMalformed, 400)
           | Some [] \<Rightarrow> Inr []
           | Some (base # others) \<Rightarrow>
               if list_all (\<lambda>x. x = base) others then Inr [base]
               else Inl (scanIDConflict ''scan_id values conflict'' ''scan_id_conflict'', 400))
      | _ \<Rightarrow> Inr [])"

text \<open>The middleware and the handlers behind it do not read a body alike: bytes after the value make the
  middleware see no scan id, while the handler decodes the value as if they were not there.\<close>

lemma trailing_body_unguarded:
  assumes "rq_Method r = ''POST''" and "rq_Body r = TrailingBody j e"
  shows "extractScanIDsForAuthorization r = Inr []"
    and "decodePolicyPersistRequest r = decodePolicyPersistRequest (r\<lparr>rq_Body := JsonBody j\<rparr>)"
    and "decodeWalletChallengeRequest r = decodeWalletChallengeRequest (r\<lparr>rq_Body := JsonBody j\<rparr>)"
  using assms by (simp_all add: extractScanIDsForAuthorization_def decodePolicyPersistRequest_def
      decodeWalletChallengeRequest_def decode_first_def)

section \<open>Scan authorization\<close>

text \<open>\<^verbatim>\<open>url.PathEscape\<close>\<close>

definition pathSafe :: "char \<Rightarrow> bool" where
  "pathSafe c \<longleftrightarrow>
     (let n = byte_of c in 48 \<le> n \<and> n \<le> 57 \<or> 65 \<le> n \<and> n \<le> 90 \<or> 97 \<le> n \<and> n \<le> 122) \<or>
     c \<in> set ''-_.~$&+:=@''"

definition upper_hex :: "nat \<Rightarrow> char" where
  "upper_hex n = (if n < 10 then char_of (48 + n) else char_of (55 + n))"

definition PathEscape :: "string \<Rightarrow> string" where
  "PathEscape s = concat (map (\<lambda>c. if pathSafe c then [c]
     else [CHR ''%'', upper_hex (byte_of c div 16), upper_hex (byte_of c mod 16)]) s)"

definition scanAuthorizationRequest :: "authConfig \<Rightarrow> Principal \<Rightarrow> string \<Rightarrow> string \<Rightarrow> OutRequest" where
  "scanAuthorizationRequest cfg prin scanID rid =
     \<lparr>or_Method = ''POST'',
      or_URL = TrimSuffix (cf_ScanAuthorizationURL cfg) ''/'' @ ''/'' @ PathEscape scanID @ ''/can-read'', or_Query = [],
      or_Header = [(''X-User-Id'', pn_UserID prin)] @
        (if pn_TenantID prin \<noteq> '''' then [(''X-Tenant-Id'', pn_TenantID prin)] else []) @
        (if rid \<noteq> '''' then [(''X-Request-Id'', rid)] else []) @
        (if cf_ScanAuthorizationServiceToken cfg \<noteq> ''''
         then [(''Authorization'', ''Bearer '' @ cf_ScanAuthorizationServiceToken cfg)] else []),
      or_Body = None,
      or_TimeoutSec = (if cf_ScanAuthorizationTimeoutSec cfg \<le> 0 then 3 else cf_ScanAuthorizationTimeoutSec cfg)\<rparr>"

definition scanUnavailable :: "string \<Rightarrow> APIError \<times> int \<times> string" where
  "scanUnavailable reason =
     (\<lparr>ae_Code = ''AUTHZ_SCAN_UNAVAILABLE'', ae_Message = ''scan authorization unavailable'',
       ae_Details = reasonDetails reason\<rparr>, 503, reason)"

definition scanDenied :: "APIError \<times> int \<times> string" where
  "scanDenied =
     (\<lparr>ae_Code = ''AUTHZ_SCAN_FORBIDDEN'', ae_Message = ''scan access denied'',
       ae_Details = reasonDetails ''scan_authorization_denied''\<rparr>, 403, ''scan_authorization_denied'')"

definition dec_scanAuthorizationResponse :: "json gomap \<Rightarrow> bool option" where
  "dec_scanAuthorizationResponse kvs = dec_bool (doc_field kvs ''allowed'')"

text \<open>\<open>None\<close> is access granted. A request that cannot be built and one that fails both leave the
  network without an answer; only their reason differs, and the model reports the second.\<close>

definition authorizeScanAccess ::
  "network \<Rightarrow> Principal \<Rightarrow> string \<Rightarrow> authConfig \<Rightarrow> string \<Rightarrow> (APIError \<times> int \<times> string) option" where
  "authorizeScanAccess net prin scanID cfg rid =
     (if TrimSpace scanID = '''' then Some (scanIDMalformed, 400, ''scan_id_malformed'')
      else if TrimSpace (cf_ScanAuthorizationURL cfg) = ''''
      then Some (scanUnavailable ''scan_authorization_url_not_configured'')
      else case net (scanAuthorizationRequest cfg prin scanID rid) of
        None \<Rightarrow> Some (scanUnavailable ''scan_authorization_request_failed'')
      | Some (st, b) \<Rightarrow>
          if st = 200 then
            (case decode_first dec_scanAuthorizationResponse b of
               None \<Rightarrow> Some (scanUnavailable ''scan_authorization_invalid_response'')
             | Some allowed \<Rightarrow> if \<not> allowed then Some scanDenied else None)
          else if st = 403 \<or> st = 404 then Some scanDenied
          else if st = 401 then Some (scanUnavailable ''scan_authorization_upstream_unauthorized'')
          else if 500 \<le> st then Some (scanUnavailable ''scan_authorization_upstream_5xx'')
          else Some (scanUnavailable ''scan_authorization_unexpected_status''))"

section \<open>The guard of the explore route\<close>

text \<open>The detail of a scan: a status and what the body denotes, or no answer.\<close>

definition fetchDiscoveryWalletScanDetail ::
  "network \<Rightarrow> authConfig \<Rightarrow> string \<Rightarrow> string \<Rightarrow> string \<Rightarrow> (int \<times> body) option" where
  "fetchDiscoveryWalletScanDetail net cfg authorization rid scanID =
     net \<lparr>or_Method = ''GET'',
       or_URL = TrimSuffix (TrimSpace (cf_DiscoveryHTTPBaseURL cfg)) ''/'' @ ''/discovery/v1/wallets/scans/'' @ PathEscape scanID,
       or_Query = [],
       or_Header = (if TrimSpace authorization \<noteq> '''' then [(''Authorization'', authorization)] else []) @
         (if rid \<noteq> '''' then [(''X-Request-Id'', rid)] else []),
       or_Body = None,
       or_TimeoutSec = (if cf_DiscoveryHTTPTimeoutSec cfg \<le> 0 then 5 else cf_DiscoveryHTTPTimeoutSec cfg)\<rparr>"

datatype discovery_error = errDiscoveryScanNotFound | errDiscoveryScanNotWallet | discoveryFailed

definition dec_scanDetailResult :: "json gomap \<Rightarrow> string option" where
  "dec_scanDetailResult kvs = dec_string (doc_field kvs ''target_address'')"

definition dec_scanDetail :: "json gomap \<Rightarrow> (string \<times> string) option" where
  "dec_scanDetail kvs = do {
     f \<leftarrow> dec_string (doc_field kvs ''scan_family'');
     a \<leftarrow> dec_struct dec_scanDetailResult (doc_field kvs ''result'');
     Some (f, a) }"

definition targetAddressFromWalletScanDetailJSON :: "body \<Rightarrow> discovery_error + string" where
  "targetAddressFromWalletScanDetailJSON b =
     (case decode_body dec_scanDetail b of
        None \<Rightarrow> Inl discoveryFailed
      | Some (family, address) \<Rightarrow>
          if EqualFold (TrimSpace family) ''tls'' then Inl errDiscoveryScanNotWallet
          else if TrimSpace address = '''' then Inl errDiscoveryScanNotWallet
          else Inr (TrimSpace address))"

definition fetchWalletTargetAddressForScan ::
  "network \<Rightarrow> authConfig \<Rightarrow> string \<Rightarrow> string \<Rightarrow> string \<Rightarrow> discovery_error + string" where
  "fetchWalletTargetAddressForScan net cfg authorization rid scanID =
     (case fetchDiscoveryWalletScanDetail net cfg authorization rid scanID of
        None \<Rightarrow> Inl discoveryFailed
      | Some (st, b) \<Rightarrow>
          if st = 404 then Inl errDiscoveryScanNotFound
          else if st \<noteq> 200 then Inl discoveryFailed
          else targetAddressFromWalletScanDetailJSON b)"

definition isImmutabilityGuardRoute :: "Request \<Rightarrow> bool" where
  "isImmutabilityGuardRoute r \<longleftrightarrow> rq_Method r = ''POST'' \<and> rq_Path r = PoliciesDecisionsExplore"

text \<open>\<open>Some (code, message, status)\<close> refuses the request.\<close>

definition enforceScanImmutabilityGuards ::
  "network \<Rightarrow> Request \<Rightarrow> authConfig \<Rightarrow> string \<Rightarrow> (string \<times> string \<times> int) option" where
  "enforceScanImmutabilityGuards net r cfg rid =
     (if \<not> isImmutabilityGuardRoute r then None
      else case extractScanIDsForAuthorization r of
        Inl _ \<Rightarrow> None
      | Inr [] \<Rightarrow> None
      | Inr (scanID # _) \<Rightarrow>
          (case NormalizeDiscoveryScanID scanID of
             None \<Rightarrow> None
           | Some requested \<Rightarrow>
               if TrimSpace (cf_DiscoveryHTTPBaseURL cfg) = ''''
               then Some (''DISCOVERY_UNAVAILABLE'', ''discovery is unavailable'', 503)
               else case fetchWalletTargetAddressForScan net cfg (Header_Get r ''Authorization'') rid requested of
                 Inl e \<Rightarrow>
                   if e = errDiscoveryScanNotFound \<or> e = errDiscoveryScanNotWallet
                   then Some (''not_found'', ''scan not found'', 404)
                   else Some (''DISCOVERY_UNAVAILABLE'', ''discovery is unavailable'', 503)
               | Inr address \<Rightarrow>
                   if address = '''' then Some (''SCAN_ID_NOT_WALLET_TARGET'', ''scan_id is not a wallet target'', 400)
                   else case ensureOwnerScopedW2 net r cfg rid address requested of
                     Some e \<Rightarrow> Some (w2_code e, w2_message e, w2_status e)
                   | None \<Rightarrow> None))"

section \<open>The wrapper\<close>

type_synonym 's handler = "Request \<Rightarrow> 's \<Rightarrow> Response \<times> 's"

definition writeAPIError :: "int \<times> nat \<Rightarrow> Request \<Rightarrow> int \<Rightarrow> APIError \<Rightarrow> Response" where
  "writeAPIError gen r status e = writeAuthError gen r status (ae_Code e) (ae_Message e) (ae_Details e)"

text \<open>The loop over the scan ids: the records of the granted ones, and the refusal if there is one.\<close>

fun authorizeScans ::
  "'pub Env \<Rightarrow> authConfig \<Rightarrow> Request \<Rightarrow> string \<Rightarrow> Principal \<Rightarrow> string list \<Rightarrow> trace_event list \<times> Response option" where
  "authorizeScans env cfg r rid prin [] = ([], None)"
| "authorizeScans env cfg r rid prin (scanID # rest) =
     (case authorizeScanAccess (en_Net env) prin scanID cfg rid of
        Some (e, status, reason) \<Rightarrow>
          (recordDecision r rid ''scan_authz'' (if status = 503 then ''unavailable'' else ''denied'') (ae_Code e) reason
             (pn_UserID prin) (pn_TenantID prin) @
           (if ae_Code e = ''AUTHZ_SCAN_FORBIDDEN''
            then [AuditEvent \<lparr>au_Category = ''scan_authz'', au_Outcome = ''denied'', au_Code = ''AUTHZ_SCAN_FORBIDDEN'',
              au_RequestID = rid, au_Route = classifyRoute (rq_Method r) (rq_Path r), au_Method = rq_Method r,
              au_UserID = pn_UserID prin, au_TenantID = pn_TenantID prin\<rparr>]
            else []),
           Some (writeAPIError (en_RequestID env) r status e))
      | None \<Rightarrow>
          (case authorizeScans env cfg r rid prin rest of
             (ts, refusal) \<Rightarrow>
               (recordDecision r rid ''scan_authz'' ''allowed'' ''OK'' ''scan_access_allowed'' (pn_UserID prin) (pn_TenantID prin) @ ts,
                refusal)))"

definition tracedFst :: "trace_event list \<Rightarrow> Response \<times> 's \<Rightarrow> Response \<times> 's" where
  "tracedFst ts p = (case p of (rs, s) \<Rightarrow> (traced ts rs, s))"

text \<open>The handler of an authenticated route, once the principal is known.\<close>

definition serveAuthenticated ::
  "'s handler \<Rightarrow> 'pub Env \<Rightarrow> authConfig \<Rightarrow> Request \<Rightarrow> string \<Rightarrow> Principal \<Rightarrow> 's \<Rightarrow> Response \<times> 's" where
  "serveAuthenticated nxt env cfg r rid prin s =
     (case extractScanIDsForAuthorization r of
        Inl (e, status) \<Rightarrow>
          (traced (recordDecision r rid ''scan_authz'' ''malformed'' (ae_Code e) ''scan_id_malformed'' (pn_UserID prin)
             (pn_TenantID prin)) (writeAPIError (en_RequestID env) r status e), s)
      | Inr scanIDs \<Rightarrow>
          (case authorizeScans env cfg r rid prin scanIDs of
             (ts, Some refusal) \<Rightarrow> (traced ts refusal, s)
           | (ts, None) \<Rightarrow>
               (case enforceScanImmutabilityGuards (en_Net env) r cfg rid of
                  Some (code, message, status) \<Rightarrow> (traced ts (writeJSON status (apiErrorJSON code message)), s)
                | None \<Rightarrow>
                    tracedFst (ts @ recordDecision r rid ''authn'' ''allowed'' ''OK'' ''session_validated'' (pn_UserID prin)
                      (pn_TenantID prin)) (nxt (r\<lparr>rq_Principal := Some prin\<rparr>) s))))"

definition serveProtected :: "'s handler \<Rightarrow> 'pub Env \<Rightarrow> authConfig \<Rightarrow> int64 \<Rightarrow> 's handler" where
  "serveProtected nxt env cfg unixNow r0 s =
     (let gen = en_RequestID env; rid = fst (ensureRequestID gen r0); r = snd (ensureRequestID gen r0);
          cls = classifyRoute (rq_Method r) (rq_Path r) in
      if cls = RouteClassPublicHealth then nxt r s
      else if cls = RouteClassDeprecatedDisabled
      then (writeAuthError gen r 404 ''AUTH_ROUTE_NOT_ENABLED'' ''route is not enabled'' [], s)
      else case authenticateBearerToken env cfg unixNow r rid of
        Inl (e, status, reason) \<Rightarrow>
          (traced (recordDecision r rid ''authn'' (if status = 503 then ''unavailable'' else ''denied'') (ae_Code e) reason '''' '''')
             (writeAPIError gen r status e), s)
      | Inr prin \<Rightarrow> serveAuthenticated nxt env cfg r rid prin s)"

definition withAuthentication ::
  "'s handler \<Rightarrow> 'pub Env \<Rightarrow> authConfig \<Rightarrow> int64 \<Rightarrow> string + 's handler" where
  "withAuthentication nxt env cfg unixNow =
     (case validateRouteInventory buildRouteInventory of
        Some e \<Rightarrow> Inl e
      | None \<Rightarrow>
          if \<not> cf_Required cfg then Inr nxt
          else if TrimSpace (cf_SessionValidationURL cfg) = ''''
          then Inl ''auth required but session validation URL is not configured''
          else Inr (serveProtected nxt env cfg unixNow))"

section \<open>When the handler runs\<close>

lemma classifyRoute_cases:
  "classifyRoute m p \<in> {RouteClassPublicHealth, RouteClassAuthenticated, RouteClassDeprecatedDisabled}"
proof (cases "find (\<lambda>r. rt_Method r = m \<and> PathMatches (rt_Path r) p) buildRouteInventory")
  case None
  then show ?thesis by (simp add: classifyRoute_def)
next
  case (Some r)
  then have "r \<in> set buildRouteInventory" by (auto simp: find_Some_iff)
  then have "rt_Class r \<in> {RouteClassPublicHealth, RouteClassAuthenticated}"
    by (auto simp: buildRouteInventory_def)
  then show ?thesis using Some by (auto simp: classifyRoute_def)
qed

lemma authorizeScans_None:
  "authorizeScans env cfg r rid prin ids = (ts, None) \<Longrightarrow>
     \<forall>i \<in> set ids. authorizeScanAccess (en_Net env) prin i cfg rid = None"
  by (induction ids arbitrary: ts) (auto split: option.splits prod.splits)

lemma serveAuthenticated_cases:
  obtains (refused) "snd (serveAuthenticated nxt env cfg r rid prin s) = s"
  | (served) ids ts where "extractScanIDsForAuthorization r = Inr ids"
    and "\<forall>i \<in> set ids. authorizeScanAccess (en_Net env) prin i cfg rid = None"
    and "enforceScanImmutabilityGuards (en_Net env) r cfg rid = None"
    and "serveAuthenticated nxt env cfg r rid prin s = tracedFst ts (nxt (r\<lparr>rq_Principal := Some prin\<rparr>) s)"
proof (cases "extractScanIDsForAuthorization r")
  case (Inl e)
  then show ?thesis by (intro refused) (cases e, simp add: serveAuthenticated_def)
next
  case (Inr ids)
  obtain ts ref where a: "authorizeScans env cfg r rid prin ids = (ts, ref)" by fastforce
  show ?thesis
  proof (cases ref)
    case (Some x)
    then show ?thesis using Inr a by (intro refused) (simp add: serveAuthenticated_def)
  next
    case None
    note au = authorizeScans_None[OF a[unfolded None]]
    show ?thesis
    proof (cases "enforceScanImmutabilityGuards (en_Net env) r cfg rid")
      case (Some e)
      then show ?thesis using Inr a None by (intro refused) (cases e, simp add: serveAuthenticated_def)
    next
      case g: None
      then show ?thesis using Inr a None by (intro served[OF Inr au g]) (simp add: serveAuthenticated_def)
    qed
  qed
qed

lemma tracedFst_snd [simp]: "snd (tracedFst ts p) = snd p"
  by (simp add: tracedFst_def case_prod_unfold)

section \<open>Properties\<close>

text \<open>C11. Authentication is mandatory: when it is required, a request outside the public routes that
  changes the state was for an authenticated route, carried a session accepted for a valid principal;
  Discovery lets that principal read every scan id the middleware extracts from the request (none
  from a body that \<^verbatim>\<open>json.Unmarshal\<close> refuses); the request passed the guard of the explore route, and the
  state is what the wrapped handler made of it with that principal.\<close>

theorem state_changes_only_authenticated:
  assumes "withAuthentication nxt env cfg unixNow = Inr h" and "cf_Required cfg" and "h r s = (rs, s')" and "s' \<noteq> s"
    and "classifyRoute (rq_Method r) (rq_Path r) \<noteq> RouteClassPublicHealth"
  shows "\<exists>prin ids r' rid. (rid, r') = ensureRequestID (en_RequestID env) r \<and>
    classifyRoute (rq_Method r) (rq_Path r) = RouteClassAuthenticated \<and>
    authenticateBearerToken env cfg unixNow r' rid = Inr prin \<and> Principal_Validate prin = None \<and>
    extractScanIDsForAuthorization r' = Inr ids \<and>
    list_all (\<lambda>i. authorizeScanAccess (en_Net env) prin i cfg rid = None) ids \<and>
    enforceScanImmutabilityGuards (en_Net env) r' cfg rid = None \<and>
    s' = snd (nxt (r'\<lparr>rq_Principal := Some prin\<rparr>) s)"
proof -
  let ?r = "snd (ensureRequestID (en_RequestID env) r)" and ?rid = "fst (ensureRequestID (en_RequestID env) r)"
  have h: "h = serveProtected nxt env cfg unixNow"
    using assms(1,2) by (auto simp: withAuthentication_def split: option.splits if_splits)
  have cl: "classifyRoute (rq_Method r) (rq_Path r) = RouteClassAuthenticated"
    using classifyRoute_cases[of "rq_Method r" "rq_Path r"] assms(3,4,5)
    by (auto simp: h serveProtected_def Let_def)
  have ne: "RouteClassAuthenticated \<noteq> RouteClassPublicHealth" "RouteClassAuthenticated \<noteq> RouteClassDeprecatedDisabled"
    by (simp_all add: RouteClassAuthenticated_def RouteClassPublicHealth_def RouteClassDeprecatedDisabled_def)
  obtain prin where p: "authenticateBearerToken env cfg unixNow ?r ?rid = Inr prin"
    using assms(3,4) cl ne
    by (cases "authenticateBearerToken env cfg unixNow ?r ?rid") (auto simp: h serveProtected_def Let_def)
  then have sv: "(rs, s') = serveAuthenticated nxt env cfg ?r ?rid prin s"
    using assms(3) cl ne by (simp add: h serveProtected_def Let_def)
  have v: "Principal_Validate prin = None" using p by (rule authenticate_Inr)
  show ?thesis
  proof (cases rule: serveAuthenticated_cases[of nxt env cfg ?r ?rid prin s])
    case refused
    then show ?thesis using sv assms(4) by (metis snd_conv)
  next
    case (served ids ts)
    have "s' = snd (nxt (?r\<lparr>rq_Principal := Some prin\<rparr>) s)" using sv served(4) by (metis snd_conv tracedFst_snd)
    then show ?thesis using cl p v served(1,2,3) by (force simp: list_all_iff)
  qed
qed

text \<open>A session of alice: a token whose parts are single bytes, read by a stub, and a Discovery that answers
  200 without a body.\<close>

definition session_unmarshal :: "string \<Rightarrow> json option" where
  "session_unmarshal b =
     (if b = ''T'' then Some (JObj [(''payload'', JStr ''Qw''), (''signatures'', JArr
          [JObj [(''protected'', JStr ''RQ''), (''signature'', JStr ''s'')],
           JObj [(''protected'', JStr ''TQ''), (''signature'', JStr ''s'')]])])
      else if b = ''E'' then Some (JObj [(''alg'', JStr ''EdDSA'')])
      else if b = ''M'' then Some (JObj [(''alg'', JStr ''ML-DSA-65'')])
      else if b = ''C'' then Some (JObj [(''exp'', jint 100), (''email'', JStr ''a''), (''user_id'', JStr ''alice''),
        (''tenant_id'', JStr ''t1'')])
      else None)"

definition session_env :: "unit Env" where
  "session_env = \<lparr>en_RequestID = (0, 1), en_Net = (\<lambda>q. Some (200, NoBody)), en_Eth = stub_eth, en_Jcs = Inr,
     en_Unmarshal = session_unmarshal\<rparr>"

definition delete_request :: Request where
  "delete_request = \<lparr>rq_Method = ''DELETE'', rq_Path = Policies, rq_Header = [(''Authorization'', ''Bearer VA'')],
     rq_Query = [(''id'', ''01'')], rq_Host = ''cafe.example'', rq_Body = NoBody, rq_Principal = None\<rparr>"

definition session_principal :: Principal where
  "session_principal = \<lparr>pn_UserID = ''alice'', pn_Subject = ''alice'', pn_TenantID = ''t1'',
     pn_Claims = [(''exp'', jint 100), (''email'', JStr ''a''), (''user_id'', JStr ''alice''), (''tenant_id'', JStr ''t1'')]\<rparr>"

lemma session_authenticates:
  "authenticateBearerToken session_env sample_cfg 50 (snd (ensureRequestID (en_RequestID session_env) delete_request))
     (fst (ensureRequestID (en_RequestID session_env) delete_request)) = Inr session_principal"
  by code_simp

lemma delete_request_class: "classifyRoute ''DELETE'' Policies = RouteClassAuthenticated"
  "validateRouteInventory buildRouteInventory = None" "TrimSpace (cf_SessionValidationURL sample_cfg) \<noteq> ''''"
  by code_simp+

lemma delete_request_unguarded:
  "extractScanIDsForAuthorization (snd (ensureRequestID (en_RequestID session_env) delete_request)) = Inr []"
  "enforceScanImmutabilityGuards net (snd (ensureRequestID (en_RequestID session_env) delete_request)) cfg rid = None"
proof -
  have "extractScanIDsForAuthorization r = Inr []" if "rq_Method r = ''DELETE''" for r
    using that by (simp add: extractScanIDsForAuthorization_def)
  then show "extractScanIDsForAuthorization (snd (ensureRequestID (en_RequestID session_env) delete_request)) = Inr []"
    by (simp add: delete_request_def)
  show "enforceScanImmutabilityGuards net (snd (ensureRequestID (en_RequestID session_env) delete_request)) cfg rid = None"
    by (simp add: enforceScanImmutabilityGuards_def isImmutabilityGuardRoute_def delete_request_def)
qed

lemma session_deletes:
  "\<exists>rs s'. serveProtected (handleOwnerDELETEPolicies (devStore 7 None) (en_RequestID session_env)) session_env sample_cfg 50
     delete_request one_policy = (rs, s') \<and> s' \<noteq> one_policy"
proof -
  let ?r = "snd (ensureRequestID (en_RequestID session_env) delete_request)\<lparr>rq_Principal := Some session_principal\<rparr>"
  have m: "rq_Method delete_request = ''DELETE''" "rq_Path delete_request = Policies" by (simp_all add: delete_request_def)
  have "Query_Get ?r k = Query_Get delete_request k" for k by (simp add: Query_Get_def)
  moreover have "TrimSpace (Query_Get delete_request ''id'') = ''01''" by code_simp
  ultimately have i: "TrimSpace (Query_Get ?r ''id'') = ''01''" by (simp only:)
  have v: "Principal_Validate session_principal = None" by code_simp
  have "ownedBy r session_principal \<longleftrightarrow> ownedBy r alice" for r by (simp add: session_principal_def alice_def)
  then have g: "GetPolicy one_policy session_principal ''01'' =
      Inr (createdRecord alice alice_input [(''name'', JStr ''n'')] alice_wallet 7 ''01'')"
    using one_policy_Get v unfolding GetPolicy_Inr by blast
  obtain rs s' where h: "handleOwnerDELETEPolicies (devStore 7 None) (en_RequestID session_env) ?r one_policy = (rs, s')"
    by fastforce
  have "s' = snd (DeletePolicy one_policy session_principal ''01'')"
    using handleOwnerDELETE_op(1)[OF _ i, of session_principal "devStore 7 None" "en_RequestID session_env" one_policy] h
    by (simp add: devStore_def)
  moreover have "fst (DeletePolicy one_policy session_principal ''01'') = None"
    using g by (simp add: DeletePolicy_def GetPolicy_Inr)
  ultimately have "DeletePolicy one_policy session_principal ''01'' = (None, s')" by (simp add: prod_eq_iff)
  then have "s' \<noteq> one_policy" using g GetPolicy_gone by fastforce
  moreover have "RouteClassAuthenticated \<noteq> RouteClassPublicHealth" "RouteClassAuthenticated \<noteq> RouteClassDeprecatedDisabled"
    by (simp_all add: RouteClassAuthenticated_def RouteClassPublicHealth_def RouteClassDeprecatedDisabled_def)
  ultimately show ?thesis
    by (simp add: serveProtected_def Let_def delete_request_class(1) m session_authenticates serveAuthenticated_def
        delete_request_unguarded tracedFst_def h)
qed

theorem state_changes_only_authenticated_witness:
  "\<exists>prin rid r'. (rid, r') = ensureRequestID (en_RequestID session_env) delete_request \<and>
     authenticateBearerToken session_env sample_cfg 50 r' rid = Inr prin \<and> Principal_Validate prin = None"
proof -
  let ?next = "handleOwnerDELETEPolicies (devStore 7 None) (en_RequestID session_env)"
  have w: "withAuthentication ?next session_env sample_cfg 50 = Inr (serveProtected ?next session_env sample_cfg 50)"
    using delete_request_class(2,3) by (simp add: withAuthentication_def) (simp add: sample_cfg_def)
  obtain rs s' where s: "serveProtected ?next session_env sample_cfg 50 delete_request one_policy = (rs, s')"
    and "s' \<noteq> one_policy" using session_deletes by blast
  moreover have "classifyRoute (rq_Method delete_request) (rq_Path delete_request) \<noteq> RouteClassPublicHealth"
    by (simp add: delete_request_def delete_request_class(1) RouteClassAuthenticated_def RouteClassPublicHealth_def)
  moreover have "cf_Required sample_cfg" by (simp add: sample_cfg_def)
  ultimately show ?thesis using state_changes_only_authenticated[OF w _ s] by blast
qed

text \<open>C13. What a session rests on: a principal is accepted only with a token whose envelope has at least
  two signature entries, each with a protected header and a signature string that are not empty, with
  EdDSA and ML-DSA-65 among the algorithm names in the headers, and whose expiry has not passed, up
  to the clock skew (in 64-bit arithmetic), and only if Discovery answered 200 to the validation
  request for that token, with no body that decodes to an error message without an acceptance. The
  signatures are not verified here, and the answer need not say that the token is accepted: an
  answer 200 with a body that does not decode, or with \<^verbatim>\<open>accepted\<close> false and no error message, counts as
  one (auth.go, line 566).\<close>

theorem session_evidence:
  assumes "authenticateBearerToken env cfg unixNow r rid = Inr prin"
  shows "\<exists>token tb j e algs cb claims t b.
    token = TrimSpace (drop 7 (TrimSpace (Header_Get r ''Authorization''))) \<and>
    RawURLDecode token = Some tb \<and> en_Unmarshal env tb = Some j \<and> dec_struct dec_tokenEnvelope (Some j) = Some e \<and>
    RawURLDecode (te_Payload e) = Some cb \<and> dec_map (en_Unmarshal env cb) = Some claims \<and>
    signatureAlgorithms (en_Unmarshal env) (te_Signatures e) = Some algs \<and> 2 \<le> length (te_Signatures e) \<and>
    list_all (\<lambda>s. ts_Protected s \<noteq> '''' \<and> ts_Signature s \<noteq> '''') (te_Signatures e) \<and>
    {''EdDSA'', ''ML-DSA-65''} \<subseteq> set algs \<and>
    claimAsUnix (map_of claims ''exp'') = Some t \<and> unixNow \<le> wrap64 (t + cf_ClockSkewSec cfg) \<and>
    en_Net env (sessionRequest cfg token rid) = Some (200, b) \<and>
    (case decode_body dec_discoveryValidationResponse b of
       None \<Rightarrow> True | Some p \<Rightarrow> dv_Accepted p \<or> dv_ErrorMessage p = '''')"
proof -
  obtain token claims v where t: "token = TrimSpace (drop (length ''Bearer '') (TrimSpace (Header_Get r ''Authorization'')))"
    and p: "parseAndValidateDiscoveryToken (en_Unmarshal env) unixNow token (cf_ClockSkewSec cfg) = Some claims"
    and v: "validateTokenWithDiscovery (en_Net env) cfg token rid = Some v" "dv_Accepted v"
    using assms by (rule authenticate_Inr)
  obtain b where b: "en_Net env (sessionRequest cfg token rid) = Some (200, b)"
    "case decode_body dec_discoveryValidationResponse b of None \<Rightarrow> True | Some p \<Rightarrow> dv_Accepted p \<or> dv_ErrorMessage p = ''''"
    using validateToken_accepted v by blast
  from p obtain tb j e algs cb where d: "RawURLDecode token = Some tb" "en_Unmarshal env tb = Some j"
    "dec_struct dec_tokenEnvelope (Some j) = Some e" "RawURLDecode (te_Payload e) = Some cb"
    "dec_map (en_Unmarshal env cb) = Some claims" and e: "2 \<le> length (te_Signatures e)"
    "signatureAlgorithms (en_Unmarshal env) (te_Signatures e) = Some algs" "''EdDSA'' \<in> set algs" "''ML-DSA-65'' \<in> set algs"
    and c: "validateDiscoveryClaims unixNow claims (cf_ClockSkewSec cfg)"
    by (rule parseToken_Some) blast
  from c obtain x where "claimAsUnix (map_of claims ''exp'') = Some x" "unixNow \<le> wrap64 (x + cf_ClockSkewSec cfg)"
    by (auto simp: validateDiscoveryClaims_def split: option.splits)
  moreover have "list_all (\<lambda>s. ts_Protected s \<noteq> '''' \<and> ts_Signature s \<noteq> '''') (te_Signatures e)"
    using signatureAlgorithms_length[OF e(2)] by (simp add: list_all_iff)
  moreover have "token = TrimSpace (drop 7 (TrimSpace (Header_Get r ''Authorization'')))" using t by (simp add: eval_nat_numeral)
  ultimately show ?thesis using d e p b by blast
qed

theorem session_evidence_witness:
  "\<exists>cb claims t. dec_map (session_unmarshal cb) = Some claims \<and>
     claimAsUnix (map_of claims ''exp'') = Some t \<and> 50 \<le> wrap64 (t + 30)"
proof -
  have "TrimSpace (drop 7 (TrimSpace (Header_Get (snd (ensureRequestID (en_RequestID session_env) delete_request)) ''Authorization''))) = ''VA''"
    by code_simp
  then show ?thesis
    using session_evidence[OF session_authenticates] by (simp add: session_env_def sample_cfg_def) blast
qed

end
