(* ===== verification/Explore.thy ===== *)
theory Explore
  imports Crypto_Policy
begin

text \<open>
  The explore evaluator of \<^verbatim>\<open>internal/domain/policy\<close> (\<^verbatim>\<open>policy_decision.go\<close>, \<^verbatim>\<open>explore_couche_a.go\<close>): it runs
  every profile of the policy's allowed providers through couche A and splits them into ranked
  and rejected candidates. The observation is the part of the wire contract's payload the code
  reads, the account kind and the chain ids. Log lines are not modelled. The lemmas show that the
  ranked candidates are exactly the profiles that pass couche A and whose suggested constraints
  do not contradict them, that no profile is lost, and that both lists come out sorted.
\<close>

section \<open>Decisions\<close>

record WalletPayload =
  wp_AccountKind :: string
  wp_ChainIDs :: "int64 list"

record RankedPolicy =
  rk_CandidateID :: string
  rk_PolicyID :: string
  rk_CryptoPolicyInstanceID :: string
  rk_TemplateID :: string
  rk_RequiredPosture :: string
  rk_ResultingPosture :: string
  rk_SolutionProfileRef :: SolutionProfileRef
  rk_Maturity :: string
  rk_ClaimStatus :: string
  rk_CompatibilityStatus :: AssessmentStatus
  rk_CompatibilityFindings :: "AssessmentFinding list"
  rk_SuggestedUserConstraints :: "SuggestedUserConstraints option"
  rk_Composition :: "CompositionView option"

record RejectedPolicy =
  rj_CandidateID :: string
  rj_PolicyID :: string
  rj_CryptoPolicyInstanceID :: string
  rj_TemplateID :: string
  rj_RequiredPosture :: string
  rj_ResultingPosture :: string
  rj_SolutionProfileRef :: SolutionProfileRef
  rj_Maturity :: string
  rj_ClaimStatus :: string
  rj_CompatibilityStatus :: "AssessmentStatus option"
  rj_CompatibilityFindings :: "AssessmentFinding list"
  rj_RejectionReasons :: "AssessmentFinding list"

record RequestSummary =
  rs_CryptoPolicyID :: string
  rs_TargetPosture :: string
  rs_TargetChainIDs :: "int64 list"
  rs_RequireMultichain :: bool
  rs_AllowNewWallet :: bool
  rs_AddressContinuityRequired :: bool
  rs_MinimumMaturity :: int

record PolicyDecision =
  pd_ObservedChainIDs :: "int64 list"
  pd_RequestSummary :: RequestSummary
  pd_SelectedPolicyID :: string
  pd_SelectedPolicyInstanceID :: string
  pd_RankedCandidates :: "RankedPolicy list"
  pd_RejectedCandidates :: "RejectedPolicy list"
  pd_Warnings :: "string list"

definition compareRanked :: "RankedPolicy \<Rightarrow> RankedPolicy \<Rightarrow> int" where
  "compareRanked a b =
     (if rk_CandidateID a < rk_CandidateID b then -1
      else if rk_CandidateID b < rk_CandidateID a then 1 else 0)"

definition normalizeASCIIUpper :: "string \<Rightarrow> string" where
  "normalizeASCIIUpper value = filter (\<lambda>ch. \<not> 127 < byte_of ch) (ToUpper (TrimSpace value))"

section \<open>One candidate\<close>

definition profile_ref_of :: "ResolvedProfile \<Rightarrow> SolutionProfileRef" where
  "profile_ref_of resolved =
     \<lparr>spr_ProviderID = rp_ProviderID resolved,
      spr_SolutionProfileID = sp_SolutionProfileID (rp_Profile resolved),
      spr_ManifestVersion = rp_ProviderVersion resolved, spr_VerificationDate = ''''\<rparr>"

text \<open>The status of the entry \<^verbatim>\<open>buildExploreCandidate\<close> returns is still the empty string; that is
  \<open>None\<close> here.\<close>

definition buildExploreCandidate :: "CryptoPolicy \<Rightarrow> ResolvedProfile \<Rightarrow> RejectedPolicy" where
  "buildExploreCandidate cp resolved =
     \<lparr>rj_CandidateID = rp_ProviderID resolved @ ''/'' @ sp_SolutionProfileID (rp_Profile resolved),
      rj_PolicyID = normalizeASCIIUpper (cp_ID cp),
      rj_CryptoPolicyInstanceID = '''', rj_TemplateID = '''',
      rj_RequiredPosture = cp_RequiredPosture cp,
      rj_ResultingPosture = sp_ResultingPosture (rp_Profile resolved),
      rj_SolutionProfileRef = profile_ref_of resolved,
      rj_Maturity = sp_Maturity (rp_Profile resolved),
      rj_ClaimStatus = sp_ClaimStatus (rp_Profile resolved),
      rj_CompatibilityStatus = None, rj_CompatibilityFindings = [], rj_RejectionReasons = []\<rparr>"

definition softFindingsForProfile :: "SolutionProfile option \<Rightarrow> AssessmentFinding list" where
  "softFindingsForProfile po =
     map (\<lambda>f. \<lparr>af_Code = hf_Code f, af_Message = hf_Message f,
       af_Severity = AssessmentFindingSeverityWarning, af_Field = hf_Field f, af_Details = []\<rparr>)
       (EvaluateSoftFindings po)"

definition cloneSuggested :: "SuggestedUserConstraints option \<Rightarrow> SuggestedUserConstraints option" where
  "cloneSuggested s = (case s of None \<Rightarrow> None | Some cp \<Rightarrow> Some cp)"

definition rejectWith :: "AssessmentStatus \<Rightarrow> AssessmentFinding list \<Rightarrow> RejectedPolicy \<Rightarrow> RejectedPolicy" where
  "rejectWith status findings entry =
     entry\<lparr>rj_CompatibilityStatus := Some status, rj_CompatibilityFindings := findings,
       rj_RejectionReasons := findings\<rparr>"

text \<open>The candidate of a provider that has no profile in the registry.\<close>

definition unresolvedProvider :: "CryptoPolicy \<Rightarrow> string \<Rightarrow> RejectedPolicy" where
  "unresolvedProvider cp providerID =
     (let finding = fieldFinding FindingCodeUnresolved
        (''provider '' @ Quote providerID @ '' not found in registry'') ''allowed_providers'' in
      \<lparr>rj_CandidateID = providerID, rj_PolicyID = normalizeASCIIUpper (cp_ID cp),
       rj_CryptoPolicyInstanceID = '''', rj_TemplateID = '''',
       rj_RequiredPosture = cp_RequiredPosture cp, rj_ResultingPosture = '''',
       rj_SolutionProfileRef = \<lparr>spr_ProviderID = providerID, spr_SolutionProfileID = '''',
         spr_ManifestVersion = '''', spr_VerificationDate = ''''\<rparr>,
       rj_Maturity = '''', rj_ClaimStatus = '''',
       rj_CompatibilityStatus = Some AssessmentStatusIncompatible,
       rj_CompatibilityFindings = [finding], rj_RejectionReasons = [finding]\<rparr>)"

text \<open>The candidate whose lookup fails although the registry listed it.\<close>

definition lookupFailed :: "CryptoPolicy \<Rightarrow> ResolvedProfile \<Rightarrow> RejectedPolicy" where
  "lookupFailed cp resolved =
     (let finding = fieldFinding FindingCodeUnresolved
        ''solution profile lookup failed after registry list'' ''solution_profile_ref'' in
      \<lparr>rj_CandidateID = rp_ProviderID resolved @ ''/'' @ sp_SolutionProfileID (rp_Profile resolved),
       rj_PolicyID = normalizeASCIIUpper (cp_ID cp),
       rj_CryptoPolicyInstanceID = '''', rj_TemplateID = '''',
       rj_RequiredPosture = cp_RequiredPosture cp, rj_ResultingPosture = '''',
       rj_SolutionProfileRef = profile_ref_of resolved,
       rj_Maturity = '''', rj_ClaimStatus = '''',
       rj_CompatibilityStatus = Some AssessmentStatusIncompatible,
       rj_CompatibilityFindings = [finding], rj_RejectionReasons = [finding]\<rparr>)"

definition rankedPolicy :: "RejectedPolicy \<Rightarrow> SolutionProfile \<Rightarrow> RankedPolicy" where
  "rankedPolicy entry profile =
     \<lparr>rk_CandidateID = rj_CandidateID entry, rk_PolicyID = rj_PolicyID entry,
      rk_CryptoPolicyInstanceID = '''', rk_TemplateID = '''',
      rk_RequiredPosture = rj_RequiredPosture entry, rk_ResultingPosture = rj_ResultingPosture entry,
      rk_SolutionProfileRef = rj_SolutionProfileRef entry,
      rk_Maturity = rj_Maturity entry, rk_ClaimStatus = rj_ClaimStatus entry,
      rk_CompatibilityStatus = AssessmentStatusCompatibleAndDeployable,
      rk_CompatibilityFindings = softFindingsForProfile (Some profile),
      rk_SuggestedUserConstraints = cloneSuggested (sp_SuggestedUserConstraints profile),
      rk_Composition = Some (DeriveCompositionView (Some profile))\<rparr>"

text \<open>The body of the inner loop: where one resolved profile goes.\<close>

definition evaluateResolved ::
    "Registry \<Rightarrow> HardObservation \<Rightarrow> CryptoPolicy \<Rightarrow> ResolvedProfile \<Rightarrow> RejectedPolicy + RankedPolicy" where
  "evaluateResolved reg obs cp resolved =
     (case Lookup reg \<lparr>pr_ProviderID = rp_ProviderID resolved,
             pr_SolutionProfileID = sp_SolutionProfileID (rp_Profile resolved),
             pr_ManifestVersion = rp_ProviderVersion resolved\<rparr> of
        None \<Rightarrow> Inl (lookupFailed cp resolved)
      | Some _ \<Rightarrow>
          let entry = buildExploreCandidate cp resolved in
          case ValidateSuggestedUserConstraints (Some (rp_Profile resolved)) of
            Some err \<Rightarrow>
              Inl (rejectWith AssessmentStatusErroneous
                [\<lparr>af_Code = FindingCodeErroneousSuggested, af_Message = suggested_error_string err,
                  af_Severity = AssessmentFindingSeverityBlocking,
                  af_Field = ''suggested_user_constraints'', af_Details = []\<rparr>] entry)
          | None \<Rightarrow>
              let hard = EvaluateScanCompatibility obs (cp_RequiredPosture cp) (Some (rp_Profile resolved)) in
              if hard \<noteq> []
              then Inl (rejectWith AssessmentStatusIncompatible
                (map (\<lambda>f. fieldFinding (hf_Code f) (hf_Message f) (hf_Field f)) hard) entry)
              else Inr (rankedPolicy entry (rp_Profile resolved)))"

section \<open>The evaluator\<close>

definition providerCandidates ::
    "Registry option \<Rightarrow> HardObservation \<Rightarrow> CryptoPolicy \<Rightarrow> string \<Rightarrow> (RejectedPolicy + RankedPolicy) list" where
  "providerCandidates ro obs cp pid =
     (let providerID = TrimSpace pid in
      if providerID = '''' then []
      else
        case ro of
          None \<Rightarrow> [Inl (unresolvedProvider cp providerID)]
        | Some reg \<Rightarrow>
            (case ProfilesForProvider reg providerID of
               [] \<Rightarrow> [Inl (unresolvedProvider cp providerID)]
             | profiles \<Rightarrow> map (evaluateResolved reg obs cp) profiles))"

definition rights :: "('a + 'b) list \<Rightarrow> 'b list" where
  "rights xs = List.map_filter (\<lambda>x. case x of Inl _ \<Rightarrow> None | Inr b \<Rightarrow> Some b) xs"

definition lefts :: "('a + 'b) list \<Rightarrow> 'a list" where
  "lefts xs = List.map_filter (\<lambda>x. case x of Inl a \<Rightarrow> Some a | Inr _ \<Rightarrow> None) xs"

definition exploreObservation :: "WalletPayload \<Rightarrow> HardObservation" where
  "exploreObservation observation =
     \<lparr>ob_AccountKind = wp_AccountKind observation, ob_ChainIDs = normalizeChainIDs (wp_ChainIDs observation)\<rparr>"

definition exploreCandidates ::
    "Registry option \<Rightarrow> WalletPayload \<Rightarrow> CryptoPolicy \<Rightarrow> (RejectedPolicy + RankedPolicy) list" where
  "exploreCandidates ro observation cp =
     concat (map (providerCandidates ro (exploreObservation observation) cp) (cp_AllowedProviders cp))"

definition EvaluateExploreCoucheA ::
    "Registry option \<Rightarrow> WalletPayload \<Rightarrow> CryptoPolicy option \<Rightarrow> string + PolicyDecision" where
  "EvaluateExploreCoucheA ro observation co =
     (case co of
        None \<Rightarrow> Inl ''crypto policy is nil''
      | Some cp \<Rightarrow>
          let candidates = exploreCandidates ro observation cp;
              ranked = sort_key rk_CandidateID (rights candidates);
              rejected = sort_key rj_CandidateID (lefts candidates) in
          Inr \<lparr>pd_ObservedChainIDs = normalizeChainIDs (wp_ChainIDs observation),
            pd_RequestSummary = \<lparr>rs_CryptoPolicyID = cp_ID cp, rs_TargetPosture = '''', rs_TargetChainIDs = [],
              rs_RequireMultichain = False, rs_AllowNewWallet = False,
              rs_AddressContinuityRequired = False, rs_MinimumMaturity = 0\<rparr>,
            pd_SelectedPolicyID = (case ranked of [] \<Rightarrow> '''' | r # _ \<Rightarrow> rk_PolicyID r),
            pd_SelectedPolicyInstanceID = '''',
            pd_RankedCandidates = ranked, pd_RejectedCandidates = rejected, pd_Warnings = []\<rparr>)"

section \<open>Lemmas\<close>

lemma in_rights [simp]: "b \<in> set (rights xs) \<longleftrightarrow> Inr b \<in> set xs"
  by (induction xs) (auto simp: rights_def List.map_filter_simps split: sum.splits)

lemma in_lefts [simp]: "a \<in> set (lefts xs) \<longleftrightarrow> Inl a \<in> set xs"
  by (induction xs) (auto simp: lefts_def List.map_filter_simps split: sum.splits)

lemma rights_simps: "rights [] = []" "rights (Inl a # xs) = rights xs" "rights (Inr b # xs) = b # rights xs"
  by (simp_all add: rights_def List.map_filter_simps)

lemma lefts_simps: "lefts [] = []" "lefts (Inl a # xs) = a # lefts xs" "lefts (Inr b # xs) = lefts xs"
  by (simp_all add: lefts_def List.map_filter_simps)

lemma length_partition: "length (lefts xs) + length (rights xs) = length xs"
proof (induction xs)
  case (Cons x xs)
  then show ?case by (cases x) (simp_all add: rights_simps lefts_simps)
qed (simp add: rights_simps lefts_simps)

lemma compareRanked_sign: "compareRanked a b < 0 \<longleftrightarrow> rk_CandidateID a < rk_CandidateID b"
  by (simp add: compareRanked_def)

text \<open>A profile is admitted when its suggested constraints do not contradict it and couche A
  reports nothing.\<close>

definition admitted :: "HardObservation \<Rightarrow> CryptoPolicy \<Rightarrow> SolutionProfile \<Rightarrow> bool" where
  "admitted obs cp p \<longleftrightarrow>
     ValidateSuggestedUserConstraints (Some p) = None \<and> scan_ok obs (cp_RequiredPosture cp) p"

lemma evaluateResolved_cases:
  assumes inv: "registry_inv reg" and r: "r \<in> set (ProfilesForProvider reg pid)"
  shows "evaluateResolved reg obs cp r =
    (if admitted obs cp (rp_Profile r) then Inr (rankedPolicy (buildExploreCandidate cp r) (rp_Profile r))
     else case ValidateSuggestedUserConstraints (Some (rp_Profile r)) of
       Some err \<Rightarrow> Inl (rejectWith AssessmentStatusErroneous
           [\<lparr>af_Code = FindingCodeErroneousSuggested, af_Message = suggested_error_string err,
             af_Severity = AssessmentFindingSeverityBlocking,
             af_Field = ''suggested_user_constraints'', af_Details = []\<rparr>] (buildExploreCandidate cp r))
     | None \<Rightarrow> Inl (rejectWith AssessmentStatusIncompatible
           (map (\<lambda>f. fieldFinding (hf_Code f) (hf_Message f) (hf_Field f))
             (EvaluateScanCompatibility obs (cp_RequiredPosture cp) (Some (rp_Profile r))))
           (buildExploreCandidate cp r)))"
  using registry.listed_resolves[OF inv r]
  by (auto simp: evaluateResolved_def Let_def admitted_def EvaluateScanCompatibility_Nil split: option.split)

lemma evaluateResolved_Inr:
  assumes "registry_inv reg" and "r \<in> set (ProfilesForProvider reg pid)"
  shows "evaluateResolved reg obs cp r = Inr k \<longleftrightarrow>
    admitted obs cp (rp_Profile r) \<and> k = rankedPolicy (buildExploreCandidate cp r) (rp_Profile r)"
  by (auto simp: evaluateResolved_cases[OF assms] split: option.split)

lemma in_providerCandidates_Inr:
  "Inr k \<in> set (providerCandidates (Some reg) obs cp pid) \<longleftrightarrow>
     TrimSpace pid \<noteq> '''' \<and> (\<exists>r \<in> set (ProfilesForProvider reg pid). evaluateResolved reg obs cp r = Inr k)"
  by (auto simp: providerCandidates_def Let_def image_iff eq_commute[of "Inr k"] split: list.split)

text \<open>The ranked candidates are those of the admitted profiles, and nothing else.\<close>

lemma explore_ranked_iff:
  assumes inv: "registry_inv reg"
  shows "Inr k \<in> set (exploreCandidates (Some reg) ob cp) \<longleftrightarrow>
    (\<exists>pid \<in> set (cp_AllowedProviders cp). TrimSpace pid \<noteq> '''' \<and>
      (\<exists>r \<in> set (ProfilesForProvider reg pid). admitted (exploreObservation ob) cp (rp_Profile r) \<and>
        k = rankedPolicy (buildExploreCandidate cp r) (rp_Profile r)))"
proof -
  have "Inr k \<in> set (exploreCandidates (Some reg) ob cp) \<longleftrightarrow>
      (\<exists>pid \<in> set (cp_AllowedProviders cp).
        Inr k \<in> set (providerCandidates (Some reg) (exploreObservation ob) cp pid))"
    by (simp add: exploreCandidates_def)
  then show ?thesis
    by (simp only: in_providerCandidates_Inr) (metis evaluateResolved_Inr[OF inv])
qed

lemma length_providerCandidates:
  "length (providerCandidates (Some reg) obs cp pid) =
     (if TrimSpace pid = '''' then 0 else max 1 (length (ProfilesForProvider reg pid)))"
  by (simp add: providerCandidates_def Let_def split: list.split)

lemma length_exploreCandidates:
  "length (exploreCandidates (Some reg) ob cp) =
     (\<Sum>pid \<leftarrow> cp_AllowedProviders cp.
        if TrimSpace pid = '''' then 0 else max 1 (length (ProfilesForProvider reg pid)))"
  by (simp add: exploreCandidates_def length_concat comp_def length_providerCandidates)

text \<open>Every rejected candidate carries a reason, and the same findings are reported.\<close>

lemma evaluateResolved_Inl:
  assumes "evaluateResolved reg obs cp r = Inl j"
  shows "rj_RejectionReasons j \<noteq> [] \<and> rj_CompatibilityFindings j = rj_RejectionReasons j \<and>
    (\<forall>f \<in> set (rj_RejectionReasons j). af_Severity f = AssessmentFindingSeverityBlocking)"
  using assms
  by (auto simp: evaluateResolved_def Let_def lookupFailed_def rejectWith_def buildExploreCandidate_def
      fieldFinding_def blockingFinding_def split: option.splits if_splits)

lemma explore_rejected_reasons:
  assumes "Inl j \<in> set (exploreCandidates ro ob cp)"
  shows "rj_RejectionReasons j \<noteq> [] \<and> rj_CompatibilityFindings j = rj_RejectionReasons j \<and>
    (\<forall>f \<in> set (rj_RejectionReasons j). af_Severity f = AssessmentFindingSeverityBlocking)"
proof -
  from assms obtain pid where "Inl j \<in> set (providerCandidates ro (exploreObservation ob) cp pid)"
    by (auto simp: exploreCandidates_def)
  then consider "j = unresolvedProvider cp (TrimSpace pid)"
    | reg r where "evaluateResolved reg (exploreObservation ob) cp r = Inl j"
    by (auto simp: providerCandidates_def Let_def split: if_splits option.splits list.splits)
  then show ?thesis
  proof cases
    case 1
    then show ?thesis by (simp add: unresolvedProvider_def Let_def fieldFinding_def blockingFinding_def)
  next
    case 2
    then show ?thesis by (rule evaluateResolved_Inl)
  qed
qed

text \<open>Only the set of observed chains counts.\<close>

lemma explore_chain_set:
  assumes "wp_AccountKind ob = wp_AccountKind ob'" and "set (wp_ChainIDs ob) = set (wp_ChainIDs ob')"
  shows "EvaluateExploreCoucheA ro ob co = EvaluateExploreCoucheA ro ob' co"
proof -
  have n: "normalizeChainIDs (wp_ChainIDs ob) = normalizeChainIDs (wp_ChainIDs ob')"
    using assms(2) by (simp add: normalizeChainIDs_eq)
  have "exploreObservation ob = exploreObservation ob'"
    using assms(1) n by (simp add: exploreObservation_def)
  then have "exploreCandidates ro ob = exploreCandidates ro ob'"
    by (simp add: fun_eq_iff exploreCandidates_def)
  with n show ?thesis by (cases co) (simp_all add: EvaluateExploreCoucheA_def)
qed

section \<open>Properties\<close>

lemma EvaluateExploreCoucheA_ranked:
  "EvaluateExploreCoucheA ro ob (Some cp) = Inr d \<Longrightarrow>
   pd_RankedCandidates d = sort_key rk_CandidateID (rights (exploreCandidates ro ob cp)) \<and>
   pd_RejectedCandidates d = sort_key rj_CandidateID (lefts (exploreCandidates ro ob cp))"
  by (auto simp: EvaluateExploreCoucheA_def Let_def)

lemma EvaluateExploreCoucheA_total: "\<exists>d. EvaluateExploreCoucheA ro ob (Some cp) = Inr d"
  by (simp add: EvaluateExploreCoucheA_def Let_def)

text \<open>C20. Couche A membership: on a registry built from manifests without NUL bytes in their provider ids,
  the ranked candidates of an explore are exactly
  those of the profiles of the allowed providers whose suggested constraints are consistent and
  which the scan accepts (posture, wallet type, and a deployable scanned chain with the required
  capabilities unless no chain was scanned).\<close>

theorem explore_ranked_exact:
  assumes "registry_built reg" and "EvaluateExploreCoucheA (Some reg) ob (Some cp) = Inr d"
  shows "set (pd_RankedCandidates d) =
    {rankedPolicy (buildExploreCandidate cp r) (rp_Profile r) | pid r.
       pid \<in> set (cp_AllowedProviders cp) \<and> TrimSpace pid \<noteq> '''' \<and> r \<in> set (ProfilesForProvider reg pid) \<and>
       ValidateSuggestedUserConstraints (Some (rp_Profile r)) = None \<and>
       scan_ok (exploreObservation ob) (cp_RequiredPosture cp) (rp_Profile r)}"
  using EvaluateExploreCoucheA_ranked[OF assms(2)] explore_ranked_iff[OF registry_built_inv[OF assms(1)]]
  by (intro set_eqI) (simp add: admitted_def, blast)

definition eoa_scan :: WalletPayload where
  "eoa_scan = \<lparr>wp_AccountKind = ''eoa'', wp_ChainIDs = [137, 1]\<rparr>"

definition eoa_decision :: PolicyDecision where
  "eoa_decision = projr (EvaluateExploreCoucheA (Some nicetry_registry) eoa_scan (Some pq_policy))"

lemma eoa_decision_eq: "EvaluateExploreCoucheA (Some nicetry_registry) eoa_scan (Some pq_policy) = Inr eoa_decision"
  using EvaluateExploreCoucheA_total[of "Some nicetry_registry" eoa_scan pq_policy] by (auto simp: eoa_decision_def)

theorem explore_ranked_exact_witness:
  "set (pd_RankedCandidates eoa_decision) =
    {rankedPolicy (buildExploreCandidate pq_policy r) (rp_Profile r) | pid r.
       pid \<in> set (cp_AllowedProviders pq_policy) \<and> TrimSpace pid \<noteq> '''' \<and>
       r \<in> set (ProfilesForProvider nicetry_registry pid) \<and>
       ValidateSuggestedUserConstraints (Some (rp_Profile r)) = None \<and>
       scan_ok (exploreObservation eoa_scan) (cp_RequiredPosture pq_policy) (rp_Profile r)}
   \<and> map rk_CandidateID (pd_RankedCandidates eoa_decision) = [''nicetry/nicetry.fors_c.erc4337.v0_1'']"
proof
  show "map rk_CandidateID (pd_RankedCandidates eoa_decision) = [''nicetry/nicetry.fors_c.erc4337.v0_1'']"
    unfolding eoa_decision_def by code_simp
qed (rule explore_ranked_exact[OF nicetry_registry_built eoa_decision_eq])

text \<open>An explore loses no candidate: both lists are sorted by candidate id, and together they hold
  one entry for every profile of every allowed provider, or one entry for a provider that has none.\<close>

lemma explore_partition:
  assumes "EvaluateExploreCoucheA (Some reg) ob (Some cp) = Inr d"
  shows "sorted (map rk_CandidateID (pd_RankedCandidates d)) \<and>
    sorted (map rj_CandidateID (pd_RejectedCandidates d)) \<and>
    length (pd_RejectedCandidates d) + length (pd_RankedCandidates d) =
      (\<Sum>pid \<leftarrow> cp_AllowedProviders cp.
         if TrimSpace pid = '''' then 0 else max 1 (length (ProfilesForProvider reg pid)))"
  using EvaluateExploreCoucheA_ranked[OF assms] length_partition[of "exploreCandidates (Some reg) ob cp"]
  by (simp add: length_exploreCandidates)

text \<open>Every rejected candidate of an explore is explained: it carries at least one finding, the
  reported findings are its rejection reasons, and all of them are blocking.\<close>

lemma explore_rejections_explained:
  assumes "EvaluateExploreCoucheA ro ob (Some cp) = Inr d" and "j \<in> set (pd_RejectedCandidates d)"
  shows "rj_RejectionReasons j \<noteq> [] \<and> rj_CompatibilityFindings j = rj_RejectionReasons j \<and>
    (\<forall>f \<in> set (rj_RejectionReasons j). af_Severity f = AssessmentFindingSeverityBlocking)"
  using EvaluateExploreCoucheA_ranked[OF assms(1)] assms(2) by (intro explore_rejected_reasons) simp

lemma eoa_rejected: "hd (pd_RejectedCandidates eoa_decision) \<in> set (pd_RejectedCandidates eoa_decision)"
proof -
  have "length (pd_RejectedCandidates eoa_decision) = 1" unfolding eoa_decision_def by code_simp
  then show ?thesis by (intro hd_in_set) auto
qed

end
