(* ===== verification/Provider_Snapshot.thy ===== *)
theory Provider_Snapshot
  imports Persist_Payload
begin

text \<open>
  The snapshot assist of \<^verbatim>\<open>internal/domain/policy/accepted_provider_snapshot.go\<close>: it builds, from the
  registry, the \<^verbatim>\<open>accepted_provider_snapshot\<close> a client then submits for persistence. The lemmas show
  what a snapshot contains and that the parts of the persist gate that concern it hold for every
  snapshot the assist returns.
\<close>

section \<open>Operations\<close>

datatype assist_error =
    ErrSnapshotAssistCryptoPolicyRequired
  | ErrAssistPayloadInvalid profile_ref_error
  | ErrSnapshotAssistProviderNotAllowed string
  | ErrSnapshotAssistProfileNotFound string
  | ErrSnapshotAssistChainNotSupported
  | ErrSnapshotAssistFindingsUnknown string

record AssistInput =
  ai_CryptoPolicy :: "CryptoPolicy option"
  ai_SolutionProfileRef :: SolutionProfileRef
  ai_AcceptedFindings :: "string list"
  ai_Registry :: "Registry option"

record AssistResult =
  ar_SolutionProfileRef :: SolutionProfileRef
  ar_AcceptedProviderSnapshot :: AcceptedProviderSnapshot

definition providerAllowedByCryptoPolicy :: "CryptoPolicy option \<Rightarrow> string \<Rightarrow> bool" where
  "providerAllowedByCryptoPolicy co providerID =
     (case co of
        None \<Rightarrow> False
      | Some cp \<Rightarrow>
          let want = ToLower (TrimSpace providerID) in
          list_ex (\<lambda>pid. ToLower (TrimSpace pid) = want) (cp_AllowedProviders cp))"

definition persistableChain :: "ChainSupport \<Rightarrow> bool" where
  "persistableChain cs \<longleftrightarrow>
     \<not> (cs_ChainID cs \<le> 0 \<or> cs_Status cs = ChainStatusPlanned \<or> TrimSpace (cs_Status cs) = '''')"

definition snapshotChain :: "ChainSupport \<Rightarrow> SnapshotChainSupport" where
  "snapshotChain cs = \<lparr>sc_ChainID = cs_ChainID cs, sc_Status = cs_Status cs, sc_Capabilities = cs_Capabilities cs\<rparr>"

definition collectPersistableChainSupport :: "ChainSupport list \<Rightarrow> assist_error + SnapshotChainSupport list" where
  "collectPersistableChainSupport entries =
     (let out = map snapshotChain (filter persistableChain entries) in
      if out = [] then Inl ErrSnapshotAssistChainNotSupported
      else Inr (sort_key sc_ChainID out))"

fun mergeClientFindings :: "string list \<Rightarrow> assist_error + string list" where
  "mergeClientFindings [] = Inr []"
| "mergeClientFindings (code # rest) =
     (let c = TrimSpace code in
      if c = '''' then mergeClientFindings rest
      else if c \<notin> set [FindingCodeRequiresBundler, FindingCodeRequiresLocalSignerState]
      then Inl (ErrSnapshotAssistFindingsUnknown (Quote c))
      else case mergeClientFindings rest of Inl e \<Rightarrow> Inl e | Inr merged \<Rightarrow> Inr (c # merged))"

definition mergeAssistAcceptedFindings :: "SolutionProfile \<Rightarrow> string list \<Rightarrow> assist_error + string list" where
  "mergeAssistAcceptedFindings profile client =
     (case mergeClientFindings client of
        Inl e \<Rightarrow> Inl e
      | Inr merged \<Rightarrow>
          Inr (NormalizeAcceptedFindings (merged @ map hf_Code (EvaluateSoftFindings (Some profile)))))"

definition snapshotOf :: "SolutionProfile \<Rightarrow> SnapshotChainSupport list \<Rightarrow> string list \<Rightarrow> AcceptedProviderSnapshot" where
  "snapshotOf profile chs findings =
     \<lparr>as_Maturity = sp_Maturity profile, as_ClaimStatus = sp_ClaimStatus profile,
      as_ResultingPosture = sp_ResultingPosture profile,
      as_InputRequirements = sp_InputRequirements profile, as_Signature = sp_Signature profile,
      as_AccountModel = sp_AccountModel profile, as_Constraints = sp_Constraints profile,
      as_ChainSupportUsed = chs, as_References = sp_References profile,
      as_AcceptedFindings = findings, as_AcceptedRiskNotes = sp_RiskNotes profile\<rparr>"

definition BuildAcceptedProviderSnapshot :: "AssistInput \<Rightarrow> assist_error + AssistResult" where
  "BuildAcceptedProviderSnapshot inp =
     (case ai_CryptoPolicy inp of
        None \<Rightarrow> Inl ErrSnapshotAssistCryptoPolicyRequired
      | Some cp \<Rightarrow>
          let ref = normalizeRef (ai_SolutionProfileRef inp) in
          case SolutionProfileRef_Validate ref of
            Some e \<Rightarrow> Inl (ErrAssistPayloadInvalid e)
          | None \<Rightarrow>
              if \<not> providerAllowedByCryptoPolicy (Some cp) (spr_ProviderID ref)
              then Inl (ErrSnapshotAssistProviderNotAllowed
                (''provider_id '' @ Quote (spr_ProviderID ref) @ '' not in allowed_providers for '' @ cp_ID cp))
              else
                case ai_Registry inp of
                  None \<Rightarrow> Inl (ErrSnapshotAssistProfileNotFound '''')
                | Some reg \<Rightarrow>
                    (case Lookup reg \<lparr>pr_ProviderID = spr_ProviderID ref,
                        pr_SolutionProfileID = spr_SolutionProfileID ref,
                        pr_ManifestVersion = spr_ManifestVersion ref\<rparr> of
                       None \<Rightarrow> Inl (ErrSnapshotAssistProfileNotFound
                         (spr_ProviderID ref @ ''/'' @ spr_SolutionProfileID ref @ '' (manifest_version '' @
                          Quote (spr_ManifestVersion ref) @ '')''))
                     | Some resolved \<Rightarrow>
                         (case collectPersistableChainSupport (sp_ChainSupport (rp_Profile resolved)) of
                            Inl e \<Rightarrow> Inl e
                          | Inr chs \<Rightarrow>
                         (case mergeAssistAcceptedFindings (rp_Profile resolved) (ai_AcceptedFindings inp) of
                            Inl e \<Rightarrow> Inl e
                          | Inr findings \<Rightarrow>
                              Inr \<lparr>ar_SolutionProfileRef =
                                     \<lparr>spr_ProviderID = rp_ProviderID resolved,
                                      spr_SolutionProfileID = sp_SolutionProfileID (rp_Profile resolved),
                                      spr_ManifestVersion = rp_ProviderVersion resolved,
                                      spr_VerificationDate = spr_VerificationDate ref\<rparr>,
                                   ar_AcceptedProviderSnapshot =
                                     snapshotOf (rp_Profile resolved) chs findings\<rparr>))))"

section \<open>What a snapshot contains\<close>

lemma mergeClientFindings_Inr:
  "mergeClientFindings client = Inr out \<Longrightarrow>
   set out = TrimSpace ` set client - {[]} \<and>
   set out \<subseteq> {FindingCodeRequiresBundler, FindingCodeRequiresLocalSignerState}"
proof (induction client arbitrary: out)
  case (Cons code rest)
  then show ?case by (auto simp: Let_def split: if_splits sum.splits)
qed simp

lemma soft_codes:
  "hf_Code ` set (EvaluateSoftFindings (Some p)) =
     (if am_RequiresBundler (sp_AccountModel p) then {FindingCodeRequiresBundler} else {}) \<union>
     (if pc_RequiresLocalSignerState (sp_Constraints p) then {FindingCodeRequiresLocalSignerState} else {})"
  by (auto simp: EvaluateSoftFindings_def)

lemma mergeAssist_Inr:
  assumes "mergeAssistAcceptedFindings p client = Inr out"
  shows "out = sorted_list_of_set (set out)"
    and "am_RequiresBundler (sp_AccountModel p) \<Longrightarrow> FindingCodeRequiresBundler \<in> set out"
    and "pc_RequiresLocalSignerState (sp_Constraints p) \<Longrightarrow> FindingCodeRequiresLocalSignerState \<in> set out"
    and "set out \<subseteq> {FindingCodeRequiresBundler, FindingCodeRequiresLocalSignerState}"
proof -
  from assms obtain merged where m: "mergeClientFindings client = Inr merged"
    and out: "out = sorted_list_of_set (set merged \<union> hf_Code ` set (EvaluateSoftFindings (Some p)))"
    by (auto simp: mergeAssistAcceptedFindings_def NormalizeAcceptedFindings_eq split: sum.splits)
  have so: "set out = set merged \<union> hf_Code ` set (EvaluateSoftFindings (Some p))"
    unfolding out by (rule set_sorted_list_of_set) simp
  show "out = sorted_list_of_set (set out)" unfolding so by (rule out)
  show "am_RequiresBundler (sp_AccountModel p) \<Longrightarrow> FindingCodeRequiresBundler \<in> set out"
    and "pc_RequiresLocalSignerState (sp_Constraints p) \<Longrightarrow> FindingCodeRequiresLocalSignerState \<in> set out"
    unfolding so soft_codes by simp_all
  show "set out \<subseteq> {FindingCodeRequiresBundler, FindingCodeRequiresLocalSignerState}"
    using mergeClientFindings_Inr[OF m] unfolding so soft_codes by auto
qed

lemma collectPersistable_Inr:
  assumes "collectPersistableChainSupport es = Inr chs"
  shows "chs \<noteq> []" and "sorted (map sc_ChainID chs)"
    and "mset chs = mset (map snapshotChain (filter persistableChain es))"
  using assms by (auto simp: collectPersistableChainSupport_def Let_def split: if_splits)
    (metis length_0_conv length_map length_sort)

lemma BuildAcceptedProviderSnapshot_Inr:
  assumes "BuildAcceptedProviderSnapshot inp = Inr res"
  obtains cp reg resolved chs findings where "ai_CryptoPolicy inp = Some cp" and "ai_Registry inp = Some reg"
    and "providerAllowedByCryptoPolicy (Some cp) (spr_ProviderID (normalizeRef (ai_SolutionProfileRef inp)))"
    and "Lookup reg \<lparr>pr_ProviderID = spr_ProviderID (normalizeRef (ai_SolutionProfileRef inp)),
        pr_SolutionProfileID = spr_SolutionProfileID (normalizeRef (ai_SolutionProfileRef inp)),
        pr_ManifestVersion = spr_ManifestVersion (normalizeRef (ai_SolutionProfileRef inp))\<rparr> = Some resolved"
    and "collectPersistableChainSupport (sp_ChainSupport (rp_Profile resolved)) = Inr chs"
    and "mergeAssistAcceptedFindings (rp_Profile resolved) (ai_AcceptedFindings inp) = Inr findings"
    and "res = \<lparr>ar_SolutionProfileRef =
        \<lparr>spr_ProviderID = rp_ProviderID resolved, spr_SolutionProfileID = sp_SolutionProfileID (rp_Profile resolved),
         spr_ManifestVersion = rp_ProviderVersion resolved,
         spr_VerificationDate = spr_VerificationDate (normalizeRef (ai_SolutionProfileRef inp))\<rparr>,
        ar_AcceptedProviderSnapshot = snapshotOf (rp_Profile resolved) chs findings\<rparr>"
  using assms unfolding BuildAcceptedProviderSnapshot_def Let_def
  by (auto split: option.splits if_splits sum.splits)

text \<open>A resolved profile of a built registry is a profile of a loaded manifest, in normal form.\<close>

lemma Lookup_entry:
  assumes inv: "registry_inv reg" and l: "Lookup reg ref = Some resolved"
  obtains m p b where "loaded_manifest m" and "p \<in> set (pm_SolutionProfiles m)" and "resolved = entry_of m p b"
proof -
  have "map_of (reg_byKey reg) (profileKey (pr_ProviderID ref) (pr_SolutionProfileID ref)) = Some resolved"
    using l by (auto simp: Lookup_def Let_def split: option.splits if_splits)
  then have "(profileKey (pr_ProviderID ref) (pr_SolutionProfileID ref), resolved) \<in> set (reg_byKey reg)"
    by (rule map_of_SomeD)
  then obtain k m p b where "(k, m) \<in> set (reg_manifests reg)" "p \<in> set (pm_SolutionProfiles m)" "resolved = entry_of m p b"
    by (rule registry_inv_entry[OF inv])
  then show thesis using registry_inv_manifest(2)[OF inv] that by blast
qed

lemma loaded_profile_normal:
  assumes "loaded_manifest m" and "p \<in> set (pm_SolutionProfiles m)"
  shows "normalizeSolutionProfile p = p"
proof -
  have "pm_SolutionProfiles (Normalize m) = pm_SolutionProfiles m"
    using assms(1) by (simp add: loaded_manifest_def)
  then have "map normalizeSolutionProfile (pm_SolutionProfiles m) = pm_SolutionProfiles m"
    by (simp add: Normalize_def)
  with assms(2) obtain q where "p = normalizeSolutionProfile q" by (metis imageE image_set)
  then show ?thesis by simp
qed

section \<open>A snapshot against the persist gate\<close>

definition assistPayload :: "CryptoPolicy \<Rightarrow> UserConstraints \<Rightarrow> AssistResult \<Rightarrow> CryptoPolicyPersistPayload" where
  "assistPayload cp uc res =
     \<lparr>pp_SchemaVersion = CryptoPolicySchemaVersionV02, pp_PolicyKind = '''', pp_CryptoPolicyID = cp_ID cp,
      pp_RequiredPosture = cp_RequiredPosture cp, pp_UserConstraints = uc,
      pp_SolutionProfileRef = ar_SolutionProfileRef res,
      pp_AcceptedProviderSnapshot = ar_AcceptedProviderSnapshot res,
      pp_AcceptedFindings = as_AcceptedFindings (ar_AcceptedProviderSnapshot res)\<rparr>"

lemma normalized_profile_fields:
  fixes p defines "q \<equiv> normalizeSolutionProfile p"
  shows "TrimSpace (sp_SolutionProfileID q) = sp_SolutionProfileID q" "TrimSpace (sp_Maturity q) = sp_Maturity q"
    "TrimSpace (sp_ClaimStatus q) = sp_ClaimStatus q" "TrimSpace (sp_ResultingPosture q) = sp_ResultingPosture q"
    "normalizeSignature (sp_Signature q) = sp_Signature q"
    "map normalizeReference (sp_References q) = sp_References q"
    "dedupeStrings (sp_RiskNotes q) = sp_RiskNotes q"
    "map normalizeChainSupport (sp_ChainSupport q) = sp_ChainSupport q"
  by (simp_all add: q_def normalizeSolutionProfile_def)

lemma normalized_chain_status:
  "TrimSpace (cs_Status (normalizeChainSupport cs)) = cs_Status (normalizeChainSupport cs)"
  by (simp add: normalizeChainSupport_def)

lemma trimNonEmpty_id: "(\<And>s. s \<in> set xs \<Longrightarrow> TrimSpace s = s \<and> s \<noteq> []) \<Longrightarrow> trimNonEmpty xs = xs"
  unfolding trimNonEmpty_def by (induction xs) auto

lemma dedupeStrings_trimNonEmpty: "trimNonEmpty (dedupeStrings xs) = dedupeStrings xs"
  by (rule trimNonEmpty_id) (auto simp: dedupeStrings_set)

lemma soft_code_shape:
  "c \<in> {FindingCodeRequiresBundler, FindingCodeRequiresLocalSignerState} \<Longrightarrow> TrimSpace c = c \<and> c \<noteq> []"
  by (auto simp: finding_code_defs visible_def byte_of_def intro!: TrimSpace_visible)

lemma snapshotOf_normal:
  assumes p: "normalizeSolutionProfile p = p"
    and c: "set chs \<subseteq> snapshotChain ` set (sp_ChainSupport p)"
    and f: "set findings \<subseteq> {FindingCodeRequiresBundler, FindingCodeRequiresLocalSignerState}"
  shows "normalizeSnapshot (snapshotOf p chs findings) = snapshotOf p chs findings"
proof -
  note n = normalized_profile_fields[of p, unfolded p]
  have "c\<lparr>sc_Status := TrimSpace (sc_Status c)\<rparr> = c" if "c \<in> set chs" for c
  proof -
    from that c obtain cs where cs: "cs \<in> set (sp_ChainSupport p)" "c = snapshotChain cs" by blast
    have "cs \<in> set (map normalizeChainSupport (sp_ChainSupport p))" unfolding n(8) by (rule cs(1))
    then have "TrimSpace (cs_Status cs) = cs_Status cs" by (auto simp: normalized_chain_status)
    then show ?thesis by (simp add: cs(2) snapshotChain_def)
  qed
  then have "map (\<lambda>c. c\<lparr>sc_Status := TrimSpace (sc_Status c)\<rparr>) chs = chs" by (simp add: map_idI)
  moreover have "trimNonEmpty findings = findings" using f by (intro trimNonEmpty_id soft_code_shape) blast
  moreover have "trimNonEmpty (sp_RiskNotes p) = sp_RiskNotes p"
    using dedupeStrings_trimNonEmpty[of "sp_RiskNotes p"] n(7) by simp
  ultimately show ?thesis by (simp add: normalizeSnapshot_def snapshotOf_def n)
qed

lemma snapshotOf_ok:
  assumes p: "profile_wf p"
    and c: "collectPersistableChainSupport (sp_ChainSupport p) = Inr chs"
  shows "snapshot_ok (snapshotOf p chs findings)"
proof -
  have "set chs = snapshotChain ` set (filter persistableChain (sp_ChainSupport p))"
    using arg_cong[OF collectPersistable_Inr(3)[OF c], of set_mset] by simp
  then have "\<forall>x \<in> set chs. 0 < sc_ChainID x \<and> sc_Status x \<noteq> '''' \<and> sc_Status x \<noteq> ChainStatusPlanned"
    by (auto simp: snapshotChain_def persistableChain_def)
  moreover have "sp_Maturity p \<noteq> ''''" using p by (auto simp: profile_wf_def maturities_def)
  ultimately show ?thesis
    using p collectPersistable_Inr(1)[OF c] by (simp add: snapshot_ok_def snapshotOf_def profile_wf_def)
qed

lemma snapshotOf_findings_ok:
  assumes "mergeAssistAcceptedFindings p client = Inr findings"
    and "pp_AcceptedProviderSnapshot q = snapshotOf p chs findings" and "pp_AcceptedFindings q = findings"
  shows "findings_ok q"
  using mergeAssist_Inr(2,3)[OF assms(1)]
  by (auto simp: findings_ok_def effective_findings_def assms(2,3) snapshotOf_def Let_def)

lemma assist_snapshot:
  assumes reg: "registry_built reg" and inp: "ai_Registry inp = Some reg"
    and b: "BuildAcceptedProviderSnapshot inp = Inr res"
  obtains m p v chs findings where "loaded_manifest m" and "p \<in> set (pm_SolutionProfiles m)"
    and "collectPersistableChainSupport (sp_ChainSupport p) = Inr chs"
    and "mergeAssistAcceptedFindings p (ai_AcceptedFindings inp) = Inr findings"
    and "TrimSpace v = v"
    and "res = \<lparr>ar_SolutionProfileRef = \<lparr>spr_ProviderID = pm_ProviderID m,
          spr_SolutionProfileID = sp_SolutionProfileID p, spr_ManifestVersion = pm_ProviderVersion m,
          spr_VerificationDate = v\<rparr>,
        ar_AcceptedProviderSnapshot = snapshotOf p chs findings\<rparr>"
proof (rule BuildAcceptedProviderSnapshot_Inr[OF b])
  fix cp reg' resolved chs findings
  assume "ai_Registry inp = Some reg'"
    and l: "Lookup reg' \<lparr>pr_ProviderID = spr_ProviderID (normalizeRef (ai_SolutionProfileRef inp)),
        pr_SolutionProfileID = spr_SolutionProfileID (normalizeRef (ai_SolutionProfileRef inp)),
        pr_ManifestVersion = spr_ManifestVersion (normalizeRef (ai_SolutionProfileRef inp))\<rparr> = Some resolved"
    and c: "collectPersistableChainSupport (sp_ChainSupport (rp_Profile resolved)) = Inr chs"
    and f: "mergeAssistAcceptedFindings (rp_Profile resolved) (ai_AcceptedFindings inp) = Inr findings"
    and r: "res = \<lparr>ar_SolutionProfileRef =
        \<lparr>spr_ProviderID = rp_ProviderID resolved, spr_SolutionProfileID = sp_SolutionProfileID (rp_Profile resolved),
         spr_ManifestVersion = rp_ProviderVersion resolved,
         spr_VerificationDate = spr_VerificationDate (normalizeRef (ai_SolutionProfileRef inp))\<rparr>,
        ar_AcceptedProviderSnapshot = snapshotOf (rp_Profile resolved) chs findings\<rparr>"
  then have "reg' = reg" using inp by simp
  then obtain m p bb where m: "loaded_manifest m" "p \<in> set (pm_SolutionProfiles m)" "resolved = entry_of m p bb"
    using Lookup_entry[OF registry_built_inv[OF reg]] l by blast
  show thesis
  proof (rule that[OF m(1,2), of chs findings "spr_VerificationDate (normalizeRef (ai_SolutionProfileRef inp))"])
    show "TrimSpace (spr_VerificationDate (normalizeRef (ai_SolutionProfileRef inp))) =
        spr_VerificationDate (normalizeRef (ai_SolutionProfileRef inp))" by (simp add: normalizeRef_def)
  qed (use c f r m(3) in \<open>simp_all add: entry_of_def\<close>)
qed

text \<open>The payload built from an assist result is already normal, and the parts of the gate that
  concern the snapshot hold.\<close>

lemma assistPayload_gate:
  assumes reg: "registry_built reg" and inp: "ai_Registry inp = Some reg"
    and b: "BuildAcceptedProviderSnapshot inp = Inr res"
    and cp: "crypto_policy_wf cp" "TrimSpace (cp_ID cp) = cp_ID cp"
    and uc: "uc_KeyRotationModel uc \<in> set rotation_models"
  defines "q \<equiv> assistPayload cp uc res"
  shows "normalizePayload q = q" and "identity_ok q" and "snapshot_ok (pp_AcceptedProviderSnapshot q)" and "findings_ok q"
proof -
  obtain m p v chs findings where m: "loaded_manifest m" and p: "p \<in> set (pm_SolutionProfiles m)"
    and c: "collectPersistableChainSupport (sp_ChainSupport p) = Inr chs"
    and f: "mergeAssistAcceptedFindings p (ai_AcceptedFindings inp) = Inr findings"
    and v: "TrimSpace v = v"
    and r: "res = \<lparr>ar_SolutionProfileRef = \<lparr>spr_ProviderID = pm_ProviderID m,
          spr_SolutionProfileID = sp_SolutionProfileID p, spr_ManifestVersion = pm_ProviderVersion m,
          spr_VerificationDate = v\<rparr>,
        ar_AcceptedProviderSnapshot = snapshotOf p chs findings\<rparr>"
    using assist_snapshot[OF reg inp b] .
  note t = loaded_manifest_trimmed[OF m]
  have rot: "TrimSpace (uc_KeyRotationModel uc) = uc_KeyRotationModel uc"
    using uc by (auto simp: rotation_models_def visible_def byte_of_def intro!: TrimSpace_visible)
  have q: "TrimSpace (cp_RequiredPosture cp) = cp_RequiredPosture cp"
    using cp(1) by (simp add: crypto_policy_wf_def postures_trimmed)
  have sv: "TrimSpace CryptoPolicySchemaVersionV02 = CryptoPolicySchemaVersionV02" by code_simp
  have "set chs = snapshotChain ` set (filter persistableChain (sp_ChainSupport p))"
    using arg_cong[OF collectPersistable_Inr(3)[OF c], of set_mset] by simp
  then have "set chs \<subseteq> snapshotChain ` set (sp_ChainSupport p)" by auto
  then have "normalizeSnapshot (snapshotOf p chs findings) = snapshotOf p chs findings"
    using loaded_profile_normal[OF m p] mergeAssist_Inr(4)[OF f] by (intro snapshotOf_normal)
  then show "normalizePayload q = q"
    by (simp add: q_def assistPayload_def normalizePayload_def normalizeRef_def r rot q sv cp(2) v t p)
  show "identity_ok q"
    using cp(1) uc m p
    by (simp add: identity_ok_def q_def assistPayload_def r crypto_policy_wf_def loaded_manifest_def manifest_wf_def
        profile_wf_def)
  show "snapshot_ok (pp_AcceptedProviderSnapshot q)"
    using snapshotOf_ok[OF loaded_profile_posture(2)[OF m p] c] by (simp add: q_def assistPayload_def r)
  show "findings_ok q"
    by (rule snapshotOf_findings_ok[OF f]) (simp_all add: q_def assistPayload_def r snapshotOf_def)
qed

section \<open>Properties\<close>

text \<open>C21. The assist and the persist gate agree: a payload assembled from a loaded policy, a snapshot the
  assist returned on a registry built from manifests without NUL bytes in their provider ids, and a known rotation model passes the gate of a closed
  payload exactly when its references are pinned, the profile's posture is the required one, the
  profile takes an EOA and the user's constraints fit the profile; the identity, the snapshot's
  completeness, its chains and its soft findings can no longer fail.\<close>

theorem assist_passes_gate:
  assumes "registry_built reg" and "ai_Registry inp = Some reg"
    and "BuildAcceptedProviderSnapshot inp = Inr res"
    and "CryptoPolicy_NormalizeAndValidate cp0 = Inr cp"
    and "uc_KeyRotationModel uc \<in> set rotation_models"
  shows "ValidateForPersist (Some (assistPayload cp uc res)) greenfield = None \<longleftrightarrow>
    references_ok (as_References (ar_AcceptedProviderSnapshot res)) \<and>
    as_ResultingPosture (ar_AcceptedProviderSnapshot res) = cp_RequiredPosture cp \<and>
    walletTypeAccepted ''EOA'' (ir_WalletTypes (as_InputRequirements (ar_AcceptedProviderSnapshot res))) \<and>
    user_ok uc (snapshotAsProfile (assistPayload cp uc res))"
proof -
  have wf: "crypto_policy_wf cp" using crypto_policy.load_valid[OF assms(4)] by (simp add: CryptoPolicy_Validate_wf)
  have "cp_ID (CryptoPolicy_Normalize cp) = TrimSpace (cp_ID cp)" by (simp add: CryptoPolicy_Normalize_def)
  then have "TrimSpace (cp_ID cp) = cp_ID cp" using crypto_policy.load_canonical[OF assms(4)] by simp
  note g = assistPayload_gate[OF assms(1-3) wf this assms(5)]
  show ?thesis
    unfolding ValidateForPersist_None g(1) persistable_greenfield
    using g(2-4) by (simp add: assistPayload_def)
qed

definition nicetry_input :: AssistInput where
  "nicetry_input =
     \<lparr>ai_CryptoPolicy = Some pq_policy,
      ai_SolutionProfileRef = \<lparr>spr_ProviderID = ''NiceTry'', spr_SolutionProfileID = ''nicetry.fors_c.erc4337.v0_1'',
        spr_ManifestVersion = ''2026-08'', spr_VerificationDate = ''''\<rparr>,
      ai_AcceptedFindings = [''requires_bundler''], ai_Registry = Some nicetry_registry\<rparr>"

definition nicetry_result :: AssistResult where
  "nicetry_result = projr (BuildAcceptedProviderSnapshot nicetry_input)"

lemma nicetry_assist: "BuildAcceptedProviderSnapshot nicetry_input = Inr nicetry_result"
proof -
  have "\<not> isl (BuildAcceptedProviderSnapshot nicetry_input)" by code_simp
  then show ?thesis by (simp add: nicetry_result_def)
qed

definition nicetry_choice :: UserConstraints where
  "nicetry_choice = \<lparr>uc_AllowNewWallet = True, uc_AddressContinuityRequired = False, uc_KeyRotationModel = ''per_userop''\<rparr>"

lemma nicetry_passes: "ValidateForPersist (Some (assistPayload pq_policy nicetry_choice nicetry_result)) greenfield = None"
  unfolding nicetry_result_def by code_simp

theorem assist_passes_gate_witness:
  "references_ok (as_References (ar_AcceptedProviderSnapshot nicetry_result)) \<and>
   as_ResultingPosture (ar_AcceptedProviderSnapshot nicetry_result) = cp_RequiredPosture pq_policy"
proof -
  have "ai_Registry nicetry_input = Some nicetry_registry" by (simp add: nicetry_input_def)
  moreover have "uc_KeyRotationModel nicetry_choice \<in> set rotation_models"
    by (simp add: nicetry_choice_def rotation_models_def)
  ultimately show ?thesis
    using assist_passes_gate[OF nicetry_registry_built _ nicetry_assist pq_policy_load] nicetry_passes by blast
qed

lemma loaded_chain_persistable:
  assumes "loaded_manifest m" and "p \<in> set (pm_SolutionProfiles m)" and "cs \<in> set (sp_ChainSupport p)"
  shows "persistableChain cs \<longleftrightarrow> cs_Status cs \<noteq> ChainStatusPlanned"
proof -
  have "0 < cs_ChainID cs" "cs_Status cs \<in> set chain_statuses"
    using assms(3) loaded_profile_posture(2)[OF assms(1,2)] by (auto simp: profile_wf_def chain_support_wf_def)
  moreover have "TrimSpace s \<noteq> ''''" if "s \<in> set chain_statuses" for s
    using that by (auto simp: chain_statuses_def visible_def byte_of_def TrimSpace_visible)
  ultimately show ?thesis by (auto simp: persistableChain_def)
qed

lemma mergeAssist_eq:
  assumes "mergeAssistAcceptedFindings p client = Inr findings"
  shows "findings = sorted_list_of_set
    (TrimSpace ` set client - {[]} \<union> hf_Code ` set (EvaluateSoftFindings (Some p)))"
proof -
  obtain merged where "mergeClientFindings client = Inr merged"
    and "findings = sorted_list_of_set (set merged \<union> hf_Code ` set (EvaluateSoftFindings (Some p)))"
    using assms by (auto simp: mergeAssistAcceptedFindings_def NormalizeAcceptedFindings_eq split: sum.splits)
  then show ?thesis using mergeClientFindings_Inr[of client merged] by simp
qed

text \<open>C35. Of a registry built from manifests whose provider ids contain no NUL byte: the assist answers
  for the profile that \<^verbatim>\<open>Lookup\<close> resolves for the provider id, the profile id and the manifest version
  of the request's reference. The answer names that profile and the version of its manifest, with the
  verification date of the request; the snapshot carries the profile's own maturity, claim, posture,
  requirements, signature, account model, constraints, references and risk notes. Its chain support
  is exactly every chain of that profile that is not planned, each with its status and capabilities,
  sorted by chain id; its findings are exactly the profile's soft findings together with the ones the
  client accepted, sorted and without repetitions.\<close>

theorem assist_snapshot_content:
  assumes "registry_built reg" and "ai_Registry inp = Some reg"
    and "BuildAcceptedProviderSnapshot inp = Inr res"
  shows "\<exists>rp chs. Lookup reg \<lparr>pr_ProviderID = spr_ProviderID (ai_SolutionProfileRef inp),
      pr_SolutionProfileID = spr_SolutionProfileID (ai_SolutionProfileRef inp),
      pr_ManifestVersion = spr_ManifestVersion (ai_SolutionProfileRef inp)\<rparr> = Some rp \<and>
    ar_SolutionProfileRef res = \<lparr>spr_ProviderID = rp_ProviderID rp,
      spr_SolutionProfileID = sp_SolutionProfileID (rp_Profile rp), spr_ManifestVersion = rp_ProviderVersion rp,
      spr_VerificationDate = TrimSpace (spr_VerificationDate (ai_SolutionProfileRef inp))\<rparr> \<and>
    ar_AcceptedProviderSnapshot res = snapshotOf (rp_Profile rp) chs
      (sorted_list_of_set (TrimSpace ` set (ai_AcceptedFindings inp) - {[]} \<union>
         hf_Code ` set (EvaluateSoftFindings (Some (rp_Profile rp))))) \<and>
    sorted (map sc_ChainID chs) \<and>
    mset chs = mset (map snapshotChain
      (filter (\<lambda>cs. cs_Status cs \<noteq> ChainStatusPlanned) (sp_ChainSupport (rp_Profile rp))))"
proof -
  let ?ref = "normalizeRef (ai_SolutionProfileRef inp)"
  obtain rp chs findings where l: "Lookup reg \<lparr>pr_ProviderID = spr_ProviderID ?ref,
        pr_SolutionProfileID = spr_SolutionProfileID ?ref, pr_ManifestVersion = spr_ManifestVersion ?ref\<rparr> = Some rp"
    and c: "collectPersistableChainSupport (sp_ChainSupport (rp_Profile rp)) = Inr chs"
    and f: "mergeAssistAcceptedFindings (rp_Profile rp) (ai_AcceptedFindings inp) = Inr findings"
    and r: "res = \<lparr>ar_SolutionProfileRef =
        \<lparr>spr_ProviderID = rp_ProviderID rp, spr_SolutionProfileID = sp_SolutionProfileID (rp_Profile rp),
         spr_ManifestVersion = rp_ProviderVersion rp, spr_VerificationDate = spr_VerificationDate ?ref\<rparr>,
        ar_AcceptedProviderSnapshot = snapshotOf (rp_Profile rp) chs findings\<rparr>"
    using BuildAcceptedProviderSnapshot_Inr[OF assms(3)] assms(2) by (metis option.inject)
  obtain m p b where m: "loaded_manifest m" "p \<in> set (pm_SolutionProfiles m)" and "rp = entry_of m p b"
    using Lookup_entry[OF registry_built_inv[OF assms(1)] l] .
  then have p: "rp_Profile rp = p" by (simp add: entry_of_def)
  have "filter persistableChain (sp_ChainSupport p) = filter (\<lambda>cs. cs_Status cs \<noteq> ChainStatusPlanned) (sp_ChainSupport p)"
    using loaded_chain_persistable[OF m] by (rule filter_cong[OF refl])
  then have "mset chs = mset (map snapshotChain
      (filter (\<lambda>cs. cs_Status cs \<noteq> ChainStatusPlanned) (sp_ChainSupport (rp_Profile rp))))"
    using collectPersistable_Inr(3)[OF c] by (simp add: p)
  moreover have "Lookup reg \<lparr>pr_ProviderID = spr_ProviderID (ai_SolutionProfileRef inp),
      pr_SolutionProfileID = spr_SolutionProfileID (ai_SolutionProfileRef inp),
      pr_ManifestVersion = spr_ManifestVersion (ai_SolutionProfileRef inp)\<rparr> = Some rp"
    using l by (simp add: Lookup_def profileKey_def normalizeRef_def cong: option.case_cong)
  ultimately show ?thesis
    using collectPersistable_Inr(2)[OF c] mergeAssist_eq[OF f]
    by (intro exI[of _ rp] exI[of _ chs]) (simp add: r normalizeRef_def)
qed

theorem assist_snapshot_content_witness:
  "\<exists>rp chs. Lookup nicetry_registry \<lparr>pr_ProviderID = spr_ProviderID (ai_SolutionProfileRef nicetry_input),
      pr_SolutionProfileID = spr_SolutionProfileID (ai_SolutionProfileRef nicetry_input),
      pr_ManifestVersion = spr_ManifestVersion (ai_SolutionProfileRef nicetry_input)\<rparr> = Some rp \<and>
    as_ChainSupportUsed (ar_AcceptedProviderSnapshot nicetry_result) = chs \<and> sorted (map sc_ChainID chs) \<and>
    mset chs = mset (map snapshotChain
      (filter (\<lambda>cs. cs_Status cs \<noteq> ChainStatusPlanned) (sp_ChainSupport (rp_Profile rp))))"
proof -
  have "ai_Registry nicetry_input = Some nicetry_registry" by (simp add: nicetry_input_def)
  from assist_snapshot_content[OF nicetry_registry_built this nicetry_assist]
  show ?thesis by (elim exE conjE) (simp add: snapshotOf_def)
qed

end
