(* ===== verification/Read_Store.thy ===== *)
theory Read_Store
  imports Explore Provider_Snapshot Persist_Handlers
begin

text \<open>
  The catalogue the service loads at start: \<^verbatim>\<open>LoadReadStore\<close> of \<^verbatim>\<open>internal/api/read_api.go\<close> and the scan
  of a directory in \<^verbatim>\<open>internal/api/catalogue_load.go\<close>, with the decoding of manifests and crypto
  policies from JSON. The file system is a parameter: the entries of a directory and what a file
  holds, a JSON document, bytes that are not JSON, or an error. Log lines and the two counters are
  part of the result. The lemmas show what a loaded store satisfies and that a bad file never
  affects the others.
\<close>

section \<open>Decoding a catalogue file\<close>

definition dec_ptr :: "((string \<times> json) list \<Rightarrow> 'a option) \<Rightarrow> json option \<Rightarrow> 'a option option" where
  "dec_ptr d v =
     (case v of None \<Rightarrow> Some None | Some JNull \<Rightarrow> Some None | Some j \<Rightarrow> map_option Some (dec_struct d (Some j)))"

definition doc_SuggestedUserConstraints :: "json gomap \<Rightarrow> SuggestedUserConstraints option" where
  "doc_SuggestedUserConstraints o' = do {
     a \<leftarrow> dec_bool (doc_field o' ''allow_new_wallet'');
     b \<leftarrow> dec_bool (doc_field o' ''address_continuity_required'');
     k \<leftarrow> dec_string (doc_field o' ''key_rotation_model'');
     Some \<lparr>su_AllowNewWallet = a, su_AddressContinuityRequired = b, su_KeyRotationModel = k\<rparr> }"

definition doc_InputRequirements :: "json gomap \<Rightarrow> InputRequirements option" where
  "doc_InputRequirements o' = do {
     w \<leftarrow> dec_list dec_string (doc_field o' ''wallet_types'');
     r \<leftarrow> dec_bool (doc_field o' ''requires_wallet_control_proof'');
     Some \<lparr>ir_WalletTypes = w, ir_RequiresWalletControlProof = r\<rparr> }"

definition doc_SignatureProfile :: "json gomap \<Rightarrow> SignatureProfile option" where
  "doc_SignatureProfile o' = do {
     s \<leftarrow> dec_string (doc_field o' ''scheme'');
     f \<leftarrow> dec_string (doc_field o' ''family'');
     k \<leftarrow> dec_string (doc_field o' ''key_rotation_model'');
     Some \<lparr>sig_Scheme = s, sig_Family = f, sig_KeyRotationModel = k\<rparr> }"

definition doc_AccountModel :: "json gomap \<Rightarrow> AccountModel option" where
  "doc_AccountModel o' = do {
     s \<leftarrow> dec_string (doc_field o' ''standard'');
     e \<leftarrow> dec_string (doc_field o' ''execution_model'');
     b \<leftarrow> dec_bool (doc_field o' ''requires_bundler'');
     r \<leftarrow> dec_bool (doc_field o' ''requires_entrypoint'');
     v \<leftarrow> dec_list dec_string (doc_field o' ''entrypoint_versions'');
     Some \<lparr>am_Standard = s, am_ExecutionModel = e, am_RequiresBundler = b, am_RequiresEntrypoint = r,
       am_EntrypointVersions = v\<rparr> }"

definition doc_ProfileConstraints :: "json gomap \<Rightarrow> ProfileConstraints option" where
  "doc_ProfileConstraints o' = do {
     n \<leftarrow> dec_bool (doc_field o' ''requires_new_account'');
     a \<leftarrow> dec_bool (doc_field o' ''address_continuity_supported'');
     l \<leftarrow> dec_bool (doc_field o' ''requires_local_signer_state'');
     Some \<lparr>pc_RequiresNewAccount = n, pc_AddressContinuitySupported = a, pc_RequiresLocalSignerState = l\<rparr> }"

definition doc_ChainSupport :: "json gomap \<Rightarrow> ChainSupport option" where
  "doc_ChainSupport o' = do {
     c \<leftarrow> dec_int64 (doc_field o' ''chain_id'');
     n \<leftarrow> dec_string (doc_field o' ''network'');
     s \<leftarrow> dec_string (doc_field o' ''status'');
     k \<leftarrow> dec_list dec_string (doc_field o' ''capabilities'');
     Some \<lparr>cs_ChainID = c, cs_Network = n, cs_Status = s, cs_Capabilities = k\<rparr> }"

definition doc_Reference :: "json gomap \<Rightarrow> Reference option" where
  "doc_Reference o' = do {
     k \<leftarrow> dec_string (doc_field o' ''kind'');
     u \<leftarrow> dec_string (doc_field o' ''url'');
     c \<leftarrow> dec_string (doc_field o' ''commit'');
     v \<leftarrow> dec_string (doc_field o' ''version'');
     Some \<lparr>ref_Kind = k, ref_URL = u, ref_Commit = c, ref_Version = v\<rparr> }"

definition doc_SolutionProfile :: "json gomap \<Rightarrow> SolutionProfile option" where
  "doc_SolutionProfile o' = do {
     i \<leftarrow> dec_string (doc_field o' ''solution_profile_id'');
     d \<leftarrow> dec_string (doc_field o' ''display_name'');
     m \<leftarrow> dec_string (doc_field o' ''maturity'');
     c \<leftarrow> dec_string (doc_field o' ''claim_status'');
     p \<leftarrow> dec_string (doc_field o' ''resulting_posture'');
     ir \<leftarrow> dec_struct doc_InputRequirements (doc_field o' ''input_requirements'');
     sg \<leftarrow> dec_struct doc_SignatureProfile (doc_field o' ''signature'');
     am \<leftarrow> dec_struct doc_AccountModel (doc_field o' ''account_model'');
     k \<leftarrow> dec_struct doc_ProfileConstraints (doc_field o' ''constraints'');
     su \<leftarrow> dec_ptr doc_SuggestedUserConstraints (doc_field o' ''suggested_user_constraints'');
     ch \<leftarrow> dec_list (dec_struct doc_ChainSupport) (doc_field o' ''chain_support'');
     rf \<leftarrow> dec_list (dec_struct doc_Reference) (doc_field o' ''references'');
     rn \<leftarrow> dec_list dec_string (doc_field o' ''risk_notes'');
     Some \<lparr>sp_SolutionProfileID = i, sp_DisplayName = d, sp_Maturity = m, sp_ClaimStatus = c,
       sp_ResultingPosture = p, sp_InputRequirements = ir, sp_Signature = sg, sp_AccountModel = am,
       sp_Constraints = k, sp_SuggestedUserConstraints = su, sp_ChainSupport = ch, sp_References = rf,
       sp_RiskNotes = rn\<rparr> }"

definition doc_ProviderManifest :: "json gomap \<Rightarrow> ProviderManifest option" where
  "doc_ProviderManifest o' = do {
     s \<leftarrow> dec_string (doc_field o' ''schema_version'');
     i \<leftarrow> dec_string (doc_field o' ''provider_id'');
     n \<leftarrow> dec_string (doc_field o' ''provider_name'');
     v \<leftarrow> dec_string (doc_field o' ''provider_version'');
     m \<leftarrow> dec_string (doc_field o' ''provider_maturity'');
     w \<leftarrow> dec_string (doc_field o' ''website'');
     ps \<leftarrow> dec_list (dec_struct doc_SolutionProfile) (doc_field o' ''solution_profiles'');
     Some \<lparr>pm_SchemaVersion = s, pm_ProviderID = i, pm_ProviderName = n, pm_ProviderVersion = v,
       pm_ProviderMaturity = m, pm_Website = w, pm_SolutionProfiles = ps\<rparr> }"

definition doc_CryptoPolicy :: "json gomap \<Rightarrow> CryptoPolicy option" where
  "doc_CryptoPolicy o' = do {
     i \<leftarrow> dec_string (doc_field o' ''id'');
     n \<leftarrow> dec_string (doc_field o' ''name'');
     v \<leftarrow> dec_string (doc_field o' ''version'');
     d \<leftarrow> dec_string (doc_field o' ''description'');
     p \<leftarrow> dec_string (doc_field o' ''required_posture'');
     a \<leftarrow> dec_list dec_string (doc_field o' ''allowed_providers'');
     Some \<lparr>cp_ID = i, cp_Name = n, cp_Version = v, cp_Description = d, cp_RequiredPosture = p,
       cp_AllowedProviders = a\<rparr> }"

text \<open>The loaders from bytes: a decoding error, or what validation says.\<close>

datatype 'e file_error = DecodeFailed | Invalid 'e

definition LoadProviderManifestFromBytes :: "body \<Rightarrow> manifest_error file_error + ProviderManifest" where
  "LoadProviderManifestFromBytes raw =
     (case decode_body doc_ProviderManifest raw of
        None \<Rightarrow> Inl DecodeFailed
      | Some m \<Rightarrow> (case NormalizeAndValidate m of Inl e \<Rightarrow> Inl (Invalid e) | Inr m' \<Rightarrow> Inr m'))"

definition LoadCryptoPolicyFromBytes :: "body \<Rightarrow> crypto_policy_error file_error + CryptoPolicy" where
  "LoadCryptoPolicyFromBytes raw =
     (case decode_body doc_CryptoPolicy raw of
        None \<Rightarrow> Inl DecodeFailed
      | Some c \<Rightarrow> (case CryptoPolicy_NormalizeAndValidate c of Inl e \<Rightarrow> Inl (Invalid e) | Inr c' \<Rightarrow> Inr c'))"

section \<open>Classifying a file\<close>

datatype catalogueKind = catalogueKindCryptoPolicy | catalogueKindProviderManifest | catalogueKindSkip

record peekCatalogueJSON =
  pk_SchemaVersion :: string
  pk_ProviderID :: string
  pk_SolutionProfiles :: "json option"
  pk_RequiredPosture :: string
  pk_AllowedProviders :: "json option"
  pk_SolutionProfileRef :: "json option"
  pk_TemplateID :: string
  pk_CatalogVersion :: string

definition dec_peek :: "json gomap \<Rightarrow> peekCatalogueJSON option" where
  "dec_peek o' = do {
     s \<leftarrow> dec_string (doc_field o' ''schema_version'');
     i \<leftarrow> dec_string (doc_field o' ''provider_id'');
     p \<leftarrow> dec_string (doc_field o' ''required_posture'');
     t \<leftarrow> dec_string (doc_field o' ''template_id'');
     c \<leftarrow> dec_string (doc_field o' ''catalog_version'');
     Some \<lparr>pk_SchemaVersion = s, pk_ProviderID = i, pk_SolutionProfiles = doc_field o' ''solution_profiles'',
       pk_RequiredPosture = p, pk_AllowedProviders = doc_field o' ''allowed_providers'',
       pk_SolutionProfileRef = doc_field o' ''solution_profile_ref'', pk_TemplateID = t, pk_CatalogVersion = c\<rparr> }"

definition Contains :: "string \<Rightarrow> string \<Rightarrow> bool" where
  "Contains s t \<longleftrightarrow> list_ex (\<lambda>u. HasPrefix u t) (suffixes s)"

definition classifyCatalogueJSON :: "body \<Rightarrow> catalogueKind" where
  "classifyCatalogueJSON raw =
     (case decode_body dec_peek raw of
        None \<Rightarrow> catalogueKindSkip
      | Some peek \<Rightarrow>
          if Contains (ToLower (TrimSpace (pk_SchemaVersion peek))) ''provider_manifest''
          then catalogueKindProviderManifest
          else if TrimSpace (pk_ProviderID peek) \<noteq> '''' \<and> \<not> payload_absent (pk_SolutionProfiles peek)
          then catalogueKindProviderManifest
          else if TrimSpace (pk_TemplateID peek) \<noteq> '''' \<or> TrimSpace (pk_CatalogVersion peek) \<noteq> '''' \<or>
            \<not> payload_absent (pk_SolutionProfileRef peek)
          then catalogueKindSkip
          else if TrimSpace (pk_RequiredPosture peek) \<noteq> '''' \<and> \<not> payload_absent (pk_AllowedProviders peek)
          then catalogueKindCryptoPolicy
          else catalogueKindSkip)"

section \<open>Files\<close>

text \<open>\<^verbatim>\<open>filepath.Join\<close> of a directory and a name, with \<^verbatim>\<open>Clean\<close>: empty and \<^verbatim>\<open>.\<close> elements go, \<^verbatim>\<open>..\<close> takes the
  element before it.\<close>

fun cleanElems :: "bool \<Rightarrow> string list \<Rightarrow> string list \<Rightarrow> string list" where
  "cleanElems rooted out [] = rev out"
| "cleanElems rooted out (e # es) =
     (if e = '''' \<or> e = ''.'' then cleanElems rooted out es
      else if e = ''..'' then
        (case out of
           [] \<Rightarrow> cleanElems rooted (if rooted then [] else [''..'']) es
         | o' # os \<Rightarrow> if o' = ''..'' then cleanElems rooted (''..'' # out) es else cleanElems rooted os es)
      else cleanElems rooted (e # out) es)"

definition Clean :: "string \<Rightarrow> string" where
  "Clean path =
     (let rooted = HasPrefix path ''/''; es = cleanElems rooted [] (Split path (CHR ''/'')) in
      if es = [] then (if rooted then ''/'' else ''.'') else (if rooted then ''/'' else '''') @ Join es ''/'')"

definition filepath_Join :: "string \<Rightarrow> string \<Rightarrow> string" where
  "filepath_Join dir name = Clean (Join (filter (\<lambda>e. e \<noteq> '''') [dir, name]) ''/'')"

record filesystem =
  fs_ReadDir :: "string \<Rightarrow> (string \<times> bool) list option"
  fs_ReadFile :: "string \<Rightarrow> body option"

definition listCatalogueJSONFiles :: "filesystem \<Rightarrow> string \<Rightarrow> string list option" where
  "listCatalogueJSONFiles fs dir =
     (case fs_ReadDir fs dir of
        None \<Rightarrow> None
      | Some entries \<Rightarrow>
          Some (sort (map (\<lambda>(name, _). filepath_Join dir name)
            (filter (\<lambda>(name, isDir). \<not> isDir \<and> HasSuffix (ToLower name) ''.json'') entries))))"

section \<open>The read store\<close>

record ReadStore =
  rd_cryptoPolicies :: "CryptoPolicy list"
  rd_cryptoPolicyByID :: "CryptoPolicy gomap"
  rd_providers :: Registry

record ReadStoreOptions =
  ro_CatalogueDir :: string
  ro_CryptoPolicyPaths :: "string list"
  ro_ProviderManifestPaths :: "string list"

text \<open>Why a file was not loaded, the lines of the loader's log, and the errors that stop a load.\<close>

datatype 'e path_error = ReadFailed | FileError "'e file_error"

datatype load_event =
    SkipRead string
  | SkipManifest string "manifest_error file_error"
  | SkipRegistry string manifest_error
  | LoadedManifest string string
  | SkipPolicy string "crypto_policy_error file_error"
  | SkipDuplicate string string
  | LoadedPolicy string string
  | SkipOther string

datatype load_error =
    CryptoPolicyPathRequired
  | ProviderPathRequired
  | CryptoPolicyFile string "crypto_policy_error path_error"
  | DuplicateCryptoPolicyID string
  | ManifestFile string "manifest_error path_error"
  | ManifestRejected string manifest_error
  | CatalogueDirRequired
  | CatalogueDirUnreadable string
  | CatalogueDirEmpty string
  | NoCryptoPolicies string
  | NoManifests string

text \<open>\<^verbatim>\<open>emitCatalogueLoadSignals\<close>: the marked store and the two counters.\<close>

definition emitCatalogueLoadSignals :: "ReadStore \<Rightarrow> ReadStore \<times> nat \<times> nat" where
  "emitCatalogueLoadSignals store =
     (case ApplyManifestLoadSignals (rd_providers store) of
        (reg, malformed) \<Rightarrow>
          (store\<lparr>rd_providers := reg\<rparr>, malformed,
           fst (CheckPostureOrphanage (map Some (rd_cryptoPolicies store)) (Some reg))))"

definition emptyStore :: ReadStore where
  "emptyStore = \<lparr>rd_cryptoPolicies = [], rd_cryptoPolicyByID = [], rd_providers = NewRegistry\<rparr>"

definition addPolicy :: "ReadStore \<Rightarrow> CryptoPolicy \<Rightarrow> ReadStore" where
  "addPolicy s cp = s\<lparr>rd_cryptoPolicies := rd_cryptoPolicies s @ [cp],
     rd_cryptoPolicyByID := AList.update (cp_ID cp) cp (rd_cryptoPolicyByID s)\<rparr>"

text \<open>The body of the loop over the files of the directory.\<close>

definition catalogueStep :: "filesystem \<Rightarrow> ReadStore \<Rightarrow> string \<Rightarrow> ReadStore \<times> load_event" where
  "catalogueStep fs s path =
     (case fs_ReadFile fs path of
        None \<Rightarrow> (s, SkipRead path)
      | Some raw \<Rightarrow>
          (case classifyCatalogueJSON raw of
             catalogueKindProviderManifest \<Rightarrow>
               (case LoadProviderManifestFromBytes raw of
                  Inl e \<Rightarrow> (s, SkipManifest path e)
                | Inr m \<Rightarrow>
                    (case AddManifest (rd_providers s) (Some m) of
                       (reg, Some e) \<Rightarrow> (s\<lparr>rd_providers := reg\<rparr>, SkipRegistry path e)
                     | (reg, None) \<Rightarrow> (s\<lparr>rd_providers := reg\<rparr>, LoadedManifest path (pm_ProviderID m))))
           | catalogueKindCryptoPolicy \<Rightarrow>
               (case LoadCryptoPolicyFromBytes raw of
                  Inl e \<Rightarrow> (s, SkipPolicy path e)
                | Inr cp \<Rightarrow>
                    if map_of (rd_cryptoPolicyByID s) (cp_ID cp) \<noteq> None then (s, SkipDuplicate path (cp_ID cp))
                    else (addPolicy s cp, LoadedPolicy path (cp_ID cp)))
           | catalogueKindSkip \<Rightarrow> (s, SkipOther path)))"

fun catalogueScan :: "filesystem \<Rightarrow> ReadStore \<Rightarrow> string list \<Rightarrow> ReadStore \<times> load_event list" where
  "catalogueScan fs s [] = (s, [])"
| "catalogueScan fs s (path # paths) =
     (case catalogueStep fs s path of (s', e) \<Rightarrow> (case catalogueScan fs s' paths of (t, es) \<Rightarrow> (t, e # es)))"

definition loadReadStoreFromCatalogueDir ::
  "filesystem \<Rightarrow> string \<Rightarrow> load_event list \<times> (load_error + ReadStore \<times> nat \<times> nat)" where
  "loadReadStoreFromCatalogueDir fs dir0 =
     (let dir = TrimSpace dir0 in
      if dir = '''' then ([], Inl CatalogueDirRequired)
      else case listCatalogueJSONFiles fs dir of
        None \<Rightarrow> ([], Inl (CatalogueDirUnreadable dir))
      | Some files \<Rightarrow>
          if files = [] then ([], Inl (CatalogueDirEmpty dir))
          else case catalogueScan fs emptyStore files of
            (s, events) \<Rightarrow>
              (events,
               if rd_cryptoPolicies s = [] then Inl (NoCryptoPolicies dir)
               else if List (rd_providers s) = [] then Inl (NoManifests dir)
               else Inr (emitCatalogueLoadSignals s)))"

fun loadPolicies :: "filesystem \<Rightarrow> ReadStore \<Rightarrow> string list \<Rightarrow> load_error + ReadStore" where
  "loadPolicies fs s [] = Inr s"
| "loadPolicies fs s (path # paths) =
     (case fs_ReadFile fs path of
        None \<Rightarrow> Inl (CryptoPolicyFile path ReadFailed)
      | Some raw \<Rightarrow>
          (case LoadCryptoPolicyFromBytes raw of
             Inl e \<Rightarrow> Inl (CryptoPolicyFile path (FileError e))
           | Inr cp \<Rightarrow>
               if map_of (rd_cryptoPolicyByID s) (cp_ID cp) \<noteq> None then Inl (DuplicateCryptoPolicyID (cp_ID cp))
               else loadPolicies fs (addPolicy s cp) paths))"

fun LoadRegistryFromFiles :: "filesystem \<Rightarrow> Registry \<Rightarrow> string list \<Rightarrow> load_error + Registry" where
  "LoadRegistryFromFiles fs reg [] = Inr reg"
| "LoadRegistryFromFiles fs reg (p # paths) =
     (let path = TrimSpace p in
      if path = '''' then LoadRegistryFromFiles fs reg paths
      else case fs_ReadFile fs path of
        None \<Rightarrow> Inl (ManifestFile path ReadFailed)
      | Some raw \<Rightarrow>
          (case LoadProviderManifestFromBytes raw of
             Inl e \<Rightarrow> Inl (ManifestFile path (FileError e))
           | Inr m \<Rightarrow>
               (case AddManifest reg (Some m) of
                  (_, Some e) \<Rightarrow> Inl (ManifestRejected path e)
                | (reg', None) \<Rightarrow> LoadRegistryFromFiles fs reg' paths)))"

definition LoadReadStore ::
  "filesystem \<Rightarrow> ReadStoreOptions \<Rightarrow> load_event list \<times> (load_error + ReadStore \<times> nat \<times> nat)" where
  "LoadReadStore fs opts =
     (if TrimSpace (ro_CatalogueDir opts) \<noteq> ''''
      then loadReadStoreFromCatalogueDir fs (TrimSpace (ro_CatalogueDir opts))
      else if ro_CryptoPolicyPaths opts = [] then ([], Inl CryptoPolicyPathRequired)
      else if ro_ProviderManifestPaths opts = [] then ([], Inl ProviderPathRequired)
      else
        ([], case loadPolicies fs emptyStore (ro_CryptoPolicyPaths opts) of
           Inl e \<Rightarrow> Inl e
         | Inr s \<Rightarrow>
             (case LoadRegistryFromFiles fs NewRegistry (ro_ProviderManifestPaths opts) of
                Inl e \<Rightarrow> Inl e
              | Inr reg \<Rightarrow> Inr (emitCatalogueLoadSignals (s\<lparr>rd_providers := reg\<rparr>)))))"

section \<open>What a loaded store satisfies\<close>

text \<open>A condition on the files, which the source does not check: none holds a manifest whose provider id
  contains the NUL byte, the separator of profile keys. With such a file a refused manifest can stay
  registered (see \<open>nul_id_stays_registered\<close>).\<close>

definition nul_free_files :: "filesystem \<Rightarrow> bool" where
  "nul_free_files fs \<longleftrightarrow> (\<forall>path raw m. fs_ReadFile fs path = Some raw \<longrightarrow>
     LoadProviderManifestFromBytes raw = Inr m \<longrightarrow> CHR 0x00 \<notin> set (pm_ProviderID m))"

text \<open>The invariant of the store: distinct ids, the index agrees with the list, every policy is one
  the loader accepts, and the registry is one it builds from manifests without NUL bytes in their ids.\<close>

definition store_ok :: "ReadStore \<Rightarrow> bool" where
  "store_ok s \<longleftrightarrow> distinct (map cp_ID (rd_cryptoPolicies s)) \<and>
     rd_cryptoPolicyByID s = map (\<lambda>cp. (cp_ID cp, cp)) (rd_cryptoPolicies s) \<and>
     list_all (\<lambda>cp. CryptoPolicy_NormalizeAndValidate cp = Inr cp) (rd_cryptoPolicies s) \<and>
     registry_built (rd_providers s)"

lemma store_ok_empty [simp]: "store_ok emptyStore"
  by (simp add: store_ok_def emptyStore_def built_New)

lemma store_ok_byID:
  assumes "store_ok s"
  shows "map_of (rd_cryptoPolicyByID s) i = Some cp \<longleftrightarrow> cp \<in> set (rd_cryptoPolicies s) \<and> cp_ID cp = i"
  using assms unfolding store_ok_def
  by (subst map_of_eq_Some_iff) (auto simp: comp_def)

lemma store_ok_addPolicy:
  assumes "store_ok s" and "CryptoPolicy_NormalizeAndValidate c = Inr cp"
    and "map_of (rd_cryptoPolicyByID s) (cp_ID cp) = None"
  shows "store_ok (addPolicy s cp)"
proof -
  have "cp_ID cp \<notin> fst ` set (rd_cryptoPolicyByID s)" using assms(3) by (simp add: map_of_new_key)
  then show ?thesis
    using assms(1) crypto_policy.load_again[OF assms(2)]
    by (auto simp: store_ok_def addPolicy_def update_new_key image_image)
qed

lemma LoadProviderManifest_Inr:
  assumes "LoadProviderManifestFromBytes raw = Inr m"
  obtains m0 where "NormalizeAndValidate m0 = Inr m"
  using assms by (auto simp: LoadProviderManifestFromBytes_def split: option.splits sum.splits)

lemma LoadCryptoPolicy_Inr:
  assumes "LoadCryptoPolicyFromBytes raw = Inr cp"
  obtains c0 where "CryptoPolicy_NormalizeAndValidate c0 = Inr cp"
  using assms by (auto simp: LoadCryptoPolicyFromBytes_def split: option.splits sum.splits)

lemma built_loaded:
  assumes "nul_free_files fs" and "fs_ReadFile fs path = Some raw" and "LoadProviderManifestFromBytes raw = Inr m"
    and "registry_built reg"
  shows "registry_built (fst (AddManifest reg (Some m)))"
proof -
  obtain m0 where "NormalizeAndValidate m0 = Inr m" using assms(3) by (rule LoadProviderManifest_Inr)
  moreover have "CHR 0x00 \<notin> set (pm_ProviderID m)" using assms(1,2,3) by (auto simp: nul_free_files_def)
  ultimately show ?thesis using built_Add[OF assms(4)] by blast
qed

lemma store_ok_providers: "store_ok s \<Longrightarrow> registry_built reg \<Longrightarrow> store_ok (s\<lparr>rd_providers := reg\<rparr>)"
  by (simp add: store_ok_def)

fun loaded_event :: "load_event \<Rightarrow> bool" where
  "loaded_event (LoadedManifest _ _) = True"
| "loaded_event (LoadedPolicy _ _) = True"
| "loaded_event _ = False"

fun policy_id_of :: "load_event \<Rightarrow> string option" where
  "policy_id_of (LoadedPolicy _ i) = Some i"
| "policy_id_of _ = None"

text \<open>What one file does: nothing, an attempt to register a manifest, or a new policy.\<close>

lemma catalogueStep_cases [consumes 1, case_names unchanged manifest policy]:
  assumes "catalogueStep fs s path = (s', e)"
  obtains "s' = s" and "\<not> loaded_event e" and "policy_id_of e = None"
  | raw m reg err where "fs_ReadFile fs path = Some raw" and "LoadProviderManifestFromBytes raw = Inr m"
      and "AddManifest (rd_providers s) (Some m) = (reg, err)" and "s' = s\<lparr>rd_providers := reg\<rparr>"
      and "loaded_event e \<longleftrightarrow> err = None" and "policy_id_of e = None"
  | raw cp where "LoadCryptoPolicyFromBytes raw = Inr cp" and "map_of (rd_cryptoPolicyByID s) (cp_ID cp) = None"
      and "s' = addPolicy s cp" and "e = LoadedPolicy path (cp_ID cp)"
proof (cases "fs_ReadFile fs path")
  case None
  then show thesis using assms that(1) by (auto simp: catalogueStep_def)
next
  case (Some raw)
  show thesis
  proof (cases "classifyCatalogueJSON raw")
    case catalogueKindProviderManifest
    show thesis
    proof (cases "LoadProviderManifestFromBytes raw")
      case (Inl er)
      then show thesis using assms that(1) Some catalogueKindProviderManifest by (auto simp: catalogueStep_def)
    next
      case (Inr m)
      obtain reg err where a: "AddManifest (rd_providers s) (Some m) = (reg, err)" by fastforce
      then have "s' = s\<lparr>rd_providers := reg\<rparr> \<and> (loaded_event e \<longleftrightarrow> err = None) \<and> policy_id_of e = None"
        using assms Some Inr catalogueKindProviderManifest by (cases err) (auto simp: catalogueStep_def)
      then show thesis by (elim conjE) (rule that(2)[OF Some Inr a])
    qed
  next
    case catalogueKindCryptoPolicy
    show thesis
    proof (cases "LoadCryptoPolicyFromBytes raw")
      case (Inl er)
      then show thesis using assms that(1) Some catalogueKindCryptoPolicy by (auto simp: catalogueStep_def)
    next
      case (Inr cp)
      show thesis
      proof (cases "map_of (rd_cryptoPolicyByID s) (cp_ID cp)")
        case None
        then have "s' = addPolicy s cp \<and> e = LoadedPolicy path (cp_ID cp)"
          using assms Some catalogueKindCryptoPolicy Inr by (auto simp: catalogueStep_def)
        then show thesis by (elim conjE) (rule that(3)[OF Inr None])
      next
        case (Some cp')
        then show thesis
          using assms that(1) Inr catalogueKindCryptoPolicy \<open>fs_ReadFile fs path = Some raw\<close>
          by (auto simp: catalogueStep_def)
      qed
    qed
  next
    case catalogueKindSkip
    then show thesis using assms that(1) Some by (auto simp: catalogueStep_def)
  qed
qed

lemma catalogueStep_ok:
  assumes "nul_free_files fs" and "store_ok s" and "catalogueStep fs s path = (s', e)"
  shows "store_ok s'"
  using assms(3)
proof (cases rule: catalogueStep_cases)
  case (manifest raw m reg err)
  then show ?thesis
    using built_loaded[OF assms(1) manifest(1,2), of "rd_providers s"] assms(2)
    by (simp add: store_ok_def)
next
  case (policy raw cp)
  from policy(1) obtain c0 where "CryptoPolicy_NormalizeAndValidate c0 = Inr cp" by (rule LoadCryptoPolicy_Inr)
  then show ?thesis using store_ok_addPolicy[OF assms(2)] policy(2,3) by blast
qed (use assms(2) in simp)

lemma catalogueScan_ok:
  assumes "nul_free_files fs"
  shows "store_ok s \<Longrightarrow> catalogueScan fs s paths = (t, es) \<Longrightarrow> store_ok t"
proof (induction paths arbitrary: s es)
  case (Cons p ps)
  obtain s' e es' where "catalogueStep fs s p = (s', e)" and "catalogueScan fs s' ps = (t, es')"
    using Cons.prems(2) by (auto split: prod.splits)
  then show ?case using catalogueStep_ok[OF assms Cons.prems(1)] Cons.IH by blast
qed simp

lemma loadPolicies_ok: "store_ok s \<Longrightarrow> loadPolicies fs s paths = Inr t \<Longrightarrow> store_ok t"
proof (induction paths arbitrary: s)
  case (Cons p ps)
  then show ?case
    by (auto elim!: LoadCryptoPolicy_Inr dest: store_ok_addPolicy split: option.splits sum.splits if_splits)
qed simp

lemma LoadRegistryFromFiles_built:
  assumes "nul_free_files fs"
  shows "registry_built reg \<Longrightarrow> LoadRegistryFromFiles fs reg paths = Inr reg' \<Longrightarrow> registry_built reg'"
proof (induction paths arbitrary: reg)
  case (Cons p ps)
  show ?case
  proof (cases "TrimSpace p = ''''")
    case True
    then show ?thesis using Cons by simp
  next
    case False
    then obtain raw m r where raw: "fs_ReadFile fs (TrimSpace p) = Some raw"
      and m: "LoadProviderManifestFromBytes raw = Inr m" and a: "AddManifest reg (Some m) = (r, None)"
      and l: "LoadRegistryFromFiles fs r ps = Inr reg'"
      using Cons.prems(2) by (auto simp: Let_def split: option.splits sum.splits prod.splits)
    have "registry_built r" using built_loaded[OF assms raw m Cons.prems(1)] a by simp
    then show ?thesis using Cons.IH l by blast
  qed
qed simp

lemma signals_ok: "store_ok s \<Longrightarrow> emitCatalogueLoadSignals s = (t, n) \<Longrightarrow> store_ok t"
  using built_Signals[of "rd_providers s"]
  by (auto simp: emitCatalogueLoadSignals_def store_ok_def split: prod.splits)

lemma LoadReadStore_ok:
  assumes "nul_free_files fs" and "LoadReadStore fs opts = (es, Inr (s, n))"
  shows "store_ok s"
proof (cases "TrimSpace (ro_CatalogueDir opts) = ''''")
  case True
  then obtain t reg where t: "loadPolicies fs emptyStore (ro_CryptoPolicyPaths opts) = Inr t"
    and r: "LoadRegistryFromFiles fs NewRegistry (ro_ProviderManifestPaths opts) = Inr reg"
    and e: "emitCatalogueLoadSignals (t\<lparr>rd_providers := reg\<rparr>) = (s, n)"
    using assms(2) by (auto simp: LoadReadStore_def split: if_splits sum.splits)
  show ?thesis
    by (rule signals_ok[OF _ e], rule store_ok_providers[OF loadPolicies_ok[OF store_ok_empty t]],
        rule LoadRegistryFromFiles_built[OF assms(1) built_New r])
next
  case False
  then obtain files t where "catalogueScan fs emptyStore files = (t, es)" and e: "emitCatalogueLoadSignals t = (s, n)"
    using assms(2)
    by (auto simp: LoadReadStore_def loadReadStoreFromCatalogueDir_def Let_def split: if_splits option.splits prod.splits)
  then show ?thesis using catalogueScan_ok[OF assms(1) store_ok_empty] signals_ok by blast
qed

lemma LoadReadStore_signals:
  assumes "LoadReadStore fs opts = (es, Inr (s, n))"
  obtains t where "emitCatalogueLoadSignals t = (s, n)"
proof (cases "TrimSpace (ro_CatalogueDir opts) = ''''")
  case True
  then show thesis using assms that by (auto simp: LoadReadStore_def split: if_splits sum.splits)
next
  case False
  then show thesis
    using assms that
    by (auto simp: LoadReadStore_def loadReadStoreFromCatalogueDir_def Let_def split: if_splits option.splits prod.splits)
qed

lemma emitCatalogueLoadSignals_orphans:
  "emitCatalogueLoadSignals t = (s, malformed, orphans) \<Longrightarrow>
     orphans = length (filter (\<lambda>cp. \<not> HasPostureCompatibleProvider (Some cp) (Some (rd_providers s))) (rd_cryptoPolicies s))"
  by (auto simp: emitCatalogueLoadSignals_def CheckPostureOrphanage_def map_filter_def comp_def Let_def split: prod.splits)

section \<open>Skipped files\<close>

lemma AddManifest_refused:
  assumes "registry_inv r" and "loaded_manifest m" and "AddManifest r (Some m) = (r', Some e)"
  shows "r' = r"
proof (cases "map_of (reg_manifests r) (ToLower (TrimSpace (pm_ProviderID m)))")
  case None
  then show ?thesis using AddManifest_new[OF assms(1,2)] assms(3) by simp
next
  case (Some m')
  then show ?thesis using AddManifest_duplicate assms(3) by fastforce
qed

lemma catalogueStep_skipped:
  assumes "nul_free_files fs" and "store_ok s" and "catalogueStep fs s path = (s', e)" and "\<not> loaded_event e"
  shows "s' = s"
  using assms(3)
proof (cases rule: catalogueStep_cases)
  case (manifest raw m reg err)
  obtain m0 where "NormalizeAndValidate m0 = Inr m" using manifest(2) by (rule LoadProviderManifest_Inr)
  moreover have "CHR 0x00 \<notin> set (pm_ProviderID m)" using assms(1) manifest(1,2) by (auto simp: nul_free_files_def)
  ultimately have "loaded_manifest m" by (rule loaded_manifest_load)
  moreover have "registry_inv (rd_providers s)" using assms(2) registry_built_inv by (simp add: store_ok_def)
  ultimately have "reg = rd_providers s" using manifest(3,5) assms(4) AddManifest_refused by blast
  then show ?thesis using manifest(4) by simp
qed (use assms(4) in simp_all)

lemma catalogueScan_length: "catalogueScan fs s paths = (t, es) \<Longrightarrow> length es = length paths"
  by (induction paths arbitrary: s t es) (auto split: prod.splits)

lemma catalogueScan_kept:
  assumes "nul_free_files fs"
  shows "store_ok s \<Longrightarrow> catalogueScan fs s paths = (t, es) \<Longrightarrow>
    fst (catalogueScan fs s (map fst (filter (\<lambda>(_, e). loaded_event e) (zip paths es)))) = t"
proof (induction paths arbitrary: s es)
  case (Cons p ps)
  obtain s' e es' where st: "catalogueStep fs s p = (s', e)" and sc: "catalogueScan fs s' ps = (t, es')" and "es = e # es'"
    using Cons.prems(2) by (auto split: prod.splits)
  moreover have "store_ok s'" by (rule catalogueStep_ok[OF assms Cons.prems(1) st])
  ultimately show ?case
    using Cons.IH[OF _ sc] catalogueStep_skipped[OF assms Cons.prems(1) st]
    by (cases "loaded_event e") (auto split: prod.splits)
qed simp

lemma catalogueStep_ids:
  assumes "catalogueStep fs s path = (s', e)"
  shows "map cp_ID (rd_cryptoPolicies s') =
    map cp_ID (rd_cryptoPolicies s) @ (case policy_id_of e of None \<Rightarrow> [] | Some i \<Rightarrow> [i])"
  using assms by (cases rule: catalogueStep_cases) (simp_all add: addPolicy_def)

lemma catalogueScan_ids:
  "catalogueScan fs s paths = (t, es) \<Longrightarrow>
     map cp_ID (rd_cryptoPolicies t) = map cp_ID (rd_cryptoPolicies s) @ List.map_filter policy_id_of es"
proof (induction paths arbitrary: s es)
  case (Cons p ps)
  obtain s' e es' where "catalogueStep fs s p = (s', e)" and "catalogueScan fs s' ps = (t, es')" and "es = e # es'"
    using Cons.prems by (auto split: prod.splits)
  then show ?case
    using Cons.IH catalogueStep_ids by (fastforce simp: List.map_filter_simps split: option.splits)
qed (simp add: List.map_filter_simps)

end
