(* ===== verification/Api_Json.thy ===== *)
theory Api_Json
  imports Read_Store
begin

text \<open>
  The JSON the read routes answer with, from the struct tags of \<^verbatim>\<open>internal/domain/provider\<close> and
  \<^verbatim>\<open>internal/domain/policy\<close>: manifests, catalogue items, explore decisions and accepted-provider
  snapshots. A field tagged \<^verbatim>\<open>omitempty\<close> is absent for its zero value. The lemmas show that the
  JSON of a loaded manifest, read as a catalogue file, loads as the same manifest.
\<close>

section \<open>Objects with optional fields\<close>

definition jfields :: "(string \<times> json option) list \<Rightarrow> json gomap" where
  "jfields kvs = List.map_filter (\<lambda>(k, v). map_option (Pair k) v) kvs"

abbreviation jobj :: "(string \<times> json option) list \<Rightarrow> json" where
  "jobj kvs \<equiv> JObj (jfields kvs)"

definition jstr_opt :: "string \<Rightarrow> json option" where
  "jstr_opt s = (if s = '''' then None else Some (JStr s))"

definition jstrs :: "string list \<Rightarrow> json" where
  "jstrs xs = JArr (map JStr xs)"

definition jlist_opt :: "('a \<Rightarrow> json) \<Rightarrow> 'a list \<Rightarrow> json option" where
  "jlist_opt f xs = (if xs = [] then None else Some (JArr (map f xs)))"

definition jbool_opt :: "bool \<Rightarrow> json option" where
  "jbool_opt b = (if b then Some (JBool True) else None)"

definition jint_opt :: "int \<Rightarrow> json option" where
  "jint_opt i = (if i = 0 then None else Some (jint i))"

section \<open>Manifests\<close>

definition suggestedJSON :: "SuggestedUserConstraints \<Rightarrow> (string \<times> json option) list" where
  "suggestedJSON s =
     [(''allow_new_wallet'', Some (JBool (su_AllowNewWallet s))),
      (''address_continuity_required'', Some (JBool (su_AddressContinuityRequired s))),
      (''key_rotation_model'', Some (JStr (su_KeyRotationModel s)))]"

definition inputRequirementsJSON :: "InputRequirements \<Rightarrow> (string \<times> json option) list" where
  "inputRequirementsJSON r =
     [(''wallet_types'', Some (jstrs (ir_WalletTypes r))),
      (''requires_wallet_control_proof'', Some (JBool (ir_RequiresWalletControlProof r)))]"

definition signatureJSON :: "SignatureProfile \<Rightarrow> (string \<times> json option) list" where
  "signatureJSON s =
     [(''scheme'', Some (JStr (sig_Scheme s))), (''family'', Some (JStr (sig_Family s))),
      (''key_rotation_model'', Some (JStr (sig_KeyRotationModel s)))]"

definition accountModelJSON :: "AccountModel \<Rightarrow> (string \<times> json option) list" where
  "accountModelJSON a =
     [(''standard'', Some (JStr (am_Standard a))), (''execution_model'', Some (JStr (am_ExecutionModel a))),
      (''requires_bundler'', Some (JBool (am_RequiresBundler a))),
      (''requires_entrypoint'', Some (JBool (am_RequiresEntrypoint a))),
      (''entrypoint_versions'', jlist_opt JStr (am_EntrypointVersions a))]"

definition constraintsJSON :: "ProfileConstraints \<Rightarrow> (string \<times> json option) list" where
  "constraintsJSON c =
     [(''requires_new_account'', Some (JBool (pc_RequiresNewAccount c))),
      (''address_continuity_supported'', Some (JBool (pc_AddressContinuitySupported c))),
      (''requires_local_signer_state'', Some (JBool (pc_RequiresLocalSignerState c)))]"

definition chainSupportJSON :: "ChainSupport \<Rightarrow> (string \<times> json option) list" where
  "chainSupportJSON c =
     [(''chain_id'', Some (jint (cs_ChainID c))), (''network'', Some (JStr (cs_Network c))),
      (''status'', Some (JStr (cs_Status c))), (''capabilities'', jlist_opt JStr (cs_Capabilities c))]"

definition referenceJSON :: "Reference \<Rightarrow> (string \<times> json option) list" where
  "referenceJSON r =
     [(''kind'', Some (JStr (ref_Kind r))), (''url'', Some (JStr (ref_URL r))),
      (''commit'', jstr_opt (ref_Commit r)), (''version'', jstr_opt (ref_Version r))]"

definition profileJSON :: "SolutionProfile \<Rightarrow> (string \<times> json option) list" where
  "profileJSON p =
     [(''solution_profile_id'', Some (JStr (sp_SolutionProfileID p))),
      (''display_name'', Some (JStr (sp_DisplayName p))), (''maturity'', Some (JStr (sp_Maturity p))),
      (''claim_status'', Some (JStr (sp_ClaimStatus p))),
      (''resulting_posture'', Some (JStr (sp_ResultingPosture p))),
      (''input_requirements'', Some (jobj (inputRequirementsJSON (sp_InputRequirements p)))),
      (''signature'', Some (jobj (signatureJSON (sp_Signature p)))),
      (''account_model'', Some (jobj (accountModelJSON (sp_AccountModel p)))),
      (''constraints'', Some (jobj (constraintsJSON (sp_Constraints p)))),
      (''suggested_user_constraints'', map_option (\<lambda>s. jobj (suggestedJSON s)) (sp_SuggestedUserConstraints p)),
      (''chain_support'', Some (JArr (map (\<lambda>c. jobj (chainSupportJSON c)) (sp_ChainSupport p)))),
      (''references'', jlist_opt (\<lambda>r. jobj (referenceJSON r)) (sp_References p)),
      (''risk_notes'', jlist_opt JStr (sp_RiskNotes p))]"

definition manifestJSON :: "ProviderManifest \<Rightarrow> (string \<times> json option) list" where
  "manifestJSON m =
     [(''schema_version'', Some (JStr (pm_SchemaVersion m))), (''provider_id'', Some (JStr (pm_ProviderID m))),
      (''provider_name'', Some (JStr (pm_ProviderName m))), (''provider_version'', Some (JStr (pm_ProviderVersion m))),
      (''provider_maturity'', Some (JStr (pm_ProviderMaturity m))), (''website'', jstr_opt (pm_Website m)),
      (''solution_profiles'', Some (JArr (map (\<lambda>p. jobj (profileJSON p)) (pm_SolutionProfiles m))))]"

section \<open>Catalogue items\<close>

definition networkJSON :: "CompatibleNetwork \<Rightarrow> json" where
  "networkJSON n = jobj [(''chain_id'', Some (jint (cn_ChainID n))), (''network'', Some (JStr (cn_Network n))),
     (''status'', Some (JStr (cn_Status n))), (''capabilities'', jlist_opt JStr (cn_Capabilities n))]"

definition summaryJSON :: "AllowedProviderSummary \<Rightarrow> json" where
  "summaryJSON s = jobj [(''provider_id'', Some (JStr (aps_ProviderID s))),
     (''signature'', Some (jobj [(''scheme'', Some (JStr (pss_Scheme (aps_Signature s)))),
        (''family'', Some (JStr (pss_Family (aps_Signature s))))])),
     (''networks'', Some (JArr (map networkJSON (aps_Networks s))))]"

text \<open>The copy of an empty list of providers is \<^verbatim>\<open>null\<close>; a loaded policy always has one.\<close>

definition catalogItemJSON :: "CryptoPolicyCatalogItem \<Rightarrow> json" where
  "catalogItemJSON i = jobj [(''id'', Some (JStr (ci_ID i))), (''name'', Some (JStr (ci_Name i))),
     (''version'', Some (JStr (ci_Version i))), (''description'', jstr_opt (ci_Description i)),
     (''required_posture'', Some (JStr (ci_RequiredPosture i))),
     (''allowed_providers'', Some (if ci_AllowedProviders i = [] then JNull else jstrs (ci_AllowedProviders i))),
     (''compatible_networks'', Some (JArr (map networkJSON (ci_CompatibleNetworks i)))),
     (''allowed_provider_summaries'', Some (JArr (map summaryJSON (ci_AllowedProviderSummaries i))))]"

section \<open>Decisions\<close>

fun statusJSON :: "AssessmentStatus option \<Rightarrow> string" where
  "statusJSON None = ''''"
| "statusJSON (Some AssessmentStatusPending) = ''pending''"
| "statusJSON (Some AssessmentStatusCompatibleAndDeployable) = ''compatible_and_deployable''"
| "statusJSON (Some AssessmentStatusCompatibleButNotDeployable) = ''compatible_but_not_deployable''"
| "statusJSON (Some AssessmentStatusIncompatible) = ''incompatible''"
| "statusJSON (Some AssessmentStatusError) = ''error''"
| "statusJSON (Some AssessmentStatusErroneous) = ''erroneous''"

fun severityJSON :: "AssessmentFindingSeverity \<Rightarrow> string" where
  "severityJSON AssessmentFindingSeverityInfo = ''info''"
| "severityJSON AssessmentFindingSeverityWarning = ''warning''"
| "severityJSON AssessmentFindingSeverityBlocking = ''blocking''"

definition findingJSON :: "AssessmentFinding \<Rightarrow> json" where
  "findingJSON f = jobj [(''code'', Some (JStr (af_Code f))), (''message'', jstr_opt (af_Message f)),
     (''severity'', Some (JStr (severityJSON (af_Severity f)))), (''field'', jstr_opt (af_Field f)),
     (''details'', if af_Details f = [] then None else Some (JObj (map (\<lambda>(k, v). (k, JStr v)) (af_Details f))))]"

definition profileRefJSON :: "SolutionProfileRef \<Rightarrow> (string \<times> json option) list" where
  "profileRefJSON r =
     [(''provider_id'', Some (JStr (spr_ProviderID r))), (''solution_profile_id'', Some (JStr (spr_SolutionProfileID r))),
      (''manifest_version'', Some (JStr (spr_ManifestVersion r))), (''verification_date'', jstr_opt (spr_VerificationDate r))]"

definition compositionJSON :: "CompositionView \<Rightarrow> json" where
  "compositionJSON v = jobj
     [(''account_model'', Some (jobj
        [(''standard'', Some (JStr (ca_Standard (cv_AccountModel v)))),
         (''execution_model'', Some (JStr (ca_ExecutionModel (cv_AccountModel v)))),
         (''requires_bundler'', Some (JBool (ca_RequiresBundler (cv_AccountModel v)))),
         (''requires_entrypoint'', Some (JBool (ca_RequiresEntrypoint (cv_AccountModel v)))),
         (''entrypoint_versions'', jlist_opt JStr (ca_EntrypointVersions (cv_AccountModel v)))])),
      (''signature'', Some (jobj
        [(''scheme'', Some (JStr (cg_Scheme (cv_Signature v)))), (''family'', Some (JStr (cg_Family (cv_Signature v)))),
         (''key_rotation_model'', Some (JStr (cg_KeyRotationModel (cv_Signature v))))])),
      (''constraints'', Some (jobj
        [(''requires_new_account'', Some (JBool (cc_RequiresNewAccount (cv_Constraints v)))),
         (''address_continuity_supported'', Some (JBool (cc_AddressContinuitySupported (cv_Constraints v)))),
         (''requires_local_signer_state'', Some (JBool (cc_RequiresLocalSignerState (cv_Constraints v))))]))]"

definition rankedJSON :: "RankedPolicy \<Rightarrow> json" where
  "rankedJSON c = jobj
     [(''candidate_id'', Some (JStr (rk_CandidateID c))), (''policy_id'', Some (JStr (rk_PolicyID c))),
      (''crypto_policy_instance_id'', jstr_opt (rk_CryptoPolicyInstanceID c)), (''template_id'', jstr_opt (rk_TemplateID c)),
      (''required_posture'', jstr_opt (rk_RequiredPosture c)), (''resulting_posture'', jstr_opt (rk_ResultingPosture c)),
      (''solution_profile_ref'', Some (jobj (profileRefJSON (rk_SolutionProfileRef c)))),
      (''maturity'', jstr_opt (rk_Maturity c)), (''claim_status'', jstr_opt (rk_ClaimStatus c)),
      (''compatibility_status'', Some (JStr (statusJSON (Some (rk_CompatibilityStatus c))))),
      (''compatibility_findings'', Some (JArr (map findingJSON (rk_CompatibilityFindings c)))),
      (''suggested_user_constraints'', map_option (\<lambda>s. jobj (suggestedJSON s)) (rk_SuggestedUserConstraints c)),
      (''composition'', map_option compositionJSON (rk_Composition c))]"

definition rejectedJSON :: "RejectedPolicy \<Rightarrow> json" where
  "rejectedJSON c = jobj
     [(''candidate_id'', Some (JStr (rj_CandidateID c))), (''policy_id'', Some (JStr (rj_PolicyID c))),
      (''crypto_policy_instance_id'', jstr_opt (rj_CryptoPolicyInstanceID c)), (''template_id'', jstr_opt (rj_TemplateID c)),
      (''required_posture'', jstr_opt (rj_RequiredPosture c)), (''resulting_posture'', jstr_opt (rj_ResultingPosture c)),
      (''solution_profile_ref'', Some (jobj (profileRefJSON (rj_SolutionProfileRef c)))),
      (''maturity'', jstr_opt (rj_Maturity c)), (''claim_status'', jstr_opt (rj_ClaimStatus c)),
      (''compatibility_status'', Some (JStr (statusJSON (rj_CompatibilityStatus c)))),
      (''compatibility_findings'', Some (JArr (map findingJSON (rj_CompatibilityFindings c))))]"

definition requestSummaryJSON :: "RequestSummary \<Rightarrow> json" where
  "requestSummaryJSON r = jobj
     [(''crypto_policy_id'', jstr_opt (rs_CryptoPolicyID r)), (''target_posture'', jstr_opt (rs_TargetPosture r)),
      (''target_chain_ids'', jlist_opt jint (rs_TargetChainIDs r)), (''require_multichain'', jbool_opt (rs_RequireMultichain r)),
      (''allow_new_wallet'', jbool_opt (rs_AllowNewWallet r)),
      (''address_continuity_required'', jbool_opt (rs_AddressContinuityRequired r)),
      (''minimum_maturity'', jint_opt (rs_MinimumMaturity r))]"

definition decisionJSON :: "PolicyDecision \<Rightarrow> json" where
  "decisionJSON d = jobj
     [(''observed_wallet_summary'', Some (jobj [(''chain_ids'', jlist_opt jint (pd_ObservedChainIDs d))])),
      (''request_summary'', Some (requestSummaryJSON (pd_RequestSummary d))),
      (''selected_policy_id'', jstr_opt (pd_SelectedPolicyID d)),
      (''selected_policy_instance_id'', jstr_opt (pd_SelectedPolicyInstanceID d)),
      (''scan_compatible_providers'', Some (JArr (map rankedJSON (pd_RankedCandidates d)))),
      (''rejected_candidates'', jlist_opt rejectedJSON (pd_RejectedCandidates d)),
      (''warnings'', jlist_opt JStr (pd_Warnings d))]"

section \<open>Snapshots\<close>

definition snapshotChainJSON :: "SnapshotChainSupport \<Rightarrow> (string \<times> json option) list" where
  "snapshotChainJSON c =
     [(''chain_id'', Some (FlexibleChainID_Marshal (sc_ChainID c))), (''status'', Some (JStr (sc_Status c))),
      (''capabilities'', jlist_opt JStr (sc_Capabilities c))]"

definition snapshotJSON :: "AcceptedProviderSnapshot \<Rightarrow> (string \<times> json option) list" where
  "snapshotJSON a =
     [(''maturity'', Some (JStr (as_Maturity a))), (''claim_status'', Some (JStr (as_ClaimStatus a))),
      (''resulting_posture'', Some (JStr (as_ResultingPosture a))),
      (''input_requirements'', Some (jobj (inputRequirementsJSON (as_InputRequirements a)))),
      (''signature'', Some (jobj (signatureJSON (as_Signature a)))),
      (''account_model'', Some (jobj (accountModelJSON (as_AccountModel a)))),
      (''constraints'', Some (jobj (constraintsJSON (as_Constraints a)))),
      (''chain_support_used'', Some (JArr (map (\<lambda>c. jobj (snapshotChainJSON c)) (as_ChainSupportUsed a)))),
      (''references'', Some (if as_References a = [] then JNull
         else JArr (map (\<lambda>r. jobj (referenceJSON r)) (as_References a)))),
      (''accepted_findings'', Some (jstrs (as_AcceptedFindings a))),
      (''accepted_risk_notes'', jlist_opt JStr (as_AcceptedRiskNotes a))]"

section \<open>Reading a manifest back\<close>

definition lower_keys :: "string list \<Rightarrow> bool" where
  "lower_keys ks \<longleftrightarrow> list_all (\<lambda>k. ToLower k = k) ks \<and> distinct ks"

lemma jfields_simps:
  "jfields [] = []" "jfields ((k, None) # kvs) = jfields kvs" "jfields ((k, Some v) # kvs) = (k, v) # jfields kvs"
  by (simp_all add: jfields_def List.map_filter_simps)

lemma filter_jfields:
  assumes "list_all (\<lambda>k. ToLower k = k) (map fst kvs)" and "ToLower name = name"
  shows "filter (\<lambda>(k, _). EqualFold k name) (jfields kvs) = jfields (filter (\<lambda>(k, _). k = name) kvs)"
  using assms(1)
proof (induction kvs)
  case (Cons kv kvs)
  obtain k v where "kv = (k, v)" by fastforce
  then show ?case using Cons assms(2) by (cases v) (auto simp: EqualFold_def jfields_simps)
qed (simp add: jfields_simps)

lemma filter_key: "distinct (map fst kvs) \<Longrightarrow> map_of kvs name = Some v \<Longrightarrow> filter (\<lambda>(k, _). k = name) kvs = [(name, v)]"
  by (induction kvs) (auto simp: filter_empty_conv rev_image_eqI split: if_splits)

lemma lower_key: "list_all (\<lambda>k. ToLower k = k) (map fst kvs) \<Longrightarrow> map_of kvs name = Some v \<Longrightarrow> ToLower name = name"
  by (force simp: list_all_iff dest: map_of_SomeD)

lemma doc_field_jfields:
  assumes "lower_keys (map fst kvs)" and "map_of kvs name \<noteq> None"
  shows "doc_field (jfields kvs) name = the (map_of kvs name)"
proof -
  obtain v where v: "map_of kvs name = Some v" using assms(2) by blast
  have l: "list_all (\<lambda>k. ToLower k = k) (map fst kvs)" and d: "distinct (map fst kvs)"
    using assms(1) by (simp_all add: lower_keys_def)
  show ?thesis
    using filter_jfields[OF l, of name] filter_key[OF d v] lower_key[OF l v] v
    by (cases v) (simp_all add: doc_field_def jfields_simps)
qed

lemma dec_string_str [simp]:
  "dec_string (Some (JStr s)) = Some s" "dec_string (jstr_opt s) = Some s" "dec_string None = Some ''''"
  by (simp_all add: dec_string_def jstr_opt_def)

lemma dec_bool_bool [simp]: "dec_bool (Some (JBool b)) = Some b"
  by (simp add: dec_bool_def)

lemma dec_list_strs [simp]: "dec_list dec_string (Some (jstrs xs)) = Some xs"
  by (simp add: dec_list_def jstrs_def comp_def)

lemma dec_list_map:
  assumes "\<And>x. x \<in> set xs \<Longrightarrow> d (Some (f x)) = Some x"
  shows "dec_list d (Some (JArr (map f xs))) = Some xs"
  using all_some_map[of xs "\<lambda>x. d (Some (f x))" "\<lambda>x. x"] assms by (simp add: dec_list_def comp_def)

lemma dec_list_opt:
  assumes "\<And>x. x \<in> set xs \<Longrightarrow> d (Some (f x)) = Some x"
  shows "dec_list d (jlist_opt f xs) = Some xs"
  using dec_list_map[of xs d f] assms by (auto simp: jlist_opt_def dec_list_def)

lemma dec_list_strs_opt [simp]: "dec_list dec_string (jlist_opt JStr xs) = Some xs"
  by (rule dec_list_opt) simp

lemma dec_struct_jobj: "dec_struct d (Some (jobj kvs)) = d (jfields kvs)"
  by (simp add: dec_struct_def)

text \<open>The field names of the structs are lower case and distinct, so a decoder finds what the
  encoder wrote.\<close>

lemma manifest_keys:
  "lower_keys (map fst (suggestedJSON su))" "lower_keys (map fst (inputRequirementsJSON ir))"
  "lower_keys (map fst (signatureJSON sg))" "lower_keys (map fst (accountModelJSON am))"
  "lower_keys (map fst (constraintsJSON k))" "lower_keys (map fst (chainSupportJSON c))"
  "lower_keys (map fst (referenceJSON r))" "lower_keys (map fst (profileJSON p))"
  "lower_keys (map fst (manifestJSON m))" "lower_keys (map fst (profileRefJSON rf))"
  "lower_keys (map fst (snapshotChainJSON sc))" "lower_keys (map fst (snapshotJSON sn))"
  unfolding profileRefJSON_def snapshotChainJSON_def snapshotJSON_def suggestedJSON_def inputRequirementsJSON_def signatureJSON_def accountModelJSON_def constraintsJSON_def
    chainSupportJSON_def referenceJSON_def profileJSON_def manifestJSON_def list.map fst_conv
  by code_simp+

lemmas literal_keys = manifest_keys[unfolded profileRefJSON_def snapshotChainJSON_def snapshotJSON_def suggestedJSON_def inputRequirementsJSON_def signatureJSON_def
  accountModelJSON_def constraintsJSON_def chainSupportJSON_def referenceJSON_def profileJSON_def manifestJSON_def
  list.map fst_conv]

lemma doc_Suggested_back: "doc_SuggestedUserConstraints (jfields (suggestedJSON s)) = Some s"
  unfolding doc_SuggestedUserConstraints_def suggestedJSON_def by (simp add: doc_field_jfields literal_keys)

lemma doc_InputRequirements_back: "doc_InputRequirements (jfields (inputRequirementsJSON r)) = Some r"
  unfolding doc_InputRequirements_def inputRequirementsJSON_def by (simp add: doc_field_jfields literal_keys)

lemma doc_SignatureProfile_back: "doc_SignatureProfile (jfields (signatureJSON g)) = Some g"
  unfolding doc_SignatureProfile_def signatureJSON_def by (simp add: doc_field_jfields literal_keys)

lemma doc_AccountModel_back: "doc_AccountModel (jfields (accountModelJSON a)) = Some a"
  unfolding doc_AccountModel_def accountModelJSON_def by (simp add: doc_field_jfields literal_keys)

lemma doc_ProfileConstraints_back: "doc_ProfileConstraints (jfields (constraintsJSON k)) = Some k"
  unfolding doc_ProfileConstraints_def constraintsJSON_def by (simp add: doc_field_jfields literal_keys)

lemma doc_ChainSupport_back: "in_int64 (cs_ChainID c) \<Longrightarrow> doc_ChainSupport (jfields (chainSupportJSON c)) = Some c"
  unfolding doc_ChainSupport_def chainSupportJSON_def by (simp add: doc_field_jfields literal_keys dec_int64_def)

lemma doc_Reference_back: "doc_Reference (jfields (referenceJSON r)) = Some r"
  unfolding doc_Reference_def referenceJSON_def by (simp add: doc_field_jfields literal_keys)

lemma dec_ptr_back: "dec_ptr doc_SuggestedUserConstraints (map_option (\<lambda>s. jobj (suggestedJSON s)) su) = Some su"
  by (cases su) (simp_all add: dec_ptr_def dec_struct_jobj doc_Suggested_back)

text \<open>The persist gate reads a snapshot back with the reader of a sorted map.\<close>

lemma field_jfields:
  assumes "lower_keys (map fst kvs)" and "map_of kvs name \<noteq> None"
  shows "field (jfields kvs) name = the (map_of kvs name)"
proof -
  obtain v where v: "map_of kvs name = Some v" using assms(2) by blast
  have l: "list_all (\<lambda>k. ToLower k = k) (map fst kvs)" and d: "distinct (map fst kvs)"
    using assms(1) by (simp_all add: lower_keys_def)
  show ?thesis
    using filter_jfields[OF l, of name] filter_key[OF d v] lower_key[OF l v] v
    by (cases v) (simp_all add: field_def jfields_simps)
qed

lemma dec_Snapshot_parts_back:
  "dec_InputRequirements (jfields (inputRequirementsJSON ir)) = Some ir"
  "dec_SignatureProfile (jfields (signatureJSON sg)) = Some sg"
  "dec_AccountModel (jfields (accountModelJSON am)) = Some am"
  "dec_ProfileConstraints (jfields (constraintsJSON k)) = Some k"
  "dec_Reference (jfields (referenceJSON r)) = Some r"
  "dec_SolutionProfileRef (jfields (profileRefJSON rf)) = Some rf"
  unfolding dec_InputRequirements_def inputRequirementsJSON_def dec_SignatureProfile_def signatureJSON_def
    dec_AccountModel_def accountModelJSON_def dec_ProfileConstraints_def constraintsJSON_def dec_Reference_def
    referenceJSON_def dec_SolutionProfileRef_def profileRefJSON_def
  by (simp_all add: field_jfields literal_keys)

lemma dec_SnapshotChain_back:
  "in_int64 (sc_ChainID c) \<Longrightarrow> dec_SnapshotChainSupport (jfields (snapshotChainJSON c)) = Some c"
  unfolding dec_SnapshotChainSupport_def snapshotChainJSON_def
  using chain_id_roundtrip[of "sc_ChainID c"] by (simp add: field_jfields literal_keys)

lemma dec_Snapshot_back:
  assumes "list_all (\<lambda>c. in_int64 (sc_ChainID c)) (as_ChainSupportUsed a)"
  shows "dec_AcceptedProviderSnapshot (jfields (snapshotJSON a)) = Some a"
proof -
  have "dec_list (dec_struct dec_SnapshotChainSupport)
      (Some (JArr (map (\<lambda>c. jobj (snapshotChainJSON c)) (as_ChainSupportUsed a)))) = Some (as_ChainSupportUsed a)"
    using assms by (intro dec_list_map) (simp add: dec_struct_jobj dec_SnapshotChain_back list_all_iff)
  moreover have "dec_list (dec_struct dec_Reference) (Some (if as_References a = [] then JNull
      else JArr (map (\<lambda>r. jobj (referenceJSON r)) (as_References a)))) = Some (as_References a)"
    using dec_list_map[of "as_References a" "dec_struct dec_Reference" "\<lambda>r. jobj (referenceJSON r)"]
    by (auto simp: dec_struct_jobj dec_Snapshot_parts_back dec_list_def)
  ultimately show ?thesis
    unfolding dec_AcceptedProviderSnapshot_def snapshotJSON_def
    by (simp add: field_jfields literal_keys dec_struct_jobj dec_Snapshot_parts_back)
qed

text \<open>Chain ids are 64-bit integers in the source.\<close>

definition manifest_int64 :: "ProviderManifest \<Rightarrow> bool" where
  "manifest_int64 m \<longleftrightarrow> list_all (\<lambda>p. list_all (\<lambda>c. in_int64 (cs_ChainID c)) (sp_ChainSupport p)) (pm_SolutionProfiles m)"

lemma doc_SolutionProfile_back:
  assumes "list_all (\<lambda>c. in_int64 (cs_ChainID c)) (sp_ChainSupport p)"
  shows "doc_SolutionProfile (jfields (profileJSON p)) = Some p"
proof -
  have "dec_list (dec_struct doc_ChainSupport) (Some (JArr (map (\<lambda>c. jobj (chainSupportJSON c)) (sp_ChainSupport p)))) =
      Some (sp_ChainSupport p)"
    using assms by (intro dec_list_map) (simp add: dec_struct_jobj doc_ChainSupport_back list_all_iff)
  moreover have "dec_list (dec_struct doc_Reference) (jlist_opt (\<lambda>r. jobj (referenceJSON r)) (sp_References p)) =
      Some (sp_References p)"
    by (intro dec_list_opt) (simp add: dec_struct_jobj doc_Reference_back)
  ultimately show ?thesis
    unfolding doc_SolutionProfile_def profileJSON_def
    by (simp add: doc_field_jfields literal_keys dec_struct_jobj doc_InputRequirements_back doc_SignatureProfile_back
        doc_AccountModel_back doc_ProfileConstraints_back dec_ptr_back)
qed

lemma doc_ProviderManifest_back:
  assumes "manifest_int64 m"
  shows "doc_ProviderManifest (jfields (manifestJSON m)) = Some m"
proof -
  have "dec_list (dec_struct doc_SolutionProfile) (Some (JArr (map (\<lambda>p. jobj (profileJSON p)) (pm_SolutionProfiles m)))) =
      Some (pm_SolutionProfiles m)"
    using assms
    by (intro dec_list_map) (simp add: dec_struct_jobj doc_SolutionProfile_back manifest_int64_def list_all_iff)
  then show ?thesis
    unfolding doc_ProviderManifest_def manifestJSON_def by (simp add: doc_field_jfields literal_keys)
qed

lemma manifest_int64_Normalize: "manifest_int64 m \<Longrightarrow> manifest_int64 (Normalize m)"
  by (auto simp: manifest_int64_def Normalize_def normalizeSolutionProfile_def normalizeChainSupport_def list_all_iff)

lemma dec_list_all:
  assumes "dec_list d v = Some xs" and "\<And>j x. d (Some j) = Some x \<Longrightarrow> P x"
  shows "list_all P xs"
proof -
  have "list_all P ys" if "all_some (map (\<lambda>j. d (Some j)) js) = Some ys" for js ys
    using that assms(2) by (induction js arbitrary: ys) (auto split: option.splits)
  then show ?thesis
    using assms(1) by (auto simp: dec_list_def split: option.splits json.splits)
qed

lemma doc_ChainSupport_int64: "doc_ChainSupport o' = Some c \<Longrightarrow> in_int64 (cs_ChainID c)"
  by (auto simp: doc_ChainSupport_def dec_int64_def bind_eq_Some_conv in_int64_def split: option.splits json.splits if_splits)

lemma dec_struct_some: "dec_struct d v = Some x \<Longrightarrow> \<exists>o'. d o' = Some x"
  by (auto simp: dec_struct_def split: option.splits json.splits)

lemma doc_manifest_int64:
  assumes "doc_ProviderManifest o' = Some m"
  shows "manifest_int64 m"
proof -
  have chains: "list_all (\<lambda>c. in_int64 (cs_ChainID c)) (sp_ChainSupport p)" if d: "doc_SolutionProfile q = Some p" for q p
  proof -
    obtain v where "dec_list (dec_struct doc_ChainSupport) v = Some (sp_ChainSupport p)"
      using d by (auto simp: doc_SolutionProfile_def bind_eq_Some_conv)
    then show ?thesis by (rule dec_list_all) (auto dest!: dec_struct_some doc_ChainSupport_int64)
  qed
  obtain v where "dec_list (dec_struct doc_SolutionProfile) v = Some (pm_SolutionProfiles m)"
    using assms by (auto simp: doc_ProviderManifest_def bind_eq_Some_conv)
  then show ?thesis
    unfolding manifest_int64_def by (rule dec_list_all) (auto dest!: dec_struct_some chains)
qed

lemma LoadProviderManifest_int64:
  assumes "LoadProviderManifestFromBytes raw = Inr m"
  shows "manifest_int64 m"
proof -
  obtain m0 where d: "decode_body doc_ProviderManifest raw = Some m0" and n: "NormalizeAndValidate m0 = Inr m"
    using assms unfolding LoadProviderManifestFromBytes_def by (auto split: option.splits sum.splits)
  obtain o' where "doc_ProviderManifest o' = Some m0"
    using d dec_struct_some[of doc_ProviderManifest] by (cases raw) (auto simp: decode_body_def)
  moreover have "m = Normalize m0" using n by (auto simp: NormalizeAndValidate_def split: option.splits)
  ultimately show ?thesis using doc_manifest_int64 manifest_int64_Normalize by blast
qed

section \<open>The document of an assisted payload\<close>

definition userConstraintsJSON :: "UserConstraints \<Rightarrow> (string \<times> json option) list" where
  "userConstraintsJSON u =
     [(''allow_new_wallet'', Some (JBool (uc_AllowNewWallet u))),
      (''address_continuity_required'', Some (JBool (uc_AddressContinuityRequired u))),
      (''key_rotation_model'', Some (JStr (uc_KeyRotationModel u)))]"

text \<open>What a client submits that puts the assist's answer in place unchanged.\<close>

definition persistPayloadJSON :: "CryptoPolicyPersistPayload \<Rightarrow> (string \<times> json option) list" where
  "persistPayloadJSON p =
     [(''schema_version'', Some (JStr (pp_SchemaVersion p))), (''crypto_policy_id'', Some (JStr (pp_CryptoPolicyID p))),
      (''required_posture'', Some (JStr (pp_RequiredPosture p))),
      (''user_constraints'', Some (jobj (userConstraintsJSON (pp_UserConstraints p)))),
      (''solution_profile_ref'', Some (jobj (profileRefJSON (pp_SolutionProfileRef p)))),
      (''accepted_provider_snapshot'', Some (jobj (snapshotJSON (pp_AcceptedProviderSnapshot p)))),
      (''accepted_findings'', Some (jstrs (pp_AcceptedFindings p)))]"

lemma payload_keys:
  "lower_keys (map fst (userConstraintsJSON u))" "lower_keys (map fst (persistPayloadJSON p))"
  unfolding userConstraintsJSON_def persistPayloadJSON_def list.map fst_conv by code_simp+

lemmas payload_literal_keys = payload_keys[unfolded userConstraintsJSON_def persistPayloadJSON_def list.map fst_conv]

lemma dec_UserConstraints_back: "dec_UserConstraints (jfields (userConstraintsJSON u)) = Some u"
  unfolding dec_UserConstraints_def userConstraintsJSON_def by (simp add: field_jfields payload_literal_keys)

lemma field_absent:
  assumes "list_all (\<lambda>(k, _). \<not> EqualFold k name) kvs"
  shows "field (jfields kvs) name = None"
proof -
  have "list_all (\<lambda>(k, _). \<not> EqualFold k name) (jfields kvs)"
    using assms by (auto simp: jfields_def list_all_iff map_filter_def split: option.splits)
  then show ?thesis by (simp add: field_def list_all_iff filter_empty_conv case_prod_beta)
qed

lemma dec_persistPayload_back:
  assumes "list_all (\<lambda>c. in_int64 (sc_ChainID c)) (as_ChainSupportUsed (pp_AcceptedProviderSnapshot p))"
    and "pp_PolicyKind p = ''''"
  shows "dec_CryptoPolicyPersistPayload (jfields (persistPayloadJSON p)) = Some p"
proof -
  have "list_all (\<lambda>k. \<not> EqualFold k ''policy_kind'') (map fst (persistPayloadJSON p))"
    unfolding persistPayloadJSON_def list.map fst_conv by code_simp
  then have "field (jfields (persistPayloadJSON p)) ''policy_kind'' = None"
    by (intro field_absent) (auto simp: list_all_iff)
  then show ?thesis
    using assms unfolding dec_CryptoPolicyPersistPayload_def persistPayloadJSON_def
    by (simp add: field_jfields payload_literal_keys dec_struct_jobj dec_UserConstraints_back dec_Snapshot_parts_back
        dec_Snapshot_back)
qed

lemma allowed_jfields: "allowed_tree (jobj kvs) \<longleftrightarrow> list_all (\<lambda>(_, v). case v of None \<Rightarrow> True | Some j \<Rightarrow> allowed_tree j) kvs"
proof (induction kvs)
  case (Cons kv kvs)
  obtain k v where "kv = (k, v)" by fastforce
  then show ?case using Cons by (cases v) (simp_all add: jfields_simps)
qed (simp add: jfields_simps)

lemma allowed_strs [simp]: "allowed_tree (jstrs xs)"
  by (simp add: jstrs_def)

lemma allowed_opts [simp]:
  "(case jstr_opt s of None \<Rightarrow> True | Some j \<Rightarrow> allowed_tree j)"
  "(case jlist_opt JStr xs of None \<Rightarrow> True | Some j \<Rightarrow> allowed_tree j)"
  by (simp_all add: jstr_opt_def jlist_opt_def)

lemma allowed_parts:
  "allowed_tree (jobj (inputRequirementsJSON ir))" "allowed_tree (jobj (signatureJSON sg))"
  "allowed_tree (jobj (accountModelJSON am))" "allowed_tree (jobj (constraintsJSON k))"
  "allowed_tree (jobj (referenceJSON r))" "allowed_tree (jobj (profileRefJSON rf))"
  "allowed_tree (jobj (snapshotChainJSON sc))" "allowed_tree (jobj (userConstraintsJSON u))"
  by (simp_all only: allowed_jfields)
    (simp_all add: inputRequirementsJSON_def signatureJSON_def accountModelJSON_def constraintsJSON_def referenceJSON_def
      profileRefJSON_def snapshotChainJSON_def userConstraintsJSON_def FlexibleChainID_Marshal_def)

lemma allowed_payload:
  assumes "as_References (pp_AcceptedProviderSnapshot p) \<noteq> []"
  shows "allowed_tree (jobj (persistPayloadJSON p))"
proof -
  have a: "allowed_tree (jobj (snapshotJSON (pp_AcceptedProviderSnapshot p)))"
    unfolding allowed_jfields snapshotJSON_def
    using assms allowed_parts by (simp del: allowed_tree.simps(5))
  show ?thesis
    using a allowed_parts by (subst allowed_jfields) (simp add: persistPayloadJSON_def del: allowed_tree.simps(5))
qed

lemma doc_field_absent:
  assumes "list_all (\<lambda>k. \<not> EqualFold k name) (map fst kvs)"
  shows "doc_field (jfields kvs) name = None"
proof -
  have "list_all (\<lambda>(k, _). \<not> EqualFold k name) (jfields kvs)"
    using assms by (auto simp: jfields_def list_all_iff map_filter_def split: option.splits)
  then show ?thesis by (simp add: doc_field_def list_all_iff filter_empty_conv case_prod_beta)
qed

lemma manifest_no_policy_keys:
  "list_all (\<lambda>k. \<not> EqualFold k ''template_id'') (map fst (manifestJSON m))"
  "list_all (\<lambda>k. \<not> EqualFold k ''catalog_version'') (map fst (manifestJSON m))"
  "list_all (\<lambda>k. \<not> EqualFold k ''required_posture'') (map fst (manifestJSON m))"
  unfolding manifestJSON_def list.map fst_conv by code_simp+

lemma manifest_peek:
  "doc_field (jfields (manifestJSON m)) ''schema_version'' = Some (JStr (pm_SchemaVersion m))"
  "doc_field (jfields (manifestJSON m)) ''provider_id'' = Some (JStr (pm_ProviderID m))"
  "doc_field (jfields (manifestJSON m)) ''template_id'' = None"
  "doc_field (jfields (manifestJSON m)) ''catalog_version'' = None"
  "doc_field (jfields (manifestJSON m)) ''required_posture'' = None"
  using manifest_no_policy_keys[of m]
  by (simp_all add: doc_field_absent) (simp_all add: manifestJSON_def doc_field_jfields literal_keys)

lemma payload_fields: "map fst (jfields (persistPayloadJSON p)) = closedFields"
  by (simp add: persistPayloadJSON_def jfields_simps closedFields_def)

lemma payload_closed: "closedObject (jfields (persistPayloadJSON p)) (pp_AcceptedFindings p) = jfields (persistPayloadJSON p)"
  by (simp add: persistPayloadJSON_def jfields_simps closedObject_def closedFields_def jstrs_def)

lemma payload_shape: "persist_shape (jfields (persistPayloadJSON p))"
  by (simp add: persist_shape_def persistPayloadJSON_def jfields_simps legacyKeys_def userConstraintsJSON_def)

lemma assist_findings_sorted:
  assumes "registry_built reg" and "ai_Registry inp = Some reg" and "BuildAcceptedProviderSnapshot inp = Inr res"
  shows "sorted_list_of_set (set (as_AcceptedFindings (ar_AcceptedProviderSnapshot res))) =
    as_AcceptedFindings (ar_AcceptedProviderSnapshot res)"
  using assms
proof (rule assist_snapshot)
  fix m p v chs findings
  assume "mergeAssistAcceptedFindings p (ai_AcceptedFindings inp) = Inr findings"
    and "res = \<lparr>ar_SolutionProfileRef = \<lparr>spr_ProviderID = pm_ProviderID m,
          spr_SolutionProfileID = sp_SolutionProfileID p, spr_ManifestVersion = pm_ProviderVersion m,
          spr_VerificationDate = v\<rparr>,
        ar_AcceptedProviderSnapshot = snapshotOf p chs findings\<rparr>"
  then show ?thesis
    by (auto simp: mergeAssistAcceptedFindings_def normalize_findings_exact snapshotOf_def split: sum.splits)
qed

lemma classify_manifest:
  assumes "pm_SchemaVersion m = SchemaVersionV01"
  shows "classifyCatalogueJSON (JsonBody (jobj (manifestJSON m))) = catalogueKindProviderManifest"
proof -
  have "Contains (ToLower (TrimSpace SchemaVersionV01)) ''provider_manifest''" by code_simp
  then show ?thesis
    using assms by (simp add: classifyCatalogueJSON_def decode_body_def dec_struct_jobj dec_peek_def manifest_peek)
qed

section \<open>Properties\<close>

text \<open>C25. What the provider routes return is a catalogue file: the JSON of a loaded manifest is classified
  as a manifest and loads as the same manifest.\<close>

theorem manifest_json_roundtrip:
  assumes "LoadProviderManifestFromBytes raw = Inr m"
  shows "classifyCatalogueJSON (JsonBody (jobj (manifestJSON m))) = catalogueKindProviderManifest \<and>
    LoadProviderManifestFromBytes (JsonBody (jobj (manifestJSON m))) = Inr m"
proof -
  obtain m0 where m0: "NormalizeAndValidate m0 = Inr m" using assms by (rule LoadProviderManifest_Inr)
  have "pm_SchemaVersion m = SchemaVersionV01"
    using manifest.load_valid[OF m0] by (simp add: Validate_wf manifest_wf_def)
  then show ?thesis
    using classify_manifest[of m]
    using doc_ProviderManifest_back[OF LoadProviderManifest_int64[OF assms]] manifest.load_again[OF m0]
    by (simp add: LoadProviderManifestFromBytes_def decode_body_def dec_struct_jobj)
qed

definition nicetry_file :: body where
  "nicetry_file = JsonBody (jobj (manifestJSON nicetry_raw))"

lemma nicetry_file_loads: "LoadProviderManifestFromBytes nicetry_file = Inr nicetry_manifest"
proof -
  have "manifest_int64 nicetry_raw" by code_simp
  from doc_ProviderManifest_back[OF this] show ?thesis
    by (simp add: nicetry_file_def LoadProviderManifestFromBytes_def decode_body_def dec_struct_jobj nicetry_load)
qed

theorem manifest_json_roundtrip_witness:
  "LoadProviderManifestFromBytes (JsonBody (jobj (manifestJSON nicetry_manifest))) = Inr nicetry_manifest"
  using manifest_json_roundtrip[OF nicetry_file_loads] by blast

text \<open>C22. The assist's answer, on a registry built from manifests without NUL bytes in their provider ids,
  can be persisted: the document that puts its snapshot and reference in
  place unchanged has a digest whenever the profile has a reference and the canonicalizer accepts
  it, the canonical object is the document itself, and the gate accepts it exactly when the
  references are pinned, the posture is the required one, the profile takes an EOA and the user's
  constraints fit.\<close>

theorem assist_json_persistable:
  assumes "registry_built reg" and "ai_Registry inp = Some reg"
    and "BuildAcceptedProviderSnapshot inp = Inr res" and "CryptoPolicy_NormalizeAndValidate cp0 = Inr cp"
    and "uc_KeyRotationModel uc \<in> set rotation_models"
    and "list_all (\<lambda>c. in_int64 (sc_ChainID c)) (as_ChainSupportUsed (ar_AcceptedProviderSnapshot res))"
    and "as_References (ar_AcceptedProviderSnapshot res) \<noteq> []"
    and "doc = jfields (persistPayloadJSON (assistPayload cp uc res))" and "jcs (Marshal (JObj doc)) = Inr canon"
  shows "DigestCanonical jcs (JObj doc) = Inr (hex_digest canon, doc) \<and>
    (ValidatePayloadForPersist (Some doc) = None \<longleftrightarrow>
       references_ok (as_References (ar_AcceptedProviderSnapshot res)) \<and>
       as_ResultingPosture (ar_AcceptedProviderSnapshot res) = cp_RequiredPosture cp \<and>
       walletTypeAccepted ''EOA'' (ir_WalletTypes (as_InputRequirements (ar_AcceptedProviderSnapshot res))) \<and>
       user_ok uc (snapshotAsProfile (assistPayload cp uc res)))"
proof -
  let ?p = "assistPayload cp uc res"
  have wf: "crypto_policy_wf cp" using crypto_policy.load_valid[OF assms(4)] by (simp add: CryptoPolicy_Validate_wf)
  have "cp_ID (CryptoPolicy_Normalize cp) = TrimSpace (cp_ID cp)" by (simp add: CryptoPolicy_Normalize_def)
  then have "TrimSpace (cp_ID cp) = cp_ID cp" using crypto_policy.load_canonical[OF assms(4)] by simp
  note g = assistPayload_gate[OF assms(1-3) wf this assms(5)]
  have f: "fst ` set doc = set closedFields" unfolding assms(8) payload_fields[of ?p, symmetric] by (simp add: image_def)
  have d: "dec_CryptoPolicyPersistPayload doc = Some ?p"
    unfolding assms(8) using assms(6) by (intro dec_persistPayload_back) (simp_all add: assistPayload_def)
  have "closed_payload doc"
    using f allowed_payload[of ?p] assms(7,8) by (simp add: closed_payload_def assistPayload_def)
  moreover have "map_of doc ''accepted_findings'' = Some (JArr (map JStr (pp_AcceptedFindings ?p)))"
    unfolding assms(8) by (simp add: persistPayloadJSON_def jfields_simps jstrs_def)
  moreover have "closedObject doc (sorted_list_of_set (set (pp_AcceptedFindings ?p))) = doc"
    using assist_findings_sorted[OF assms(1-3)] payload_closed[of ?p] unfolding assms(8) by (simp add: assistPayload_def)
  ultimately have "DigestCanonical jcs (JObj doc) = Inr (hex_digest canon, doc)"
    unfolding DigestCanonical_Inr using assms(9)
    by (intro exI[of _ "pp_AcceptedFindings ?p"] exI[of _ canon]) simp
  moreover have "ValidatePayloadForPersist (Some doc) = None \<longleftrightarrow> persistable (normalizePayload ?p) greenfield"
    unfolding ValidatePayloadForPersist_None closed_no_context[OF f] d using payload_shape[of ?p] assms(8) by simp
  ultimately show ?thesis
    unfolding g(1) persistable_greenfield using g(2-4) by (simp add: assistPayload_def)
qed

theorem assist_json_persistable_witness:
  "ValidatePayloadForPersist (Some (jfields (persistPayloadJSON (assistPayload pq_policy nicetry_choice nicetry_result)))) = None"
proof -
  let ?doc = "jfields (persistPayloadJSON (assistPayload pq_policy nicetry_choice nicetry_result))"
  have i: "ai_Registry nicetry_input = Some nicetry_registry" by (simp add: nicetry_input_def)
  have u: "uc_KeyRotationModel nicetry_choice \<in> set rotation_models"
    by (simp add: nicetry_choice_def rotation_models_def)
  have c: "list_all (\<lambda>c. in_int64 (sc_ChainID c)) (as_ChainSupportUsed (ar_AcceptedProviderSnapshot nicetry_result))"
    unfolding nicetry_result_def by code_simp
  have r: "references_ok (as_References (ar_AcceptedProviderSnapshot nicetry_result))"
    "as_ResultingPosture (ar_AcceptedProviderSnapshot nicetry_result) = cp_RequiredPosture pq_policy"
    "walletTypeAccepted ''EOA'' (ir_WalletTypes (as_InputRequirements (ar_AcceptedProviderSnapshot nicetry_result)))"
    "user_ok nicetry_choice (snapshotAsProfile (assistPayload pq_policy nicetry_choice nicetry_result))"
    unfolding nicetry_result_def references_ok_def user_ok_def by code_simp+
  then have n: "as_References (ar_AcceptedProviderSnapshot nicetry_result) \<noteq> []" by (simp add: references_ok_def)
  show ?thesis
    using assist_json_persistable[OF nicetry_registry_built i nicetry_assist pq_policy_load u c n refl,
        of "\<lambda>_. Inr ''''"] r by blast
qed

end
