(* ===== verification/Policy_Context.thy ===== *)
theory Policy_Context
  imports Api_Json
begin

text \<open>
  The scan context of an explore request (\<^verbatim>\<open>internal/api/explore_policy_context.go\<close>) and of a scan detail
  fetched from Discovery (\<^verbatim>\<open>wallet_scan_detail.go\<close>), and the observation the evaluator gets from it. The
  vocabulary of the wire contract (\<^verbatim>\<open>cafe-contracts/observation/wallet/v01\<close>, outside the repository)
  is a parameter: its constants and the validity of account kinds, algorithms and postures; so is
  the text \<^verbatim>\<open>encoding/json\<close> gives for a value of the wrong type.
\<close>

section \<open>The wire contract\<close>

record contracts =
  ct_AccountKindValid :: "string \<Rightarrow> bool"
  ct_EOA :: string
  ct_ERC4337SmartAccount :: string
  ct_ContractAccount :: string
  ct_AccountKindUnknown :: string
  ct_AlgorithmValid :: "string \<Rightarrow> bool"
  ct_Secp256k1 :: string
  ct_PQPostureValid :: "string \<Rightarrow> bool"
  ct_PQUnknown :: string
  ct_PQFullPQ :: string
  ct_PQClassicalOnly :: string
  ct_TypeError :: "json \<Rightarrow> string"

text \<open>What the contract documents of its own constants: they are valid.\<close>

definition contract_consistent :: "contracts \<Rightarrow> bool" where
  "contract_consistent ct \<longleftrightarrow>
     list_all (ct_AccountKindValid ct)
       [ct_EOA ct, ct_ERC4337SmartAccount ct, ct_ContractAccount ct, ct_AccountKindUnknown ct] \<and>
     ct_AlgorithmValid ct (ct_Secp256k1 ct) \<and>
     list_all (ct_PQPostureValid ct) [ct_PQUnknown ct, ct_PQFullPQ ct, ct_PQClassicalOnly ct, ''hybrid'', ''unknown'']"

record WalletObserved = WalletPayload +
  wo_CurrentAlgorithm :: string
  wo_PublicKeyExposed :: bool
  wo_IsMultichain :: bool
  wo_ObservedAt :: gotime
  wo_CurrentPQPosture :: string

section \<open>Reading a policy context\<close>

record walletPolicyContextWire =
  wx_ScanID :: string
  wx_WalletAddress :: string
  wx_TargetAddress :: string
  wx_WalletType :: string
  wx_ChainIDs :: "int64 list"
  wx_CurrentAlgorithm :: string
  wx_CurrentPQPosture :: string
  wx_ScannedAt :: string
  wx_Status :: string
  wx_KeyExposed :: bool

definition dec_walletPolicyContextWire :: "json gomap \<Rightarrow> walletPolicyContextWire option" where
  "dec_walletPolicyContextWire o' = do {
     i \<leftarrow> dec_string (doc_field o' ''scan_id'');
     w \<leftarrow> dec_string (doc_field o' ''wallet_address'');
     t \<leftarrow> dec_string (doc_field o' ''target_address'');
     y \<leftarrow> dec_string (doc_field o' ''wallet_type'');
     c \<leftarrow> dec_list dec_int64 (doc_field o' ''chain_ids'');
     a \<leftarrow> dec_string (doc_field o' ''current_algorithm'');
     p \<leftarrow> dec_string (doc_field o' ''current_pq_posture'');
     s \<leftarrow> dec_string (doc_field o' ''scanned_at'');
     st \<leftarrow> dec_string (doc_field o' ''status'');
     k \<leftarrow> dec_bool (doc_field o' ''key_exposed'');
     Some \<lparr>wx_ScanID = i, wx_WalletAddress = w, wx_TargetAddress = t, wx_WalletType = y, wx_ChainIDs = c,
       wx_CurrentAlgorithm = a, wx_CurrentPQPosture = p, wx_ScannedAt = s, wx_Status = st, wx_KeyExposed = k\<rparr> }"

record walletScanResultV1Wire =
  wv_TargetAddress :: string
  wv_ChainIDs :: "int64 list"
  wv_WalletType :: string
  wv_CurrentPQPosture :: string
  wv_CurrentAlgorithm :: string
  wv_Algorithm :: string
  wv_ScannedAt :: string
  wv_KeyExposed :: bool

definition dec_walletScanResultV1Wire :: "json gomap \<Rightarrow> walletScanResultV1Wire option" where
  "dec_walletScanResultV1Wire o' = do {
     t \<leftarrow> dec_string (doc_field o' ''target_address'');
     c \<leftarrow> dec_list dec_int64 (doc_field o' ''chain_ids'');
     y \<leftarrow> dec_string (doc_field o' ''wallet_type'');
     p \<leftarrow> dec_string (doc_field o' ''current_pq_posture'');
     a \<leftarrow> dec_string (doc_field o' ''current_algorithm'');
     g \<leftarrow> dec_string (doc_field o' ''algorithm'');
     s \<leftarrow> dec_string (doc_field o' ''scanned_at'');
     k \<leftarrow> dec_bool (doc_field o' ''key_exposed'');
     Some \<lparr>wv_TargetAddress = t, wv_ChainIDs = c, wv_WalletType = y, wv_CurrentPQPosture = p,
       wv_CurrentAlgorithm = a, wv_Algorithm = g, wv_ScannedAt = s, wv_KeyExposed = k\<rparr> }"

definition pickAlgorithm :: "string \<Rightarrow> string \<Rightarrow> string" where
  "pickAlgorithm current algorithm = (if TrimSpace current \<noteq> '''' then TrimSpace current else TrimSpace algorithm)"

text \<open>\<^verbatim>\<open>json.Unmarshal\<close> into a string with the error ignored\<close>

definition lenientString :: "json option \<Rightarrow> string" where
  "lenientString v = (case v of Some (JStr s) \<Rightarrow> TrimSpace s | _ \<Rightarrow> '''')"

definition contextFromResult :: "json gomap \<Rightarrow> walletScanResultV1Wire \<Rightarrow> walletPolicyContextWire" where
  "contextFromResult tp res =
     \<lparr>wx_ScanID = lenientString (map_of tp ''scan_id''), wx_WalletAddress = TrimSpace (wv_TargetAddress res),
      wx_TargetAddress = TrimSpace (wv_TargetAddress res), wx_WalletType = wv_WalletType res,
      wx_ChainIDs = wv_ChainIDs res, wx_CurrentAlgorithm = pickAlgorithm (wv_CurrentAlgorithm res) (wv_Algorithm res),
      wx_CurrentPQPosture = wv_CurrentPQPosture res, wx_ScannedAt = wv_ScannedAt res,
      wx_Status = lenientString (map_of tp ''status''), wx_KeyExposed = wv_KeyExposed res\<rparr>"

text \<open>The error texts; a value is never blank, so the first check of the source never fails here.\<close>

definition parsePolicyContextFlexible :: "contracts \<Rightarrow> json \<Rightarrow> string + walletPolicyContextWire" where
  "parsePolicyContextFlexible ct raw =
     (let flat = (case dec_struct dec_walletPolicyContextWire (Some raw) of
          None \<Rightarrow> Inl (''policy_context: '' @ ct_TypeError ct raw) | Some pc \<Rightarrow> Inr pc) in
      case raw of
        JObj tp \<Rightarrow>
          (case map_of tp ''result'' of
             None \<Rightarrow> flat
           | Some JNull \<Rightarrow> flat
           | Some sub \<Rightarrow>
               (case dec_struct dec_walletScanResultV1Wire (Some sub) of
                  None \<Rightarrow> Inl (''policy_context.result: '' @ ct_TypeError ct sub)
                | Some res \<Rightarrow> Inr (contextFromResult tp res)))
      | JNull \<Rightarrow> flat
      | _ \<Rightarrow> Inl (''policy_context: '' @ ct_TypeError ct raw))"

section \<open>The observation\<close>

definition normalizeWireAccountKind :: "contracts \<Rightarrow> string \<Rightarrow> string" where
  "normalizeWireAccountKind ct walletType =
     (let s = TrimSpace walletType; up = ToUpper s; lt = ToLower s in
      if up = ''EOA'' then ct_EOA ct
      else if up = ''AA'' then ct_ERC4337SmartAccount ct
      else if up = ''CONTRACT'' then ct_ContractAccount ct
      else if up = ''SMART_ACCOUNT'' then ct_ERC4337SmartAccount ct
      else if lt = ''eoa'' then ct_EOA ct
      else if lt = ''aa'' \<or> lt = ''smart_account'' then ct_ERC4337SmartAccount ct
      else if lt = ''contract'' then ct_ContractAccount ct
      else if lt = ''unknown'' then ct_AccountKindUnknown ct
      else if lt \<noteq> '''' \<and> ct_AccountKindValid ct lt then lt
      else ct_AccountKindUnknown ct)"

definition underscored :: "string \<Rightarrow> string" where
  "underscored s = map (\<lambda>c. if c = CHR ''-'' \<or> c = CHR '' '' then CHR ''_'' else c) s"

definition normalizeWireAlgorithmID :: "contracts \<Rightarrow> string \<Rightarrow> string" where
  "normalizeWireAlgorithmID ct raw =
     (let s = TrimSpace raw; ls = ToLower s in
      if s = '''' then ''''
      else if ct_AlgorithmValid ct ls then ls
      else if underscored ls = ''ecdsa_secp256k1'' \<or> underscored ls = ''secp256k1'' then ct_Secp256k1 ct
      else s)"

definition mapWirePQPostureToV01Exported :: "contracts \<Rightarrow> string \<Rightarrow> string + string" where
  "mapWirePQPostureToV01Exported ct raw =
     (let s = TrimSpace raw; ls = ToLower s in
      if s = '''' then Inr (ct_PQUnknown ct)
      else if ct_PQPostureValid ct ls then Inr ls
      else if ls = ''pq_ready'' then Inr (ct_PQFullPQ ct)
      else if ls = ''not_pq_ready'' then Inr (ct_PQClassicalOnly ct)
      else if ls = ''hybrid'' \<or> ls = ''unknown'' then Inr ls
      else Inl (''policy_context.current_pq_posture invalid: '' @ Quote raw))"

text \<open>Both layouts the source tries are read by the same RFC 3339 parser.\<close>

definition scannedAt :: "string \<Rightarrow> string + gotime" where
  "scannedAt raw0 =
     (let raw = TrimSpace raw0 in
      if raw = '''' then Inr zeroTime
      else case ParseRFC3339 raw of
        Some t \<Rightarrow> Inr t
      | None \<Rightarrow> Inl (''policy_context.scanned_at: invalid time '' @ Quote raw))"

definition observationFromWalletPolicyContext ::
  "contracts \<Rightarrow> walletPolicyContextWire option \<Rightarrow> string + WalletObserved" where
  "observationFromWalletPolicyContext ct pco =
     (case pco of
        None \<Rightarrow> Inl ''policy_context is nil''
      | Some pc \<Rightarrow>
          let kind = normalizeWireAccountKind ct (wx_WalletType pc);
              algo0 = normalizeWireAlgorithmID ct (wx_CurrentAlgorithm pc);
              algo = (if algo0 = '''' then ct_Secp256k1 ct else algo0) in
          if \<not> ct_AccountKindValid ct kind
          then Inl (''policy_context.wallet_type resolves to invalid account_kind '' @ Quote kind)
          else if \<not> ct_AlgorithmValid ct algo then Inl (''policy_context current_algorithm invalid: '' @ Quote algo)
          else ebind (mapWirePQPostureToV01Exported ct (wx_CurrentPQPosture pc)) (\<lambda>pq.
            ebind (scannedAt (wx_ScannedAt pc)) (\<lambda>observedAt.
            Inr \<lparr>wp_AccountKind = kind, wp_ChainIDs = wx_ChainIDs pc, wo_CurrentAlgorithm = algo,
              wo_PublicKeyExposed = wx_KeyExposed pc, wo_IsMultichain = 1 < length (wx_ChainIDs pc),
              wo_ObservedAt = observedAt, wo_CurrentPQPosture = pq\<rparr>)))"

section \<open>A scan detail of Discovery\<close>

datatype detail_error = ErrWalletScanDetailTLS | ErrWalletScanDetailNoResult | DetailInvalid string

record detailProbe =
  dp_ScanFamily :: string
  dp_Result :: "json option"

definition dec_detailProbe :: "json gomap \<Rightarrow> detailProbe option" where
  "dec_detailProbe o' = do {
     f \<leftarrow> dec_string (doc_field o' ''scan_family'');
     Some \<lparr>dp_ScanFamily = f, dp_Result = doc_field o' ''result''\<rparr> }"

definition ObservationPayloadFromDiscoveryWalletScanDetail :: "contracts \<Rightarrow> body \<Rightarrow> detail_error + WalletObserved" where
  "ObservationPayloadFromDiscoveryWalletScanDetail ct detail =
     (case detail of
        JsonBody j \<Rightarrow>
          (case dec_struct dec_detailProbe (Some j) of
             None \<Rightarrow> Inl (DetailInvalid (''wallet scan detail: '' @ ct_TypeError ct j))
           | Some probe \<Rightarrow>
               if EqualFold (TrimSpace (dp_ScanFamily probe)) ''tls'' then Inl ErrWalletScanDetailTLS
               else if payload_absent (dp_Result probe) then Inl ErrWalletScanDetailNoResult
               else case parsePolicyContextFlexible ct j of
                 Inl e \<Rightarrow> Inl (DetailInvalid e)
               | Inr pc \<Rightarrow>
                   (case observationFromWalletPolicyContext ct (Some pc) of
                      Inl e \<Rightarrow> Inl (DetailInvalid e) | Inr p \<Rightarrow> Inr p))
      | BadBody e \<Rightarrow> Inl (DetailInvalid (''wallet scan detail: '' @ e))
      | TrailingBody _ e \<Rightarrow> Inl (DetailInvalid (''wallet scan detail: '' @ e))
      | NoBody \<Rightarrow> Inl (DetailInvalid (''wallet scan detail: unexpected end of JSON input'')))"

section \<open>What an observation satisfies\<close>

lemma account_kind_valid:
  "contract_consistent ct \<Longrightarrow> ct_AccountKindValid ct (normalizeWireAccountKind ct w)"
  by (auto simp: contract_consistent_def normalizeWireAccountKind_def Let_def)

lemma posture_valid:
  "contract_consistent ct \<Longrightarrow> mapWirePQPostureToV01Exported ct raw = Inr q \<Longrightarrow> ct_PQPostureValid ct q"
  by (auto simp: contract_consistent_def mapWirePQPostureToV01Exported_def Let_def split: if_splits)

lemma ebind_Inr: "ebind r f = Inr b \<longleftrightarrow> (\<exists>a. r = Inr a \<and> f a = Inr b)"
  by (auto simp: ebind_def split: sum.splits)

lemma observation_Inr:
  assumes "observationFromWalletPolicyContext ct (Some pc) = Inr ob"
  obtains q t where "mapWirePQPostureToV01Exported ct (wx_CurrentPQPosture pc) = Inr q"
    and "scannedAt (wx_ScannedAt pc) = Inr t" and "ct_AlgorithmValid ct (wo_CurrentAlgorithm ob)"
    and "wp_AccountKind ob = normalizeWireAccountKind ct (wx_WalletType pc)" and "wp_ChainIDs ob = wx_ChainIDs pc"
    and "wo_CurrentPQPosture ob = q" and "wo_ObservedAt ob = t" and "ct_AccountKindValid ct (wp_AccountKind ob)"
    and "wo_IsMultichain ob \<longleftrightarrow> 1 < length (wp_ChainIDs ob)"
  using assms
  by (auto simp: observationFromWalletPolicyContext_def Let_def ebind_Inr split: if_splits)

end
