(* ===== verification/Read_Api.thy ===== *)
theory Read_Api
  imports Policy_Context
begin

text \<open>
  The read routes of \<^verbatim>\<open>internal/api\<close>: the catalogue (\<^verbatim>\<open>read_api.go\<close>), the explore decision with its
  signal (\<^verbatim>\<open>explore_observability.go\<close>) and the snapshot assist (\<^verbatim>\<open>accepted_provider_snapshot_routes.go\<close>).
  They read the store loaded at start and change nothing. The lemmas show that the routes agree on
  which crypto policies are offered and when the signal for an empty result fires.
\<close>

section \<open>The catalogue\<close>

definition offered :: "ReadStore \<Rightarrow> CryptoPolicy \<Rightarrow> bool" where
  "offered store cp \<longleftrightarrow> HasPostureCompatibleProvider (Some cp) (Some (rd_providers store))"

definition catalogItem :: "ReadStore \<Rightarrow> CryptoPolicy \<Rightarrow> json" where
  "catalogItem store cp = catalogItemJSON (CatalogItemFromCryptoPolicy (Some cp) (Some (rd_providers store)))"

definition handleListCryptoPolicies :: "ReadStore \<Rightarrow> Response" where
  "handleListCryptoPolicies store =
     writeJSON 200 (JObj [(''items'', JArr (map (catalogItem store) (filter (offered store) (rd_cryptoPolicies store))))])"

definition cryptoPolicyNotOfferedError :: string where
  "cryptoPolicyNotOfferedError = ''crypto policy is not offered''"

definition handleGetCryptoPolicy :: "ReadStore \<Rightarrow> string \<Rightarrow> Response" where
  "handleGetCryptoPolicy store i =
     (case map_of (rd_cryptoPolicyByID store) i of
        None \<Rightarrow> writeJSON 404 (errorJSON ''crypto policy not found'')
      | Some cp \<Rightarrow>
          if \<not> offered store cp then writeJSON 404 (errorJSON cryptoPolicyNotOfferedError)
          else writeJSON 200 (catalogItem store cp))"

definition handleListProviders :: "ReadStore \<Rightarrow> Response" where
  "handleListProviders store =
     writeJSON 200 (JObj [(''items'', JArr (map (\<lambda>m. jobj (manifestJSON m)) (List (rd_providers store))))])"

definition handleGetProvider :: "ReadStore \<Rightarrow> string \<Rightarrow> Response" where
  "handleGetProvider store i =
     (case Get (rd_providers store) i of
        None \<Rightarrow> writeJSON 404 (errorJSON ''provider not found'')
      | Some m \<Rightarrow> writeJSON 200 (jobj (manifestJSON m)))"

section \<open>The explore request\<close>

record decisionExploreRequest =
  dx_ScanID :: string
  dx_CryptoPolicyID :: string
  dx_PolicyContext :: "walletPolicyContextWire option"

definition explorePayloadForbiddenKeys :: "string list" where
  "explorePayloadForbiddenKeys =
     [''selection_request'', ''allow_new_wallet'', ''address_continuity_required'', ''key_rotation_model'',
      ''target_posture'', ''target_chain_ids'', ''require_multichain'', ''recovery_required'', ''minimum_maturity'',
      ''allow_research'', ''allowed_provider_modes'', ''preferred_families'', ''preferred_providers'',
      ''require_bundler_available'', ''require_paymaster_available'', ''approval_mode'']"

text \<open>The object a body denotes, or the library's message; \<^verbatim>\<open>null\<close> is the empty map.\<close>

definition rawObject :: "contracts \<Rightarrow> body \<Rightarrow> string + json gomap" where
  "rawObject ct b =
     (case b of
        NoBody \<Rightarrow> Inl ''invalid json body: unexpected end of JSON input''
      | BadBody e \<Rightarrow> Inl (''invalid json body: '' @ e)
      | TrailingBody _ e \<Rightarrow> Inl (''invalid json body: '' @ e)
      | JsonBody (JObj kvs) \<Rightarrow> Inr kvs
      | JsonBody JNull \<Rightarrow> Inr []
      | JsonBody j \<Rightarrow> Inl (''invalid json body: '' @ ct_TypeError ct j))"

definition requiredPolicyID :: "contracts \<Rightarrow> json gomap \<Rightarrow> string + string" where
  "requiredPolicyID ct raw =
     (case map_of raw ''crypto_policy_id'' of
        None \<Rightarrow> Inl ''crypto_policy_id is required''
      | Some v \<Rightarrow>
          (case dec_string (Some v) of
             None \<Rightarrow> Inl (''crypto_policy_id: '' @ ct_TypeError ct v)
           | Some s \<Rightarrow> if TrimSpace s = '''' then Inl ''crypto_policy_id is required'' else Inr (TrimSpace s)))"

definition decodeDecisionExploreRequest :: "contracts \<Rightarrow> Request \<Rightarrow> string + decisionExploreRequest" where
  "decodeDecisionExploreRequest ct r =
     ebind (rawObject ct (rq_Body r)) (\<lambda>raw.
     case find (\<lambda>(k, _). k \<in> set explorePayloadForbiddenKeys) raw of
       Some (k, _) \<Rightarrow> Inl (''legacy field rejected: '' @ k)
     | None \<Rightarrow>
     (case find (\<lambda>(k, _). k \<notin> set [''scan_id'', ''crypto_policy_id'', ''policy_context'']) raw of
       Some (k, _) \<Rightarrow> Inl (''unknown field '' @ k)
     | None \<Rightarrow>
     (case map_of raw ''policy_context'' of
       None \<Rightarrow> Inl ''policy_context is required''
     | Some pcRaw \<Rightarrow>
         ebind (parsePolicyContextFlexible ct pcRaw) (\<lambda>pc.
         ebind (requiredPolicyID ct raw) (\<lambda>cryptoPolicyID.
         Inr \<lparr>dx_ScanID = lenientString (map_of raw ''scan_id''), dx_CryptoPolicyID = cryptoPolicyID,
           dx_PolicyContext = Some pc\<rparr>)))))"

definition observationFromDecisionExplore :: "contracts \<Rightarrow> decisionExploreRequest \<Rightarrow> string + WalletObserved" where
  "observationFromDecisionExplore ct req =
     (case dx_PolicyContext req of
        None \<Rightarrow> Inl ''policy_context is required''
      | Some pc \<Rightarrow> observationFromWalletPolicyContext ct (Some pc))"

section \<open>The signal of an empty result\<close>

definition rejectionCodeChainScope :: string where "rejectionCodeChainScope = ''incompatible.chain_scope''"

text \<open>The source also keeps a finding without a severity; every finding of the model carries one of the
  three severities, and those of the evaluators are blocking.\<close>

definition collectBlockingRejectionCodes :: "RejectedPolicy list \<Rightarrow> string list" where
  "collectBlockingRejectionCodes rejected =
     dedupe_by (\<lambda>c. c) [] (map af_Code (filter (\<lambda>f. af_Code f \<noteq> '''' \<and> af_Severity f = AssessmentFindingSeverityBlocking)
       (concat (map rj_RejectionReasons rejected))))"

definition collectAllRejectionCodes :: "RejectedPolicy list \<Rightarrow> string list" where
  "collectAllRejectionCodes rejected =
     sort (dedupe_by (\<lambda>c. c) [] (map af_Code (filter (\<lambda>f. af_Code f \<noteq> '''') (concat (map rj_RejectionReasons rejected)))))"

definition dominantExploreRejectionCode :: "RejectedPolicy list \<Rightarrow> string" where
  "dominantExploreRejectionCode rejected =
     (let codes = collectBlockingRejectionCodes rejected in
      if codes = [] then ''unknown''
      else if rejectionCodeChainScope \<in> set codes then rejectionCodeChainScope
      else hd (sort codes))"

definition rejectedCandidateHasCode :: "RejectedPolicy \<Rightarrow> string \<Rightarrow> bool" where
  "rejectedCandidateHasCode candidate code \<longleftrightarrow> list_ex (\<lambda>f. af_Code f = code) (rj_RejectionReasons candidate)"

definition missingTargets :: "int64 list \<Rightarrow> int64 list \<Rightarrow> int64 list" where
  "missingTargets targetChainIDs scopeChainIDs =
     filter (\<lambda>i. i \<notin> set (filter (\<lambda>j. 0 < j) scopeChainIDs))
       (dedupe_by (\<lambda>i. i) [] (filter (\<lambda>i. 0 < i) targetChainIDs))"

definition countMissingTargetChains :: "int64 list \<Rightarrow> int64 list \<Rightarrow> nat" where
  "countMissingTargetChains targetChainIDs scopeChainIDs = length (missingTargets targetChainIDs scopeChainIDs)"

definition missingTargetChains :: "int64 list \<Rightarrow> int64 list \<Rightarrow> int64 list" where
  "missingTargetChains targetChainIDs scopeChainIDs = sort (missingTargets targetChainIDs scopeChainIDs)"

text \<open>The candidates rejected for their chain scope that have a known scope, with it.\<close>

definition scopedRejections :: "RejectedPolicy list \<Rightarrow> int64 list gomap \<Rightarrow> int64 list list" where
  "scopedRejections rejected instanceScopes =
     List.map_filter (\<lambda>c. if rejectedCandidateHasCode c rejectionCodeChainScope
       then map_of instanceScopes (rj_CryptoPolicyInstanceID c) else None) rejected"

fun minMissingLoop :: "nat option \<Rightarrow> nat list \<Rightarrow> nat option" where
  "minMissingLoop found [] = found"
| "minMissingLoop found (missing # rest) =
     minMissingLoop (case found of None \<Rightarrow> Some missing | Some m \<Rightarrow> if missing < m then Some missing else Some m) rest"

definition minMissingChainCountForChainScopeRejections ::
  "int64 list \<Rightarrow> RejectedPolicy list \<Rightarrow> int64 list gomap \<Rightarrow> nat option" where
  "minMissingChainCountForChainScopeRejections targetChainIDs rejected instanceScopes =
     (if targetChainIDs = [] \<or> instanceScopes = [] then None
      else minMissingLoop None (map (countMissingTargetChains targetChainIDs) (scopedRejections rejected instanceScopes)))"

definition bucketMissingChainCountValue :: "nat \<Rightarrow> string" where
  "bucketMissingChainCountValue n =
     (if n = 0 then ''0'' else if n = 1 then ''1'' else if n = 2 then ''2'' else if n = 3 then ''3'' else ''4_plus'')"

definition bucketMissingChainCount :: "int64 list \<Rightarrow> RejectedPolicy list \<Rightarrow> int64 list gomap \<Rightarrow> string \<Rightarrow> string" where
  "bucketMissingChainCount targetChainIDs rejected instanceScopes dominantCode =
     (if dominantCode \<noteq> rejectionCodeChainScope then ''unknown''
      else case minMissingChainCountForChainScopeRejections targetChainIDs rejected instanceScopes of
        None \<Rightarrow> ''unknown''
      | Some m \<Rightarrow> bucketMissingChainCountValue m)"

definition closestChainScopeMissingChains ::
  "int64 list \<Rightarrow> RejectedPolicy list \<Rightarrow> int64 list gomap \<Rightarrow> int64 list \<times> int64 list" where
  "closestChainScopeMissingChains targetChainIDs rejected instanceScopes =
     (if targetChainIDs = [] then ([], [])
      else case minMissingChainCountForChainScopeRejections targetChainIDs rejected instanceScopes of
        None \<Rightarrow> ([], [])
      | Some minMissing \<Rightarrow>
          (case find (\<lambda>scope. countMissingTargetChains targetChainIDs scope = minMissing)
             (scopedRejections rejected instanceScopes) of
             None \<Rightarrow> ([], [])
           | Some scope \<Rightarrow> (missingTargetChains targetChainIDs scope, scope)))"

definition exploreBindingLabel :: "decisionExploreRequest \<Rightarrow> string" where
  "exploreBindingLabel req =
     (if TrimSpace (dx_ScanID req) \<noteq> '''' then ''discovery''
      else case dx_PolicyContext req of
        None \<Rightarrow> ''unknown''
      | Some pc \<Rightarrow>
          if TrimSpace (wx_ScanID pc) \<noteq> '''' \<or> TrimSpace (wx_Status pc) \<noteq> '''' then ''discovery'' else ''unknown'')"

definition exploreWalletTypeLabel :: "contracts \<Rightarrow> decisionExploreRequest \<Rightarrow> string" where
  "exploreWalletTypeLabel ct req =
     (case dx_PolicyContext req of
        None \<Rightarrow> ''unknown''
      | Some pc \<Rightarrow>
          (let kind = normalizeWireAccountKind ct (wx_WalletType pc) in
           if TrimSpace kind = '''' then ''unknown'' else kind))"

definition exploreWalletAddressHash :: "walletPolicyContextWire \<Rightarrow> string" where
  "exploreWalletAddressHash pc =
     (let raw = (if TrimSpace (wx_TargetAddress pc) = '''' then TrimSpace (wx_WalletAddress pc) else TrimSpace (wx_TargetAddress pc)) in
      if raw = '''' then ''''
      else case NormalizeWalletTargetAddress raw of None \<Rightarrow> '''' | Some norm \<Rightarrow> take 16 (hex_digest norm))"

definition formatInt64Slice :: "int64 list \<Rightarrow> string" where
  "formatInt64Slice ids = Join (map FormatInt ids) '',''"

definition sanitizeExploreRequestID :: "string \<Rightarrow> string option" where
  "sanitizeExploreRequestID raw =
     (let value = TrimSpace raw in
      if value = '''' \<or> 128 < length value then None
      else if list_all requestIDChar value then Some value else None)"

definition logField :: "string \<Rightarrow> string \<Rightarrow> string list" where
  "logField name v = (if v = '''' then [] else [name @ ''='' @ Quote v])"

definition logNoDeployableCandidate ::
  "Request \<Rightarrow> decisionExploreRequest \<Rightarrow> PolicyDecision \<Rightarrow> string \<Rightarrow> string \<Rightarrow> string \<Rightarrow> string \<Rightarrow> trace_event" where
  "logNoDeployableCandidate r req decision dominantCode missingCountLabel walletType binding =
     (let targetChainIDs = rs_TargetChainIDs (pd_RequestSummary decision);
          rejected = pd_RejectedCandidates decision;
          closest = closestChainScopeMissingChains targetChainIDs rejected [];
          pcFields = (case dx_PolicyContext req of
              None \<Rightarrow> []
            | Some pc \<Rightarrow>
                logField ''wallet_address_hash'' (exploreWalletAddressHash pc) @
                logField ''scan_id'' (if TrimSpace (dx_ScanID req) \<noteq> '''' then TrimSpace (dx_ScanID req)
                  else TrimSpace (wx_ScanID pc))) in
      LogLine (Join (
        [''event='' @ Quote ''cpm.explore.no_deployable_candidate'', ''adr_signal='' @ Quote ''runtime.no_scan_compatible'',
         ''dominant_rejection_code='' @ Quote dominantCode, ''wallet_type='' @ Quote walletType, ''binding='' @ Quote binding,
         ''missing_chain_count_bucket='' @ Quote missingCountLabel,
         ''rejected_candidates_count='' @ FormatInt (int (length rejected))] @ pcFields @
        logField ''requested_chain_ids'' (formatInt64Slice targetChainIDs) @
        logField ''observed_chain_ids'' (formatInt64Slice (pd_ObservedChainIDs decision)) @
        logField ''candidate_chain_ids'' (formatInt64Slice (snd closest)) @
        logField ''missing_chain_ids'' (formatInt64Slice (fst closest)) @
        logField ''rejection_codes'' (Join (collectAllRejectionCodes rejected) '','') @
        concat (map (\<lambda>c. logField ''candidate_id'' (rj_CandidateID c)) rejected) @
        (case sanitizeExploreRequestID (Header_Get r ''X-Request-Id'') of
           None \<Rightarrow> [] | Some rid \<Rightarrow> [''request_id='' @ Quote rid])) '' ''))"

definition recordNoDeployableCandidate ::
  "contracts \<Rightarrow> Request \<Rightarrow> decisionExploreRequest \<Rightarrow> PolicyDecision \<Rightarrow> trace_event list" where
  "recordNoDeployableCandidate ct r req decision =
     (if pd_RankedCandidates decision \<noteq> [] \<or> pd_RejectedCandidates decision = [] then []
      else
        let targetChainIDs = rs_TargetChainIDs (pd_RequestSummary decision);
            dominantCode = dominantExploreRejectionCode (pd_RejectedCandidates decision);
            missingCountLabel = bucketMissingChainCount targetChainIDs (pd_RejectedCandidates decision) [] dominantCode;
            walletType = exploreWalletTypeLabel ct req;
            binding = exploreBindingLabel req in
        [IncExploreNoDeployableCandidate dominantCode walletType binding missingCountLabel,
         logNoDeployableCandidate r req decision dominantCode missingCountLabel walletType binding])"

section \<open>The explore route\<close>

definition badRequest :: "string \<Rightarrow> Response" where
  "badRequest e = writeJSON 400 (errorJSON e)"

text \<open>The policy a request names, if the service offers it.\<close>

definition offeredPolicy :: "ReadStore \<Rightarrow> string \<Rightarrow> string + CryptoPolicy" where
  "offeredPolicy store i =
     (case map_of (rd_cryptoPolicyByID store) i of
        None \<Rightarrow> Inl ''unknown crypto_policy_id''
      | Some cp \<Rightarrow> if \<not> offered store cp then Inl cryptoPolicyNotOfferedError else Inr cp)"

definition handleExplore :: "contracts \<Rightarrow> ReadStore \<Rightarrow> Request \<Rightarrow> Response" where
  "handleExplore ct store r =
     (case decodeDecisionExploreRequest ct r of
        Inl e \<Rightarrow> badRequest e
      | Inr req \<Rightarrow>
          (case offeredPolicy store (dx_CryptoPolicyID req) of
             Inl e \<Rightarrow> badRequest e
           | Inr cp \<Rightarrow>
               (case observationFromDecisionExplore ct req of
                  Inl e \<Rightarrow> badRequest e
                | Inr observation \<Rightarrow>
                    (case EvaluateExploreCoucheA (Some (rd_providers store)) (WalletPayload.truncate observation) (Some cp) of
                       Inl e \<Rightarrow> badRequest e
                     | Inr decision \<Rightarrow>
                         traced (recordNoDeployableCandidate ct r req decision)
                           (writeJSON 200 (JObj [(''decision'', decisionJSON decision)]))))))"

section \<open>The snapshot assist route\<close>

record acceptedProviderSnapshotRequest =
  ap_CryptoPolicyID :: string
  ap_SolutionProfileRef :: SolutionProfileRef
  ap_AcceptedFindings :: "string list"

definition doc_SolutionProfileRef :: "json gomap \<Rightarrow> SolutionProfileRef option" where
  "doc_SolutionProfileRef o' = do {
     p \<leftarrow> dec_string (doc_field o' ''provider_id'');
     s \<leftarrow> dec_string (doc_field o' ''solution_profile_id'');
     m \<leftarrow> dec_string (doc_field o' ''manifest_version'');
     v \<leftarrow> dec_string (doc_field o' ''verification_date'');
     Some \<lparr>spr_ProviderID = p, spr_SolutionProfileID = s, spr_ManifestVersion = m, spr_VerificationDate = v\<rparr> }"

definition decodeAcceptedProviderSnapshotRequest ::
  "contracts \<Rightarrow> Request \<Rightarrow> string + acceptedProviderSnapshotRequest" where
  "decodeAcceptedProviderSnapshotRequest ct r =
     ebind (rawObject ct (rq_Body r)) (\<lambda>raw.
     case find (\<lambda>(k, _). k \<notin> set [''crypto_policy_id'', ''solution_profile_ref'', ''accepted_findings'']) raw of
       Some (k, _) \<Rightarrow> Inl (''unknown field '' @ k)
     | None \<Rightarrow>
     ebind (requiredPolicyID ct raw) (\<lambda>cryptoPolicyID.
     case map_of raw ''solution_profile_ref'' of
       None \<Rightarrow> Inl ''solution_profile_ref is required''
     | Some refRaw \<Rightarrow>
         (case dec_struct doc_SolutionProfileRef (Some refRaw) of
            None \<Rightarrow> Inl (''solution_profile_ref: '' @ ct_TypeError ct refRaw)
          | Some ref \<Rightarrow>
              (case dec_list dec_string (map_of raw ''accepted_findings'') of
                 None \<Rightarrow> Inl (''accepted_findings: '' @ ct_TypeError ct (the (map_of raw ''accepted_findings'')))
               | Some findings \<Rightarrow>
                   Inr \<lparr>ap_CryptoPolicyID = cryptoPolicyID, ap_SolutionProfileRef = ref,
                     ap_AcceptedFindings = findings\<rparr>))))"

definition assist_error_string :: "assist_error \<Rightarrow> string" where
  "assist_error_string e =
     (case e of
        ErrSnapshotAssistCryptoPolicyRequired \<Rightarrow> ''crypto policy is required''
      | ErrAssistPayloadInvalid p \<Rightarrow> ''crypto policy persist payload is invalid: '' @ profile_ref_error_string p
      | ErrSnapshotAssistProviderNotAllowed d \<Rightarrow> ''provider is not allowed by crypto policy: '' @ d
      | ErrSnapshotAssistProfileNotFound d \<Rightarrow>
          ''solution profile not found in provider registry'' @ (if d = '''' then '''' else '': '' @ d)
      | ErrSnapshotAssistChainNotSupported \<Rightarrow>
          ''chain is not persistable for this solution profile: no deployable chain_support (status != planned)''
      | ErrSnapshotAssistFindingsUnknown d \<Rightarrow> ''accepted_findings contains an unknown code: '' @ d)"

definition mapSnapshotAssistError :: "assist_error \<Rightarrow> int \<times> string" where
  "mapSnapshotAssistError e =
     ((case e of
         ErrSnapshotAssistChainNotSupported \<Rightarrow> 422
       | ErrSnapshotAssistProviderNotAllowed _ \<Rightarrow> 422
       | ErrSnapshotAssistProfileNotFound _ \<Rightarrow> 422
       | _ \<Rightarrow> 400), assist_error_string e)"

definition handleAcceptedProviderSnapshot :: "contracts \<Rightarrow> ReadStore \<Rightarrow> Request \<Rightarrow> Response" where
  "handleAcceptedProviderSnapshot ct store r =
     (case decodeAcceptedProviderSnapshotRequest ct r of
        Inl e \<Rightarrow> badRequest e
      | Inr req \<Rightarrow>
          (case offeredPolicy store (ap_CryptoPolicyID req) of
             Inl e \<Rightarrow> badRequest e
           | Inr cp \<Rightarrow>
               (case BuildAcceptedProviderSnapshot
                  \<lparr>ai_CryptoPolicy = Some cp, ai_SolutionProfileRef = ap_SolutionProfileRef req,
                   ai_AcceptedFindings = ap_AcceptedFindings req, ai_Registry = Some (rd_providers store)\<rparr> of
                  Inl e \<Rightarrow> (case mapSnapshotAssistError e of (status, msg) \<Rightarrow> writeJSON status (errorJSON msg))
                | Inr res \<Rightarrow>
                    writeJSON 200 (JObj [(''crypto_policy_id'', JStr (cp_ID cp)),
                      (''required_posture'', JStr (cp_RequiredPosture cp)),
                      (''solution_profile_ref'', jobj (profileRefJSON (ar_SolutionProfileRef res))),
                      (''accepted_provider_snapshot'', jobj (snapshotJSON (ar_AcceptedProviderSnapshot res)))]))))"

text \<open>The two sanitizers of request ids of the sources agree.\<close>

lemma sanitizeExploreRequestID_same: "sanitizeExploreRequestID raw = sanitizeRequestID raw"
  by (cases "TrimSpace raw") (auto simp: sanitizeExploreRequestID_def sanitizeRequestID_def Let_def)

text \<open>The loop over the scopes computes the least number of missing chains.\<close>

lemma minMissingLoop_Min: "minMissingLoop None ns = (if ns = [] then None else Some (Min (set ns)))"
proof -
  have *: "Min (insert m (insert a (set ns))) = Min (insert (min a m) (set ns))" for m a :: nat and ns
    by (cases "ns = []") (auto simp: Min_insert min.left_commute min.assoc min.commute)
  have "minMissingLoop (Some m) ns = Some (Min (insert m (set ns)))" for m ns
    by (induction ns arbitrary: m) (auto simp: * min_def)
  then show ?thesis by (cases ns) simp_all
qed

section \<open>The codes of an explore\<close>

definition scan_codes :: "string list" where
  "scan_codes = [FindingCodePosture, FindingCodeWalletType, FindingCodeChain, FindingCodeCapability,
     FindingCodeUnresolved, FindingCodeErroneousSuggested]"

lemma scan_codes_proper: "c \<in> set scan_codes \<Longrightarrow> c \<noteq> '''' \<and> c \<noteq> rejectionCodeChainScope"
  by (auto simp: scan_codes_def rejectionCodeChainScope_def FindingCodePosture_def FindingCodeWalletType_def
      FindingCodeChain_def FindingCodeCapability_def FindingCodeUnresolved_def FindingCodeErroneousSuggested_def)

lemma scan_findings_codes:
  assumes "f \<in> set (EvaluateScanCompatibility obs q (Some p))"
  shows "hf_Code f \<in> set scan_codes"
proof -
  have "hf_Code g \<in> set scan_codes" if "g \<in> set (postureFindings q p @ walletTypeFindings obs p)" for g
    using that by (auto simp: postureFindings_def walletTypeFindings_def scan_codes_def Let_def split: if_splits)
  then show ?thesis
    using assms by (auto simp: EvaluateScanCompatibility_def Let_def scan_codes_def split: if_splits prod.splits)
qed

lemma in_scan_codes: "FindingCodeUnresolved \<in> set scan_codes" "FindingCodeErroneousSuggested \<in> set scan_codes"
  by (simp_all add: scan_codes_def)

lemma evaluateResolved_codes:
  assumes "evaluateResolved reg obs cp r = Inl j" and "f \<in> set (rj_RejectionReasons j)"
  shows "af_Code f \<in> set scan_codes"
proof (cases "Lookup reg \<lparr>pr_ProviderID = rp_ProviderID r, pr_SolutionProfileID = sp_SolutionProfileID (rp_Profile r),
    pr_ManifestVersion = rp_ProviderVersion r\<rparr>")
  case None
  then show ?thesis
    using assms by (auto simp: evaluateResolved_def lookupFailed_def fieldFinding_def blockingFinding_def scan_codes_def Let_def)
next
  case (Some rp)
  then show ?thesis
    using assms in_scan_codes scan_findings_codes
    by (auto simp: evaluateResolved_def rejectWith_def fieldFinding_def blockingFinding_def Let_def
        split: option.splits if_splits)
qed

lemma explore_reason_codes:
  assumes "Inl j \<in> set (exploreCandidates ro ob cp)" and "f \<in> set (rj_RejectionReasons j)"
  shows "af_Code f \<in> set scan_codes"
proof -
  from assms(1) obtain pid where "Inl j \<in> set (providerCandidates ro (exploreObservation ob) cp pid)"
    by (auto simp: exploreCandidates_def)
  then consider "j = unresolvedProvider cp (TrimSpace pid)"
    | reg r where "evaluateResolved reg (exploreObservation ob) cp r = Inl j"
    by (auto simp: providerCandidates_def Let_def split: if_splits option.splits list.splits)
  then show ?thesis
  proof cases
    case 1
    then show ?thesis
      using assms(2) by (auto simp: unresolvedProvider_def Let_def fieldFinding_def blockingFinding_def scan_codes_def)
  next
    case 2
    then show ?thesis using assms(2) by (rule evaluateResolved_codes)
  qed
qed

text \<open>The blocking codes of a decision are all its codes, and there is one for every rejection.\<close>

lemma blocking_codes_set:
  assumes "EvaluateExploreCoucheA ro ob (Some cp) = Inr d"
  shows "set (collectBlockingRejectionCodes (pd_RejectedCandidates d)) =
    {af_Code f | j f. j \<in> set (pd_RejectedCandidates d) \<and> f \<in> set (rj_RejectionReasons j)}"
proof -
  have c: "Inl j \<in> set (exploreCandidates ro ob cp)" if "j \<in> set (pd_RejectedCandidates d)" for j
    using that EvaluateExploreCoucheA_ranked[OF assms] by simp
  have "af_Severity f = AssessmentFindingSeverityBlocking \<and> af_Code f \<noteq> ''''"
    if "j \<in> set (pd_RejectedCandidates d)" "f \<in> set (rj_RejectionReasons j)" for j f
    using explore_rejected_reasons[OF c[OF that(1)]] explore_reason_codes[OF c[OF that(1)] that(2)] scan_codes_proper that(2)
    by blast
  then show ?thesis by (fastforce simp: collectBlockingRejectionCodes_def)
qed

lemma hd_sort_Min:
  fixes xs :: "'a :: linorder list"
  assumes "xs \<noteq> []"
  shows "hd (sort xs) = Min (set xs)"
proof -
  obtain y ys where s: "sort xs = y # ys" using assms by (cases "sort xs") (auto dest: arg_cong[of _ _ length])
  have "sorted (y # ys)" using sorted_sort[of xs] s by simp
  then have "\<forall>z \<in> set (sort xs). y \<le> z" using s by simp
  then have "Min (set xs) = y" using s by (intro Min_eqI) (auto simp flip: set_sort[of "\<lambda>x. x" xs])
  then show ?thesis using s by simp
qed

lemma dominant_code_least:
  assumes "EvaluateExploreCoucheA ro ob (Some cp) = Inr d" and "pd_RejectedCandidates d \<noteq> []"
  defines "cs \<equiv> {af_Code f | j f. j \<in> set (pd_RejectedCandidates d) \<and> f \<in> set (rj_RejectionReasons j)}"
  shows "cs \<subseteq> set scan_codes" and "cs \<noteq> {}" and "dominantExploreRejectionCode (pd_RejectedCandidates d) = Min cs"
proof -
  let ?codes = "collectBlockingRejectionCodes (pd_RejectedCandidates d)"
  have c: "Inl j \<in> set (exploreCandidates ro ob cp)" if "j \<in> set (pd_RejectedCandidates d)" for j
    using that EvaluateExploreCoucheA_ranked[OF assms(1)] by simp
  show sub: "cs \<subseteq> set scan_codes" by (auto simp: cs_def intro: explore_reason_codes[OF c])
  obtain j where j: "j \<in> set (pd_RejectedCandidates d)" using assms(2) by (cases "pd_RejectedCandidates d") auto
  then obtain f where "f \<in> set (rj_RejectionReasons j)"
    using explore_rejected_reasons[OF c[OF j]] by (cases "rj_RejectionReasons j") auto
  with j show ne: "cs \<noteq> {}" by (auto simp: cs_def)
  have set: "set ?codes = cs" unfolding cs_def by (rule blocking_codes_set[OF assms(1)])
  have "rejectionCodeChainScope \<notin> cs" using sub scan_codes_proper by blast
  moreover have "hd (sort ?codes) = Min cs" if "?codes \<noteq> []" using hd_sort_Min[OF that] set by simp
  ultimately show "dominantExploreRejectionCode (pd_RejectedCandidates d) = Min cs"
    using ne set by (auto simp: dominantExploreRejectionCode_def Let_def)
qed

lemma offered_has_candidate:
  assumes "HasPostureCompatibleProvider (Some cp) (Some reg)"
  shows "exploreCandidates (Some reg) ob cp \<noteq> []"
proof -
  obtain pid where "pid \<in> set (cp_AllowedProviders cp)" and "TrimSpace pid \<noteq> ''''"
    using assms by (auto simp: HasPostureCompatibleProvider_def Let_def list_ex_iff split: if_splits)
  then have "providerCandidates (Some reg) (exploreObservation ob) cp pid \<noteq> []"
    using length_providerCandidates[of reg "exploreObservation ob" cp pid] by (auto simp del: length_0_conv)
  then show ?thesis using \<open>pid \<in> _\<close> by (auto simp: exploreCandidates_def)
qed

lemma offered_decision_nonempty:
  assumes "HasPostureCompatibleProvider (Some cp) (Some reg)" and "EvaluateExploreCoucheA (Some reg) ob (Some cp) = Inr d"
  shows "pd_RankedCandidates d \<noteq> [] \<or> pd_RejectedCandidates d \<noteq> []"
  using offered_has_candidate[OF assms(1), of ob] EvaluateExploreCoucheA_ranked[OF assms(2)]
    length_partition[of "exploreCandidates (Some reg) ob cp"]
  by (metis add_0 length_0_conv length_sort)

lemma decision_no_targets:
  "EvaluateExploreCoucheA ro ob (Some cp) = Inr d \<Longrightarrow> rs_TargetChainIDs (pd_RequestSummary d) = []"
  by (auto simp: EvaluateExploreCoucheA_def Let_def)

lemma bucket_no_targets: "bucketMissingChainCount [] rejected scopes code = ''unknown''"
  by (simp add: bucketMissingChainCount_def minMissingChainCountForChainScopeRejections_def)

section \<open>A sample catalogue\<close>

definition pq_policy_file :: body where
  "pq_policy_file = JsonBody (jobj [(''id'', Some (JStr (cp_ID pq_policy))), (''name'', Some (JStr (cp_Name pq_policy))),
     (''version'', Some (JStr (cp_Version pq_policy))), (''description'', jstr_opt (cp_Description pq_policy)),
     (''required_posture'', Some (JStr (cp_RequiredPosture pq_policy))),
     (''allowed_providers'', Some (jstrs (cp_AllowedProviders pq_policy)))])"

definition sample_fs :: filesystem where
  "sample_fs = \<lparr>fs_ReadDir = (\<lambda>d. if d = ''cat'' then
       Some [(''p.JSON'', False), (''m.json'', False), (''note.txt'', False), (''x.json'', False), (''old'', True)] else None),
     fs_ReadFile = (\<lambda>p. if p = ''cat/m.json'' then Some nicetry_file else if p = ''cat/p.JSON'' then Some pq_policy_file
       else if p = ''cat/x.json'' then Some (BadBody ''unexpected end of JSON input'') else None)\<rparr>"

definition sample_options :: ReadStoreOptions where
  "sample_options = \<lparr>ro_CatalogueDir = '' cat '', ro_CryptoPolicyPaths = [], ro_ProviderManifestPaths = []\<rparr>"

definition sample_store :: ReadStore where
  "sample_store = \<lparr>rd_cryptoPolicies = [pq_policy], rd_cryptoPolicyByID = [(cp_ID pq_policy, pq_policy)],
     rd_providers = fst (ApplyManifestLoadSignals nicetry_registry)\<rparr>"

lemma sample_files: "listCatalogueJSONFiles sample_fs ''cat'' = Some [''cat/m.json'', ''cat/p.JSON'', ''cat/x.json'']"
  by code_simp

lemma pq_policy_file_loads: "LoadCryptoPolicyFromBytes pq_policy_file = Inr pq_policy"
  by code_simp

lemma sample_kinds:
  "classifyCatalogueJSON nicetry_file = catalogueKindProviderManifest"
  "classifyCatalogueJSON pq_policy_file = catalogueKindCryptoPolicy"
  "classifyCatalogueJSON (BadBody e) = catalogueKindSkip"
proof -
  show "classifyCatalogueJSON nicetry_file = catalogueKindProviderManifest"
    unfolding nicetry_file_def
    by (rule classify_manifest) (simp add: nicetry_raw_def nicetry_manifest_def SchemaVersionV01_def)
  show "classifyCatalogueJSON pq_policy_file = catalogueKindCryptoPolicy" by code_simp
qed (simp add: classifyCatalogueJSON_def decode_body_def)

definition sample_events :: "load_event list" where
  "sample_events = [LoadedManifest ''cat/m.json'' ''nicetry'', LoadedPolicy ''cat/p.JSON'' (cp_ID pq_policy), SkipOther ''cat/x.json'']"

lemma sample_scan:
  "catalogueScan sample_fs emptyStore [''cat/m.json'', ''cat/p.JSON'', ''cat/x.json''] =
     (\<lparr>rd_cryptoPolicies = [pq_policy], rd_cryptoPolicyByID = [(cp_ID pq_policy, pq_policy)], rd_providers = nicetry_registry\<rparr>,
      sample_events)"
proof -
  have "AddManifest NewRegistry (Some nicetry_manifest) = (nicetry_registry, None)"
    using AddManifest_new[OF registry_inv_New nicetry_loaded] by (simp add: nicetry_registry_def NewRegistry_def)
  then show ?thesis
    by (simp add: catalogueStep_def sample_fs_def sample_kinds nicetry_file_loads pq_policy_file_loads emptyStore_def
        addPolicy_def sample_events_def nicetry_manifest_def[THEN arg_cong[of _ _ pm_ProviderID]])
qed

lemma sample_nul_free: "nul_free_files sample_fs"
proof -
  have "LoadProviderManifestFromBytes (BadBody e) \<noteq> Inr m" for e m
    by (simp add: LoadProviderManifestFromBytes_def decode_body_def)
  moreover have "LoadProviderManifestFromBytes pq_policy_file \<noteq> Inr m" for m
  proof -
    have "isl (LoadProviderManifestFromBytes pq_policy_file)" by code_simp
    then show ?thesis by auto
  qed
  moreover have "CHR 0x00 \<notin> set (pm_ProviderID nicetry_manifest)" by (simp add: nicetry_manifest_def)
  ultimately show ?thesis
    by (auto simp: nul_free_files_def sample_fs_def nicetry_file_loads split: if_splits)
qed

lemma sample_load: "LoadReadStore sample_fs sample_options = (sample_events, Inr (sample_store, 0, 0))"
proof -
  have "snd (ApplyManifestLoadSignals nicetry_registry) = 0" by code_simp
  then have a: "ApplyManifestLoadSignals nicetry_registry = (rd_providers sample_store, 0)"
    by (simp add: prod_eq_iff sample_store_def)
  have "fst (CheckPostureOrphanage [Some pq_policy] (Some (rd_providers sample_store))) = 0" by code_simp
  moreover have "List nicetry_registry \<noteq> []" by code_simp
  moreover have "TrimSpace '' cat '' = ''cat''" "TrimSpace ''cat'' = ''cat''" by code_simp+
  ultimately show ?thesis
    by (simp add: LoadReadStore_def sample_options_def loadReadStoreFromCatalogueDir_def sample_files sample_scan
        emitCatalogueLoadSignals_def a del: catalogueScan.simps) (simp add: sample_store_def)
qed

lemma sample_store_ok: "store_ok sample_store"
  by (rule LoadReadStore_ok[OF sample_nul_free sample_load])

section \<open>Properties\<close>

text \<open>C23. A catalogue loaded from files none of which holds a manifest with a NUL byte in its provider id
  is sound: the ids of its policies are distinct, the index holds exactly them under their ids, each
  is well formed and in normal form, the registry is built from accepted manifests only, and the
  orphan counter is the number of policies the routes do not offer. With a NUL byte in a provider id
  the registry can list a manifest that was refused (registry.go, line 84).\<close>

theorem catalogue_load_sound:
  assumes "nul_free_files fs" and "LoadReadStore fs opts = (events, Inr (store, malformed, orphans))"
  shows "distinct (map cp_ID (rd_cryptoPolicies store)) \<and>
    (\<forall>i cp. map_of (rd_cryptoPolicyByID store) i = Some cp \<longleftrightarrow> cp \<in> set (rd_cryptoPolicies store) \<and> cp_ID cp = i) \<and>
    (\<forall>cp \<in> set (rd_cryptoPolicies store). crypto_policy_wf cp \<and> CryptoPolicy_Normalize cp = cp) \<and>
    registry_built (rd_providers store) \<and>
    orphans = length (filter (\<lambda>cp. \<not> offered store cp) (rd_cryptoPolicies store))"
proof -
  have ok: "store_ok store" by (rule LoadReadStore_ok[OF assms])
  have "crypto_policy_wf cp \<and> CryptoPolicy_Normalize cp = cp" if "cp \<in> set (rd_cryptoPolicies store)" for cp
  proof -
    have "CryptoPolicy_NormalizeAndValidate cp = Inr cp" using ok that by (auto simp: store_ok_def list_all_iff)
    then show ?thesis
      using crypto_policy.load_valid crypto_policy.load_canonical by (simp add: CryptoPolicy_Validate_wf)
  qed
  moreover obtain t where "emitCatalogueLoadSignals t = (store, malformed, orphans)"
    using assms(2) by (rule LoadReadStore_signals)
  ultimately show ?thesis
    using ok store_ok_byID[OF ok] emitCatalogueLoadSignals_orphans[of t store malformed orphans]
    by (simp add: store_ok_def offered_def)
qed

theorem catalogue_load_sound_witness:
  "distinct (map cp_ID (rd_cryptoPolicies sample_store)) \<and> registry_built (rd_providers sample_store) \<and>
   length (filter (\<lambda>cp. \<not> offered sample_store cp) (rd_cryptoPolicies sample_store)) = 0"
  using catalogue_load_sound[OF sample_nul_free sample_load] by simp

text \<open>C24. When no file holds a manifest with a NUL byte in its provider id, a bad file affects nothing
  else: the loader reports every file of the directory, in order, the policies it keeps are the ones
  it reports as loaded, and loading only the files it reports as loaded gives the same store. The
  condition is needed: with a NUL byte in a provider id a manifest reported as refused can stay
  registered (registry.go, line 84).\<close>

theorem catalogue_bad_files_ignored:
  assumes "nul_free_files fs" and "catalogueScan fs emptyStore files = (store, events)"
  shows "length events = length files \<and>
    map cp_ID (rd_cryptoPolicies store) = List.map_filter policy_id_of events \<and>
    fst (catalogueScan fs emptyStore (map fst (filter (\<lambda>(_, e). loaded_event e) (zip files events)))) = store"
  using catalogueScan_length[OF assms(2)] catalogueScan_ids[OF assms(2)]
    catalogueScan_kept[OF assms(1) store_ok_empty assms(2)]
  by (simp add: emptyStore_def)

theorem catalogue_bad_files_ignored_witness:
  "map cp_ID [pq_policy] = List.map_filter policy_id_of sample_events"
  using catalogue_bad_files_ignored[OF sample_nul_free sample_scan] by simp

lemma offeredPolicy_Inr:
  assumes "store_ok store"
  shows "offeredPolicy store i = Inr cp \<longleftrightarrow> cp \<in> set (rd_cryptoPolicies store) \<and> cp_ID cp = i \<and> offered store cp"
proof -
  have "offeredPolicy store i = Inr cp \<longleftrightarrow> map_of (rd_cryptoPolicyByID store) i = Some cp \<and> offered store cp"
    by (auto simp: offeredPolicy_def split: option.splits)
  then show ?thesis by (simp add: store_ok_byID[OF assms])
qed

text \<open>The routes agree on what is offered: in a loaded store a policy is listed exactly when it can be
  fetched by its id with status 200, with the same item, and exactly when the explore and the
  assist accept its id; and it is listed at most once.\<close>

lemma offered_consistent:
  assumes "store_ok store" and "cp \<in> set (rd_cryptoPolicies store)"
  shows "(handleGetCryptoPolicy store (cp_ID cp) = writeJSON 200 (catalogItem store cp) \<longleftrightarrow> offered store cp) \<and>
    (rs_Status (handleGetCryptoPolicy store (cp_ID cp)) = 404 \<longleftrightarrow> \<not> offered store cp) \<and>
    (offeredPolicy store (cp_ID cp) = Inr cp \<longleftrightarrow> offered store cp) \<and>
    rs_Body (handleListCryptoPolicies store) =
      Some (JObj [(''items'', JArr (map (catalogItem store) (filter (offered store) (rd_cryptoPolicies store))))]) \<and>
    distinct (map cp_ID (filter (offered store) (rd_cryptoPolicies store)))"
proof -
  have m: "map_of (rd_cryptoPolicyByID store) (cp_ID cp) = Some cp" using store_ok_byID[OF assms(1)] assms(2) by blast
  have "distinct (map cp_ID (filter (offered store) (rd_cryptoPolicies store)))"
    using assms(1) by (simp add: store_ok_def distinct_map_filter)
  then show ?thesis
    using m by (auto simp: handleGetCryptoPolicy_def offeredPolicy_def handleListCryptoPolicies_def writeJSON_def)
qed

text \<open>C26. The signal of an empty explore is exact: an explore answered 200 returns the decision of
  couche A on an offered policy of the store; its counter is incremented, once, exactly when no
  provider is compatible, with the least of the codes the rejections carry, which is one of the
  scan's codes; the missing-chain label is always ``unknown''.\<close>

theorem explore_signal_exact:
  assumes "store_ok store" and "rs_Status (handleExplore ct store r) = 200"
  shows "\<exists>req cp ob d. decodeDecisionExploreRequest ct r = Inr req \<and> cp \<in> set (rd_cryptoPolicies store) \<and>
    cp_ID cp = dx_CryptoPolicyID req \<and> offered store cp \<and> observationFromDecisionExplore ct req = Inr ob \<and>
    EvaluateExploreCoucheA (Some (rd_providers store)) (WalletPayload.truncate ob) (Some cp) = Inr d \<and>
    rs_Body (handleExplore ct store r) = Some (JObj [(''decision'', decisionJSON d)]) \<and>
    (if pd_RankedCandidates d \<noteq> [] then rs_Trace (handleExplore ct store r) = []
     else \<exists>code l. rs_Trace (handleExplore ct store r) =
         [IncExploreNoDeployableCandidate code (exploreWalletTypeLabel ct req) (exploreBindingLabel req) ''unknown'', LogLine l] \<and>
       code = Min {af_Code f | j f. j \<in> set (pd_RejectedCandidates d) \<and> f \<in> set (rj_RejectionReasons j)} \<and>
       code \<in> set scan_codes)"
proof -
  have "rs_Status (badRequest e) \<noteq> 200" for e by (simp add: badRequest_def writeJSON_def)
  then obtain req cp ob d where req: "decodeDecisionExploreRequest ct r = Inr req"
    and cp: "offeredPolicy store (dx_CryptoPolicyID req) = Inr cp" and ob: "observationFromDecisionExplore ct req = Inr ob"
    and d: "EvaluateExploreCoucheA (Some (rd_providers store)) (WalletPayload.truncate ob) (Some cp) = Inr d"
    using assms(2) by (auto simp: handleExplore_def split: sum.splits)
  have cp': "cp \<in> set (rd_cryptoPolicies store)" "cp_ID cp = dx_CryptoPolicyID req" "offered store cp"
    using cp offeredPolicy_Inr[OF assms(1)] by auto
  have h: "handleExplore ct store r = traced (recordNoDeployableCandidate ct r req d)
      (writeJSON 200 (JObj [(''decision'', decisionJSON d)]))"
    by (simp add: handleExplore_def req cp ob d)
  have "if pd_RankedCandidates d \<noteq> [] then recordNoDeployableCandidate ct r req d = []
     else \<exists>code l. recordNoDeployableCandidate ct r req d =
         [IncExploreNoDeployableCandidate code (exploreWalletTypeLabel ct req) (exploreBindingLabel req) ''unknown'', LogLine l] \<and>
       code = Min {af_Code f | j f. j \<in> set (pd_RejectedCandidates d) \<and> f \<in> set (rj_RejectionReasons j)} \<and>
       code \<in> set scan_codes"
  proof (cases "pd_RankedCandidates d = []")
    case True
    then have j: "pd_RejectedCandidates d \<noteq> []" using offered_decision_nonempty[OF cp'(3)[unfolded offered_def] d] by blast
    note m = dominant_code_least[OF d j]
    have "Min {af_Code f | j f. j \<in> set (pd_RejectedCandidates d) \<and> f \<in> set (rj_RejectionReasons j)} \<in> set scan_codes"
      using m(1) Min_in[OF finite_subset[OF m(1)] m(2)] by blast
    then show ?thesis
      using True j m(3) by (simp add: recordNoDeployableCandidate_def Let_def decision_no_targets[OF d] bucket_no_targets
          logNoDeployableCandidate_def)
  qed (simp add: recordNoDeployableCandidate_def)
  moreover have "rs_Body (handleExplore ct store r) = Some (JObj [(''decision'', decisionJSON d)])"
    "rs_Trace (handleExplore ct store r) = recordNoDeployableCandidate ct r req d"
    by (simp_all add: h traced_def writeJSON_def)
  ultimately show ?thesis
    using req cp' ob d by (intro exI[of _ req] exI[of _ cp] exI[of _ ob] exI[of _ d]) (auto split: if_splits)
qed

definition sample_contracts :: contracts where
  "sample_contracts = \<lparr>ct_AccountKindValid = (\<lambda>k. k \<in> set [''eoa'', ''erc4337_smart_account'', ''contract_account'', ''unknown'']),
     ct_EOA = ''eoa'', ct_ERC4337SmartAccount = ''erc4337_smart_account'', ct_ContractAccount = ''contract_account'',
     ct_AccountKindUnknown = ''unknown'', ct_AlgorithmValid = (\<lambda>a. a = ''secp256k1_ecrecover''),
     ct_Secp256k1 = ''secp256k1_ecrecover'',
     ct_PQPostureValid = (\<lambda>q. q \<in> set [''unknown'', ''classical_only'', ''hybrid'', ''full_pq'']), ct_PQUnknown = ''unknown'',
     ct_PQFullPQ = ''full_pq'', ct_PQClassicalOnly = ''classical_only'', ct_TypeError = (\<lambda>_. ''json: wrong type'')\<rparr>"

definition explore_request :: Request where
  "explore_request = post_request PoliciesDecisionsExplore (JObj [(''crypto_policy_id'', JStr (cp_ID pq_policy)),
     (''policy_context'', JObj [(''wallet_type'', JStr ''CONTRACT''), (''chain_ids'', JArr [jint 1])])])"

lemma explore_request_200:
  "rs_Status (handleExplore sample_contracts sample_store explore_request) = 200"
  "rs_Trace (handleExplore sample_contracts sample_store explore_request) \<noteq> []"
  by code_simp+

theorem explore_signal_exact_witness:
  "\<exists>code w b l. rs_Trace (handleExplore sample_contracts sample_store explore_request) =
     [IncExploreNoDeployableCandidate code w b ''unknown'', LogLine l] \<and> code \<in> set scan_codes"
  using explore_signal_exact[OF sample_store_ok explore_request_200(1)] explore_request_200(2) by (auto split: if_splits)

end
