(* ===== verification/Assessment.thy ===== *)
theory Assessment
  imports Auth_Middleware Read_Api
begin

text \<open>
  The assessment request of \<^verbatim>\<open>internal/app/assessment_request.go\<close>: the body, the read authorization of the
  scan (\<^verbatim>\<open>authorizeScanReadForAssessment\<close> of \<^verbatim>\<open>auth.go\<close>), the scan detail fetched from Discovery, the
  observation and the command built from it, and the publication. The state a request acts on is the
  list of messages handed to the publisher.

  The event and command types come from \<^verbatim>\<open>cafe-contracts\<close>, outside the repository: the records have
  the fields the handler fills, and the constants, the two \<^verbatim>\<open>Validate\<close> methods and the encoding are a
  parameter, as are the publisher, the random bytes and the text of a failed HTTP request.
\<close>

section \<open>The messages\<close>

record WalletEvent =
  we_EventID :: string
  we_EventType :: string
  we_EventVersion :: string
  we_OccurredAt :: gotime
  we_CorrelationID :: string
  we_CausationID :: string
  we_Producer :: string
  we_SubjectType :: string
  we_SubjectID :: string
  we_Payload :: WalletObserved

record PolicyAssessmentRequested =
  pa_EventID :: string
  pa_EventType :: string
  pa_EventVersion :: string
  pa_OccurredAt :: gotime
  pa_CorrelationID :: string
  pa_CausationID :: string
  pa_Producer :: string
  pa_SubjectType :: string
  pa_SubjectID :: string
  pa_CryptoPolicyID :: string
  pa_Observation :: WalletEvent
  pa_ClientRequestID :: string

record transport =
  tp_EventTypeWalletObserved :: string
  tp_WalletEventVersion :: string
  tp_ProducerCafeDiscovery :: string
  tp_WalletSubjectType :: string
  tp_ValidateEvent :: "WalletEvent \<Rightarrow> string option"
  tp_EventTypePolicyAssessmentRequested :: string
  tp_EventVersionV01 :: string
  tp_ProducerCafeCryptoBackend :: string
  tp_SubjectTypeWallet :: string
  tp_ValidateCommand :: "PolicyAssessmentRequested \<Rightarrow> string option"
  tp_Marshal :: "PolicyAssessmentRequested \<Rightarrow> string + string"
  tp_NATSSubjectPolicyAssessmentRequestedV01 :: string
  tp_Publish :: "(string \<Rightarrow> string \<Rightarrow> string option) option"
  tp_Random :: "nat list option \<times> nat list option"
  tp_NetError :: string

type_synonym outbox = "(string \<times> string) list"

section \<open>The request\<close>

record parsedAssessmentRequest =
  pq_normScanID :: string
  pq_cryptoPolicyID :: string
  pq_clientRequestID :: string

record walletScanAssessmentSource =
  ws_payload :: WalletObserved
  ws_walletSubjectID :: string

definition assessmentRequestPreconditions :: "transport \<Rightarrow> authConfig \<Rightarrow> Response option" where
  "assessmentRequestPreconditions tp cfg =
     (if tp_Publish tp = None
      then Some (writeJSON 503 (apiErrorJSON ''assessment_transport_unavailable''
        ''policy assessment request publishing is not configured''))
      else if TrimSpace (cf_DiscoveryHTTPBaseURL cfg) = ''''
      then Some (writeJSON 503 (apiErrorJSON ''discovery_upstream_unavailable'' ''Discovery HTTP base URL is not configured''))
      else None)"

definition assessmentHTTPForbiddenKeys :: "string list" where
  "assessmentHTTPForbiddenKeys =
     [''selection_request'', ''allow_new_wallet'', ''address_continuity_required'', ''key_rotation_model'',
      ''target_posture'', ''target_chain_ids'', ''require_multichain'', ''recovery_required'', ''minimum_maturity'',
      ''allow_research'', ''allowed_provider_modes'', ''preferred_families'', ''preferred_providers'',
      ''require_bundler_available'', ''require_paymaster_available'', ''approval_mode'']"

text \<open>The object of the body, or the message of \<^verbatim>\<open>encoding/json\<close>.\<close>

definition bodyObject :: "contracts \<Rightarrow> body \<Rightarrow> string + json gomap" where
  "bodyObject ct b =
     (case b of
        NoBody \<Rightarrow> Inl ''unexpected end of JSON input''
      | BadBody e \<Rightarrow> Inl e
      | TrailingBody _ e \<Rightarrow> Inl e
      | JsonBody (JObj kvs) \<Rightarrow> Inr kvs
      | JsonBody JNull \<Rightarrow> Inr []
      | JsonBody j \<Rightarrow> Inl (ct_TypeError ct j))"

definition refuse :: "int \<Rightarrow> string \<Rightarrow> string \<Rightarrow> Response + 'a" where
  "refuse status code message = Inl (writeJSON status (apiErrorJSON code message))"

definition assessmentScanID :: "contracts \<Rightarrow> json gomap \<Rightarrow> Response + string" where
  "assessmentScanID ct raw =
     (case map_of raw ''scan_id'' of
        None \<Rightarrow> refuse 400 ''scan_id_required'' ''scan_id is required''
      | Some v \<Rightarrow>
          (case dec_string (Some v) of
             None \<Rightarrow> refuse 400 ''scan_id_invalid'' (ct_TypeError ct v)
           | Some s \<Rightarrow>
               (case NormalizeDiscoveryScanID s of
                  None \<Rightarrow> refuse 400 ''scan_id_invalid'' ''scan_id must be a valid UUID''
                | Some norm \<Rightarrow> Inr norm)))"

definition assessmentPolicyID :: "contracts \<Rightarrow> json gomap \<Rightarrow> Response + string" where
  "assessmentPolicyID ct raw =
     (case map_of raw ''crypto_policy_id'' of
        None \<Rightarrow> refuse 400 ''crypto_policy_id_required'' ''crypto_policy_id is required''
      | Some v \<Rightarrow>
          (case dec_string (Some v) of
             None \<Rightarrow> refuse 400 ''crypto_policy_id_invalid'' (ct_TypeError ct v)
           | Some s \<Rightarrow>
               if TrimSpace s = '''' then refuse 400 ''crypto_policy_id_required'' ''crypto_policy_id is required''
               else Inr (TrimSpace s)))"

text \<open>Go ranges over a map in no fixed order; of several refused keys the model reports the first.\<close>

definition parseAssessmentRequestBody :: "contracts \<Rightarrow> body \<Rightarrow> Response + parsedAssessmentRequest" where
  "parseAssessmentRequestBody ct b =
     (case bodyObject ct b of
        Inl e \<Rightarrow> refuse 400 ''invalid_json'' e
      | Inr raw \<Rightarrow>
          if map_of raw ''policy_context'' \<noteq> None
          then refuse 400 ''policy_context_forbidden''
            ''policy_context must not be present on this route; use Discovery wallet scan detail only''
          else case find (\<lambda>(k, _). k \<in> set assessmentHTTPForbiddenKeys) raw of
            Some (k, _) \<Rightarrow> refuse 400 ''legacy_field_rejected'' (''legacy field rejected: '' @ k)
          | None \<Rightarrow>
              (case find (\<lambda>(k, _). k \<notin> set [''scan_id'', ''crypto_policy_id'', ''client_request_id'']) raw of
                 Some (k, _) \<Rightarrow> refuse 400 ''unknown_field'' (''unknown field '' @ k)
               | None \<Rightarrow>
                   ebind (assessmentScanID ct raw) (\<lambda>scan.
                   ebind (assessmentPolicyID ct raw) (\<lambda>policyID.
                   Inr \<lparr>pq_normScanID = scan, pq_cryptoPolicyID = policyID,
                     pq_clientRequestID = (case map_of raw ''client_request_id'' of Some (JStr s) \<Rightarrow> s | _ \<Rightarrow> '''')\<rparr>))))"

section \<open>The read authorization of the scan\<close>

definition scanHidden :: "APIError \<times> int" where
  "scanHidden =
     (\<lparr>ae_Code = ''AUTHZ_SCAN_FORBIDDEN'', ae_Message = ''scan not found'',
       ae_Details = reasonDetails ''scan_not_found''\<rparr>, 404)"

definition readUnavailable :: "string \<Rightarrow> APIError \<times> int" where
  "readUnavailable reason =
     (\<lparr>ae_Code = ''AUTHZ_SCAN_UNAVAILABLE'', ae_Message = ''scan authorization unavailable'',
       ae_Details = reasonDetails reason\<rparr>, 503)"

text \<open>\<open>None\<close> is the empty error code: access granted.\<close>

definition authorizeScanReadForAssessment ::
  "network \<Rightarrow> Principal \<Rightarrow> string \<Rightarrow> authConfig \<Rightarrow> string \<Rightarrow> (APIError \<times> int) option" where
  "authorizeScanReadForAssessment net prin scanID cfg rid =
     (if TrimSpace scanID = '''' then Some (scanIDMalformed, 400)
      else if TrimSpace (cf_ScanAuthorizationURL cfg) = ''''
      then Some (readUnavailable ''scan_authorization_url_not_configured'')
      else case net (scanAuthorizationRequest cfg prin scanID rid) of
        None \<Rightarrow> Some (readUnavailable ''scan_authorization_request_failed'')
      | Some (st, b) \<Rightarrow>
          if st = 200 then
            (case decode_first dec_scanAuthorizationResponse b of
               None \<Rightarrow> Some (readUnavailable ''scan_authorization_invalid_response'')
             | Some allowed \<Rightarrow> if \<not> allowed then Some scanHidden else None)
          else if st = 403 \<or> st = 404 then Some scanHidden
          else if st = 401 then Some (readUnavailable ''scan_authorization_upstream_unauthorized'')
          else if 500 \<le> st then Some (readUnavailable ''scan_authorization_upstream_5xx'')
          else Some (readUnavailable ''scan_authorization_unexpected_status''))"

section \<open>The scan detail\<close>

definition writeDiscoveryScanDetailStatusOK :: "int \<Rightarrow> Response option" where
  "writeDiscoveryScanDetailStatusOK st =
     (if st = 404 then Some (writeJSON 404 (apiErrorJSON ''not_found'' ''scan not found''))
      else if st = 401 \<or> st = 403
      then Some (writeJSON 503 (apiErrorJSON ''discovery_unavailable'' ''Discovery rejected the session for scan detail''))
      else if st = 200 then None
      else if 500 \<le> st then Some (writeJSON 503 (apiErrorJSON ''discovery_unavailable'' (''Discovery returned '' @ FormatInt st)))
      else Some (writeJSON 503 (apiErrorJSON ''discovery_unavailable'' (''unexpected Discovery status '' @ FormatInt st))))"

text \<open>The text of a failed address extraction; the address is not blank when the subject is built, so
  its error has the second text of the source.\<close>

definition detailAddressError :: "contracts \<Rightarrow> body \<Rightarrow> discovery_error \<Rightarrow> string" where
  "detailAddressError ct b e =
     (case e of
        errDiscoveryScanNotFound \<Rightarrow> ''discovery scan not found''
      | errDiscoveryScanNotWallet \<Rightarrow> ''discovery scan is not wallet''
      | discoveryFailed \<Rightarrow> (case b of JsonBody j \<Rightarrow> ct_TypeError ct j | BadBody m \<Rightarrow> m
          | TrailingBody _ m \<Rightarrow> m | NoBody \<Rightarrow> ''unexpected end of JSON input''))"

definition parseWalletScanAssessmentSource :: "contracts \<Rightarrow> body \<Rightarrow> Response + walletScanAssessmentSource" where
  "parseWalletScanAssessmentSource ct b =
     (case ObservationPayloadFromDiscoveryWalletScanDetail ct b of
        Inl ErrWalletScanDetailTLS \<Rightarrow> refuse 404 ''not_found'' ''scan not found''
      | Inl ErrWalletScanDetailNoResult \<Rightarrow> refuse 404 ''not_found'' ''scan not found''
      | Inl (DetailInvalid e) \<Rightarrow> refuse 400 ''wallet_scan_detail_invalid'' e
      | Inr pl \<Rightarrow>
          (case targetAddressFromWalletScanDetailJSON b of
             Inl e \<Rightarrow> refuse 400 ''wallet_scan_detail_invalid'' (detailAddressError ct b e)
           | Inr address \<Rightarrow>
               (case WalletSubjectIDFromAddress address of
                  None \<Rightarrow> refuse 400 ''wallet_scan_detail_invalid'' ''target_address must be a normalized EVM address''
                | Some subjectID \<Rightarrow>
                    Inr \<lparr>ws_payload = pl, ws_walletSubjectID = NormalizeWalletSubjectID subjectID\<rparr>)))"

definition fetchWalletScanAssessmentSource ::
  "network \<Rightarrow> contracts \<Rightarrow> transport \<Rightarrow> authConfig \<Rightarrow> string \<Rightarrow> string \<Rightarrow> string \<Rightarrow> Response + walletScanAssessmentSource" where
  "fetchWalletScanAssessmentSource net ct tp cfg authorization rid scan =
     (case fetchDiscoveryWalletScanDetail net cfg authorization rid scan of
        None \<Rightarrow> refuse 503 ''discovery_unavailable'' (tp_NetError tp)
      | Some (st, b) \<Rightarrow>
          (case writeDiscoveryScanDetailStatusOK st of
             Some rs \<Rightarrow> Inl rs
           | None \<Rightarrow> parseWalletScanAssessmentSource ct b))"

section \<open>The publication\<close>

text \<open>\<^verbatim>\<open>crypto/rand.Read\<close> gives ten bytes or fails; \<^verbatim>\<open>hex.EncodeToString\<close> writes them as lower-case digits.\<close>

definition newAssessmentEventID :: "nat list option \<Rightarrow> string option" where
  "newAssessmentEventID rnd = map_option (\<lambda>b. ''evt_pol_req_'' @ hex_encode b) rnd"

definition buildWalletObservedEvent ::
  "transport \<Rightarrow> string \<Rightarrow> walletScanAssessmentSource \<Rightarrow> gotime \<Rightarrow> Response + WalletEvent" where
  "buildWalletObservedEvent tp scan source now =
     (case newAssessmentEventID (fst (tp_Random tp)) of
        None \<Rightarrow> refuse 500 ''internal_error'' ''could not allocate event id''
      | Some obsEventID \<Rightarrow>
          let observation =
            \<lparr>we_EventID = obsEventID @ ''_obs'', we_EventType = tp_EventTypeWalletObserved tp,
             we_EventVersion = tp_WalletEventVersion tp, we_OccurredAt = now, we_CorrelationID = scan,
             we_CausationID = ''cpm_post_policies_assessment_request'', we_Producer = tp_ProducerCafeDiscovery tp,
             we_SubjectType = tp_WalletSubjectType tp, we_SubjectID = ws_walletSubjectID source,
             we_Payload = ws_payload source\<rparr> in
          (case tp_ValidateEvent tp observation of
             Some e \<Rightarrow> refuse 400 ''observation_invalid'' e
           | None \<Rightarrow> Inr observation))"

definition buildPolicyAssessmentCommand ::
  "transport \<Rightarrow> parsedAssessmentRequest \<Rightarrow> walletScanAssessmentSource \<Rightarrow> WalletEvent \<Rightarrow> gotime \<Rightarrow>
     Response + PolicyAssessmentRequested" where
  "buildPolicyAssessmentCommand tp parsed source observation now =
     (case newAssessmentEventID (snd (tp_Random tp)) of
        None \<Rightarrow> refuse 500 ''internal_error'' ''could not allocate event id''
      | Some cmdEventID \<Rightarrow>
          let cmd =
            \<lparr>pa_EventID = cmdEventID, pa_EventType = tp_EventTypePolicyAssessmentRequested tp,
             pa_EventVersion = tp_EventVersionV01 tp, pa_OccurredAt = now, pa_CorrelationID = pq_normScanID parsed,
             pa_CausationID = ''cpm_post_policies_assessment_request'', pa_Producer = tp_ProducerCafeCryptoBackend tp,
             pa_SubjectType = tp_SubjectTypeWallet tp, pa_SubjectID = ws_walletSubjectID source,
             pa_CryptoPolicyID = pq_cryptoPolicyID parsed, pa_Observation = observation,
             pa_ClientRequestID = TrimSpace (pq_clientRequestID parsed)\<rparr> in
          (case tp_ValidateCommand tp cmd of
             Some e \<Rightarrow> refuse 400 ''assessment_command_invalid'' e
           | None \<Rightarrow> Inr cmd))"

text \<open>The message is handed to the publisher before its answer is known: it stays in the list when the
  publisher reports an error. Without a publisher the handler has stopped before.\<close>

definition acceptedJSON :: "PolicyAssessmentRequested \<Rightarrow> parsedAssessmentRequest \<Rightarrow> json" where
  "acceptedJSON cmd parsed = JObj [(''event_id'', JStr (pa_EventID cmd)), (''correlation_id'', JStr (pa_CorrelationID cmd)),
     (''client_request_id'', JStr (TrimSpace (pq_clientRequestID parsed)))]"

definition publishPolicyAssessmentRequest ::
  "transport \<Rightarrow> parsedAssessmentRequest \<Rightarrow> walletScanAssessmentSource \<Rightarrow> gotime \<Rightarrow> outbox \<Rightarrow> Response \<times> outbox" where
  "publishPolicyAssessmentRequest tp parsed source now out =
     (case ebind (buildWalletObservedEvent tp (pq_normScanID parsed) source now) (\<lambda>observation.
             buildPolicyAssessmentCommand tp parsed source observation now) of
        Inl rs \<Rightarrow> (rs, out)
      | Inr cmd \<Rightarrow>
          (case tp_Marshal tp cmd of
             Inl e \<Rightarrow> (writeJSON 500 (apiErrorJSON ''internal_error'' e), out)
           | Inr payload \<Rightarrow>
               let subject = tp_NATSSubjectPolicyAssessmentRequestedV01 tp in
               (case the (tp_Publish tp) subject payload of
                  Some e \<Rightarrow> (writeJSON 503 (apiErrorJSON ''publish_failed'' e), out @ [(subject, payload)])
                | None \<Rightarrow> (writeJSON 202 (acceptedJSON cmd parsed), out @ [(subject, payload)]))))"

definition handlePoliciesAssessmentRequest ::
  "'pub Env \<Rightarrow> contracts \<Rightarrow> transport \<Rightarrow> authConfig \<Rightarrow> gotime \<Rightarrow> Request \<Rightarrow> outbox \<Rightarrow> Response \<times> outbox" where
  "handlePoliciesAssessmentRequest env ct tp cfg now r0 out =
     (case rq_Principal r0 of
        None \<Rightarrow> (principalMissing (en_RequestID env) r0, out)
      | Some prin \<Rightarrow>
          let (rid, r) = ensureRequestID (en_RequestID env) r0 in
          (case assessmentRequestPreconditions tp cfg of
             Some rs \<Rightarrow> (rs, out)
           | None \<Rightarrow>
               (case parseAssessmentRequestBody ct (rq_Body r) of
                  Inl rs \<Rightarrow> (rs, out)
                | Inr parsed \<Rightarrow>
                    (case authorizeScanReadForAssessment (en_Net env) prin (pq_normScanID parsed) cfg rid of
                       Some (e, status) \<Rightarrow>
                         (writeJSON status (apiErrorWithDetails (ae_Code e) (ae_Message e) (ae_Details e)), out)
                     | None \<Rightarrow>
                         (case fetchWalletScanAssessmentSource (en_Net env) ct tp cfg (Header_Get r ''Authorization'') rid
                                 (pq_normScanID parsed) of
                            Inl rs \<Rightarrow> (rs, out)
                          | Inr source \<Rightarrow> publishPolicyAssessmentRequest tp parsed source now out)))))"

section \<open>What a publication rests on\<close>

lemma writeDiscoveryScanDetailStatusOK_None: "writeDiscoveryScanDetailStatusOK st = None \<longleftrightarrow> st = 200"
  by (simp add: writeDiscoveryScanDetailStatusOK_def)

text \<open>The subject of a normal address is in normal form.\<close>

lemma wallet_subject_fixed:
  assumes "NormalizeWalletTargetAddress address = Some w"
  shows "NormalizeWalletSubjectID (WalletSubjectPrefix @ w) = WalletSubjectPrefix @ w"
proof -
  note n = normal_address_shape[OF Normalize_result[OF assms]]
  have p: "list_all visible WalletSubjectPrefix" "ToLower WalletSubjectPrefix = WalletSubjectPrefix"
    "WalletSubjectPrefix \<noteq> ''''" by code_simp+
  then have "TrimSpace (WalletSubjectPrefix @ w) = WalletSubjectPrefix @ w" "HasPrefix (ToLower (WalletSubjectPrefix @ w)) WalletSubjectPrefix"
    using n by (auto intro!: TrimSpace_visible simp: ToLower_def HasPrefix_iff)
  then show ?thesis using p(3) n Wallet_idem[OF assms] by (simp add: NormalizeWalletSubjectID_def Let_def)
qed

lemma parseWalletScanAssessmentSource_Inr:
  assumes "parseWalletScanAssessmentSource ct b = Inr source"
  obtains address w where "ObservationPayloadFromDiscoveryWalletScanDetail ct b = Inr (ws_payload source)"
    and "targetAddressFromWalletScanDetailJSON b = Inr address" and "NormalizeWalletTargetAddress address = Some w"
    and "ws_walletSubjectID source = WalletSubjectPrefix @ w"
proof -
  show thesis
    using assms that
    by (auto simp: wallet_subject_fixed parseWalletScanAssessmentSource_def refuse_def WalletSubjectIDFromAddress_def
        split: sum.splits detail_error.splits option.splits)
qed

lemma fetchWalletScanAssessmentSource_Inr:
  assumes "fetchWalletScanAssessmentSource net ct tp cfg authorization rid scan = Inr source"
  obtains b where "fetchDiscoveryWalletScanDetail net cfg authorization rid scan = Some (200, b)"
    and "parseWalletScanAssessmentSource ct b = Inr source"
  using assms that
  by (auto simp: fetchWalletScanAssessmentSource_def refuse_def writeDiscoveryScanDetailStatusOK_None
      split: option.splits)

lemma parseAssessmentRequestBody_Inr:
  assumes "parseAssessmentRequestBody ct b = Inr parsed"
  shows "normal_scan (pq_normScanID parsed)" and "pq_cryptoPolicyID parsed \<noteq> ''''"
    and "\<exists>raw. bodyObject ct b = Inr raw \<and> map_of raw ''policy_context'' = None \<and>
      (\<forall>k \<in> fst ` set raw. k \<in> set [''scan_id'', ''crypto_policy_id'', ''client_request_id''])"
proof -
  obtain raw scan policyID where raw: "bodyObject ct b = Inr raw" "map_of raw ''policy_context'' = None"
      "find (\<lambda>(k, _). k \<notin> set [''scan_id'', ''crypto_policy_id'', ''client_request_id'']) raw = None"
    and scan: "assessmentScanID ct raw = Inr scan" and pid: "assessmentPolicyID ct raw = Inr policyID"
    and p: "pq_normScanID parsed = scan" "pq_cryptoPolicyID parsed = policyID"
    using assms
    by (auto simp: parseAssessmentRequestBody_def refuse_def ebind_Inr split: sum.splits if_splits option.splits)
  show "normal_scan (pq_normScanID parsed)" using scan scan_normal unfolding p(1)
    by (auto simp: assessmentScanID_def refuse_def split: option.splits)
  show "pq_cryptoPolicyID parsed \<noteq> ''''" using pid unfolding p(2)
    by (auto simp: assessmentPolicyID_def refuse_def split: option.splits if_splits)
  show "\<exists>raw. bodyObject ct b = Inr raw \<and> map_of raw ''policy_context'' = None \<and>
      (\<forall>k \<in> fst ` set raw. k \<in> set [''scan_id'', ''crypto_policy_id'', ''client_request_id''])"
    using raw by (auto simp: find_None_iff)
qed

lemma parseAssessmentRequestBody_ids:
  assumes "parseAssessmentRequestBody ct b = Inr parsed"
  obtains raw sid cid where "bodyObject ct b = Inr raw" and "map_of raw ''scan_id'' = Some (JStr sid)"
    and "NormalizeDiscoveryScanID sid = Some (pq_normScanID parsed)"
    and "map_of raw ''crypto_policy_id'' = Some (JStr cid)" and "pq_cryptoPolicyID parsed = TrimSpace cid"
proof -
  have blank: "NormalizeDiscoveryScanID '''' = None" "TrimSpace '''' = ''''" by code_simp+
  obtain raw scan policyID where raw: "bodyObject ct b = Inr raw" and scan: "assessmentScanID ct raw = Inr scan"
    and pid: "assessmentPolicyID ct raw = Inr policyID"
    and p: "pq_normScanID parsed = scan" "pq_cryptoPolicyID parsed = policyID"
    using assms
    by (auto simp: parseAssessmentRequestBody_def refuse_def ebind_Inr split: sum.splits if_splits option.splits)
  obtain sid where "map_of raw ''scan_id'' = Some (JStr sid)" "NormalizeDiscoveryScanID sid = Some scan"
    using scan blank by (auto simp: assessmentScanID_def refuse_def dec_string_def split: option.splits json.splits)
  moreover obtain cid where "map_of raw ''crypto_policy_id'' = Some (JStr cid)" "policyID = TrimSpace cid"
    using pid blank by (auto simp: assessmentPolicyID_def refuse_def dec_string_def split: option.splits json.splits if_splits)
  ultimately show thesis using that raw p by simp
qed

lemma buildWalletObservedEvent_Inr:
  assumes "buildWalletObservedEvent tp scan source now = Inr ev"
  shows "tp_ValidateEvent tp ev = None \<and> we_CorrelationID ev = scan \<and> we_SubjectID ev = ws_walletSubjectID source \<and>
    we_Payload ev = ws_payload source"
  using assms by (auto simp: buildWalletObservedEvent_def refuse_def Let_def split: option.splits)

lemma buildPolicyAssessmentCommand_Inr:
  assumes "buildPolicyAssessmentCommand tp parsed source ev now = Inr cmd"
  shows "tp_ValidateCommand tp cmd = None \<and> pa_CorrelationID cmd = pq_normScanID parsed \<and>
    pa_SubjectID cmd = ws_walletSubjectID source \<and> pa_CryptoPolicyID cmd = pq_cryptoPolicyID parsed \<and>
    pa_Observation cmd = ev"
  using assms by (auto simp: buildPolicyAssessmentCommand_def refuse_def Let_def split: option.splits)

lemma publishPolicyAssessmentRequest_sent:
  assumes "publishPolicyAssessmentRequest tp parsed source now out = (rs, out')" and "out' \<noteq> out"
  obtains ev cmd payload where "buildWalletObservedEvent tp (pq_normScanID parsed) source now = Inr ev"
    and "buildPolicyAssessmentCommand tp parsed source ev now = Inr cmd" and "tp_Marshal tp cmd = Inr payload"
    and "out' = out @ [(tp_NATSSubjectPolicyAssessmentRequestedV01 tp, payload)]"
    and "rs_Status rs = 202 \<longleftrightarrow> the (tp_Publish tp) (tp_NATSSubjectPolicyAssessmentRequestedV01 tp) payload = None"
proof -
  obtain ev cmd payload where b: "buildWalletObservedEvent tp (pq_normScanID parsed) source now = Inr ev"
      "buildPolicyAssessmentCommand tp parsed source ev now = Inr cmd" "tp_Marshal tp cmd = Inr payload"
    using assms by (auto simp: publishPolicyAssessmentRequest_def ebind_def split: sum.splits)
  then show thesis using assms(1)
    by (intro that[OF b]) (auto simp: publishPolicyAssessmentRequest_def ebind_def Let_def writeJSON_def split: option.splits)
qed

lemma handlePoliciesAssessmentRequest_sent:
  assumes "handlePoliciesAssessmentRequest env ct tp cfg now r out = (rs, out')" and "out' \<noteq> out"
  obtains prin parsed source where "rq_Principal r = Some prin" and "tp_Publish tp \<noteq> None"
    and "parseAssessmentRequestBody ct (rq_Body r) = Inr parsed"
    and "authorizeScanReadForAssessment (en_Net env) prin (pq_normScanID parsed) cfg
      (fst (ensureRequestID (en_RequestID env) r)) = None"
    and "fetchWalletScanAssessmentSource (en_Net env) ct tp cfg (Header_Get r ''Authorization'')
      (fst (ensureRequestID (en_RequestID env) r)) (pq_normScanID parsed) = Inr source"
    and "publishPolicyAssessmentRequest tp parsed source now out = (rs, out')"
  using assms ensureRequestID_header[of "''Authorization''" "en_RequestID env" r]
  by (auto simp: handlePoliciesAssessmentRequest_def assessmentRequestPreconditions_def Let_def case_prod_beta
      split: option.splits sum.splits if_splits)

lemma authorizeScanRead_eq:
  "authorizeScanReadForAssessment net prin scanID cfg rid =
     map_option (\<lambda>(e, status, reason). if status = 403 then scanHidden else (e, status))
       (authorizeScanAccess net prin scanID cfg rid)"
  by (simp add: authorizeScanReadForAssessment_def authorizeScanAccess_def scanUnavailable_def scanDenied_def
      readUnavailable_def split: option.splits)

text \<open>The evidence behind a publication, from the body to the message.\<close>

lemma assessment_sent:
  assumes "handlePoliciesAssessmentRequest env ct tp cfg now r out = (rs, out')" and "out' \<noteq> out"
  obtains prin raw sid cid scan b address w cmd payload where "rq_Principal r = Some prin"
    and "bodyObject ct (rq_Body r) = Inr raw" and "map_of raw ''scan_id'' = Some (JStr sid)"
    and "NormalizeDiscoveryScanID sid = Some scan" and "normal_scan scan"
    and "map_of raw ''crypto_policy_id'' = Some (JStr cid)"
    and "authorizeScanAccess (en_Net env) prin scan cfg (fst (ensureRequestID (en_RequestID env) r)) = None"
    and "fetchDiscoveryWalletScanDetail (en_Net env) cfg (Header_Get r ''Authorization'')
      (fst (ensureRequestID (en_RequestID env) r)) scan = Some (200, b)"
    and "targetAddressFromWalletScanDetailJSON b = Inr address" and "NormalizeWalletTargetAddress address = Some w"
    and "ObservationPayloadFromDiscoveryWalletScanDetail ct b = Inr (we_Payload (pa_Observation cmd))"
    and "pa_CorrelationID cmd = scan" and "we_CorrelationID (pa_Observation cmd) = scan"
    and "pa_SubjectID cmd = ''wallet:'' @ w" and "we_SubjectID (pa_Observation cmd) = ''wallet:'' @ w"
    and "pa_CryptoPolicyID cmd = TrimSpace cid"
    and "tp_ValidateEvent tp (pa_Observation cmd) = None" and "tp_ValidateCommand tp cmd = None"
    and "tp_Marshal tp cmd = Inr payload" and "out' = out @ [(tp_NATSSubjectPolicyAssessmentRequestedV01 tp, payload)]"
    and "rs_Status rs = 202 \<longleftrightarrow> the (tp_Publish tp) (tp_NATSSubjectPolicyAssessmentRequestedV01 tp) payload = None"
proof -
  obtain prin parsed source where h: "rq_Principal r = Some prin"
    "parseAssessmentRequestBody ct (rq_Body r) = Inr parsed"
    "authorizeScanReadForAssessment (en_Net env) prin (pq_normScanID parsed) cfg
      (fst (ensureRequestID (en_RequestID env) r)) = None"
    "fetchWalletScanAssessmentSource (en_Net env) ct tp cfg (Header_Get r ''Authorization'')
      (fst (ensureRequestID (en_RequestID env) r)) (pq_normScanID parsed) = Inr source"
    "publishPolicyAssessmentRequest tp parsed source now out = (rs, out')"
    using assms by (rule handlePoliciesAssessmentRequest_sent)
  obtain raw sid cid where ids: "bodyObject ct (rq_Body r) = Inr raw" "map_of raw ''scan_id'' = Some (JStr sid)"
    "NormalizeDiscoveryScanID sid = Some (pq_normScanID parsed)" "map_of raw ''crypto_policy_id'' = Some (JStr cid)"
    "pq_cryptoPolicyID parsed = TrimSpace cid"
    using h(2) by (rule parseAssessmentRequestBody_ids)
  obtain b where b: "fetchDiscoveryWalletScanDetail (en_Net env) cfg (Header_Get r ''Authorization'')
      (fst (ensureRequestID (en_RequestID env) r)) (pq_normScanID parsed) = Some (200, b)"
    "parseWalletScanAssessmentSource ct b = Inr source"
    using h(4) by (rule fetchWalletScanAssessmentSource_Inr)
  obtain address w where a: "ObservationPayloadFromDiscoveryWalletScanDetail ct b = Inr (ws_payload source)"
    "targetAddressFromWalletScanDetailJSON b = Inr address" "NormalizeWalletTargetAddress address = Some w"
    "ws_walletSubjectID source = WalletSubjectPrefix @ w"
    using b(2) by (rule parseWalletScanAssessmentSource_Inr)
  obtain ev cmd payload where p: "buildWalletObservedEvent tp (pq_normScanID parsed) source now = Inr ev"
    "buildPolicyAssessmentCommand tp parsed source ev now = Inr cmd" "tp_Marshal tp cmd = Inr payload"
    "out' = out @ [(tp_NATSSubjectPolicyAssessmentRequestedV01 tp, payload)]"
    "rs_Status rs = 202 \<longleftrightarrow> the (tp_Publish tp) (tp_NATSSubjectPolicyAssessmentRequestedV01 tp) payload = None"
    using h(5) assms(2) by (rule publishPolicyAssessmentRequest_sent)
  have "authorizeScanAccess (en_Net env) prin (pq_normScanID parsed) cfg (fst (ensureRequestID (en_RequestID env) r)) = None"
    using h(3) by (simp add: authorizeScanRead_eq)
  then show thesis
    using buildWalletObservedEvent_Inr[OF p(1)] buildPolicyAssessmentCommand_Inr[OF p(2)]
    by (intro that[OF h(1) ids(1-3) parseAssessmentRequestBody_Inr(1)[OF h(2)] ids(4) _ b(1) a(2,3) _ _ _ _ _ _ _ _ p(3-5)])
      (simp_all add: a ids(5) WalletSubjectPrefix_def)
qed

section \<open>Properties\<close>

text \<open>C18. A command leaves the service only for a scan the principal may read. If a request adds to
  the published messages, it carries a principal, its body is an object whose \<^verbatim>\<open>scan_id\<close> normalises to a
  scan that Discovery granted that principal, and Discovery answered 200 for the detail of that scan;
  exactly one message is added, the encoding of a command the contract accepts, for that scan, for
  the crypto policy the body names, for the wallet named in the detail and with the observation read
  from the detail; and 202 is answered exactly when the publisher took it.\<close>

theorem assessment_published_only_authorized:
  assumes "handlePoliciesAssessmentRequest env ct tp cfg now r out = (rs, out')" and "out' \<noteq> out"
  shows "\<exists>prin raw sid cid scan b address w cmd payload rid. rid = fst (ensureRequestID (en_RequestID env) r) \<and>
    rq_Principal r = Some prin \<and>
    bodyObject ct (rq_Body r) = Inr raw \<and> map_of raw ''scan_id'' = Some (JStr sid) \<and>
    NormalizeDiscoveryScanID sid = Some scan \<and> map_of raw ''crypto_policy_id'' = Some (JStr cid) \<and>
    normal_scan scan \<and> authorizeScanAccess (en_Net env) prin scan cfg rid = None \<and>
    fetchDiscoveryWalletScanDetail (en_Net env) cfg (Header_Get r ''Authorization'') rid scan = Some (200, b) \<and>
    targetAddressFromWalletScanDetailJSON b = Inr address \<and> NormalizeWalletTargetAddress address = Some w \<and>
    ObservationPayloadFromDiscoveryWalletScanDetail ct b = Inr (we_Payload (pa_Observation cmd)) \<and>
    pa_CorrelationID cmd = scan \<and> we_CorrelationID (pa_Observation cmd) = scan \<and>
    pa_SubjectID cmd = ''wallet:'' @ w \<and> we_SubjectID (pa_Observation cmd) = ''wallet:'' @ w \<and>
    pa_CryptoPolicyID cmd = TrimSpace cid \<and>
    tp_ValidateEvent tp (pa_Observation cmd) = None \<and> tp_ValidateCommand tp cmd = None \<and>
    tp_Marshal tp cmd = Inr payload \<and> out' = out @ [(tp_NATSSubjectPolicyAssessmentRequestedV01 tp, payload)] \<and>
    (rs_Status rs = 202 \<longleftrightarrow> the (tp_Publish tp) (tp_NATSSubjectPolicyAssessmentRequestedV01 tp) payload = None)"
  using assms by (rule assessment_sent) (intro exI conjI, rule refl, assumption+)

definition detail_body :: body where
  "detail_body = JsonBody (JObj [(''scan_family'', JStr ''wallet''), (''scan_id'', JStr sample_scan),
     (''result'', JObj [(''target_address'', JStr sample_hex), (''wallet_type'', JStr ''EOA''), (''chain_ids'', JArr [jint 1])])])"

definition detail_net :: network where
  "detail_net q = (if or_Method q = ''POST'' then Some (200, JsonBody (JObj [(''allowed'', JBool True)])) else Some (200, detail_body))"

definition detail_env :: "unit Env" where
  "detail_env = sample_env\<lparr>en_Net := detail_net\<rparr>"

definition sample_transport :: transport where
  "sample_transport = \<lparr>tp_EventTypeWalletObserved = ''cafe.discovery.wallet.observed'', tp_WalletEventVersion = ''v0.1'',
     tp_ProducerCafeDiscovery = ''cafe-discovery'', tp_WalletSubjectType = ''wallet'', tp_ValidateEvent = (\<lambda>_. None),
     tp_EventTypePolicyAssessmentRequested = ''policy.assessment.requested'', tp_EventVersionV01 = ''v0.1'',
     tp_ProducerCafeCryptoBackend = ''cafe-crypto-backend'', tp_SubjectTypeWallet = ''wallet'',
     tp_ValidateCommand = (\<lambda>c. if pa_CryptoPolicyID c = '''' then Some ''crypto_policy_id is required'' else None),
     tp_Marshal = (\<lambda>c. Inr (pa_CorrelationID c @ '' '' @ pa_SubjectID c)),
     tp_NATSSubjectPolicyAssessmentRequestedV01 = ''cafe.policy.assessment.requested'', tp_Publish = Some (\<lambda>_ _. None),
     tp_Random = (Some [1], Some [2]), tp_NetError = ''dial''\<rparr>"

definition assessment_request :: Request where
  "assessment_request = post_request PoliciesAssessmentRequest
     (JObj [(''scan_id'', JStr sample_scan), (''crypto_policy_id'', JStr ''cp'')])"

lemma assessment_request_sent:
  "handlePoliciesAssessmentRequest detail_env sample_contracts sample_transport sample_cfg 7 assessment_request [] =
     (writeJSON 202 (JObj [(''event_id'', JStr ''evt_pol_req_02''), (''correlation_id'', JStr sample_scan),
        (''client_request_id'', JStr '''')]),
      [(''cafe.policy.assessment.requested'', sample_scan @ '' wallet:'' @ sample_wallet)])"
proof -
  define parsed where "parsed = \<lparr>pq_normScanID = sample_scan, pq_cryptoPolicyID = ''cp'', pq_clientRequestID = ''''\<rparr>"
  have r: "rq_Principal assessment_request = Some alice" "Header_Get assessment_request ''Authorization'' = ''''"
    by (simp_all add: assessment_request_def post_request_def Header_Get_def)
  have "assessmentRequestPreconditions sample_transport sample_cfg = None" by code_simp
  moreover have "parseAssessmentRequestBody sample_contracts (rq_Body assessment_request) = Inr parsed"
    unfolding parsed_def by code_simp
  moreover have "authorizeScanReadForAssessment detail_net alice sample_scan sample_cfg rid = None" for rid
  proof -
    have "TrimSpace sample_scan \<noteq> ''''" "TrimSpace (cf_ScanAuthorizationURL sample_cfg) \<noteq> ''''"
      "decode_first dec_scanAuthorizationResponse (JsonBody (JObj [(''allowed'', JBool True)])) = Some True" by code_simp+
    then show ?thesis
      by (simp add: authorizeScanReadForAssessment_def detail_net_def scanAuthorizationRequest_def)
  qed
  moreover obtain source where s: "parseWalletScanAssessmentSource sample_contracts detail_body = Inr source"
    "ws_walletSubjectID source = ''wallet:'' @ sample_wallet"
  proof -
    have "isl (parseWalletScanAssessmentSource sample_contracts detail_body) = False" by code_simp
    then obtain source where p: "parseWalletScanAssessmentSource sample_contracts detail_body = Inr source"
      by (cases "parseWalletScanAssessmentSource sample_contracts detail_body") simp_all
    obtain address w where "targetAddressFromWalletScanDetailJSON detail_body = Inr address"
      "NormalizeWalletTargetAddress address = Some w" "ws_walletSubjectID source = WalletSubjectPrefix @ w"
      using p by (rule parseWalletScanAssessmentSource_Inr)
    moreover have "targetAddressFromWalletScanDetailJSON detail_body = Inr sample_hex"
      "NormalizeWalletTargetAddress sample_hex = Some sample_wallet" by code_simp+
    ultimately show thesis using p that by (simp add: WalletSubjectPrefix_def)
  qed
  moreover have "fetchWalletScanAssessmentSource detail_net sample_contracts sample_transport sample_cfg '''' rid sample_scan =
      Inr source" for rid
    using s by (simp add: fetchWalletScanAssessmentSource_def fetchDiscoveryWalletScanDetail_def detail_net_def
        writeDiscoveryScanDetailStatusOK_def)
  moreover have "newAssessmentEventID (Some [1]) = Some ''evt_pol_req_01''" "newAssessmentEventID (Some [2]) = Some ''evt_pol_req_02''"
    by code_simp+
  moreover have "TrimSpace '''' = ''''" by code_simp
  ultimately show ?thesis
    using r ensureRequestID_header[of "''Authorization''" "(0, 1)" assessment_request]
    by (simp add: handlePoliciesAssessmentRequest_def Let_def case_prod_beta detail_env_def sample_env_def)
      (simp add: parsed_def publishPolicyAssessmentRequest_def buildWalletObservedEvent_def buildPolicyAssessmentCommand_def
        acceptedJSON_def sample_transport_def ebind_def Let_def)
qed

theorem assessment_published_only_authorized_witness:
  "\<exists>w payload. NormalizeWalletTargetAddress sample_hex = Some w \<and>
     [(''cafe.policy.assessment.requested'', sample_scan @ '' wallet:'' @ sample_wallet)] =
       [(tp_NATSSubjectPolicyAssessmentRequestedV01 sample_transport, payload)]"
proof -
  have "targetAddressFromWalletScanDetailJSON detail_body = Inr sample_hex" by code_simp
  moreover have "fetchDiscoveryWalletScanDetail (en_Net detail_env) sample_cfg h rid scan = Some (200, detail_body)" for h rid scan
    by (simp add: fetchDiscoveryWalletScanDetail_def detail_env_def detail_net_def)
  ultimately show ?thesis
    using assessment_published_only_authorized[OF assessment_request_sent] by auto
qed

text \<open>The read authorization of the assessment route is the scan authorization of the middleware, with
  the same verdict on every answer of Discovery and the same errors, except that a refusal becomes
  a 404 that says nothing of the scan: a foreign scan and an absent one are answered alike.\<close>

lemma assessment_scan_hidden:
  "authorizeScanReadForAssessment net prin scanID cfg rid =
     (case authorizeScanAccess net prin scanID cfg rid of
        None \<Rightarrow> None
      | Some (e, status, reason) \<Rightarrow>
          Some (if status = 403
            then (\<lparr>ae_Code = ''AUTHZ_SCAN_FORBIDDEN'', ae_Message = ''scan not found'',
              ae_Details = [(''reason'', JStr ''scan_not_found'')]\<rparr>, 404)
            else (e, status)))"
  by (simp add: authorizeScanRead_eq scanHidden_def reasonDetails_def split: option.splits)

end
