(* ===== verification/Store_Client.thy ===== *)
theory Store_Client
  imports Auth_Middleware
begin

text \<open>
  The remote policy store, \<^verbatim>\<open>internal/persistence/cphttp\<close>: the client of the persistence service that
  deployed builds use in place of the in-memory store. The service is a parameter with a state of
  its own: a function from an outgoing request and its state to an answer (\<open>None\<close>: no answer, or a
  body that could not be read) and the next state. A body longer than the client's limit of one
  mebibyte is cut and so does not parse.

  The client decodes an answer into a variable, and a retry decodes into the same one; decoding is
  therefore a function of the value and of what the variable holds, and it says whether it succeeded.
\<close>

section \<open>Requests\<close>

definition cphttp_V1Base :: string where "cphttp_V1Base = ''/internal/cp/v1''"
definition cphttp_Policies :: string where "cphttp_Policies = ''/policies''"
definition cphttp_ReferenceWallet :: string where "cphttp_ReferenceWallet = ''/references/wallet''"

type_synonym 'w remote = "OutRequest \<Rightarrow> 'w \<Rightarrow> (int \<times> body) option \<times> 'w"

text \<open>\<^verbatim>\<open>http.NewRequest\<close> refuses a URL that \<^verbatim>\<open>net/url\<close> does not parse; which ones is a field of the client.\<close>

record Client =
  cl_baseURL :: string
  cl_token :: string
  cl_TimeoutSec :: int
  cl_validURL :: "string \<Rightarrow> bool"

text \<open>\<^verbatim>\<open>strings.TrimRight(s, "/")\<close>\<close>

definition trimRightSlashes :: "string \<Rightarrow> string" where
  "trimRightSlashes s = rev (dropWhile (\<lambda>c. c = CHR ''/'') (rev s))"

definition NewClient :: "(string \<Rightarrow> bool) \<Rightarrow> string \<Rightarrow> string \<Rightarrow> int option \<Rightarrow> Client" where
  "NewClient valid baseURL token timeout =
     \<lparr>cl_baseURL = trimRightSlashes (TrimSpace baseURL), cl_token = TrimSpace token,
      cl_TimeoutSec = (case timeout of None \<Rightarrow> 15 | Some t \<Rightarrow> t), cl_validURL = valid\<rparr>"

text \<open>\<^verbatim>\<open>url.QueryEscape\<close>\<close>

definition querySafe :: "char \<Rightarrow> bool" where
  "querySafe c \<longleftrightarrow>
     (let n = byte_of c in 48 \<le> n \<and> n \<le> 57 \<or> 65 \<le> n \<and> n \<le> 90 \<or> 97 \<le> n \<and> n \<le> 122) \<or> c \<in> set ''-_.~''"

definition QueryEscape :: "string \<Rightarrow> string" where
  "QueryEscape s = concat (map (\<lambda>c. if querySafe c then [c] else if c = CHR '' '' then ''+''
     else [CHR ''%'', upper_hex (byte_of c div 16), upper_hex (byte_of c mod 16)]) s)"

text \<open>\<^verbatim>\<open>strings.ReplaceAll\<close> puts the id in place of the only placeholder.\<close>

definition policyURL :: "Client \<Rightarrow> string \<Rightarrow> string" where
  "policyURL c policyID = cl_baseURL c @ cphttp_V1Base @ ''/policies/'' @ policyID"

definition clientRequest :: "Client \<Rightarrow> string \<Rightarrow> string \<Rightarrow> Principal \<Rightarrow> json option \<Rightarrow> OutRequest" where
  "clientRequest c meth url prin bdy =
     \<lparr>or_Method = meth, or_URL = url, or_Query = [],
      or_Header = (if bdy \<noteq> None then [(''Content-Type'', ''application/json'')] else []) @
        [(''Authorization'', ''Bearer '' @ cl_token c), (''X-User-Id'', pn_UserID prin)] @
        (if TrimSpace (pn_TenantID prin) \<noteq> '''' then [(''X-Tenant-Id'', TrimSpace (pn_TenantID prin))] else []),
      or_Body = bdy, or_TimeoutSec = cl_TimeoutSec c\<rparr>"

section \<open>Decoding into a variable\<close>

type_synonym 'd into = "json \<Rightarrow> 'd \<Rightarrow> bool \<times> 'd"

definition into_scalar :: "(json option \<Rightarrow> 'a option) \<Rightarrow> 'a into" where
  "into_scalar dec j old =
     (if j = JNull then (True, old) else case dec (Some j) of Some v \<Rightarrow> (True, v) | None \<Rightarrow> (False, old))"

text \<open>A map keeps its keys: the members of the object are added to it.\<close>

definition into_map :: "json gomap option into" where
  "into_map j old =
     (case j of
        JObj kvs \<Rightarrow> (True, Some (fold (\<lambda>(k, v). AList.update k v) kvs (case old of None \<Rightarrow> [] | Some m \<Rightarrow> m)))
      | JNull \<Rightarrow> (True, None)
      | _ \<Rightarrow> (False, old))"

text \<open>Every member whose key is the field's name up to case is decoded into the field, in order.\<close>

fun into_members :: "string \<Rightarrow> 'a into \<Rightarrow> json gomap \<Rightarrow> 'a \<Rightarrow> bool \<times> 'a" where
  "into_members name f [] old = (True, old)"
| "into_members name f ((k, j) # kvs) old =
     (if EqualFold k name
      then (case f j old of (ok, new) \<Rightarrow> (case into_members name f kvs new of (ok', v) \<Rightarrow> (ok \<and> ok', v)))
      else into_members name f kvs old)"

definition into_struct :: "(json gomap \<Rightarrow> 'd \<Rightarrow> bool \<times> 'd) \<Rightarrow> 'd into" where
  "into_struct f j old = (case j of JObj kvs \<Rightarrow> f kvs old | JNull \<Rightarrow> (True, old) | _ \<Rightarrow> (False, old))"

text \<open>The elements of an array are decoded into those the slice has, and into zero values after them.\<close>

fun into_elems :: "'a \<Rightarrow> 'a into \<Rightarrow> json list \<Rightarrow> 'a list \<Rightarrow> bool \<times> 'a list" where
  "into_elems z f [] old = (True, [])"
| "into_elems z f (j # js) old =
     (case f j (case old of [] \<Rightarrow> z | x # _ \<Rightarrow> x) of
        (ok, x) \<Rightarrow> (case into_elems z f js (tl old) of (ok', xs) \<Rightarrow> (ok \<and> ok', x # xs)))"

definition into_slice :: "'a \<Rightarrow> 'a into \<Rightarrow> 'a list into" where
  "into_slice z f j old =
     (case j of JArr js \<Rightarrow> into_elems z f js old | JNull \<Rightarrow> (True, []) | _ \<Rightarrow> (False, old))"

section \<open>The answers\<close>

record policyRowWire =
  pw_ID :: string
  pw_UserID :: string
  pw_TenantID :: string
  pw_ScanID :: string
  pw_Payload :: "json gomap option"
  pw_PayloadSHA256 :: string
  pw_WalletAddress :: string
  pw_ChainID :: int64
  pw_CreatedAt :: string
  pw_UpdatedAt :: string
  pw_PersistedAt :: string

definition zeroRow :: policyRowWire where
  "zeroRow = \<lparr>pw_ID = '''', pw_UserID = '''', pw_TenantID = '''', pw_ScanID = '''', pw_Payload = None,
     pw_PayloadSHA256 = '''', pw_WalletAddress = '''', pw_ChainID = 0, pw_CreatedAt = '''', pw_UpdatedAt = '''',
     pw_PersistedAt = ''''\<rparr>"

abbreviation str_member :: "string \<Rightarrow> json gomap \<Rightarrow> string \<Rightarrow> bool \<times> string" where
  "str_member name \<equiv> into_members name (into_scalar dec_string)"

abbreviation int_member :: "string \<Rightarrow> json gomap \<Rightarrow> int64 \<Rightarrow> bool \<times> int64" where
  "int_member name \<equiv> into_members name (into_scalar dec_int64)"

definition into_policyRowWire :: "json gomap \<Rightarrow> policyRowWire \<Rightarrow> bool \<times> policyRowWire" where
  "into_policyRowWire o' w =
     (let (a, i) = str_member ''id'' o' (pw_ID w);
          (b, u) = str_member ''user_id'' o' (pw_UserID w);
          (c, t) = str_member ''tenant_id'' o' (pw_TenantID w);
          (d, s) = str_member ''scan_id'' o' (pw_ScanID w);
          (e, p) = into_members ''payload'' into_map o' (pw_Payload w);
          (f, h) = str_member ''payload_sha256'' o' (pw_PayloadSHA256 w);
          (g, x) = str_member ''wallet_address'' o' (pw_WalletAddress w);
          (k, n) = int_member ''chain_id'' o' (pw_ChainID w);
          (l, ca) = str_member ''created_at'' o' (pw_CreatedAt w);
          (m, ua) = str_member ''updated_at'' o' (pw_UpdatedAt w);
          (q, pa) = str_member ''persisted_at'' o' (pw_PersistedAt w) in
      (a \<and> b \<and> c \<and> d \<and> e \<and> f \<and> g \<and> k \<and> l \<and> m \<and> q,
       \<lparr>pw_ID = i, pw_UserID = u, pw_TenantID = t, pw_ScanID = s, pw_Payload = p, pw_PayloadSHA256 = h,
        pw_WalletAddress = x, pw_ChainID = n, pw_CreatedAt = ca, pw_UpdatedAt = ua, pw_PersistedAt = pa\<rparr>))"

record createPolicyResponseWire =
  cw_PolicyID :: string
  cw_ScanID :: string
  cw_WalletAddress :: string
  cw_ChainID :: int64
  cw_PayloadSHA256 :: string
  cw_PersistedAt :: string

definition zeroCreated :: createPolicyResponseWire where
  "zeroCreated = \<lparr>cw_PolicyID = '''', cw_ScanID = '''', cw_WalletAddress = '''', cw_ChainID = 0, cw_PayloadSHA256 = '''',
     cw_PersistedAt = ''''\<rparr>"

definition into_createPolicyResponseWire ::
  "json gomap \<Rightarrow> createPolicyResponseWire \<Rightarrow> bool \<times> createPolicyResponseWire" where
  "into_createPolicyResponseWire o' w =
     (let (a, i) = str_member ''policy_id'' o' (cw_PolicyID w);
          (b, s) = str_member ''scan_id'' o' (cw_ScanID w);
          (c, x) = str_member ''wallet_address'' o' (cw_WalletAddress w);
          (d, n) = int_member ''chain_id'' o' (cw_ChainID w);
          (e, h) = str_member ''payload_sha256'' o' (cw_PayloadSHA256 w);
          (f, p) = str_member ''persisted_at'' o' (cw_PersistedAt w) in
      (a \<and> b \<and> c \<and> d \<and> e \<and> f,
       \<lparr>cw_PolicyID = i, cw_ScanID = s, cw_WalletAddress = x, cw_ChainID = n, cw_PayloadSHA256 = h, cw_PersistedAt = p\<rparr>))"

definition into_listPoliciesWire :: "json gomap \<Rightarrow> policyRowWire list \<Rightarrow> bool \<times> policyRowWire list" where
  "into_listPoliciesWire = into_members ''items'' (into_slice zeroRow (into_struct into_policyRowWire))"

definition into_walletReferenceWire :: "json gomap \<Rightarrow> bool \<times> int64 \<Rightarrow> bool \<times> bool \<times> int64" where
  "into_walletReferenceWire o' w =
     (let (a, e) = into_members ''exists'' (into_scalar dec_bool) o' (fst w);
          (b, n) = int_member ''policy_count'' o' (snd w) in
      (a \<and> b, e, n))"

definition parseTime :: "string \<Rightarrow> gotime option" where
  "parseTime value = (let v = TrimSpace value in if v = '''' then Some zeroTime else ParseRFC3339 v)"

definition toRecord :: "policyRowWire \<Rightarrow> store_error + PolicyRecord" where
  "toRecord w =
     (case (parseTime (pw_CreatedAt w), parseTime (pw_UpdatedAt w)) of
        (Some createdAt, Some updatedAt) \<Rightarrow>
          Inr \<lparr>po_ID = TrimSpace (pw_ID w), po_OwnerUserID = TrimSpace (pw_UserID w), po_TenantID = TrimSpace (pw_TenantID w),
            po_ScanID = TrimSpace (pw_ScanID w), po_Payload = Some (case pw_Payload w of None \<Rightarrow> [] | Some m \<Rightarrow> m),
            po_PayloadSHA256 = TrimSpace (pw_PayloadSHA256 w), po_WalletAddress = TrimSpace (pw_WalletAddress w),
            po_ChainID = pw_ChainID w, po_CreatedAt = createdAt, po_UpdatedAt = updatedAt\<rparr>
      | _ \<Rightarrow> Inl (ErrOther ''parsing time''))"

section \<open>One call\<close>

definition mapHTTPError :: "int \<Rightarrow> store_error" where
  "mapHTTPError status =
     (if status = 404 then ErrPolicyNotFound
      else if status = 403 then ErrForbidden
      else if status = 409 then ErrPolicyAlreadyExists
      else ErrPersistenceUnavailable)"

text \<open>The destination is \<open>None\<close> for a call whose body is not read. The body of the request always
  encodes: it is made of strings, integers and a decoded payload.\<close>

definition doJSONOnce ::
  "'w remote \<Rightarrow> Client \<Rightarrow> string \<Rightarrow> string \<Rightarrow> Principal \<Rightarrow> json option \<Rightarrow> 'd into option \<Rightarrow> 'd \<Rightarrow> 'w \<Rightarrow>
     (store_error option \<times> 'd) \<times> 'w" where
  "doJSONOnce rem c meth url prin bdy dst old w =
     (if \<not> cl_validURL c url then ((Some (ErrOther ''parse url''), old), w)
      else case rem (clientRequest c meth url prin bdy) w of
        (None, w') \<Rightarrow> ((Some ErrPersistenceUnavailable, old), w')
      | (Some (status, raw), w') \<Rightarrow>
          if status = 204 then ((None, old), w')
          else if 200 \<le> status \<and> status < 300 then
            (case (dst, raw) of
               (None, _) \<Rightarrow> ((None, old), w')
             | (Some _, NoBody) \<Rightarrow> ((None, old), w')
             | (Some _, BadBody _) \<Rightarrow> ((Some ErrPersistenceUnavailable, old), w')
             | (Some _, TrailingBody _ _) \<Rightarrow> ((Some ErrPersistenceUnavailable, old), w')
             | (Some f, JsonBody j) \<Rightarrow>
                 (case f j old of (ok, new) \<Rightarrow> ((if ok then None else Some ErrPersistenceUnavailable, new), w')))
          else ((Some (mapHTTPError status), old), w'))"

fun doJSONLoop ::
  "nat \<Rightarrow> 'w remote \<Rightarrow> Client \<Rightarrow> string \<Rightarrow> string \<Rightarrow> Principal \<Rightarrow> json option \<Rightarrow> bool \<Rightarrow> 'd into option \<Rightarrow>
     store_error option \<Rightarrow> 'd \<Rightarrow> 'w \<Rightarrow> (store_error option \<times> 'd) \<times> 'w" where
  "doJSONLoop 0 rem c meth url prin bdy idempotent dst lastErr old w = ((lastErr, old), w)"
| "doJSONLoop (Suc n) rem c meth url prin bdy idempotent dst lastErr old w =
     (case doJSONOnce rem c meth url prin bdy dst old w of
        ((None, new), w') \<Rightarrow> ((None, new), w')
      | ((Some e, new), w') \<Rightarrow>
          if \<not> idempotent \<or> e \<noteq> ErrPersistenceUnavailable then ((Some e, new), w')
          else doJSONLoop n rem c meth url prin bdy idempotent dst (Some e) new w')"

definition doJSON ::
  "'w remote \<Rightarrow> Client \<Rightarrow> string \<Rightarrow> string \<Rightarrow> Principal \<Rightarrow> json option \<Rightarrow> bool \<Rightarrow> 'd into option \<Rightarrow> 'd \<Rightarrow> 'w \<Rightarrow>
     (store_error option \<times> 'd) \<times> 'w" where
  "doJSON rem c meth url prin bdy idempotent dst old w =
     doJSONLoop (if idempotent then 2 else 1) rem c meth url prin bdy idempotent dst None old w"

section \<open>The operations\<close>

definition optionalTime :: "string \<Rightarrow> gotime option \<Rightarrow> json gomap" where
  "optionalTime k t = (case t of None \<Rightarrow> [] | Some x \<Rightarrow> if IsZero x then [] else [(k, JStr (FormatRFC3339Nano x))])"

definition createBody :: "gotime \<Rightarrow> CreatePolicyInput \<Rightarrow> json" where
  "createBody now inp =
     (let verifiedAt = (if IsZero (ci_WalletControlVerifiedAt inp) then now else ci_WalletControlVerifiedAt inp);
          meth = TrimSpace (ci_WalletControlMethod inp) in
      JObj ([(''scan_id'', JStr (TrimSpace (ci_ScanID inp))),
        (''wallet_address'', JStr (TrimSpace (ci_WalletAddress inp))),
        (''chain_id'', jint (ci_ChainID inp)),
        (''payload'', case ci_Payload inp of None \<Rightarrow> JNull | Some p \<Rightarrow> JObj p),
        (''payload_sha256'', JStr (TrimSpace (ci_PayloadSHA256 inp))),
        (''signed_message_hash'', JStr (TrimSpace (ci_SignedMessageHash inp))),
        (''wallet_control_method'', JStr (if meth = '''' then ''eoa_signature'' else meth)),
        (''wallet_control_verified_at'', JStr (FormatRFC3339Nano verifiedAt))] @
       optionalTime ''challenge_issued_at'' (ci_ChallengeIssuedAt inp) @
       optionalTime ''challenge_expires_at'' (ci_ChallengeExpiresAt inp)))"

definition Client_SavePolicy ::
  "Principal \<Rightarrow> string \<Rightarrow> string \<Rightarrow> json gomap option \<Rightarrow> 'w \<Rightarrow> (store_error + PolicyRecord) \<times> 'w" where
  "Client_SavePolicy prin i scanID payload w = (Inl ErrUnsupportedStoreOperation, w)"

definition Client_CreatePolicy ::
  "'w remote \<Rightarrow> Client \<Rightarrow> gotime \<Rightarrow> Principal \<Rightarrow> CreatePolicyInput \<Rightarrow> 'w \<Rightarrow> (store_error + CreatePolicyResult) \<times> 'w" where
  "Client_CreatePolicy rem c now prin inp w =
     (if Principal_Validate prin \<noteq> None then (Inl ErrPrincipalRequired, w)
      else case doJSON rem c ''POST'' (cl_baseURL c @ cphttp_V1Base @ cphttp_Policies) prin (Some (createBody now inp)) False
          (Some (into_struct into_createPolicyResponseWire)) zeroCreated w of
        ((Some e, _), w') \<Rightarrow> (Inl e, w')
      | ((None, wire), w') \<Rightarrow>
          (case parseTime (cw_PersistedAt wire) of
             None \<Rightarrow> (Inl (ErrOther ''parsing time''), w')
           | Some persistedAt \<Rightarrow>
               (Inr \<lparr>cr_PolicyID = TrimSpace (cw_PolicyID wire), cr_ScanID = TrimSpace (cw_ScanID wire),
                  cr_WalletAddress = TrimSpace (cw_WalletAddress wire), cr_ChainID = cw_ChainID wire,
                  cr_PayloadSHA256 = TrimSpace (cw_PayloadSHA256 wire), cr_PersistedAt = persistedAt\<rparr>, w')))"

fun toRecords :: "policyRowWire list \<Rightarrow> store_error + PolicyRecord list" where
  "toRecords [] = Inr []"
| "toRecords (x # xs) =
     (case toRecord x of Inl e \<Rightarrow> Inl e | Inr r \<Rightarrow> (case toRecords xs of Inl e \<Rightarrow> Inl e | Inr rs \<Rightarrow> Inr (r # rs)))"

definition Client_ListPersistedPoliciesForScan ::
  "'w remote \<Rightarrow> Client \<Rightarrow> Principal \<Rightarrow> string \<Rightarrow> 'w \<Rightarrow> (store_error + PolicyRecord list) \<times> 'w" where
  "Client_ListPersistedPoliciesForScan rem c prin scanID w =
     (if Principal_Validate prin \<noteq> None then (Inl ErrPrincipalRequired, w)
      else if TrimSpace scanID = '''' then (Inl (ErrOther ''scan_id is required''), w)
      else case doJSON rem c ''GET'' (cl_baseURL c @ cphttp_V1Base @ cphttp_Policies @ ''?scan_id='' @ QueryEscape (TrimSpace scanID))
          prin None True (Some (into_struct into_listPoliciesWire)) [] w of
        ((Some e, _), w') \<Rightarrow> (Inl e, w')
      | ((None, wire), w') \<Rightarrow> (toRecords wire, w'))"

definition Client_DeletePolicy :: "'w remote \<Rightarrow> Client \<Rightarrow> Principal \<Rightarrow> string \<Rightarrow> 'w \<Rightarrow> store_error option \<times> 'w" where
  "Client_DeletePolicy rem c prin i w =
     (if Principal_Validate prin \<noteq> None then (Some ErrPrincipalRequired, w)
      else case doJSON rem c ''DELETE'' (policyURL c (TrimSpace i)) prin None True None () w of ((e, _), w') \<Rightarrow> (e, w'))"

definition Client_GetPolicy :: "'w remote \<Rightarrow> Client \<Rightarrow> Principal \<Rightarrow> string \<Rightarrow> 'w \<Rightarrow> (store_error + PolicyRecord) \<times> 'w" where
  "Client_GetPolicy rem c prin i w =
     (if Principal_Validate prin \<noteq> None then (Inl ErrPrincipalRequired, w)
      else case doJSON rem c ''GET'' (policyURL c (TrimSpace i)) prin None True
          (Some (into_struct into_policyRowWire)) zeroRow w of
        ((Some e, _), w') \<Rightarrow> (Inl e, w')
      | ((None, wire), w') \<Rightarrow> (toRecord wire, w'))"

definition Client_CountActiveWalletCPMContext ::
  "'w remote \<Rightarrow> Client \<Rightarrow> Principal \<Rightarrow> string \<Rightarrow> 'w \<Rightarrow> (store_error + WalletTargetContextCounts) \<times> 'w" where
  "Client_CountActiveWalletCPMContext rem c prin address w =
     (if Principal_Validate prin \<noteq> None then (Inl ErrPrincipalRequired, w)
      else case NormalizeWalletTargetAddress address of
        None \<Rightarrow> (Inl ErrWalletInvalid, w)
      | Some wallet \<Rightarrow>
          (case doJSON rem c ''GET'' (cl_baseURL c @ cphttp_V1Base @ cphttp_ReferenceWallet @ ''?wallet_address='' @ QueryEscape wallet)
              prin None True (Some (into_struct into_walletReferenceWire)) (False, 0) w of
             ((Some e, _), w') \<Rightarrow> (Inl e, w')
           | ((None, wire), w') \<Rightarrow> (Inr \<lparr>wc_Exists = fst wire, wc_PolicyCount = snd wire\<rparr>, w')))"

definition httpStore :: "'w remote \<Rightarrow> Client \<Rightarrow> gotime \<Rightarrow> 'w PolicyStore" where
  "httpStore rem c now =
     \<lparr>op_Save = Client_SavePolicy,
      op_Create = Client_CreatePolicy rem c now,
      op_List = Client_ListPersistedPoliciesForScan rem c,
      op_Delete = Client_DeletePolicy rem c,
      op_Get = Client_GetPolicy rem c,
      op_Count = Client_CountActiveWalletCPMContext rem c\<rparr>"

section \<open>What the client sends\<close>

text \<open>A service that keeps the list of the requests it got.\<close>

definition logged :: "'w remote \<Rightarrow> ('w \<times> OutRequest list) remote" where
  "logged rem q wl = (case rem q (fst wl) of (a, w') \<Rightarrow> (a, w', snd wl @ [q]))"

lemma doJSONOnce_logged:
  "doJSONOnce (logged rem) c m u p b dst old (w, l) =
     (case doJSONOnce rem c m u p b dst old w of
        (res, w') \<Rightarrow> (res, w', l @ (if cl_validURL c u then [clientRequest c m u p b] else [])))"
  by (simp add: doJSONOnce_def logged_def split: prod.splits option.splits body.splits)

lemma doJSONLoop_logged:
  "\<exists>k \<le> n. doJSONLoop n (logged rem) c m u p b idem dst e old (w, l) =
     (case doJSONLoop n rem c m u p b idem dst e old w of
        (res, w') \<Rightarrow> (res, w', l @ replicate k (clientRequest c m u p b)))"
proof (induction n arbitrary: e old w l)
  case (Suc n)
  obtain err new w' where o: "doJSONOnce rem c m u p b dst old w = ((err, new), w')" by (metis prod.collapse)
  define k where "k = (if cl_validURL c u then 1 else 0 :: nat)"
  then have k: "k \<le> 1" and l: "doJSONOnce (logged rem) c m u p b dst old (w, l) =
      ((err, new), w', l @ replicate k (clientRequest c m u p b))"
    by (simp_all add: doJSONOnce_logged o)
  show ?case
  proof (cases err)
    case None
    then show ?thesis using o l k by (intro exI[of _ k]) simp
  next
    case (Some x)
    show ?thesis
    proof (cases "\<not> idem \<or> x \<noteq> ErrPersistenceUnavailable")
      case True
      then show ?thesis using o l k Some by (intro exI[of _ k]) auto
    next
      case False
      obtain k' where "k' \<le> n" "doJSONLoop n (logged rem) c m u p b idem dst (Some x) new
          (w', l @ replicate k (clientRequest c m u p b)) =
        (case doJSONLoop n rem c m u p b idem dst (Some x) new w' of
           (res, w') \<Rightarrow> (res, w', (l @ replicate k (clientRequest c m u p b)) @ replicate k' (clientRequest c m u p b)))"
        using Suc.IH by blast
      then show ?thesis using o l k Some False by (intro exI[of _ "k + k'"]) (simp add: replicate_add)
    qed
  qed
qed simp

lemma doJSON_logged:
  obtains k where "k \<le> (if idem then 2 else 1)"
    and "doJSON (logged rem) c m u p b idem dst old (w, l) =
      (case doJSON rem c m u p b idem dst old w of (res, w') \<Rightarrow> (res, w', l @ replicate k (clientRequest c m u p b)))"
  using doJSONLoop_logged[of "if idem then 2 else 1" rem c m u p b idem dst None old w l]
  by (elim exE conjE) (rule that, simp_all only: doJSON_def)

datatype store_call =
    CallSave string string "json gomap option"
  | CallCreate CreatePolicyInput
  | CallList string
  | CallDelete string
  | CallGet string
  | CallCount string

fun after :: "'s PolicyStore \<Rightarrow> Principal \<Rightarrow> store_call \<Rightarrow> 's \<Rightarrow> 's" where
  "after st p (CallSave i scan pl) s = snd (op_Save st p i scan pl s)"
| "after st p (CallCreate inp) s = snd (op_Create st p inp s)"
| "after st p (CallList scan) s = snd (op_List st p scan s)"
| "after st p (CallDelete i) s = snd (op_Delete st p i s)"
| "after st p (CallGet i) s = snd (op_Get st p i s)"
| "after st p (CallCount a) s = snd (op_Count st p a s)"

text \<open>The request a call stands for, and how often it may be sent.\<close>

fun call_method :: "store_call \<Rightarrow> string" where
  "call_method (CallCreate _) = ''POST''"
| "call_method (CallDelete _) = ''DELETE''"
| "call_method _ = ''GET''"

fun call_path :: "store_call \<Rightarrow> string" where
  "call_path (CallCreate _) = cphttp_Policies"
| "call_path (CallList scan) = cphttp_Policies @ ''?scan_id='' @ QueryEscape (TrimSpace scan)"
| "call_path (CallDelete i) = ''/policies/'' @ TrimSpace i"
| "call_path (CallGet i) = ''/policies/'' @ TrimSpace i"
| "call_path (CallCount a) = cphttp_ReferenceWallet @ ''?wallet_address='' @
     QueryEscape (case NormalizeWalletTargetAddress a of None \<Rightarrow> '''' | Some w \<Rightarrow> w)"
| "call_path (CallSave _ _ _) = ''''"

fun call_body :: "gotime \<Rightarrow> store_call \<Rightarrow> json option" where
  "call_body now (CallCreate inp) = Some (createBody now inp)"
| "call_body now _ = None"

fun call_attempts :: "store_call \<Rightarrow> nat" where
  "call_attempts (CallSave _ _ _) = 0"
| "call_attempts (CallCreate _) = 1"
| "call_attempts _ = 2"

definition request_of :: "Client \<Rightarrow> gotime \<Rightarrow> Principal \<Rightarrow> store_call \<Rightarrow> OutRequest" where
  "request_of c now p call =
     clientRequest c (call_method call) (cl_baseURL c @ cphttp_V1Base @ call_path call) p (call_body now call)"

text \<open>What every request carries.\<close>

definition authenticated_call :: "Client \<Rightarrow> Principal \<Rightarrow> OutRequest \<Rightarrow> bool" where
  "authenticated_call c p q \<longleftrightarrow>
     map_of (or_Header q) ''Authorization'' = Some (''Bearer '' @ cl_token c) \<and>
     map_of (or_Header q) ''X-User-Id'' = Some (pn_UserID p) \<and>
     map_of (or_Header q) ''X-Tenant-Id'' = (if TrimSpace (pn_TenantID p) = '''' then None else Some (TrimSpace (pn_TenantID p))) \<and>
     (\<exists>path. or_URL q = cl_baseURL c @ ''/internal/cp/v1'' @ path)"

lemma clientRequest_authenticated:
  "authenticated_call c p (clientRequest c m (cl_baseURL c @ cphttp_V1Base @ path) p b)"
  by (simp add: authenticated_call_def clientRequest_def cphttp_V1Base_def)

definition sends :: "nat \<Rightarrow> OutRequest \<Rightarrow> 'w \<times> OutRequest list \<Rightarrow> OutRequest list \<Rightarrow> 'w \<Rightarrow> bool" where
  "sends n q wl l w' \<longleftrightarrow> (\<exists>k \<le> n. wl = (w', l @ replicate k q))"

lemma sends_nothing: "sends n q (w, l) l w"
  by (auto simp: sends_def intro: exI[of _ 0])

lemma sends_doJSON:
  assumes "(if idem then 2 else 1) \<le> n"
  shows "sends n (clientRequest c m u p b) (snd (doJSON (logged rem) c m u p b idem dst old (w, l))) l
    (snd (doJSON rem c m u p b idem dst old w))"
proof -
  obtain k where "k \<le> (if idem then 2 else 1)"
    "doJSON (logged rem) c m u p b idem dst old (w, l) =
      (case doJSON rem c m u p b idem dst old w of (res, w') \<Rightarrow> (res, w', l @ replicate k (clientRequest c m u p b)))"
    by (rule doJSON_logged)
  then show ?thesis using assms by (fastforce simp: sends_def split: prod.splits)
qed

text \<open>Each operation leaves the service in the state its one call leaves it in.\<close>

lemma Client_snd:
  assumes "Principal_Validate p = None"
  shows "snd (Client_CreatePolicy rem c now p inp w) =
      snd (doJSON rem c ''POST'' (cl_baseURL c @ cphttp_V1Base @ cphttp_Policies) p (Some (createBody now inp)) False
        (Some (into_struct into_createPolicyResponseWire)) zeroCreated w)"
    and "TrimSpace scan \<noteq> '''' \<Longrightarrow> snd (Client_ListPersistedPoliciesForScan rem c p scan w) =
      snd (doJSON rem c ''GET'' (cl_baseURL c @ cphttp_V1Base @ cphttp_Policies @ ''?scan_id='' @ QueryEscape (TrimSpace scan))
        p None True (Some (into_struct into_listPoliciesWire)) [] w)"
    and "snd (Client_DeletePolicy rem c p i w) =
      snd (doJSON rem c ''DELETE'' (cl_baseURL c @ cphttp_V1Base @ ''/policies/'' @ TrimSpace i) p None True None () w)"
    and "snd (Client_GetPolicy rem c p i w) =
      snd (doJSON rem c ''GET'' (cl_baseURL c @ cphttp_V1Base @ ''/policies/'' @ TrimSpace i) p None True
        (Some (into_struct into_policyRowWire)) zeroRow w)"
    and "NormalizeWalletTargetAddress a = Some wal \<Longrightarrow> snd (Client_CountActiveWalletCPMContext rem c p a w) =
      snd (doJSON rem c ''GET'' (cl_baseURL c @ cphttp_V1Base @ cphttp_ReferenceWallet @ ''?wallet_address='' @ QueryEscape wal)
        p None True (Some (into_struct into_walletReferenceWire)) (False, 0) w)"
  using assms
  by (simp_all add: Client_CreatePolicy_def Client_ListPersistedPoliciesForScan_def Client_DeletePolicy_def Client_GetPolicy_def
      Client_CountActiveWalletCPMContext_def policyURL_def split: prod.splits option.splits)

lemma after_refused:
  assumes "Principal_Validate p \<noteq> None"
  shows "after (httpStore rem c now) p call w = w"
  using assms
  by (cases call) (simp_all add: httpStore_def Client_SavePolicy_def Client_CreatePolicy_def Client_ListPersistedPoliciesForScan_def
      Client_DeletePolicy_def Client_GetPolicy_def Client_CountActiveWalletCPMContext_def)

lemma after_sends:
  "sends (if Principal_Validate p \<noteq> None then 0 else call_attempts call) (request_of c now p call)
     (after (httpStore (logged rem) c now) p call (w, l)) l (after (httpStore rem c now) p call w)"
proof (cases "Principal_Validate p = None")
  case v: True
  show ?thesis
  proof (cases call)
    case CallSave
    then show ?thesis by (simp add: httpStore_def Client_SavePolicy_def sends_nothing)
  next
    case CallCreate
    then show ?thesis by (simp add: v httpStore_def Client_snd(1)[OF v] request_of_def sends_doJSON)
  next
    case (CallList scan)
    then show ?thesis
      by (cases "TrimSpace scan = ''''")
        (simp_all add: v httpStore_def Client_snd(2)[OF v] request_of_def sends_doJSON,
          simp add: Client_ListPersistedPoliciesForScan_def v sends_nothing)
  next
    case CallDelete
    then show ?thesis by (simp add: v httpStore_def Client_snd(3)[OF v] request_of_def sends_doJSON)
  next
    case CallGet
    then show ?thesis by (simp add: v httpStore_def Client_snd(4)[OF v] request_of_def sends_doJSON)
  next
    case (CallCount a)
    then show ?thesis
      by (cases "NormalizeWalletTargetAddress a")
        (simp_all add: v httpStore_def Client_snd(5)[OF v] request_of_def sends_doJSON,
          simp add: Client_CountActiveWalletCPMContext_def v sends_nothing)
  qed
qed (simp add: after_refused sends_nothing)

section \<open>What the client reads\<close>

text \<open>The row of a record, as the persistence service documents it.\<close>

definition rowJSON :: "PolicyRecord \<Rightarrow> json gomap" where
  "rowJSON r =
     [(''id'', JStr (po_ID r)), (''user_id'', JStr (po_OwnerUserID r)), (''tenant_id'', JStr (po_TenantID r)),
      (''scan_id'', JStr (po_ScanID r)), (''payload'', case po_Payload r of None \<Rightarrow> JNull | Some p \<Rightarrow> JObj p),
      (''payload_sha256'', JStr (po_PayloadSHA256 r)), (''wallet_address'', JStr (po_WalletAddress r)),
      (''chain_id'', jint (po_ChainID r)), (''created_at'', JStr (FormatRFC3339Nano (po_CreatedAt r))),
      (''updated_at'', JStr (FormatRFC3339Nano (po_UpdatedAt r)))]"

text \<open>A record in the form the stores keep: no blanks around its fields, a payload with each key once,
  a 64-bit chain id and times with a four-digit year.\<close>

definition stored_record :: "PolicyRecord \<Rightarrow> bool" where
  "stored_record r \<longleftrightarrow>
     list_all (\<lambda>s. TrimSpace s = s)
       [po_ID r, po_OwnerUserID r, po_TenantID r, po_ScanID r, po_PayloadSHA256 r, po_WalletAddress r] \<and>
     (case po_Payload r of None \<Rightarrow> False | Some p \<Rightarrow> distinct (map fst p)) \<and> in_int64 (po_ChainID r) \<and>
     rfc3339_range (po_CreatedAt r) \<and> rfc3339_range (po_UpdatedAt r)"

lemma fold_update_distinct:
  "distinct (map fst (m @ kvs)) \<Longrightarrow> fold (\<lambda>(k, v). AList.update k v) kvs m = m @ kvs"
proof (induction kvs arbitrary: m)
  case (Cons kv kvs)
  obtain k v where kv: "kv = (k, v)" by fastforce
  have "k \<notin> fst ` set m" using Cons.prems by (auto simp: kv)
  then have "AList.update k v m = m @ [(k, v)]" by (induction m) auto
  then show ?case using Cons.IH[of "m @ [(k, v)]"] Cons.prems by (simp add: kv)
qed simp

lemma into_members_lower:
  assumes "ToLower name = name" and "ToLower k = k"
  shows "into_members name f ((k, j) # kvs) old =
    (if k = name then (case f j old of (ok, new) \<Rightarrow> (case into_members name f kvs new of (ok', v) \<Rightarrow> (ok \<and> ok', v)))
     else into_members name f kvs old)"
  using assms by (simp add: EqualFold_def)

lemma row_keys_lower:
  "ToLower ''id'' = ''id''" "ToLower ''user_id'' = ''user_id''" "ToLower ''tenant_id'' = ''tenant_id''"
  "ToLower ''scan_id'' = ''scan_id''" "ToLower ''payload'' = ''payload''" "ToLower ''payload_sha256'' = ''payload_sha256''"
  "ToLower ''wallet_address'' = ''wallet_address''" "ToLower ''chain_id'' = ''chain_id''"
  "ToLower ''created_at'' = ''created_at''" "ToLower ''updated_at'' = ''updated_at''"
  "ToLower ''persisted_at'' = ''persisted_at''" "ToLower ''items'' = ''items''"
  by code_simp+

lemma parseTime_Nano: "rfc3339_range t \<Longrightarrow> parseTime (FormatRFC3339Nano t) = Some t"
  using FormatRFC3339Nano_visible[of t]
  by (simp add: parseTime_def Let_def TrimSpace_visible ParseRFC3339_Nano) (simp add: FormatRFC3339Nano_def)

lemma row_roundtrip:
  assumes "stored_record r"
  obtains row where "into_struct into_policyRowWire (JObj (rowJSON r)) zeroRow = (True, row)" and "toRecord row = Inr r"
proof -
  obtain p where p: "po_Payload r = Some p" "distinct (map fst p)"
    using assms by (auto simp: stored_record_def split: option.splits)
  note m = into_members_lower row_keys_lower
  have "into_struct into_policyRowWire (JObj (rowJSON r)) zeroRow =
      (True, \<lparr>pw_ID = po_ID r, pw_UserID = po_OwnerUserID r, pw_TenantID = po_TenantID r, pw_ScanID = po_ScanID r,
        pw_Payload = Some p, pw_PayloadSHA256 = po_PayloadSHA256 r, pw_WalletAddress = po_WalletAddress r,
        pw_ChainID = po_ChainID r, pw_CreatedAt = FormatRFC3339Nano (po_CreatedAt r),
        pw_UpdatedAt = FormatRFC3339Nano (po_UpdatedAt r), pw_PersistedAt = ''''\<rparr>)"
    using assms p fold_update_distinct[of "[]" p]
    by (simp add: into_struct_def into_policyRowWire_def rowJSON_def m into_scalar_def into_map_def dec_string_def
        dec_int64_def zeroRow_def stored_record_def Let_def del: into_members.simps(2))
  then show thesis
    by (rule that) (use assms in \<open>simp add: toRecord_def stored_record_def parseTime_Nano p\<close>)
qed

lemma rows_roundtrip:
  assumes "list_all stored_record rs"
  obtains rows where "into_elems zeroRow (into_struct into_policyRowWire) (map (\<lambda>r. JObj (rowJSON r)) rs) [] = (True, rows)"
    and "toRecords rows = Inr rs"
proof -
  have "\<exists>rows. into_elems zeroRow (into_struct into_policyRowWire) (map (\<lambda>r. JObj (rowJSON r)) rs) [] = (True, rows) \<and>
      toRecords rows = Inr rs"
    using assms
  proof (induction rs)
    case (Cons r rs)
    obtain row where "into_struct into_policyRowWire (JObj (rowJSON r)) zeroRow = (True, row)" "toRecord row = Inr r"
      using Cons.prems by (auto elim: row_roundtrip)
    with Cons show ?case by auto
  qed simp
  then show thesis using that by blast
qed

lemma doJSON_first:
  assumes "cl_validURL c u" and "rem (clientRequest c m u p b) w = (Some (200, JsonBody j), w')" and "f j old = (True, new)"
  shows "doJSON rem c m u p b idem (Some f) old w = ((None, new), w')"
proof -
  have "doJSONOnce rem c m u p b (Some f) old w = ((None, new), w')" using assms by (simp add: doJSONOnce_def)
  then show ?thesis by (simp add: doJSON_def numeral_2_eq_2)
qed

text \<open>The documented answers of the service to the reads of a principal: its row for a policy id, its
  rows for a scan.\<close>

definition serves_policy :: "'w remote \<Rightarrow> Client \<Rightarrow> Principal \<Rightarrow> 'w \<Rightarrow> string \<Rightarrow> PolicyRecord \<Rightarrow> bool" where
  "serves_policy rem c p w i r \<longleftrightarrow> cl_validURL c (policyURL c (TrimSpace i)) \<and>
     rem (clientRequest c ''GET'' (policyURL c (TrimSpace i)) p None) w = (Some (200, JsonBody (JObj (rowJSON r))), w)"

definition serves_list :: "'w remote \<Rightarrow> Client \<Rightarrow> Principal \<Rightarrow> 'w \<Rightarrow> string \<Rightarrow> PolicyRecord list \<Rightarrow> bool" where
  "serves_list rem c p w scan rs \<longleftrightarrow>
     (let u = cl_baseURL c @ cphttp_V1Base @ cphttp_Policies @ ''?scan_id='' @ QueryEscape (TrimSpace scan) in
      cl_validURL c u \<and>
      rem (clientRequest c ''GET'' u p None) w = (Some (200, JsonBody (JObj [(''items'', JArr (map (\<lambda>r. JObj (rowJSON r)) rs))])), w))"

section \<open>Properties of the client\<close>

text \<open>C19. What the remote store sends: an operation sends the one request its arguments stand for, below the
  service's base URL, with the service token and the principal's user and tenant. It sends nothing for
  a principal that does not validate; a creation is sent at most once, so a lost answer never creates
  twice, a legacy save never, and every other operation at most twice. Recording the requests changes
  nothing else.\<close>

theorem client_at_most_once:
  "(\<exists>k \<le> (if Principal_Validate p \<noteq> None then 0 else call_attempts call).
      after (httpStore (logged rem) c now) p call (w, l) =
        (after (httpStore rem c now) p call w, l @ replicate k (request_of c now p call))) \<and>
   authenticated_call c p (request_of c now p call)"
  using after_sends[of p call c now rem w l] clientRequest_authenticated unfolding sends_def request_of_def by blast

text \<open>C39. Round trip through the persistence service: a stored record that the service answers as its row
  is read back unchanged, by id and in the listing of a scan, with the order kept.\<close>

theorem client_reads_back:
  assumes "Principal_Validate p = None" and "list_all stored_record rs" and "r \<in> set rs"
    and "serves_policy rem c p w i r" and "serves_list rem c p w scan rs" and "TrimSpace scan \<noteq> ''''"
  shows "op_Get (httpStore rem c now) p i w = (Inr r, w) \<and> op_List (httpStore rem c now) p scan w = (Inr rs, w)"
proof
  have "stored_record r" using assms(2,3) by (auto simp: list_all_iff)
  then obtain row where "into_struct into_policyRowWire (JObj (rowJSON r)) zeroRow = (True, row)" "toRecord row = Inr r"
    by (rule row_roundtrip)
  then show "op_Get (httpStore rem c now) p i w = (Inr r, w)"
    using assms(1,4) by (simp add: httpStore_def Client_GetPolicy_def serves_policy_def doJSON_first)
  obtain rows where "into_elems zeroRow (into_struct into_policyRowWire) (map (\<lambda>r. JObj (rowJSON r)) rs) [] = (True, rows)"
    "toRecords rows = Inr rs" using assms(2) by (rule rows_roundtrip)
  moreover from this have "into_struct into_listPoliciesWire (JObj [(''items'', JArr (map (\<lambda>r. JObj (rowJSON r)) rs))]) [] = (True, rows)"
    by (simp add: into_struct_def into_listPoliciesWire_def into_slice_def into_members_lower row_keys_lower del: into_members.simps(2))
  ultimately show "op_List (httpStore rem c now) p scan w = (Inr rs, w)"
    using assms(1,5,6) by (simp add: httpStore_def Client_ListPersistedPoliciesForScan_def serves_list_def Let_def doJSON_first)
qed

definition sample_client :: Client where
  "sample_client = NewClient (\<lambda>_. True) ''http://cafe-persistence:8082/'' ''secret'' None"

definition sample_row :: PolicyRecord where
  "sample_row = \<lparr>po_ID = ''01'', po_OwnerUserID = ''alice'', po_TenantID = ''t1'', po_ScanID = sample_scan, po_Payload = Some [],
     po_PayloadSHA256 = ''00'', po_WalletAddress = sample_wallet, po_ChainID = 1, po_CreatedAt = sample_time,
     po_UpdatedAt = sample_time + 5\<rparr>"

definition row_remote :: "unit remote" where
  "row_remote q w = (Some (200, JsonBody (JObj
     (if or_URL q = policyURL sample_client ''01'' then rowJSON sample_row
      else [(''items'', JArr [JObj (rowJSON sample_row)])]))), w)"

theorem client_reads_back_witness:
  "op_Get (httpStore row_remote sample_client 7) alice ''01'' () = (Inr sample_row, ()) \<and>
   op_List (httpStore row_remote sample_client 7) alice sample_scan () = (Inr [sample_row], ())"
proof (rule client_reads_back)
  show "Principal_Validate alice = None" "TrimSpace sample_scan \<noteq> ''''" "list_all stored_record [sample_row]" by code_simp+
  have "TrimSpace ''01'' = ''01''" by code_simp
  then show "serves_policy row_remote sample_client alice () ''01'' sample_row"
    by (simp add: serves_policy_def row_remote_def clientRequest_def sample_client_def NewClient_def)
  have "cl_baseURL sample_client @ cphttp_V1Base @ cphttp_Policies @ ''?scan_id='' @ q \<noteq> policyURL sample_client ''01''" for q
    by (simp add: policyURL_def cphttp_Policies_def)
  then show "serves_list row_remote sample_client alice () sample_scan [sample_row]"
    by (simp add: serves_list_def Let_def row_remote_def clientRequest_def sample_client_def NewClient_def)
qed simp

text \<open>C40. The retry loop ends: against a service that never answers, a call gives up with the error
  \<^verbatim>\<open>ErrPersistenceUnavailable\<close> after exactly one exchange, or exactly two when it is idempotent, and leaves the
  destination as it was.\<close>

theorem client_gives_up:
  assumes "\<And>q w. fst (rem q w) = None" and "cl_validURL c u"
  shows "\<exists>w'. doJSON (logged rem) c m u p b idempotent dst old (w, l) =
    ((Some ErrPersistenceUnavailable, old), w', l @ replicate (if idempotent then 2 else 1) (clientRequest c m u p b))"
proof -
  have once: "doJSONOnce (logged rem) c m u p b dst old wl =
      ((Some ErrPersistenceUnavailable, old), snd (rem (clientRequest c m u p b) (fst wl)), snd wl @ [clientRequest c m u p b])" for wl
    using assms(2) by (simp add: doJSONOnce_def logged_def split_beta assms(1))
  show ?thesis by (cases idempotent) (simp_all add: doJSON_def numeral_2_eq_2 once)
qed

theorem client_gives_up_witness:
  "\<exists>w'. doJSON (logged (\<lambda>q w. (None, Suc w))) sample_client ''GET'' ''u'' alice None True None () (0, []) =
    ((Some ErrPersistenceUnavailable, ()), w', replicate 2 (clientRequest sample_client ''GET'' ''u'' alice None))"
  using client_gives_up[of "\<lambda>q w. (None, Suc w)" sample_client "''u''" "''GET''" alice None True None "()" 0 "[]"]
  by (simp add: sample_client_def NewClient_def)

text \<open>A retried deletion: the first request is carried out but its answer is lost, the second finds
  nothing, and the caller is told the policy does not exist.\<close>

lemma client_delete_lost_answer:
  assumes "Principal_Validate p = None" and "cl_validURL c (policyURL c (TrimSpace i))"
    and "rem (clientRequest c ''DELETE'' (policyURL c (TrimSpace i)) p None) w = (None, w1)"
    and "rem (clientRequest c ''DELETE'' (policyURL c (TrimSpace i)) p None) w1 = (Some (404, b), w2)"
  shows "op_Delete (httpStore rem c now) p i w = (Some ErrPolicyNotFound, w2)"
  using assms by (simp add: httpStore_def Client_DeletePolicy_def doJSON_def doJSONOnce_def numeral_2_eq_2 mapHTTPError_def)

text \<open>An empty answer to a read is taken for a record without content.\<close>

lemma client_get_empty_answer:
  assumes "Principal_Validate p = None" and "cl_validURL c (policyURL c (TrimSpace i))"
    and "rem (clientRequest c ''GET'' (policyURL c (TrimSpace i)) p None) w = (Some (200, NoBody), w')"
  shows "\<exists>r. op_Get (httpStore rem c now) p i w = (Inr r, w') \<and> po_ID r = '''' \<and> po_OwnerUserID r = ''''"
proof -
  have "TrimSpace '''' = ''''" by code_simp
  then show ?thesis
    using assms
    by (simp add: httpStore_def Client_GetPolicy_def doJSON_def doJSONOnce_def numeral_2_eq_2 toRecord_def zeroRow_def parseTime_def)
qed

end
