(* ===== verification/App.thy ===== *)
theory App
  imports Assessment Store_Client
begin

text \<open>
  The service as a whole: its configuration (\<^verbatim>\<open>internal/config/config.go\<close>, \<^verbatim>\<open>app/policy_store*.go\<close>,
  \<^verbatim>\<open>internal/version\<close>), the multiplexer with every registered route, the handler \<^verbatim>\<open>app.go\<close> serves, and
  the steps of a running service, one request at a time. The properties here are those of the
  composition: what holds in every state the service can reach, whatever requests arrive.

  The multiplexer follows the rules of \<^verbatim>\<open>net/http\<close>: a pattern with \<^verbatim>\<open>GET\<close> also takes \<^verbatim>\<open>HEAD\<close>, a wildcard is
  one non-empty segment, a path that is not clean is redirected, and a path that only other methods
  have is answered 405. Paths are taken without escaped slashes. The text bodies that \<^verbatim>\<open>net/http\<close>
  adds to a redirect, a 404 and a 405 are not part of a response here; the metrics page is a parameter.
\<close>

section \<open>Configuration\<close>

record Config =
  cg_ServiceName :: string
  cg_HTTPAddr :: string
  cg_LogLevel :: string
  cg_AuthRequired :: bool
  cg_SessionValidationURL :: string
  cg_SessionValidationTimeoutSec :: int
  cg_SessionValidationServiceToken :: string
  cg_ScanAuthorizationURL :: string
  cg_ScanAuthorizationTimeoutSec :: int
  cg_ScanAuthorizationServiceToken :: string
  cg_AuthClockSkewSec :: int
  cg_DiscoveryHTTPBaseURL :: string
  cg_DiscoveryHTTPTimeoutSec :: int
  cg_NATSURL :: string
  cg_CatalogueDir :: string
  cg_WalletAuthDomain :: string
  cg_Store :: string
  cg_PersistenceURL :: string
  cg_PersistenceTimeoutSec :: int
  cg_PersistenceServiceToken :: string

type_synonym environ = "string \<Rightarrow> string option"

definition getEnv :: "environ \<Rightarrow> string \<Rightarrow> string \<Rightarrow> string" where
  "getEnv ev key fallback = (case ev key of Some v \<Rightarrow> if v \<noteq> '''' then v else fallback | None \<Rightarrow> fallback)"

definition getEnvBool :: "environ \<Rightarrow> string \<Rightarrow> bool \<Rightarrow> bool" where
  "getEnvBool ev key fallback =
     (case ev key of
        None \<Rightarrow> fallback
      | Some v \<Rightarrow>
          if v = '''' then fallback
          else if v \<in> set [''1'', ''true'', ''TRUE'', ''True'', ''yes'', ''YES'', ''on'', ''ON''] then True
          else if v \<in> set [''0'', ''false'', ''FALSE'', ''False'', ''no'', ''NO'', ''off'', ''OFF''] then False
          else fallback)"

text \<open>\<^verbatim>\<open>strconv.Atoi\<close> reads what \<^verbatim>\<open>ParseInt\<close> does, on a 64-bit machine.\<close>

definition getEnvInt :: "environ \<Rightarrow> string \<Rightarrow> int \<Rightarrow> int" where
  "getEnvInt ev key fallback =
     (case ev key of
        None \<Rightarrow> fallback
      | Some v \<Rightarrow> if v = '''' then fallback else (case ParseInt v of None \<Rightarrow> fallback | Some parsed \<Rightarrow> parsed))"

definition LoadFromEnv :: "environ \<Rightarrow> Config" where
  "LoadFromEnv ev =
     \<lparr>cg_ServiceName = getEnv ev ''CPM_SERVICE_NAME'' ''cafe-cpm'',
      cg_HTTPAddr = getEnv ev ''CPM_HTTP_ADDR'' '':8082'',
      cg_LogLevel = getEnv ev ''CPM_LOG_LEVEL'' ''info'',
      cg_AuthRequired = getEnvBool ev ''CPM_AUTH_REQUIRED'' True,
      cg_SessionValidationURL = getEnv ev ''CAFE_SESSION_JWT_VALIDATION_URL'' '''',
      cg_SessionValidationTimeoutSec = getEnvInt ev ''CAFE_SESSION_JWT_VALIDATION_TIMEOUT_SEC'' 3,
      cg_SessionValidationServiceToken = getEnv ev ''CAFE_SESSION_JWT_VALIDATION_SERVICE_TOKEN'' '''',
      cg_ScanAuthorizationURL = getEnv ev ''CAFE_SCAN_AUTHORIZATION_URL'' '''',
      cg_ScanAuthorizationTimeoutSec = getEnvInt ev ''CAFE_SCAN_AUTHORIZATION_TIMEOUT_SEC'' 3,
      cg_ScanAuthorizationServiceToken = getEnv ev ''CAFE_SCAN_AUTHORIZATION_SERVICE_TOKEN'' '''',
      cg_AuthClockSkewSec = getEnvInt ev ''CPM_AUTH_CLOCK_SKEW_SEC'' 30,
      cg_DiscoveryHTTPBaseURL = getEnv ev ''CAFE_DISCOVERY_HTTP_BASE'' '''',
      cg_DiscoveryHTTPTimeoutSec = getEnvInt ev ''CAFE_DISCOVERY_HTTP_TIMEOUT_SEC'' 5,
      cg_NATSURL = getEnv ev ''CPM_NATS_URL'' '''',
      cg_CatalogueDir = TrimSpace (getEnv ev ''CPM_CATALOGUE_DIR'' ''/app/policy''),
      cg_WalletAuthDomain = getEnv ev ''CPM_WALLET_AUTH_DOMAIN'' '''',
      cg_Store = getEnv ev ''CPM_STORE'' ''persistence'',
      cg_PersistenceURL = getEnv ev ''CPM_PERSISTENCE_URL'' '''',
      cg_PersistenceTimeoutSec = getEnvInt ev ''CPM_PERSISTENCE_TIMEOUT_SEC'' 15,
      cg_PersistenceServiceToken = getEnv ev ''CAFE_PERSISTENCE_SERVICE_TOKEN'' ''''\<rparr>"

text \<open>\<^verbatim>\<open>version.Current\<close>: the environment, then what the linker put in.\<close>

definition Current :: "environ \<Rightarrow> string \<Rightarrow> string" where
  "Current ev linked = (case ev ''APP_VERSION'' of Some v \<Rightarrow> if v \<noteq> '''' then v else linked | None \<Rightarrow> linked)"

definition authConfigOf :: "Config \<Rightarrow> authConfig" where
  "authConfigOf cfg =
     \<lparr>cf_Required = cg_AuthRequired cfg, cf_SessionValidationURL = cg_SessionValidationURL cfg,
      cf_SessionValidationTimeoutSec = cg_SessionValidationTimeoutSec cfg,
      cf_SessionValidationServiceToken = cg_SessionValidationServiceToken cfg,
      cf_ScanAuthorizationURL = cg_ScanAuthorizationURL cfg,
      cf_ScanAuthorizationTimeoutSec = cg_ScanAuthorizationTimeoutSec cfg,
      cf_ScanAuthorizationServiceToken = cg_ScanAuthorizationServiceToken cfg,
      cf_ClockSkewSec = cg_AuthClockSkewSec cfg, cf_DiscoveryHTTPBaseURL = cg_DiscoveryHTTPBaseURL cfg,
      cf_DiscoveryHTTPTimeoutSec = cg_DiscoveryHTTPTimeoutSec cfg, cf_WalletAuthDomain = cg_WalletAuthDomain cfg\<rparr>"

section \<open>The choice of the store\<close>

datatype build = DevBuild | ProdBuild
datatype chosen_store = MemoryStore | RemoteStore Client

text \<open>\<^verbatim>\<open>newDevPolicyStore\<close> has one definition per build tag; \<open>None\<close> is "not handled".\<close>

fun newDevPolicyStore :: "build \<Rightarrow> string \<Rightarrow> (string + chosen_store) option" where
  "newDevPolicyStore DevBuild mode = (if mode \<noteq> ''memory'' then None else Some (Inr MemoryStore))"
| "newDevPolicyStore ProdBuild mode =
     (if mode \<noteq> ''memory'' then None
      else Some (Inl ''CPM_STORE=memory is not available in production builds (rebuild with -tags dev for local)''))"

text \<open>The timeout is named by its seconds; the comparison is that of the 64-bit product.\<close>

definition newPersistencePolicyStore :: "(string \<Rightarrow> bool) \<Rightarrow> Config \<Rightarrow> string + chosen_store" where
  "newPersistencePolicyStore valid cfg =
     (if TrimSpace (cg_PersistenceURL cfg) = '''' then Inl ''CPM_PERSISTENCE_URL is required when CPM_STORE=persistence''
      else if TrimSpace (cg_PersistenceServiceToken cfg) = ''''
      then Inl ''CAFE_PERSISTENCE_SERVICE_TOKEN is required when CPM_STORE=persistence''
      else Inr (RemoteStore (NewClient valid (cg_PersistenceURL cfg) (cg_PersistenceServiceToken cfg)
        (Some (if seconds64 (cg_PersistenceTimeoutSec cfg) \<le> 0 then 15 else cg_PersistenceTimeoutSec cfg)))))"

definition newPolicyStore :: "build \<Rightarrow> (string \<Rightarrow> bool) \<Rightarrow> Config \<Rightarrow> string + chosen_store" where
  "newPolicyStore bld valid cfg =
     (let mode0 = ToLower (TrimSpace (cg_Store cfg)); mode = (if mode0 = '''' then ''persistence'' else mode0) in
      case newDevPolicyStore bld mode of
        Some res \<Rightarrow> res
      | None \<Rightarrow>
          if mode = ''persistence'' then newPersistencePolicyStore valid cfg
          else Inl (''unsupported CPM_STORE '' @ Quote (cg_Store cfg) @ '' (want persistence)''))"

section \<open>The multiplexer\<close>

datatype endpoint =
    EpHealthz | EpVersion | EpMetrics
  | EpListCryptoPolicies | EpGetCryptoPolicy | EpListProviders | EpGetProvider
  | EpExplore | EpSnapshot | EpAssessment
  | EpWalletTargetContext | EpGetPolicies | EpDeletePolicies | EpChallenge | EpPersist

text \<open>The patterns in the order of their registration.\<close>

definition muxPatterns :: "(string option \<times> string \<times> endpoint) list" where
  "muxPatterns =
     [(None, Healthz, EpHealthz), (None, Version, EpVersion), (None, Metrics, EpMetrics),
      (Some ''GET'', CryptoPolicies, EpListCryptoPolicies), (Some ''GET'', CryptoPolicyByID, EpGetCryptoPolicy),
      (Some ''GET'', Providers, EpListProviders), (Some ''GET'', ProviderByID, EpGetProvider),
      (Some ''POST'', PoliciesDecisionsExplore, EpExplore), (Some ''POST'', AcceptedProviderSnapshots, EpSnapshot),
      (Some ''POST'', PoliciesAssessmentRequest, EpAssessment), (Some ''GET'', WalletTargetContext, EpWalletTargetContext),
      (Some ''GET'', Policies, EpGetPolicies), (Some ''DELETE'', Policies, EpDeletePolicies),
      (Some ''POST'', WalletChallenges, EpChallenge), (Some ''POST'', Policies, EpPersist)]"

definition muxPathMatches :: "string \<Rightarrow> string \<Rightarrow> bool" where
  "muxPathMatches pattern path \<longleftrightarrow> list_all2 segmentMatches (Split pattern (CHR ''/'')) (Split path (CHR ''/''))"

definition muxMethodMatches :: "string option \<Rightarrow> string \<Rightarrow> bool" where
  "muxMethodMatches pm meth \<longleftrightarrow>
     (case pm of None \<Rightarrow> True | Some m \<Rightarrow> meth = m \<or> m = ''GET'' \<and> meth = ''HEAD'')"

definition cleanPath :: "string \<Rightarrow> string" where
  "cleanPath p0 =
     (if p0 = '''' then ''/''
      else
        let p = (if hd p0 \<noteq> CHR ''/'' then CHR ''/'' # p0 else p0); np = Clean p in
        if last p = CHR ''/'' \<and> np \<noteq> ''/'' then np @ ''/'' else np)"

datatype routed = Routed endpoint | Redirected string | MethodNotAllowed | NotFound

definition muxRoute :: "string \<Rightarrow> string \<Rightarrow> routed" where
  "muxRoute meth path =
     (if meth \<noteq> ''CONNECT'' \<and> cleanPath path \<noteq> path then Redirected (cleanPath path)
      else case find (\<lambda>(m, pat, _). muxMethodMatches m meth \<and> muxPathMatches pat path) muxPatterns of
        Some (_, _, ep) \<Rightarrow> Routed ep
      | None \<Rightarrow>
          if list_ex (\<lambda>(_, pat, _). muxPathMatches pat path) muxPatterns then MethodNotAllowed else NotFound)"

text \<open>\<^verbatim>\<open>r.PathValue\<close>: every wildcard is the last segment of its pattern.\<close>

definition PathValue :: "Request \<Rightarrow> string" where
  "PathValue r = last (Split (rq_Path r) (CHR ''/''))"

section \<open>The handler\<close>

text \<open>What is fixed while the service runs, what one request finds outside, and the state.\<close>

record App =
  ap_ServiceName :: string
  ap_ReadStore :: ReadStore
  ap_Contracts :: contracts
  ap_Cfg :: authConfig
  ap_Version :: string
  ap_Metrics :: Response
  ap_RedirectStatus :: int

record 'pub Moment =
  mo_Env :: "'pub Env"
  mo_Transport :: transport
  mo_UnixNow :: int64
  mo_Now :: gotime
  mo_Later :: gotime

record 's Service =
  sv_Store :: 's
  sv_Outbox :: outbox

definition onStore :: "('s \<Rightarrow> Response \<times> 's) \<Rightarrow> 's Service \<Rightarrow> Response \<times> 's Service" where
  "onStore f s = (case f (sv_Store s) of (rs, st) \<Rightarrow> (rs, s\<lparr>sv_Store := st\<rparr>))"

definition onOutbox :: "(outbox \<Rightarrow> Response \<times> outbox) \<Rightarrow> 's Service \<Rightarrow> Response \<times> 's Service" where
  "onOutbox f s = (case f (sv_Outbox s) of (rs, ob) \<Rightarrow> (rs, s\<lparr>sv_Outbox := ob\<rparr>))"

fun dispatch :: "App \<Rightarrow> 's PolicyStore \<Rightarrow> 'pub Moment \<Rightarrow> endpoint \<Rightarrow> 's Service handler" where
  "dispatch app store mo EpHealthz r s = ((WriteHeader 200)\<lparr>rs_Text := ap_ServiceName app @ '' ok''\<rparr>, s)"
| "dispatch app store mo EpVersion r s = (writeJSON 200 (JObj [(''version'', JStr (ap_Version app))]), s)"
| "dispatch app store mo EpMetrics r s = (ap_Metrics app, s)"
| "dispatch app store mo EpListCryptoPolicies r s = (handleListCryptoPolicies (ap_ReadStore app), s)"
| "dispatch app store mo EpGetCryptoPolicy r s = (handleGetCryptoPolicy (ap_ReadStore app) (PathValue r), s)"
| "dispatch app store mo EpListProviders r s = (handleListProviders (ap_ReadStore app), s)"
| "dispatch app store mo EpGetProvider r s = (handleGetProvider (ap_ReadStore app) (PathValue r), s)"
| "dispatch app store mo EpExplore r s = (handleExplore (ap_Contracts app) (ap_ReadStore app) r, s)"
| "dispatch app store mo EpSnapshot r s = (handleAcceptedProviderSnapshot (ap_Contracts app) (ap_ReadStore app) r, s)"
| "dispatch app store mo EpAssessment r s =
     onOutbox (handlePoliciesAssessmentRequest (mo_Env mo) (ap_Contracts app) (mo_Transport mo) (ap_Cfg app) (mo_Now mo) r) s"
| "dispatch app store mo EpWalletTargetContext r s =
     onStore (handleOwnerGETWalletTargetContext store (en_RequestID (mo_Env mo)) r) s"
| "dispatch app store mo EpGetPolicies r s = onStore (handleOwnerGETPolicies store (en_RequestID (mo_Env mo)) r) s"
| "dispatch app store mo EpDeletePolicies r s = onStore (handleOwnerDELETEPolicies store (en_RequestID (mo_Env mo)) r) s"
| "dispatch app store mo EpChallenge r s = (handleWalletChallenge (mo_Env mo) (ap_Cfg app) (mo_Now mo) r, s)"
| "dispatch app store mo EpPersist r s =
     onStore (handlePolicyPersist store (mo_Env mo) (ap_Cfg app) (mo_Now mo) (mo_Later mo) r) s"

definition serveMux :: "App \<Rightarrow> 's PolicyStore \<Rightarrow> 'pub Moment \<Rightarrow> 's Service handler" where
  "serveMux app store mo r s =
     (case muxRoute (rq_Method r) (rq_Path r) of
        Routed ep \<Rightarrow> dispatch app store mo ep r s
      | Redirected _ \<Rightarrow> (WriteHeader (ap_RedirectStatus app), s)
      | MethodNotAllowed \<Rightarrow> (WriteHeader 405, s)
      | NotFound \<Rightarrow> (WriteHeader 404, s))"

definition handlerWithOwnerStore :: "App \<Rightarrow> 's PolicyStore \<Rightarrow> 'pub Moment \<Rightarrow> string + 's Service handler" where
  "handlerWithOwnerStore app store mo =
     withAuthentication (serveMux app store mo) (mo_Env mo) (ap_Cfg app) (mo_UnixNow mo)"

section \<open>Start-up\<close>

text \<open>What the process finds around it when it starts: the file system, its build, the checks and the dial
  of the libraries, the contracts, and the environment and linked version that \<^verbatim>\<open>version.Payload\<close> reads.
  A publisher is the function \<^verbatim>\<open>nats.Conn.Publish\<close> of an open connection.\<close>

type_synonym publisher = "string \<Rightarrow> string \<Rightarrow> string option"

record World =
  wd_Files :: filesystem
  wd_Build :: build
  wd_ValidURL :: "string \<Rightarrow> bool"
  wd_Dial :: "string \<Rightarrow> string + publisher"
  wd_Contracts :: contracts
  wd_Environ :: environ
  wd_Linked :: string
  wd_Metrics :: Response
  wd_RedirectStatus :: int

datatype start_error =
    LoadReadStoreFailed load_error
  | PolicyStoreFailed string
  | NatsFailed string
  | WireAuthFailed string

definition ConnectPublisher :: "(string \<Rightarrow> string + publisher) \<Rightarrow> string \<Rightarrow> string + publisher" where
  "ConnectPublisher dial rawURL =
     (let u = TrimSpace rawURL in
      if u = '''' then Inl ''nats: url is required''
      else case dial u of Inl e \<Rightarrow> Inl (''nats connect: '' @ e) | Inr nc \<Rightarrow> Inr nc)"

text \<open>\<^verbatim>\<open>Run\<close> up to \<^verbatim>\<open>ListenAndServe\<close>: the address and the handler that serves a request at the moment \<open>mo\<close>,
  with the lines of the loader's log. \<open>stores\<close> gives the operations of the store it chose.\<close>

definition Run ::
  "World \<Rightarrow> (chosen_store \<Rightarrow> 's PolicyStore) \<Rightarrow> Config \<Rightarrow> 'pub Moment \<Rightarrow>
     load_event list \<times> (start_error + string \<times> 's Service handler)" where
  "Run w stores cfg mo =
     (case LoadReadStore (wd_Files w)
        \<lparr>ro_CatalogueDir = cg_CatalogueDir cfg, ro_CryptoPolicyPaths = [], ro_ProviderManifestPaths = []\<rparr> of
        (events, Inl e) \<Rightarrow> (events, Inl (LoadReadStoreFailed e))
      | (events, Inr (store, _, _)) \<Rightarrow>
          (events,
           case newPolicyStore (wd_Build w) (wd_ValidURL w) cfg of
             Inl e \<Rightarrow> Inl (PolicyStoreFailed e)
           | Inr ownerStore \<Rightarrow>
               (case (if TrimSpace (cg_NATSURL cfg) = '''' then Inr None
                      else map_sum id Some (ConnectPublisher (wd_Dial w) (TrimSpace (cg_NATSURL cfg)))) of
                  Inl e \<Rightarrow> Inl (NatsFailed e)
                | Inr assessmentPublish \<Rightarrow>
                    (case handlerWithOwnerStore
                       \<lparr>ap_ServiceName = cg_ServiceName cfg, ap_ReadStore = store, ap_Contracts = wd_Contracts w,
                        ap_Cfg = authConfigOf cfg, ap_Version = Current (wd_Environ w) (wd_Linked w),
                        ap_Metrics = wd_Metrics w, ap_RedirectStatus = wd_RedirectStatus w\<rparr>
                       (stores ownerStore)
                       (mo\<lparr>mo_Transport := (mo_Transport mo)\<lparr>tp_Publish := assessmentPublish\<rparr>\<rparr>) of
                       Inl e \<Rightarrow> Inl (WireAuthFailed e)
                     | Inr h \<Rightarrow> Inr (cg_HTTPAddr cfg, h)))))"

end
