(* ===== verification/Service.thy ===== *)
theory Service
  imports App
begin

text \<open>
  The running service: the steps of the handler of \<^verbatim>\<open>app.go\<close> over the in-memory store, one request at a
  time, and what holds in every state they reach, whatever requests arrive in whatever order, and
  whatever Discovery, the clock and the random source answer in between.
\<close>

section \<open>What the middleware lets through\<close>

text \<open>A refusal does not look at the state: it is the same answer in every state, and keeps it.\<close>

lemma serveAuthenticated_uniform:
  obtains (refused) rs where "\<And>s. serveAuthenticated nxt env cfg r rid prin s = (rs, s)"
  | (served) ts where "\<And>s. serveAuthenticated nxt env cfg r rid prin s = tracedFst ts (nxt (r\<lparr>rq_Principal := Some prin\<rparr>) s)"
proof (cases "extractScanIDsForAuthorization r")
  case (Inl e)
  then show ?thesis by (cases e) (simp add: serveAuthenticated_def refused)
next
  case (Inr ids)
  obtain ts ref where a: "authorizeScans env cfg r rid prin ids = (ts, ref)" by fastforce
  show ?thesis
  proof (cases ref)
    case (Some x)
    then show ?thesis using Inr a by (simp add: serveAuthenticated_def refused)
  next
    case None
    show ?thesis
    proof (cases "enforceScanImmutabilityGuards (en_Net env) r cfg rid")
      case (Some e)
      then show ?thesis using Inr a None by (cases e) (simp add: serveAuthenticated_def refused)
    next
      case g: None
      then show ?thesis using Inr a None served by (simp add: serveAuthenticated_def)
    qed
  qed
qed

definition session :: "'pub Env \<Rightarrow> authConfig \<Rightarrow> int64 \<Rightarrow> Request \<Rightarrow> (APIError \<times> int \<times> string) + Principal" where
  "session env cfg unixNow r =
     authenticateBearerToken env cfg unixNow (snd (ensureRequestID (en_RequestID env) r)) (fst (ensureRequestID (en_RequestID env) r))"

lemma serveProtected_uniform:
  obtains (public) "classifyRoute (rq_Method r) (rq_Path r) = RouteClassPublicHealth"
    and "\<And>s. serveProtected nxt env cfg u r s = nxt (snd (ensureRequestID (en_RequestID env) r)) s"
  | (refused) rs where "\<And>s. serveProtected nxt env cfg u r s = (rs, s)"
  | (served) prin ts where "session env cfg u r = Inr prin" and "Principal_Validate prin = None"
    and "classifyRoute (rq_Method r) (rq_Path r) = RouteClassAuthenticated"
    and "\<And>s. serveProtected nxt env cfg u r s =
      tracedFst ts (nxt (snd (ensureRequestID (en_RequestID env) r)\<lparr>rq_Principal := Some prin\<rparr>) s)"
proof -
  let ?c = "classifyRoute (rq_Method r) (rq_Path r)"
  have ne: "RouteClassAuthenticated \<noteq> RouteClassPublicHealth" "RouteClassAuthenticated \<noteq> RouteClassDeprecatedDisabled"
    "RouteClassDeprecatedDisabled \<noteq> RouteClassPublicHealth"
    by (simp_all add: RouteClassAuthenticated_def RouteClassPublicHealth_def RouteClassDeprecatedDisabled_def)
  consider (p) "?c = RouteClassPublicHealth" | (d) "?c = RouteClassDeprecatedDisabled" | (a) "?c = RouteClassAuthenticated"
    using classifyRoute_cases by blast
  then show thesis
  proof cases
    case p
    then show ?thesis by (intro public) (simp_all add: serveProtected_def)
  next
    case d
    then show ?thesis using ne by (intro refused) (simp add: serveProtected_def Let_def)
  next
    case a
    show ?thesis
    proof (cases "session env cfg u r")
      case (Inl e)
      then show ?thesis using a ne by (cases e) (simp add: serveProtected_def session_def refused Let_def)
    next
      case (Inr prin)
      have v: "Principal_Validate prin = None" using Inr[unfolded session_def] by (rule authenticate_Inr)
      have eq: "serveProtected nxt env cfg u r s = serveAuthenticated nxt env cfg (snd (ensureRequestID (en_RequestID env) r))
          (fst (ensureRequestID (en_RequestID env) r)) prin s" for s
        using a ne Inr by (simp add: serveProtected_def session_def Let_def)
      show ?thesis
        by (cases rule: serveAuthenticated_uniform[of nxt env cfg "snd (ensureRequestID (en_RequestID env) r)"
              "fst (ensureRequestID (en_RequestID env) r)" prin])
          (simp_all add: eq refused served[OF Inr v a])
    qed
  qed
qed

section \<open>Routes and their classification\<close>

text \<open>The public class is three paths, and each of them is served by a handler that reads no state.\<close>

lemma public_routes:
  assumes "classifyRoute m p = RouteClassPublicHealth"
  shows "m = ''GET'' \<and> p \<in> {Healthz, Version, Metrics}"
proof (cases "find (\<lambda>r. rt_Method r = m \<and> PathMatches (rt_Path r) p) buildRouteInventory")
  case None
  then show ?thesis
    using assms by (simp add: classifyRoute_def RouteClassPublicHealth_def RouteClassDeprecatedDisabled_def)
next
  case (Some rt)
  then have "rt \<in> set buildRouteInventory" "rt_Method rt = m" "PathMatches (rt_Path rt) p" by (auto simp: find_Some_iff)
  moreover have "rt_Class rt = RouteClassPublicHealth" using Some assms by (simp add: classifyRoute_def)
  moreover have "CHR ''{'' \<notin> set Healthz" "CHR ''{'' \<notin> set Metrics" "CHR ''{'' \<notin> set Version" by code_simp+
  ultimately show ?thesis
    by (auto simp: buildRouteInventory_def RouteClassAuthenticated_def RouteClassPublicHealth_def PathMatches_def split: if_splits)
qed

lemma public_endpoints:
  "muxRoute ''GET'' Healthz = Routed EpHealthz" "muxRoute ''GET'' Version = Routed EpVersion"
  "muxRoute ''GET'' Metrics = Routed EpMetrics"
  by code_simp+

section \<open>What an authorized creation carries\<close>

text \<open>The evidence behind a creation: the digest of its payload is the one submitted, the payload passes
  the persist gate, and a message that names the wallet, chain, scan and digest, with a validity of at
  most ten minutes, was signed by that wallet.\<close>

definition authorized_input :: "'pub eth \<Rightarrow> (string \<Rightarrow> string + string) \<Rightarrow> CreatePolicyInput \<Rightarrow> bool" where
  "authorized_input eth jcs inp \<longleftrightarrow>
     (\<exists>root canonical host i e sig. ci_Payload inp = Some canonical \<and>
        DigestCanonical jcs root = Inr (ci_PayloadSHA256 inp, canonical) \<and>
        ValidatePayloadForPersist (Some canonical) = None \<and>
        NormalizeWalletTargetAddress (ci_WalletAddress inp) = Some (ci_WalletAddress inp) \<and>
        TrimSpace (ci_ScanID inp) = ci_ScanID inp \<and> e - i \<le> MaxValidityWindow \<and>
        RecoverSignerAddress eth (BuildMessage \<lparr>fd_Domain = host, fd_Action = ActionPersistCryptoPolicy,
          fd_WalletAddress = ci_WalletAddress inp, fd_ChainID = ci_ChainID inp, fd_ScanID = ci_ScanID inp,
          fd_PayloadSHA256 = ci_PayloadSHA256 inp, fd_IssuedAt = i, fd_ExpiresAt = e\<rparr>) sig = Inr (ci_WalletAddress inp))"

lemma authorization_signed:
  assumes "VerifyAuthorization eth now (authorizationInput cfg now r req w scan digest) = None"
    and "NormalizeWalletTargetAddress w = Some w" and "TrimSpace scan = scan" and "TrimSpace digest = digest"
  obtains i e where "e - i \<le> MaxValidityWindow"
    and "RecoverSignerAddress eth (BuildMessage \<lparr>fd_Domain = walletAuthDomain r cfg, fd_Action = ActionPersistCryptoPolicy,
      fd_WalletAddress = w, fd_ChainID = pq_ChainID req, fd_ScanID = scan, fd_PayloadSHA256 = digest,
      fd_IssuedAt = i, fd_ExpiresAt = e\<rparr>) (pq_Signature req) = Inr w"
proof -
  let ?vi = "authorizationInput cfg now r req w scan digest"
  obtain parsed :: Fields and w' where
    v: "validateFreshness (fd_IssuedAt parsed) (fd_ExpiresAt parsed) (verify_now now ?vi) (verify_skew ?vi) = None"
    "vi_SignedMessage ?vi = BuildMessage (expectedFields ?vi (fd_IssuedAt parsed) (fd_ExpiresAt parsed))"
    "RecoverSignerAddress eth (vi_SignedMessage ?vi) (vi_Signature ?vi) = Inr w'"
    "NormalizeWalletTargetAddress (vi_WalletAddress ?vi) = Some w'"
    using assms(1) unfolding VerifyAuthorization_None by blast
  have vi: "vi_WalletAddress ?vi = w" "vi_ChainID ?vi = pq_ChainID req" "vi_ScanID ?vi = scan" "vi_PayloadSHA256 ?vi = digest"
    "vi_Signature ?vi = pq_Signature req" "vi_Domain ?vi = walletAuthDomain r cfg"
    by (simp_all add: authorizationInput_def Let_def)
  show thesis
    using v(1,3) v(4) unfolding v(2)
    by (intro that[of "fd_ExpiresAt parsed" "fd_IssuedAt parsed"])
      (simp_all add: validateFreshness_None expectedFields_def vi normalizedWalletForMessage_def assms(2-4))
qed

lemma authorizePersist_authorized:
  assumes "authorizePersist env cfg now now' r req = Inr inp"
  shows "authorized_input (en_Eth env) (en_Jcs env) inp"
proof -
  obtain w sc digest canonical where a: "NormalizeWalletTargetAddress (pq_WalletAddress req) = Some w"
      "NormalizeDiscoveryScanID (pq_ScanID req) = Some sc"
      "DigestCanonical (en_Jcs env) (the (pq_Payload req)) = Inr (digest, canonical)"
      "VerifyAuthorization (en_Eth env) now (authorizationInput cfg now r req w sc digest) = None"
      "ValidatePayloadForPersist (Some canonical) = None"
    and inp: "ci_Payload inp = Some canonical" "ci_PayloadSHA256 inp = digest" "ci_WalletAddress inp = w" "ci_ScanID inp = sc"
      "ci_ChainID inp = pq_ChainID req"
    using assms unfolding authorizePersist_Inr by auto
  have nw: "NormalizeWalletTargetAddress w = Some w" by (rule Wallet_idem[OF a(1)])
  have tr: "TrimSpace digest = digest" "TrimSpace sc = sc"
    using digest_trimmed[OF a(3)] scan_normal[OF a(2)] by (simp_all add: normal_scan_def TrimSpace_visible)
  obtain i e where v: "e - i \<le> MaxValidityWindow"
    "RecoverSignerAddress (en_Eth env) (BuildMessage \<lparr>fd_Domain = walletAuthDomain r cfg, fd_Action = ActionPersistCryptoPolicy,
      fd_WalletAddress = w, fd_ChainID = pq_ChainID req, fd_ScanID = sc, fd_PayloadSHA256 = digest,
      fd_IssuedAt = i, fd_ExpiresAt = e\<rparr>) (pq_Signature req) = Inr w"
    using a(4) nw tr(2,1) by (rule authorization_signed)
  show ?thesis unfolding authorized_input_def inp using a(3,5) nw tr(2) v by blast
qed

section \<open>One store call per request\<close>

text \<open>Whatever the store is, a handler leaves it alone or makes one call, for the principal of the
  request; a call that creates carries an authorized input, and no call is the legacy save.\<close>

definition permitted_call :: "'pub Env \<Rightarrow> store_call \<Rightarrow> bool" where
  "permitted_call env call \<longleftrightarrow>
     (case call of CallSave _ _ _ \<Rightarrow> False | CallCreate inp \<Rightarrow> authorized_input (en_Eth env) (en_Jcs env) inp | _ \<Rightarrow> True)"

definition one_call :: "'s PolicyStore \<Rightarrow> 'pub Env \<Rightarrow> Request \<Rightarrow> 's \<Rightarrow> 's \<Rightarrow> bool" where
  "one_call store env r s s' \<longleftrightarrow> s' = s \<or>
     (\<exists>p call. rq_Principal r = Some p \<and> permitted_call env call \<and> s' = after store p call s)"

lemma one_call_same [simp]: "one_call store env r s s"
  by (simp add: one_call_def)

lemma one_callI:
  "rq_Principal r = Some p \<Longrightarrow> permitted_call env call \<Longrightarrow> s' = after store p call s \<Longrightarrow> one_call store env r s s'"
  by (auto simp: one_call_def)

lemma owner_get_call: "one_call store env r s (snd (handleOwnerGETPolicies store gen r s))"
proof (cases "rq_Principal r")
  case (Some p)
  note d = handleOwnerGETPolicies_def[unfolded Let_def]
  let ?i = "TrimSpace (Query_Get (snd (ensureRequestID gen r)) ''id'')"
    and ?scan = "TrimSpace (Query_Get (snd (ensureRequestID gen r)) ''scan_id'')"
  consider (none) "?i \<noteq> '''' \<and> ?scan \<noteq> '''' \<or> ?i = '''' \<and> ?scan = ''''"
    | (get) "?i \<noteq> ''''" "?scan = ''''" | (list) "?i = ''''" "?scan \<noteq> ''''" by blast
  then show ?thesis
  proof cases
    case none
    then show ?thesis using Some by (auto simp: d)
  next
    case get
    then show ?thesis using Some
      by (intro one_callI[OF Some, of _ "CallGet ?i"]) (auto simp: d permitted_call_def split: prod.splits sum.splits)
  next
    case list
    show ?thesis
    proof (cases "NormalizeDiscoveryScanID ?scan")
      case None
      then show ?thesis using Some list by (simp add: d)
    next
      case n: (Some norm)
      then show ?thesis using Some list
        by (intro one_callI[OF Some, of _ "CallList norm"]) (auto simp: d permitted_call_def split: prod.splits sum.splits)
    qed
  qed
qed (simp add: handleOwnerGETPolicies_def)

lemma owner_count_call: "one_call store env r s (snd (handleOwnerGETWalletTargetContext store gen r s))"
proof (cases "rq_Principal r")
  case (Some p)
  note d = handleOwnerGETWalletTargetContext_def[unfolded Let_def]
  let ?raw = "TrimSpace (Query_Get (snd (ensureRequestID gen r)) ''target_address'')"
  show ?thesis
  proof (cases "?raw = '''' \<or> NormalizeWalletTargetAddress ?raw = None")
    case True
    then show ?thesis using Some by (auto simp: d)
  next
    case False
    then obtain norm where "?raw \<noteq> ''''" "NormalizeWalletTargetAddress ?raw = Some norm" by blast
    then show ?thesis using Some
      by (intro one_callI[OF Some, of _ "CallCount norm"]) (auto simp: d permitted_call_def split: prod.splits sum.splits)
  qed
qed (simp add: handleOwnerGETWalletTargetContext_def)

lemma owner_delete_call: "one_call store env r s (snd (handleOwnerDELETEPolicies store gen r s))"
proof (cases "rq_Principal r")
  case (Some p)
  let ?i = "TrimSpace (Query_Get r ''id'')"
  show ?thesis
  proof (cases "?i = ''''")
    case True
    then show ?thesis using Some by (simp add: handleOwnerDELETEPolicies_def)
  next
    case False
    then show ?thesis
      by (intro one_callI[OF Some, of _ "CallDelete ?i"]) (simp_all add: permitted_call_def handleOwnerDELETE_op(1)[OF Some])
  qed
qed (simp add: handleOwnerDELETEPolicies_def)

lemma persist_call: "one_call store env r s (snd (handlePolicyPersist store env cfg now now' r s))"
proof -
  obtain rs s' where h: "handlePolicyPersist store env cfg now now' r s = (rs, s')" by fastforce
  from h have "one_call store env r s s'"
  proof (cases rule: handlePolicyPersist_cases)
    case (create p req inp)
    then show ?thesis
      by (intro one_callI[OF create(1), of _ "CallCreate inp"]) (simp_all add: permitted_call_def authorizePersist_authorized[OF create(3)])
  qed simp
  then show ?thesis by (simp add: h)
qed

lemma onStore_store: "sv_Store (snd (onStore f s)) = snd (f (sv_Store s))"
  by (simp add: onStore_def split: prod.splits)

lemma onOutbox_store: "sv_Store (snd (onOutbox f s)) = sv_Store s"
  by (simp add: onOutbox_def split: prod.splits)

lemma dispatch_call: "one_call store (mo_Env mo) r (sv_Store s) (sv_Store (snd (dispatch app store mo ep r s)))"
  by (cases ep) (simp_all add: onStore_store onOutbox_store owner_get_call owner_count_call owner_delete_call persist_call)

lemma serveMux_call: "one_call store (mo_Env mo) r (sv_Store s) (sv_Store (snd (serveMux app store mo r s)))"
  by (cases "muxRoute (rq_Method r) (rq_Path r)") (simp_all add: serveMux_def dispatch_call)

text \<open>Messages are published by the assessment handler only, one per request and for a principal.\<close>

lemma dispatch_outbox:
  "sv_Outbox (snd (dispatch app store mo ep r s)) = sv_Outbox s \<or>
   ep = EpAssessment \<and> sv_Outbox (snd (dispatch app store mo ep r s)) =
     snd (handlePoliciesAssessmentRequest (mo_Env mo) (ap_Contracts app) (mo_Transport mo) (ap_Cfg app) (mo_Now mo) r (sv_Outbox s))"
  by (cases ep) (simp_all add: onStore_def onOutbox_def split: prod.splits)

lemma serveMux_outbox:
  assumes "sv_Outbox (snd (serveMux app store mo r s)) \<noteq> sv_Outbox s"
  obtains rs where "handlePoliciesAssessmentRequest (mo_Env mo) (ap_Contracts app) (mo_Transport mo) (ap_Cfg app) (mo_Now mo) r
    (sv_Outbox s) = (rs, sv_Outbox (snd (serveMux app store mo r s)))"
    and "sv_Store (snd (serveMux app store mo r s)) = sv_Store s"
proof (cases "muxRoute (rq_Method r) (rq_Path r)")
  case (Routed ep)
  have e: "ep = EpAssessment" "sv_Outbox (snd (serveMux app store mo r s)) =
     snd (handlePoliciesAssessmentRequest (mo_Env mo) (ap_Contracts app) (mo_Transport mo) (ap_Cfg app) (mo_Now mo) r (sv_Outbox s))"
    using assms dispatch_outbox[of app store mo ep r s] unfolding serveMux_def Routed routed.case by blast+
  show ?thesis
  proof (rule that)
    show "sv_Store (snd (serveMux app store mo r s)) = sv_Store s" by (simp add: serveMux_def Routed e(1) onOutbox_store)
  qed (simp add: prod_eq_iff e(2))
qed (use assms in \<open>simp_all add: serveMux_def\<close>)

lemma serveMux_no_principal:
  assumes "rq_Principal r = None"
  shows "snd (serveMux app store mo r s) = s"
proof (rule Service.equality)
  show "sv_Store (snd (serveMux app store mo r s)) = sv_Store s"
    using serveMux_call[of store mo r s app] assms by (simp add: one_call_def)
  show "sv_Outbox (snd (serveMux app store mo r s)) = sv_Outbox s"
  proof (rule ccontr)
    assume new: "sv_Outbox (snd (serveMux app store mo r s)) \<noteq> sv_Outbox s"
    then obtain rs where "handlePoliciesAssessmentRequest (mo_Env mo) (ap_Contracts app) (mo_Transport mo) (ap_Cfg app) (mo_Now mo) r
        (sv_Outbox s) = (rs, sv_Outbox (snd (serveMux app store mo r s)))" by (rule serveMux_outbox)
    then show False using new assms handlePoliciesAssessmentRequest_sent by (metis option.distinct(1))
  qed
qed simp

text \<open>The handler, with or without the middleware: a request arrives without a principal, only an
  accepted session gives it one, and without one nothing changes.\<close>

lemma handlerWithOwnerStore_Inr:
  assumes "handlerWithOwnerStore app store mo = Inr h"
  shows "h = (if cf_Required (ap_Cfg app) then serveProtected (serveMux app store mo) (mo_Env mo) (ap_Cfg app) (mo_UnixNow mo)
    else serveMux app store mo)"
  using assms by (auto simp: handlerWithOwnerStore_def withAuthentication_def split: option.splits if_splits)

lemma handler_served:
  assumes "handlerWithOwnerStore app store mo = Inr h" and "rq_Principal r = None" and "h r s = (rs, s')" and "s' \<noteq> s"
  obtains p where "session (mo_Env mo) (ap_Cfg app) (mo_UnixNow mo) r = Inr p" and "Principal_Validate p = None"
    and "s' = snd (serveMux app store mo (snd (ensureRequestID (en_RequestID (mo_Env mo)) r)\<lparr>rq_Principal := Some p\<rparr>) s)"
proof -
  let ?mux = "serveMux app store mo"
  have h: "h = serveProtected ?mux (mo_Env mo) (ap_Cfg app) (mo_UnixNow mo)"
    using handlerWithOwnerStore_Inr[OF assms(1)] serveMux_no_principal[OF assms(2), of app store mo s] assms(3,4)
    by (auto split: if_splits)
  show thesis
  proof (cases rule: serveProtected_uniform[of r ?mux "mo_Env mo" "ap_Cfg app" "mo_UnixNow mo"])
    case public
    then show ?thesis
      using serveMux_no_principal[of "snd (ensureRequestID (en_RequestID (mo_Env mo)) r)" app store mo s] assms(2-4) by (simp add: h)
  next
    case (refused rs')
    then show ?thesis using assms(3,4) by (simp add: h)
  next
    case (served p ts)
    show ?thesis using assms(3) served(4) by (intro that[OF served(1,2)]) (metis h snd_conv tracedFst_snd)
  qed
qed

lemma handler_call:
  assumes "handlerWithOwnerStore app store mo = Inr h" and "rq_Principal r = None" and "h r s = (rs, s')"
    and "sv_Store s' \<noteq> sv_Store s"
  obtains p call where "session (mo_Env mo) (ap_Cfg app) (mo_UnixNow mo) r = Inr p" and "Principal_Validate p = None"
    and "permitted_call (mo_Env mo) call" and "sv_Store s' = after store p call (sv_Store s)"
proof -
  from assms(4) have "s' \<noteq> s" by blast
  with assms(1-3) obtain p where p: "session (mo_Env mo) (ap_Cfg app) (mo_UnixNow mo) r = Inr p" "Principal_Validate p = None"
    and s': "s' = snd (serveMux app store mo (snd (ensureRequestID (en_RequestID (mo_Env mo)) r)\<lparr>rq_Principal := Some p\<rparr>) s)"
    by (rule handler_served)
  show thesis
    using serveMux_call[of store mo "snd (ensureRequestID (en_RequestID (mo_Env mo)) r)\<lparr>rq_Principal := Some p\<rparr>" s app]
      assms(4) that[OF p] unfolding s' by (auto simp: one_call_def)
qed

section \<open>Steps\<close>

text \<open>One request served. A request arrives without a principal: only the middleware adds one. The
  Ethereum library and the canonicaliser do not change while the service runs; everything else
  outside may differ at each request. A policy created in the step takes an unused id.\<close>

inductive service_step ::
  "App \<Rightarrow> 'pub eth \<Rightarrow> (string \<Rightarrow> string + string) \<Rightarrow> OwnerScopedStore Service \<Rightarrow>
     'pub Moment \<times> Request \<times> Response \<Rightarrow> OwnerScopedStore Service \<Rightarrow> bool"
  for app eth jcs where
  serve: "handlerWithOwnerStore app (devStore t (Some b)) mo = Inr h \<Longrightarrow> en_Eth (mo_Env mo) = eth \<Longrightarrow>
    en_Jcs (mo_Env mo) = jcs \<Longrightarrow> rq_Principal r = None \<Longrightarrow>
    map_of (st_policies (sv_Store s)) (hex_encode b) = None \<Longrightarrow> h r s = (rs, s') \<Longrightarrow>
    service_step app eth jcs s (mo, r, rs) s'"

inductive service_reachable ::
  "App \<Rightarrow> 'pub eth \<Rightarrow> (string \<Rightarrow> string + string) \<Rightarrow> OwnerScopedStore Service \<Rightarrow> bool"
  for app eth jcs where
  started: "service_reachable app eth jcs \<lparr>sv_Store = NewOwnerScopedStore, sv_Outbox = []\<rparr>"
| served: "service_reachable app eth jcs s \<Longrightarrow> service_step app eth jcs s l s' \<Longrightarrow> service_reachable app eth jcs s'"

inductive_cases service_stepE: "service_step app eth jcs s (mo, r, rs) s'"

text \<open>A step that changes the in-memory store deletes, or creates from an authorized input, for the
  principal of an accepted session.\<close>

lemma service_step_cases:
  assumes "service_step app eth jcs s (mo, r, rs) s'" and "sv_Store s' \<noteq> sv_Store s"
  obtains (delete) p i where "session (mo_Env mo) (ap_Cfg app) (mo_UnixNow mo) r = Inr p" and "Principal_Validate p = None"
    and "sv_Store s' = snd (DeletePolicy (sv_Store s) p i)"
  | (create) p t b inp res where "session (mo_Env mo) (ap_Cfg app) (mo_UnixNow mo) r = Inr p" and "Principal_Validate p = None"
    and "map_of (st_policies (sv_Store s)) (hex_encode b) = None" and "authorized_input eth jcs inp"
    and "CreatePolicy t (Some b) (sv_Store s) p inp = (Inr res, sv_Store s')"
proof -
  obtain t b h where h: "handlerWithOwnerStore app (devStore t (Some b)) mo = Inr h" and env: "en_Eth (mo_Env mo) = eth"
    "en_Jcs (mo_Env mo) = jcs" and n: "rq_Principal r = None" and fresh: "map_of (st_policies (sv_Store s)) (hex_encode b) = None"
    and step: "h r s = (rs, s')"
    using assms(1) by (rule service_stepE) blast
  obtain p call where p: "session (mo_Env mo) (ap_Cfg app) (mo_UnixNow mo) r = Inr p" "Principal_Validate p = None"
    and call: "permitted_call (mo_Env mo) call" "sv_Store s' = after (devStore t (Some b)) p call (sv_Store s)"
    using h n step assms(2) by (rule handler_call)
  show thesis
  proof (cases call)
    case (CallCreate inp)
    obtain out where c: "CreatePolicy t (Some b) (sv_Store s) p inp = (out, sv_Store s')"
      using call(2) CallCreate by (cases "CreatePolicy t (Some b) (sv_Store s) p inp") (simp add: devStore_def)
    then obtain res where "out = Inr res" using assms(2) CreatePolicy_unchanged by (cases out) metis+
    then show ?thesis using create[OF p fresh] call(1) c CallCreate env by (simp add: permitted_call_def)
  next
    case (CallDelete i)
    then show ?thesis using call(2) by (intro delete[OF p]) (simp add: devStore_def)
  qed (use call assms(2) in \<open>auto simp: permitted_call_def devStore_def\<close>)
qed

section \<open>Refinement of the store\<close>

lemma service_step_simulates:
  assumes "service_step app eth jcs s (mo, r, rs) s'" and "sv_Store s' \<noteq> sv_Store s"
  obtains p where "session (mo_Env mo) (ap_Cfg app) (mo_UnixNow mo) r = Inr p" and "Principal_Validate p = None"
    and "store_step p (sv_Store s) (sv_Store s')"
  using assms
proof (cases rule: service_step_cases)
  case (delete p i)
  show ?thesis
    by (rule that[OF delete(1,2)], rule step_delete[of _ _ i "fst (DeletePolicy (sv_Store s) p i)"]) (simp add: delete(3))
next
  case (create p t b inp res)
  show ?thesis by (rule that[OF create(1,2) step_create[OF create(5,3)]])
qed

text \<open>The contract of a refinement with stuttering: seen through \<open>view\<close>, the concrete system starts in an
  initial abstract state, and each of its steps is an abstract step or leaves the abstract state as it
  is. Its clients get that a concrete run is an abstract run, and with it every abstract invariant.\<close>

locale stuttering_refinement =
  fixes ainit :: "'a \<Rightarrow> bool" and astep :: "'a \<Rightarrow> 'a \<Rightarrow> bool" and cinit :: "'c \<Rightarrow> bool" and cstep :: "'c \<Rightarrow> 'c \<Rightarrow> bool"
    and view :: "'c \<Rightarrow> 'a"
  assumes init_view: "cinit c \<Longrightarrow> ainit (view c)"
    and step_view: "cstep c c' \<Longrightarrow> view c' = view c \<or> astep (view c) (view c')"
begin

lemma run_view: "cstep\<^sup>*\<^sup>* c c' \<Longrightarrow> astep\<^sup>*\<^sup>* (view c) (view c')"
proof (induction rule: rtranclp_induct)
  case (step d d')
  then show ?case using step_view[OF step.hyps(2)] by (auto intro: rtranclp.rtrancl_into_rtrancl)
qed simp

lemma invariant_view:
  assumes "cinit c" and "cstep\<^sup>*\<^sup>* c c'" and "\<And>a. ainit a \<Longrightarrow> I a" and "\<And>a a'. I a \<Longrightarrow> astep a a' \<Longrightarrow> I a'"
  shows "I (view c')"
  using run_view[OF assms(2)] assms(3)[OF init_view[OF assms(1)]]
  by (induction rule: rtranclp_induct) (auto intro: assms(4))

end

interpretation runs: stuttering_refinement "\<lambda>a. a = NewOwnerScopedStore" "\<lambda>a a'. \<exists>p. store_step p a a'"
  "\<lambda>c. c = \<lparr>sv_Store = NewOwnerScopedStore, sv_Outbox = []\<rparr>" "\<lambda>c c'. \<exists>l. service_step app eth jcs c l c'" sv_Store
proof
  show "sv_Store c' = sv_Store c \<or> (\<exists>p. store_step p (sv_Store c) (sv_Store c'))" if step: "\<exists>l. service_step app eth jcs c l c'" for c c'
  proof -
    obtain mo r rs where "service_step app eth jcs c (mo, r, rs) c'" using step by auto
    then show ?thesis by (cases "sv_Store c' = sv_Store c") (auto elim: service_step_simulates)
  qed
qed simp

lemma service_reachable_run: "service_reachable app eth jcs s \<longleftrightarrow>
    (\<lambda>c c'. \<exists>l. service_step app eth jcs c l c')\<^sup>*\<^sup>* \<lparr>sv_Store = NewOwnerScopedStore, sv_Outbox = []\<rparr> s"
proof
  show "(\<lambda>c c'. \<exists>l. service_step app eth jcs c l c')\<^sup>*\<^sup>* \<lparr>sv_Store = NewOwnerScopedStore, sv_Outbox = []\<rparr> s"
    if "service_reachable app eth jcs s"
    using that by (induction rule: service_reachable.induct) (auto intro: rtranclp.rtrancl_into_rtrancl)
  show "service_reachable app eth jcs s"
    if "(\<lambda>c c'. \<exists>l. service_step app eth jcs c l c')\<^sup>*\<^sup>* \<lparr>sv_Store = NewOwnerScopedStore, sv_Outbox = []\<rparr> s"
    using that by (induction rule: rtranclp_induct) (auto intro: service_reachable.intros)
qed

lemma service_reachable_store:
  assumes "service_reachable app eth jcs s"
  shows "store_reachable (sv_Store s)"
  by (rule runs.invariant_view[OF refl assms[unfolded service_reachable_run]]) (auto intro: store_reachable.intros)

section \<open>Every stored policy is authorized\<close>

text \<open>The evidence behind a record is that of the creation it comes from, read off the record: the closed
  fields of its payload have the stored digest.\<close>

definition authorized_record :: "'pub eth \<Rightarrow> (string \<Rightarrow> string + string) \<Rightarrow> PolicyRecord \<Rightarrow> bool" where
  "authorized_record eth jcs rec \<longleftrightarrow>
     (\<exists>pl canonical host i e sig. po_Payload rec = Some pl \<and>
        DigestCanonical jcs (JObj (filter (\<lambda>(k, _). k \<in> set closedFields) pl)) = Inr (po_PayloadSHA256 rec, canonical) \<and>
        ValidatePayloadForPersist (Some canonical) = None \<and> e - i \<le> MaxValidityWindow \<and>
        RecoverSignerAddress eth (BuildMessage \<lparr>fd_Domain = host, fd_Action = ActionPersistCryptoPolicy,
          fd_WalletAddress = po_WalletAddress rec, fd_ChainID = po_ChainID rec, fd_ScanID = po_ScanID rec,
          fd_PayloadSHA256 = po_PayloadSHA256 rec, fd_IssuedAt = i, fd_ExpiresAt = e\<rparr>) sig = Inr (po_WalletAddress rec))"

lemma created_authorized:
  assumes "authorized_input eth jcs inp" and "CreatePolicy t rnd s p inp = (Inr res, s')"
  obtains rec where "s' = s\<lparr>st_policies := AList.update (po_ID rec) rec (st_policies s)\<rparr>"
    and "authorized_record eth jcs rec"
proof -
  obtain root canonical host i e sig where a: "ci_Payload inp = Some canonical"
      "DigestCanonical jcs root = Inr (ci_PayloadSHA256 inp, canonical)" "ValidatePayloadForPersist (Some canonical) = None"
      "NormalizeWalletTargetAddress (ci_WalletAddress inp) = Some (ci_WalletAddress inp)" "TrimSpace (ci_ScanID inp) = ci_ScanID inp"
      "e - i \<le> MaxValidityWindow"
      "RecoverSignerAddress eth (BuildMessage \<lparr>fd_Domain = host, fd_Action = ActionPersistCryptoPolicy,
          fd_WalletAddress = ci_WalletAddress inp, fd_ChainID = ci_ChainID inp, fd_ScanID = ci_ScanID inp,
          fd_PayloadSHA256 = ci_PayloadSHA256 inp, fd_IssuedAt = i, fd_ExpiresAt = e\<rparr>) sig = Inr (ci_WalletAddress inp)"
    using assms(1) unfolding authorized_input_def by blast
  obtain rec pl where g: "GetPolicy s' p (cr_PolicyID res) = Inr rec" "po_Payload rec = Some pl"
    "po_PayloadSHA256 rec = ci_PayloadSHA256 inp"
    "DigestCanonical jcs (JObj (filter (\<lambda>(k, _). k \<in> set closedFields) pl)) = Inr (ci_PayloadSHA256 inp, canonical)"
    using assms(2) a(2,1) refl by (rule persisted_integrity)
  from assms(2) obtain pid where s': "s' = s\<lparr>st_policies := AList.update pid
      (createdRecord p inp canonical (ci_WalletAddress inp) (verifiedAtOr t inp) pid) (st_policies s)\<rparr>" and res: "cr_PolicyID res = pid"
    by (rule CreatePolicy_ok) (auto simp: a(1,4) createdResult_def)
  have rec: "rec = createdRecord p inp canonical (ci_WalletAddress inp) (verifiedAtOr t inp) pid"
    using g(1) unfolding s' res by (simp add: GetPolicy_Inr update_conv')
  have f: "po_WalletAddress rec = ci_WalletAddress inp" "po_ChainID rec = ci_ChainID inp" "po_ScanID rec = ci_ScanID inp" "po_ID rec = pid"
    by (simp_all add: rec createdRecord_def a(5))
  have "authorized_record eth jcs rec"
    unfolding authorized_record_def f g(3) using g(2,4) a(3,6,7) by blast
  moreover have "s' = s\<lparr>st_policies := AList.update (po_ID rec) rec (st_policies s)\<rparr>" by (simp add: s' rec createdRecord_def)
  ultimately show thesis by (rule that[rotated])
qed

lemma set_AList_update: "set (AList.update k v al) \<subseteq> insert (k, v) (set al)"
  by (induction al) auto

lemma service_step_authorized:
  assumes "service_step app eth jcs s (mo, r, rs) s'" and "\<forall>rec \<in> snd ` set (st_policies (sv_Store s)). authorized_record eth jcs rec"
  shows "\<forall>rec \<in> snd ` set (st_policies (sv_Store s')). authorized_record eth jcs rec"
proof (cases "sv_Store s' = sv_Store s")
  case False
  with assms(1) show ?thesis
  proof (cases rule: service_step_cases)
    case (delete p i)
    have "set (st_policies (snd (DeletePolicy (sv_Store s) p i))) \<subseteq> set (st_policies (sv_Store s))"
      by (auto simp: DeletePolicy_def AList.delete_eq split: option.splits)
    then show ?thesis using assms(2) unfolding delete(3) by blast
  next
    case (create p t b inp res)
    obtain rec where "sv_Store s' = sv_Store s\<lparr>st_policies := AList.update (po_ID rec) rec (st_policies (sv_Store s))\<rparr>"
      "authorized_record eth jcs rec" using create(4,5) by (rule created_authorized)
    then show ?thesis using assms(2) set_AList_update[of "po_ID rec" rec "st_policies (sv_Store s)"] by fastforce
  qed
qed (use assms(2) in simp)

lemma service_reachable_authorized:
  "service_reachable app eth jcs s \<Longrightarrow> \<forall>rec \<in> snd ` set (st_policies (sv_Store s)). authorized_record eth jcs rec"
proof (induction rule: service_reachable.induct)
  case (served s l s')
  obtain mo r rs where l: "l = (mo, r, rs)" by (cases l)
  show ?case by (rule service_step_authorized[OF served.hyps(2)[unfolded l] served.IH])
qed (simp add: NewOwnerScopedStore_def)

section \<open>A session that stores a policy\<close>

text \<open>Discovery accepts the session, grants the scan and names it as the latest one of the wallet.\<close>

definition live_net :: network where
  "live_net q = Some (200, JsonBody (if or_Method q = ''GET''
     then JObj [(''items'', JArr [JObj [(''scan_id'', JStr sample_scan)]])]
     else JObj [(''accepted'', JBool True), (''allowed'', JBool True)]))"

definition live_env :: "unit Env" where
  "live_env = session_env\<lparr>en_Net := live_net\<rparr>"

definition live_moment :: "unit Moment" where
  "live_moment = \<lparr>mo_Env = live_env, mo_Transport = sample_transport, mo_UnixNow = 50, mo_Now = sample_time + 5 * second,
     mo_Later = 7\<rparr>"

definition live_app :: App where
  "live_app = \<lparr>ap_ServiceName = ''cafe-cpm'', ap_ReadStore = sample_store, ap_Contracts = sample_contracts, ap_Cfg = sample_cfg, ap_Version = ''dev'',
     ap_Metrics = WriteHeader 200, ap_RedirectStatus = 307\<rparr>"

definition live_request :: Request where
  "live_request = \<lparr>rq_Method = ''POST'', rq_Path = Policies, rq_Header = [(''Authorization'', ''Bearer VA'')], rq_Query = [],
     rq_Host = ''cafe.example'', rq_Body = rq_Body persist_request, rq_Principal = None\<rparr>"

definition live_start :: "OwnerScopedStore Service" where
  "live_start = \<lparr>sv_Store = NewOwnerScopedStore, sv_Outbox = []\<rparr>"

lemma live_session: "session live_env sample_cfg 50 live_request = Inr session_principal"
proof -
  have a: "authenticateBearerToken env cfg u r rid = authenticateBearerToken env cfg u other rid"
    if "Header_Get r ''Authorization'' = Header_Get other ''Authorization''"
    for env :: "unit Env" and cfg u r other rid
    using that by (simp add: authenticateBearerToken_def)
  define rid where "rid = fst (ensureRequestID (en_RequestID live_env) live_request)"
  have r: "rid = fst (ensureRequestID (en_RequestID live_env) delete_request)"
    by (simp add: rid_def ensureRequestID_def Let_def Header_Get_def live_request_def delete_request_def)
  have h: "Header_Get live_request ''Authorization'' = Header_Get delete_request ''Authorization''"
    by (simp add: Header_Get_def live_request_def delete_request_def)
  have "authenticateBearerToken live_env sample_cfg 50 (snd (ensureRequestID (en_RequestID live_env) delete_request))
      (fst (ensureRequestID (en_RequestID live_env) delete_request)) = Inr session_principal" by code_simp
  then show ?thesis
    unfolding session_def r[symmetric] rid_def[symmetric]
    by (subst a[where other = "snd (ensureRequestID (en_RequestID live_env) delete_request)"]) (simp_all add: ensureRequestID_header h)
qed

lemma live_scans:
  "extractScanIDsForAuthorization (snd (ensureRequestID gen live_request)) = Inr [sample_scan]"
  "authorizeScanAccess live_net prin sample_scan sample_cfg rid = None"
  "enforceScanImmutabilityGuards net (snd (ensureRequestID gen live_request)) cfg rid = None"
proof -
  have t: "TrimSpace sample_scan = sample_scan" "sample_scan \<noteq> ''''" by code_simp+
  have u: "TrimSpace (cf_ScanAuthorizationURL sample_cfg) \<noteq> ''''"
    "decode_first dec_scanAuthorizationResponse (JsonBody (JObj [(''accepted'', JBool True), (''allowed'', JBool True)])) = Some True"
    by code_simp+
  have p: "Policies \<noteq> PoliciesAssessmentRequest" "Policies \<noteq> PoliciesDecisionsExplore" by code_simp+
  show "extractScanIDsForAuthorization (snd (ensureRequestID gen live_request)) = Inr [sample_scan]"
    using t p by (simp add: extractScanIDsForAuthorization_def live_request_def persist_request_def post_request_def
        collectScanIDs_def persist_body_def addScanID_def)
  show "authorizeScanAccess live_net prin sample_scan sample_cfg rid = None"
    using t u by (simp add: authorizeScanAccess_def live_net_def scanAuthorizationRequest_def)
  show "enforceScanImmutabilityGuards net (snd (ensureRequestID gen live_request)) cfg rid = None"
    using p by (simp add: enforceScanImmutabilityGuards_def isImmutabilityGuardRoute_def live_request_def)
qed

lemma live_persists:
  assumes "rq_Principal r = Some session_principal" and "rq_Body r = rq_Body persist_request"
  shows "\<exists>rs s'. handlePolicyPersist (devStore 7 (Some [1])) live_env sample_cfg (sample_time + 5 * second) 7 r NewOwnerScopedStore =
    (rs, s') \<and> rs_Status rs = 200 \<and> map_of (st_policies s') ''01'' \<noteq> None"
proof -
  let ?r = "snd (ensureRequestID (en_RequestID live_env) r)"
  have l: "fetchWalletLatestCompletedScanID live_net sample_cfg au rid w = Some sample_scan" for au rid w
    using sample_latest[of au rid w]
    by (simp add: fetchWalletLatestCompletedScanID_def fetchWalletScanList_def Let_def stub_net_def live_net_def)
  have d: "TrimSpace ''http://discovery'' \<noteq> ''''" by code_simp
  have "engaged live_env sample_cfg ?r sample_wallet sample_scan"
    using d by (auto simp: engaged_def live_env_def l sample_scan_normal) (simp add: sample_cfg_def)
  moreover obtain parsed where "ParseMessage (pq_SignedMessage persist_req) = Inr parsed"
    using challenge_parses[OF sample_authorized] by blast
  ultimately have "\<exists>inp. authorizePersist live_env sample_cfg (sample_time + 5 * second) 7 ?r persist_req = Inr inp \<and>
     ci_WalletAddress inp = sample_wallet \<and> ci_ScanID inp = sample_scan \<and> ci_ChainID inp = 1 \<and>
     ci_Payload inp = Some minimal_canonical \<and> ci_PayloadSHA256 inp = sample_digest"
    unfolding authorizePersist_Inr
    using sample_authorized sample_gate sample_digest sample_hex_wallet sample_scan_normal
    by (auto simp: persist_req_def live_env_def session_env_def)
  then obtain inp where a: "authorizePersist live_env sample_cfg (sample_time + 5 * second) 7 ?r persist_req = Inr inp"
    and inp: "ci_WalletAddress inp = sample_wallet" "ci_ScanID inp = sample_scan" "ci_ChainID inp = 1"
      "ci_Payload inp = Some minimal_canonical" "ci_PayloadSHA256 inp = sample_digest" by blast
  have "TrimSpace sample_scan \<noteq> ''''" "Principal_Validate session_principal = None" "hex_encode [1] = ''01''" by code_simp+
  then have "\<exists>res s'. CreatePolicy 7 (Some [1]) NewOwnerScopedStore session_principal inp = (Inr res, s') \<and>
      map_of (st_policies s') ''01'' \<noteq> None"
    using digest_trimmed(1,2)[OF sample_digest]
    by (simp add: CreatePolicy_def inp sample_wallet_normal NewOwnerScopedStore_def newPolicyID_def)
  moreover have "decodePolicyPersistRequest r = Inr persist_req"
    using persist_request_decodes assms(2) by (simp add: decodePolicyPersistRequest_def)
  ultimately show ?thesis using a assms(1) by (auto simp: handlePolicyPersist_def Let_def devStore_def)
qed

lemma live_handler:
  "handlerWithOwnerStore live_app (devStore 7 (Some [1])) live_moment =
     Inr (serveProtected (serveMux live_app (devStore 7 (Some [1])) live_moment) live_env sample_cfg 50)"
  using delete_request_class(2,3)
  by (simp add: handlerWithOwnerStore_def withAuthentication_def live_app_def live_moment_def) (simp add: sample_cfg_def)

text \<open>The request of the session is served and stores the policy \<^verbatim>\<open>01\<close>.\<close>

lemma live_step:
  obtains rs s' where "service_step live_app stub_eth Inr live_start (live_moment, live_request, rs) s'"
    and "rs_Status rs = 200" and "map_of (st_policies (sv_Store s')) ''01'' \<noteq> None"
proof -
  define r where "r = snd (ensureRequestID (en_RequestID live_env) live_request)"
  define r' where "r' = r\<lparr>rq_Principal := Some session_principal\<rparr>"
  let ?mux = "serveMux live_app (devStore 7 (Some [1])) live_moment"
  have "rq_Principal r' = Some session_principal" "rq_Body r' = rq_Body persist_request"
    by (simp_all add: r'_def r_def live_request_def)
  then obtain rs st where h: "handlePolicyPersist (devStore 7 (Some [1])) live_env sample_cfg (sample_time + 5 * second) 7 r'
      NewOwnerScopedStore = (rs, st)" "rs_Status rs = 200" "map_of (st_policies st) ''01'' \<noteq> None"
    using live_persists by blast
  have "muxRoute ''POST'' Policies = Routed EpPersist" by code_simp
  then have m: "?mux r' live_start = (rs, live_start\<lparr>sv_Store := st\<rparr>)"
    using h(1) by (simp add: serveMux_def onStore_def live_start_def live_moment_def live_app_def r'_def r_def live_request_def)
  have "classifyRoute ''POST'' Policies = RouteClassAuthenticated" by code_simp
  then have c: "classifyRoute (rq_Method live_request) (rq_Path live_request) = RouteClassAuthenticated"
    by (simp add: live_request_def)
  have ne: "RouteClassAuthenticated \<noteq> RouteClassPublicHealth" "RouteClassAuthenticated \<noteq> RouteClassDeprecatedDisabled"
    by code_simp+
  obtain ts where a: "authorizeScans live_env sample_cfg r (fst (ensureRequestID (en_RequestID live_env) live_request))
      session_principal [sample_scan] = (ts, None)"
    by (auto simp: live_env_def live_scans(2))
  have "\<exists>rs2. serveProtected ?mux live_env sample_cfg 50 live_request live_start = (rs2, live_start\<lparr>sv_Store := st\<rparr>) \<and> rs_Status rs2 = 200"
    using live_session[unfolded session_def, folded r_def] c ne a m h(2) live_scans(1)[of "en_RequestID live_env", folded r_def]
      live_scans(3)[of _ "en_RequestID live_env", folded r_def]
    by (simp add: serveProtected_def Let_def serveAuthenticated_def tracedFst_def flip: r_def r'_def del: authorizeScans.simps)
  then obtain rs2 where s: "serveProtected ?mux live_env sample_cfg 50 live_request live_start = (rs2, live_start\<lparr>sv_Store := st\<rparr>)"
    "rs_Status rs2 = 200" by blast
  have "service_step live_app stub_eth Inr live_start (live_moment, live_request, rs2) (live_start\<lparr>sv_Store := st\<rparr>)"
    using s(1)
    by (intro serve[OF live_handler]) (simp_all add: live_moment_def live_env_def session_env_def live_request_def live_start_def NewOwnerScopedStore_def)
  then show thesis using that s(2) h(3) by simp
qed

section \<open>Properties of the service\<close>

text \<open>C1. Every stored policy is authorized, whatever happened before: in every state the service reaches, the
  closed fields of each stored payload have the stored digest and pass the persist gate, and a
  message that names exactly the record's wallet, chain, scan and digest, valid for at most ten
  minutes, was signed by the record's wallet.\<close>

theorem service_policies_authorized:
  assumes "service_reachable app eth jcs s" and "GetPolicy (sv_Store s) p i = Inr rec"
  shows "\<exists>pl canonical host t e sig. po_Payload rec = Some pl \<and>
    DigestCanonical jcs (JObj (filter (\<lambda>(k, _). k \<in> set closedFields) pl)) = Inr (po_PayloadSHA256 rec, canonical) \<and>
    ValidatePayloadForPersist (Some canonical) = None \<and> e - t \<le> MaxValidityWindow \<and>
    RecoverSignerAddress eth (BuildMessage \<lparr>fd_Domain = host, fd_Action = ActionPersistCryptoPolicy,
      fd_WalletAddress = po_WalletAddress rec, fd_ChainID = po_ChainID rec, fd_ScanID = po_ScanID rec,
      fd_PayloadSHA256 = po_PayloadSHA256 rec, fd_IssuedAt = t, fd_ExpiresAt = e\<rparr>) sig = Inr (po_WalletAddress rec)"
proof -
  have "(i, rec) \<in> set (st_policies (sv_Store s))" using assms(2) by (auto simp: GetPolicy_Inr dest: map_of_SomeD)
  then have "authorized_record eth jcs rec" using service_reachable_authorized[OF assms(1)] by force
  then show ?thesis unfolding authorized_record_def .
qed

lemma live_state:
  obtains s rec where "service_reachable live_app stub_eth Inr s" and "GetPolicy (sv_Store s) session_principal ''01'' = Inr rec"
proof -
  obtain rs s where step: "service_step live_app stub_eth Inr live_start (live_moment, live_request, rs) s"
    and m: "map_of (st_policies (sv_Store s)) ''01'' \<noteq> None" by (rule live_step)
  have ne: "sv_Store s \<noteq> sv_Store live_start" using m by (auto simp: live_start_def NewOwnerScopedStore_def)
  obtain p where p: "session live_env sample_cfg 50 live_request = Inr p" "store_step p (sv_Store live_start) (sv_Store s)"
    using service_step_simulates[OF step ne] by (auto simp: live_moment_def live_app_def)
  have pe: "p = session_principal" using p(1) live_session by simp
  obtain rec where rec: "map_of (st_policies (sv_Store s)) ''01'' = Some rec" using m by blast
  have "ownedBy rec session_principal"
    using p(2) unfolding pe
  proof (cases rule: store_step.cases)
    case (step_save now i scan pl res)
    then show ?thesis using rec
      by (cases res) (auto dest: SavePolicy_unchanged elim!: SavePolicy_ok simp: live_start_def NewOwnerScopedStore_def update_conv' split: if_splits)
  next
    case (step_create now b inp res)
    then show ?thesis using rec
      by (cases res) (auto dest: CreatePolicy_unchanged elim!: CreatePolicy_ok
          simp: live_start_def NewOwnerScopedStore_def update_conv' createdRecord_def sameOwner_def split: if_splits)
  next
    case (step_delete i res)
    then show ?thesis using ne by (auto simp: DeletePolicy_def live_start_def NewOwnerScopedStore_def split: if_splits)
  qed
  moreover have "Principal_Validate session_principal = None" by code_simp
  ultimately have "GetPolicy (sv_Store s) session_principal ''01'' = Inr rec" using rec by (simp add: GetPolicy_Inr)
  moreover have "service_reachable live_app stub_eth Inr s"
    by (rule served[OF started step[unfolded live_start_def]])
  ultimately show thesis by (rule that[rotated])
qed

theorem service_policies_authorized_witness:
  "\<exists>(rec :: PolicyRecord) canonical host t e sig. ValidatePayloadForPersist (Some canonical) = None \<and>
    RecoverSignerAddress stub_eth (BuildMessage \<lparr>fd_Domain = host, fd_Action = ActionPersistCryptoPolicy,
      fd_WalletAddress = po_WalletAddress rec, fd_ChainID = po_ChainID rec, fd_ScanID = po_ScanID rec,
      fd_PayloadSHA256 = po_PayloadSHA256 rec, fd_IssuedAt = t, fd_ExpiresAt = e\<rparr>) sig = Inr (po_WalletAddress rec)"
proof -
  obtain s rec where s: "service_reachable live_app stub_eth Inr s" "GetPolicy (sv_Store s) session_principal ''01'' = Inr rec"
    by (rule live_state)
  show ?thesis using service_policies_authorized[OF s] by blast
qed

text \<open>C2. The service refines the abstract store: each request either leaves the stored policies as they are
  or takes one step of the store on behalf of the valid principal of an accepted session.\<close>

theorem service_refines_store:
  assumes "service_step app eth jcs s (mo, r, rs) s'"
  shows "sv_Store s' = sv_Store s \<or>
    (\<exists>p. session (mo_Env mo) (ap_Cfg app) (mo_UnixNow mo) r = Inr p \<and> Principal_Validate p = None \<and>
       store_step p (sv_Store s) (sv_Store s'))"
  using service_step_simulates[OF assms] by blast

theorem service_refines_store_witness:
  "\<exists>s' :: OwnerScopedStore Service. sv_Store s' \<noteq> sv_Store live_start \<and> store_step session_principal (sv_Store live_start) (sv_Store s')"
proof -
  obtain rs s where step: "service_step live_app stub_eth Inr live_start (live_moment, live_request, rs) s"
    and m: "map_of (st_policies (sv_Store s)) ''01'' \<noteq> None" by (rule live_step)
  have "sv_Store s \<noteq> sv_Store live_start" using m by (auto simp: live_start_def NewOwnerScopedStore_def)
  then have "sv_Store s \<noteq> sv_Store live_start \<and> store_step session_principal (sv_Store live_start) (sv_Store s)"
    using service_refines_store[OF step] live_session by (auto simp: live_moment_def live_app_def)
  then show ?thesis by blast
qed

lemma RecoverSigner_nonempty: "RecoverSignerAddress eth m g = Inr w \<Longrightarrow> w \<noteq> ''''"
  by (auto simp: RecoverSignerAddress_def ebind_Inr of_opt_def Let_def dest!: Normalize_result normal_address_shape(3)
      split: option.splits if_splits)

text \<open>C3. One active policy per owner and wallet (rule W1), for the service: in every state it reaches, two policies
  a principal can read with the same wallet are the same policy.\<close>

theorem service_one_policy_per_wallet:
  assumes "service_reachable app eth jcs s" and "GetPolicy (sv_Store s) p i = Inr rec" and "GetPolicy (sv_Store s) p j = Inr rec'"
    and "po_WalletAddress rec = po_WalletAddress rec'"
  shows "i = j"
proof -
  have "(i, rec) \<in> set (st_policies (sv_Store s))" using assms(2) by (auto simp: GetPolicy_Inr dest: map_of_SomeD)
  then have "authorized_record eth jcs rec" using service_reachable_authorized[OF assms(1)] by force
  then have "po_WalletAddress rec \<noteq> ''''" unfolding authorized_record_def using RecoverSigner_nonempty by blast
  then show ?thesis
    using store_reachable_inv[OF service_reachable_store[OF assms(1)]] assms(2-4)
    unfolding store_inv_def one_per_wallet_def GetPolicy_Inr sameOwner_def by metis
qed

theorem service_one_policy_per_wallet_witness:
  "\<exists>(s :: OwnerScopedStore Service) (rec :: PolicyRecord). GetPolicy (sv_Store s) session_principal ''01'' = Inr rec \<and>
     \<not> (\<exists>j rec'. j \<noteq> ''01'' \<and> GetPolicy (sv_Store s) session_principal j = Inr rec' \<and>
       po_WalletAddress rec = po_WalletAddress rec')"
proof -
  obtain s rec where s: "service_reachable live_app stub_eth Inr s" "GetPolicy (sv_Store s) session_principal ''01'' = Inr rec"
    by (rule live_state)
  have "\<not> (\<exists>j rec'. j \<noteq> ''01'' \<and> GetPolicy (sv_Store s) session_principal j = Inr rec' \<and>
       po_WalletAddress rec = po_WalletAddress rec')"
    using service_one_policy_per_wallet[OF s] by blast
  then show ?thesis using s(2) by blast
qed

text \<open>C4. Owners are isolated from each other's requests: whatever a request does, the reads of a principal
  (by id, by scan and the count per wallet) are as before, unless the request carried a session of
  that same owner.\<close>

theorem service_owner_isolation:
  assumes "service_reachable app eth jcs s" and "service_step app eth jcs s (mo, r, rs) s'"
    and "\<And>p. session (mo_Env mo) (ap_Cfg app) (mo_UnixNow mo) r = Inr p \<Longrightarrow>
      \<not> sameOwner (pn_UserID p) (pn_TenantID p) (pn_UserID q) (pn_TenantID q)"
  shows "(GetPolicy (sv_Store s') q i = Inr rec) = (GetPolicy (sv_Store s) q i = Inr rec) \<and>
    ListPersistedPoliciesForScan (sv_Store s') q scan = ListPersistedPoliciesForScan (sv_Store s) q scan \<and>
    CountActiveWalletCPMContext (sv_Store s') q a = CountActiveWalletCPMContext (sv_Store s) q a"
proof (cases "sv_Store s' = sv_Store s")
  case False
  obtain p where p: "session (mo_Env mo) (ap_Cfg app) (mo_UnixNow mo) r = Inr p" "store_step p (sv_Store s) (sv_Store s')"
    using service_step_simulates[OF assms(2) False] by blast
  have inv: "store_inv (sv_Store s)" by (rule store_reachable_inv[OF service_reachable_store[OF assms(1)]])
  have inv': "store_inv (sv_Store s')"
    by (rule store_reachable_inv[OF reach_step[OF service_reachable_store[OF assms(1)] p(2)]])
  have o: "owned (sv_Store s') q = owned (sv_Store s) q" by (rule store_step_other[OF p(2) inv assms(3)[OF p(1)]])
  show ?thesis unfolding GetPolicy_owned[OF inv] GetPolicy_owned[OF inv']
      ListPersistedPoliciesForScan_owned CountActive_owned o by simp
qed simp

theorem service_owner_isolation_witness:
  "\<exists>s' :: OwnerScopedStore Service. sv_Store s' \<noteq> sv_Store live_start \<and>
     ListPersistedPoliciesForScan (sv_Store s') bob sample_scan = ListPersistedPoliciesForScan (sv_Store live_start) bob sample_scan"
proof -
  obtain rs s where step: "service_step live_app stub_eth Inr live_start (live_moment, live_request, rs) s"
    and m: "map_of (st_policies (sv_Store s)) ''01'' \<noteq> None" by (rule live_step)
  have "\<not> sameOwner (pn_UserID p) (pn_TenantID p) (pn_UserID bob) (pn_TenantID bob)"
    if "session (mo_Env live_moment) (ap_Cfg live_app) (mo_UnixNow live_moment) live_request = Inr p" for p
    using that live_session by (auto simp: live_moment_def live_app_def sameOwner_def bob_def session_principal_def)
  then have "ListPersistedPoliciesForScan (sv_Store s) bob sample_scan =
      ListPersistedPoliciesForScan (sv_Store live_start) bob sample_scan"
    using service_owner_isolation[OF started step[unfolded live_start_def]] by (simp add: live_start_def)
  moreover have "sv_Store s \<noteq> sv_Store live_start" using m by (auto simp: live_start_def NewOwnerScopedStore_def)
  ultimately show ?thesis by blast
qed

text \<open>C5. A request without an accepted session learns and changes nothing: when authentication is required,
  its answer is the same for any two services with the same configuration, name, version and metrics,
  whatever their catalogues, stores, stored policies and published messages are, and it changes none.\<close>

theorem unauthenticated_noninterference:
  assumes "handlerWithOwnerStore app store mo = Inr h" and "handlerWithOwnerStore app' store' mo = Inr h'"
    and "cf_Required (ap_Cfg app)" and "ap_Cfg app' = ap_Cfg app" and "ap_Version app' = ap_Version app"
    and "ap_ServiceName app' = ap_ServiceName app"
    and "ap_Metrics app' = ap_Metrics app" and "session (mo_Env mo) (ap_Cfg app) (mo_UnixNow mo) r = Inl e"
  shows "fst (h r s) = fst (h' r s') \<and> snd (h r s) = s"
proof -
  have hs: "h = serveProtected (serveMux app store mo) (mo_Env mo) (ap_Cfg app) (mo_UnixNow mo)"
    "h' = serveProtected (serveMux app' store' mo) (mo_Env mo) (ap_Cfg app) (mo_UnixNow mo)"
    using assms(1-4) by (auto simp: handlerWithOwnerStore_def withAuthentication_def split: option.splits if_splits)
  show ?thesis
  proof (cases "classifyRoute (rq_Method r) (rq_Path r) = RouteClassPublicHealth")
    case True
    then show ?thesis
      using public_routes[OF True] public_endpoints assms(5-7) by (auto simp: hs serveProtected_def Let_def serveMux_def)
  next
    case False
    then show ?thesis
      using assms(8) by (cases e) (simp add: hs serveProtected_def Let_def session_def)
  qed
qed

theorem unauthenticated_noninterference_witness:
  "\<exists>h h'. handlerWithOwnerStore live_app (devStore 7 (Some [1])) live_moment = Inr h \<and>
     handlerWithOwnerStore (live_app\<lparr>ap_ReadStore := emptyStore\<rparr>) (devStore 8 None) live_moment = Inr h' \<and>
     fst (h (live_request\<lparr>rq_Header := []\<rparr>) live_start) =
       fst (h' (live_request\<lparr>rq_Header := []\<rparr>) (live_start\<lparr>sv_Store := NewOwnerScopedStore\<rparr>))"
proof -
  have u: "\<exists>e. session live_env sample_cfg 50 (live_request\<lparr>rq_Header := []\<rparr>) = Inl e"
  proof -
    have "Header_Get (snd (ensureRequestID g (live_request\<lparr>rq_Header := []\<rparr>))) ''Authorization'' = ''''" for g
      by (simp add: ensureRequestID_header) (simp add: Header_Get_def)
    moreover have "\<not> HasPrefix (ToLower (TrimSpace '''')) ''bearer ''" by code_simp
    ultimately show ?thesis
      by (cases "unauthenticated ''missing_or_malformed_authorization_header''") (simp add: session_def authenticateBearerToken_def)
  qed
  then obtain e where e: "session (mo_Env live_moment) (ap_Cfg live_app) (mo_UnixNow live_moment) (live_request\<lparr>rq_Header := []\<rparr>) = Inl e"
    by (auto simp: live_moment_def live_app_def)
  obtain h' where h': "handlerWithOwnerStore (live_app\<lparr>ap_ReadStore := emptyStore\<rparr>) (devStore 8 None) live_moment = Inr h'"
    using delete_request_class(2,3)
    by (simp add: handlerWithOwnerStore_def withAuthentication_def live_app_def live_moment_def) (auto simp add: sample_cfg_def)
  have "cf_Required (ap_Cfg live_app)" by (simp add: live_app_def sample_cfg_def)
  then show ?thesis
    using unauthenticated_noninterference[OF live_handler h' _ _ _ _ _ e, of live_start "live_start\<lparr>sv_Store := NewOwnerScopedStore\<rparr>"] live_handler h'
    by auto
qed

lemma getEnv_empty: "TrimSpace (getEnv ev k '''') \<noteq> '''' \<Longrightarrow> ev k \<noteq> None"
  by (cases "ev k") (simp_all add: getEnv_def)

lemma prod_store_remote:
  assumes "newPolicyStore ProdBuild valid cfg = Inr st"
  obtains c where "st = RemoteStore c" and "cl_token c = TrimSpace (cg_PersistenceServiceToken cfg)"
    and "TrimSpace (cg_PersistenceServiceToken cfg) \<noteq> ''''" and "TrimSpace (cg_PersistenceURL cfg) \<noteq> ''''"
  using assms
  by (auto simp: newPolicyStore_def newPersistencePolicyStore_def NewClient_def Let_def split: if_splits)

lemma Run_Inr:
  assumes "Run w stores cfg mo = (events, Inr (addr, h))"
  obtains store malformed orphans own pub app where "LoadReadStore (wd_Files w)
      \<lparr>ro_CatalogueDir = cg_CatalogueDir cfg, ro_CryptoPolicyPaths = [], ro_ProviderManifestPaths = []\<rparr> =
      (events, Inr (store, malformed, orphans))"
    and "newPolicyStore (wd_Build w) (wd_ValidURL w) cfg = Inr own"
    and "pub = None \<longleftrightarrow> TrimSpace (cg_NATSURL cfg) = ''''"
    and "ap_ReadStore app = store" and "ap_Cfg app = authConfigOf cfg"
    and "handlerWithOwnerStore app (stores own) (mo\<lparr>mo_Transport := (mo_Transport mo)\<lparr>tp_Publish := pub\<rparr>\<rparr>) = Inr h"
proof -
  obtain store malformed orphans where load: "LoadReadStore (wd_Files w)
      \<lparr>ro_CatalogueDir = cg_CatalogueDir cfg, ro_CryptoPolicyPaths = [], ro_ProviderManifestPaths = []\<rparr> =
      (events, Inr (store, malformed, orphans))"
    using assms unfolding Run_def by (auto split: prod.splits sum.splits)
  obtain own where own: "newPolicyStore (wd_Build w) (wd_ValidURL w) cfg = Inr own"
    using assms unfolding Run_def load by (auto split: sum.splits)
  define dialled where "dialled = (if TrimSpace (cg_NATSURL cfg) = '''' then Inr None
    else map_sum id Some (ConnectPublisher (wd_Dial w) (TrimSpace (cg_NATSURL cfg))))"
  obtain pub where pub: "dialled = Inr pub"
    using assms unfolding Run_def load own dialled_def[symmetric] by (auto split: sum.splits)
  have "pub = None \<longleftrightarrow> TrimSpace (cg_NATSURL cfg) = ''''"
    using pub unfolding dialled_def
    by (cases "ConnectPublisher (wd_Dial w) (TrimSpace (cg_NATSURL cfg))") (auto split: if_splits)
  then show thesis
    using assms unfolding Run_def load own dialled_def[symmetric] pub
    by (intro that[OF load own]) (auto split: sum.splits)
qed

lemma auth_off_asked: "\<not> cg_AuthRequired (LoadFromEnv ev) \<Longrightarrow>
    ev ''CPM_AUTH_REQUIRED'' \<in> Some ` {''0'', ''false'', ''FALSE'', ''False'', ''no'', ''NO'', ''off'', ''OFF''}"
  by (auto simp: LoadFromEnv_def getEnvBool_def split: option.splits if_splits)

text \<open>C8. Start-up is safe by default: a production process that starts serves the catalogue it loaded over
  the remote store, with a service token that is not blank, publishes exactly when a NATS URL is
  given, and puts every route behind the middleware unless the environment switches authentication
  off with one of its eight spellings of false.\<close>

theorem startup_safe:
  assumes "Run w stores (LoadFromEnv ev) mo = (events, Inr (addr, h))" and "wd_Build w = ProdBuild"
  shows "\<exists>store malformed orphans c app mo'. LoadReadStore (wd_Files w) \<lparr>ro_CatalogueDir = cg_CatalogueDir (LoadFromEnv ev),
      ro_CryptoPolicyPaths = [], ro_ProviderManifestPaths = []\<rparr> = (events, Inr (store, malformed, orphans)) \<and>
    ap_ReadStore app = store \<and> ap_Cfg app = authConfigOf (LoadFromEnv ev) \<and> cl_token c \<noteq> '''' \<and>
    ev ''CAFE_PERSISTENCE_SERVICE_TOKEN'' \<noteq> None \<and> ev ''CPM_PERSISTENCE_URL'' \<noteq> None \<and>
    mo_Env mo' = mo_Env mo \<and> (tp_Publish (mo_Transport mo') = None \<longleftrightarrow> TrimSpace (cg_NATSURL (LoadFromEnv ev)) = '''') \<and>
    (h = serveProtected (serveMux app (stores (RemoteStore c)) mo') (mo_Env mo) (ap_Cfg app) (mo_UnixNow mo) \<or>
     ev ''CPM_AUTH_REQUIRED'' \<in> Some ` {''0'', ''false'', ''FALSE'', ''False'', ''no'', ''NO'', ''off'', ''OFF''} \<and>
     h = serveMux app (stores (RemoteStore c)) mo')"
proof -
  obtain store malformed orphans own pub app where load: "LoadReadStore (wd_Files w)
      \<lparr>ro_CatalogueDir = cg_CatalogueDir (LoadFromEnv ev), ro_CryptoPolicyPaths = [], ro_ProviderManifestPaths = []\<rparr> =
      (events, Inr (store, malformed, orphans))"
    and own: "newPolicyStore ProdBuild (wd_ValidURL w) (LoadFromEnv ev) = Inr own"
    and pub: "pub = None \<longleftrightarrow> TrimSpace (cg_NATSURL (LoadFromEnv ev)) = ''''"
    and app: "ap_ReadStore app = store" "ap_Cfg app = authConfigOf (LoadFromEnv ev)"
    and h: "handlerWithOwnerStore app (stores own) (mo\<lparr>mo_Transport := (mo_Transport mo)\<lparr>tp_Publish := pub\<rparr>\<rparr>) = Inr h"
    by (rule Run_Inr[OF assms(1)]) (simp add: assms(2))
  obtain c where c: "own = RemoteStore c" "cl_token c = TrimSpace (cg_PersistenceServiceToken (LoadFromEnv ev))"
    "TrimSpace (cg_PersistenceServiceToken (LoadFromEnv ev)) \<noteq> ''''" "TrimSpace (cg_PersistenceURL (LoadFromEnv ev)) \<noteq> ''''"
    by (rule prod_store_remote[OF own])
  have ev: "ev ''CPM_PERSISTENCE_URL'' \<noteq> None" "ev ''CAFE_PERSISTENCE_SERVICE_TOKEN'' \<noteq> None"
    using c(3,4) by (auto simp: LoadFromEnv_def intro!: getEnv_empty simp del: not_None_eq)
  let ?mo = "mo\<lparr>mo_Transport := (mo_Transport mo)\<lparr>tp_Publish := pub\<rparr>\<rparr>"
  have "h = serveProtected (serveMux app (stores (RemoteStore c)) ?mo) (mo_Env mo) (ap_Cfg app) (mo_UnixNow mo) \<or>
     ev ''CPM_AUTH_REQUIRED'' \<in> Some ` {''0'', ''false'', ''FALSE'', ''False'', ''no'', ''NO'', ''off'', ''OFF''} \<and>
     h = serveMux app (stores (RemoteStore c)) ?mo"
    using handlerWithOwnerStore_Inr[OF h] auth_off_asked[of ev] by (auto simp: c(1) app(2) authConfigOf_def split: if_splits)
  then show ?thesis using load app c(2,3) ev pub
    by (intro exI[of _ store] exI[of _ malformed] exI[of _ orphans] exI[of _ c] exI[of _ app] exI[of _ ?mo] conjI) simp_all
qed

text \<open>A production process over \<^verbatim>\<open>sample_fs\<close>, with a NATS connection.\<close>

definition live_environ :: environ where
  "live_environ = map_of [(''CPM_CATALOGUE_DIR'', '' cat ''), (''CPM_PERSISTENCE_URL'', ''http://persistence''),
     (''CAFE_PERSISTENCE_SERVICE_TOKEN'', ''secret''), (''CPM_NATS_URL'', ''nats://bus''),
     (''CAFE_SESSION_JWT_VALIDATION_URL'', ''http://discovery/validate'')]"

definition live_world :: World where
  "live_world = \<lparr>wd_Files = sample_fs, wd_Build = ProdBuild, wd_ValidURL = (\<lambda>_. True), wd_Dial = (\<lambda>_. Inr (\<lambda>_ _. None)),
     wd_Contracts = sample_contracts, wd_Environ = live_environ, wd_Linked = ''dev'', wd_Metrics = WriteHeader 200,
     wd_RedirectStatus = 307\<rparr>"

definition live_stores :: "chosen_store \<Rightarrow> unit PolicyStore" where
  "live_stores c = (case c of RemoteStore cl \<Rightarrow> httpStore row_remote cl 7 | MemoryStore \<Rightarrow> httpStore row_remote sample_client 7)"

lemma live_load: "TrimSpace d = ''cat'' \<Longrightarrow> LoadReadStore sample_fs
    \<lparr>ro_CatalogueDir = d, ro_CryptoPolicyPaths = [], ro_ProviderManifestPaths = []\<rparr> = (sample_events, Inr (sample_store, 0, 0))"
proof -
  assume "TrimSpace d = ''cat''"
  moreover have "TrimSpace '' cat '' = ''cat''" by code_simp
  ultimately show ?thesis using sample_load by (simp add: LoadReadStore_def sample_options_def)
qed

lemma live_config:
  "TrimSpace (cg_CatalogueDir (LoadFromEnv live_environ)) = ''cat''"
  "TrimSpace (cg_NATSURL (LoadFromEnv live_environ)) = ''nats://bus''"
  "case newPolicyStore ProdBuild (\<lambda>_. True) (LoadFromEnv live_environ) of Inr (RemoteStore c) \<Rightarrow> cl_token c = ''secret'' | _ \<Rightarrow> False"
  "cg_AuthRequired (LoadFromEnv live_environ)"
  "TrimSpace (cg_SessionValidationURL (LoadFromEnv live_environ)) \<noteq> ''''"
  by code_simp+

lemma live_run: "\<exists>h. Run live_world live_stores (LoadFromEnv live_environ) live_moment =
    (sample_events, Inr (cg_HTTPAddr (LoadFromEnv live_environ), h))"
proof -
  obtain c where "newPolicyStore ProdBuild (\<lambda>_. True) (LoadFromEnv live_environ) = Inr (RemoteStore c)"
    using live_config(3) by (auto split: sum.splits chosen_store.splits)
  moreover have "TrimSpace ''nats://bus'' = ''nats://bus''" by code_simp
  ultimately show ?thesis
    using delete_request_class(2,3) live_config(1,2,4,5)
    by (simp add: Run_def live_load live_world_def ConnectPublisher_def handlerWithOwnerStore_def withAuthentication_def
        authConfigOf_def)
qed

theorem startup_safe_witness:
  "\<exists>events addr c app (mo' :: unit Moment). cl_token c \<noteq> '''' \<and> tp_Publish (mo_Transport mo') \<noteq> None \<and>
     Run live_world live_stores (LoadFromEnv live_environ) live_moment = (events, Inr (addr,
       serveProtected (serveMux app (live_stores (RemoteStore c)) mo') (mo_Env live_moment) (ap_Cfg app) (mo_UnixNow live_moment)))"
proof -
  obtain h where h: "Run live_world live_stores (LoadFromEnv live_environ) live_moment =
    (sample_events, Inr (cg_HTTPAddr (LoadFromEnv live_environ), h))" using live_run by blast
  have "wd_Build live_world = ProdBuild" by (simp add: live_world_def)
  moreover have "live_environ ''CPM_AUTH_REQUIRED'' = None" by (simp add: live_environ_def)
  ultimately obtain c app and mo' :: "unit Moment" where "cl_token c \<noteq> ''''" "tp_Publish (mo_Transport mo') \<noteq> None"
    "h = serveProtected (serveMux app (live_stores (RemoteStore c)) mo') (mo_Env live_moment) (ap_Cfg app) (mo_UnixNow live_moment)"
    using startup_safe[OF h] live_config(2) by auto
  then show ?thesis using h by blast
qed

end
