(* ===== verification/Production.thy ===== *)
theory Production
  imports Service
begin

text \<open>
  The service over the stores a process can be started with: what leaves it, to the persistence service
  and to the message bus. The lemmas on one call per request hold for every implementation of the
  store interface; here they are put together with the client of the persistence service, which is
  the store of a production build, and with the assessment handler.
\<close>

section \<open>What reaches the persistence service\<close>

text \<open>C6. What a production service sends to the persistence service, whatever that service answers: a
  request that is served either leaves it alone or stands for one call of the store interface, for the
  valid principal of an accepted session. The call is sent as the one request it stands for, with the
  service token and the principal's user and tenant, a creation at most once and a read or a deletion
  at most twice; a creation carries a payload that passes the persist gate and that the wallet signed,
  and the legacy save is never sent.\<close>

theorem production_requests:
  assumes "handlerWithOwnerStore app (httpStore (logged rem) c now) mo = Inr h" and "rq_Principal r = None"
    and "h r s = (rs, s')"
  shows "sv_Store s' = sv_Store s \<or>
    (\<exists>p call k. session (mo_Env mo) (ap_Cfg app) (mo_UnixNow mo) r = Inr p \<and> Principal_Validate p = None \<and>
       (case call of
          CallSave _ _ _ \<Rightarrow> False
        | CallCreate inp \<Rightarrow> authorized_input (en_Eth (mo_Env mo)) (en_Jcs (mo_Env mo)) inp
        | _ \<Rightarrow> True) \<and>
       authenticated_call c p (request_of c now p call) \<and> k \<le> call_attempts call \<and>
       sv_Store s' = (after (httpStore rem c now) p call (fst (sv_Store s)), snd (sv_Store s) @ replicate k (request_of c now p call)))"
proof (cases "sv_Store s' = sv_Store s")
  case False
  obtain p call where p: "session (mo_Env mo) (ap_Cfg app) (mo_UnixNow mo) r = Inr p" "Principal_Validate p = None"
    and call: "permitted_call (mo_Env mo) call" "sv_Store s' = after (httpStore (logged rem) c now) p call (sv_Store s)"
    using assms False by (rule handler_call)
  obtain k where "k \<le> call_attempts call" "after (httpStore (logged rem) c now) p call (sv_Store s) =
      (after (httpStore rem c now) p call (fst (sv_Store s)), snd (sv_Store s) @ replicate k (request_of c now p call))"
    using after_sends[of p call c now rem "fst (sv_Store s)" "snd (sv_Store s)"] p(2) by (auto simp: sends_def)
  moreover have "authenticated_call c p (request_of c now p call)"
    unfolding request_of_def by (rule clientRequest_authenticated)
  ultimately show ?thesis using p call unfolding permitted_call_def by metis
qed simp

text \<open>A session that deletes a policy.\<close>

definition bus_moment :: "unit Moment" where
  "bus_moment = \<lparr>mo_Env = session_env\<lparr>en_Net := detail_net\<rparr>, mo_Transport = sample_transport, mo_UnixNow = 50, mo_Now = 7, mo_Later = 7\<rparr>"

definition gone_remote :: "unit remote" where
  "gone_remote q w = (Some (204, NoBody), w)"

lemma delete_sent:
  "map or_Method (snd (sv_Store (snd (serveProtected (serveMux live_app (httpStore (logged gone_remote) sample_client 7) bus_moment)
     (mo_Env bus_moment) sample_cfg 50 delete_request \<lparr>sv_Store = ((), []), sv_Outbox = []\<rparr>)))) = [''DELETE'']"
  by code_simp

theorem production_requests_witness:
  "\<exists>p call k. replicate k (request_of sample_client 7 p call) =
       snd (sv_Store (snd (serveProtected (serveMux live_app (httpStore (logged gone_remote) sample_client 7) bus_moment)
         (mo_Env bus_moment) sample_cfg 50 delete_request \<lparr>sv_Store = ((), []), sv_Outbox = []\<rparr>))) \<and>
     0 < k \<and> k \<le> call_attempts call \<and> authenticated_call sample_client p (request_of sample_client 7 p call)"
proof -
  let ?store = "httpStore (logged gone_remote) sample_client 7" and ?s = "\<lparr>sv_Store = ((), []), sv_Outbox = []\<rparr>"
  let ?h = "serveProtected (serveMux live_app ?store bus_moment) (mo_Env bus_moment) sample_cfg 50"
  have h: "handlerWithOwnerStore live_app ?store bus_moment = Inr ?h"
    using delete_request_class(2,3)
    by (simp add: handlerWithOwnerStore_def withAuthentication_def live_app_def bus_moment_def) (simp add: sample_cfg_def)
  have new: "snd (sv_Store (snd (?h delete_request ?s))) \<noteq> []" using delete_sent by auto
  have "rq_Principal delete_request = None" by (simp add: delete_request_def)
  from production_requests[OF h this surjective_pairing, where s = ?s] new
  obtain p call k where "k \<le> call_attempts call" "authenticated_call sample_client p (request_of sample_client 7 p call)"
    "snd (sv_Store (snd (?h delete_request ?s))) = replicate k (request_of sample_client 7 p call)"
    by auto
  then show ?thesis using new by (intro exI[of _ p] exI[of _ call] exI[of _ k]) auto
qed

section \<open>What reaches the message bus\<close>

lemma ensureRequestID_principal [simp]: "fst (ensureRequestID gen (r\<lparr>rq_Principal := x\<rparr>)) = fst (ensureRequestID gen r)"
  by (simp add: ensureRequestID_def Let_def Header_Get_def)

text \<open>C7. What the service publishes: a request that is served publishes nothing, or exactly one message,
  on the subject of assessment requests, for the valid principal of an accepted session. The scan of
  the published command is the normalised \<^verbatim>\<open>scan_id\<close> of the request's body, and it is a scan that
  Discovery lets this principal read; the command is for the crypto policy the body names and for the
  wallet of the detail Discovery answered for that scan, and the message is the encoding of that
  command. The same request leaves the rest of the service, the stored policies among it, as it is.\<close>

theorem service_publishes_authorized:
  assumes "handlerWithOwnerStore app store mo = Inr h" and "rq_Principal r = None" and "h r s = (rs, s')"
    and "sv_Outbox s' \<noteq> sv_Outbox s"
  shows "\<exists>p rid raw sid cid scan b address w cmd payload. session (mo_Env mo) (ap_Cfg app) (mo_UnixNow mo) r = Inr p \<and>
    Principal_Validate p = None \<and> rid = fst (ensureRequestID (en_RequestID (mo_Env mo)) r) \<and>
    bodyObject (ap_Contracts app) (rq_Body r) = Inr raw \<and> map_of raw ''scan_id'' = Some (JStr sid) \<and>
    NormalizeDiscoveryScanID sid = Some scan \<and> normal_scan scan \<and>
    map_of raw ''crypto_policy_id'' = Some (JStr cid) \<and>
    authorizeScanAccess (en_Net (mo_Env mo)) p scan (ap_Cfg app) rid = None \<and>
    fetchDiscoveryWalletScanDetail (en_Net (mo_Env mo)) (ap_Cfg app) (Header_Get r ''Authorization'') rid scan = Some (200, b) \<and>
    targetAddressFromWalletScanDetailJSON b = Inr address \<and> NormalizeWalletTargetAddress address = Some w \<and>
    pa_CorrelationID cmd = scan \<and> we_CorrelationID (pa_Observation cmd) = scan \<and>
    pa_SubjectID cmd = ''wallet:'' @ w \<and> pa_CryptoPolicyID cmd = TrimSpace cid \<and>
    ObservationPayloadFromDiscoveryWalletScanDetail (ap_Contracts app) b = Inr (we_Payload (pa_Observation cmd)) \<and>
    tp_Marshal (mo_Transport mo) cmd = Inr payload \<and>
    s' = s\<lparr>sv_Outbox := sv_Outbox s @ [(tp_NATSSubjectPolicyAssessmentRequestedV01 (mo_Transport mo), payload)]\<rparr>"
proof -
  let ?r = "snd (ensureRequestID (en_RequestID (mo_Env mo)) r)"
  from assms(4) have "s' \<noteq> s" by blast
  with assms(1-3) obtain p where p: "session (mo_Env mo) (ap_Cfg app) (mo_UnixNow mo) r = Inr p" "Principal_Validate p = None"
    and s': "s' = snd (serveMux app store mo (?r\<lparr>rq_Principal := Some p\<rparr>) s)"
    by (rule handler_served)
  obtain rs' where h: "handlePoliciesAssessmentRequest (mo_Env mo) (ap_Contracts app) (mo_Transport mo) (ap_Cfg app) (mo_Now mo)
      (?r\<lparr>rq_Principal := Some p\<rparr>) (sv_Outbox s) = (rs', sv_Outbox s')" and st: "sv_Store s' = sv_Store s"
    using assms(4) unfolding s' by (rule serveMux_outbox)
  have same: "Header_Get (?r\<lparr>rq_Principal := Some p\<rparr>) ''Authorization'' = Header_Get r ''Authorization''"
    using ensureRequestID_header[of "''Authorization''" "en_RequestID (mo_Env mo)" r] by (simp add: Header_Get_def)
  from h assms(4) show ?thesis
  proof (rule assessment_sent)
    fix prin raw sid cid scan b address w cmd payload
    assume a: "rq_Principal (?r\<lparr>rq_Principal := Some p\<rparr>) = Some prin"
      "bodyObject (ap_Contracts app) (rq_Body (?r\<lparr>rq_Principal := Some p\<rparr>)) = Inr raw"
      "authorizeScanAccess (en_Net (mo_Env mo)) prin scan (ap_Cfg app)
        (fst (ensureRequestID (en_RequestID (mo_Env mo)) (?r\<lparr>rq_Principal := Some p\<rparr>))) = None"
      "fetchDiscoveryWalletScanDetail (en_Net (mo_Env mo)) (ap_Cfg app) (Header_Get (?r\<lparr>rq_Principal := Some p\<rparr>) ''Authorization'')
        (fst (ensureRequestID (en_RequestID (mo_Env mo)) (?r\<lparr>rq_Principal := Some p\<rparr>))) scan = Some (200, b)"
      and c: "map_of raw ''scan_id'' = Some (JStr sid)" "NormalizeDiscoveryScanID sid = Some scan" "normal_scan scan"
        "map_of raw ''crypto_policy_id'' = Some (JStr cid)" "targetAddressFromWalletScanDetailJSON b = Inr address"
        "NormalizeWalletTargetAddress address = Some w" "pa_CorrelationID cmd = scan"
        "we_CorrelationID (pa_Observation cmd) = scan" "pa_SubjectID cmd = ''wallet:'' @ w" "pa_CryptoPolicyID cmd = TrimSpace cid"
        "ObservationPayloadFromDiscoveryWalletScanDetail (ap_Contracts app) b = Inr (we_Payload (pa_Observation cmd))"
        "tp_Marshal (mo_Transport mo) cmd = Inr payload"
      and out: "sv_Outbox s' = sv_Outbox s @ [(tp_NATSSubjectPolicyAssessmentRequestedV01 (mo_Transport mo), payload)]"
    have "s' = s\<lparr>sv_Outbox := sv_Outbox s @ [(tp_NATSSubjectPolicyAssessmentRequestedV01 (mo_Transport mo), payload)]\<rparr>"
      using st out by (intro Service.equality) simp_all
    moreover have "bodyObject (ap_Contracts app) (rq_Body r) = Inr raw" "prin = p" using a(1,2) by simp_all
    moreover from this(2) have "authorizeScanAccess (en_Net (mo_Env mo)) p scan (ap_Cfg app) (fst (ensureRequestID (en_RequestID (mo_Env mo)) r)) = None"
      "fetchDiscoveryWalletScanDetail (en_Net (mo_Env mo)) (ap_Cfg app) (Header_Get r ''Authorization'')
        (fst (ensureRequestID (en_RequestID (mo_Env mo)) r)) scan = Some (200, b)"
      using a(3,4) by (simp_all only: same ensureRequestID_principal ensureRequestID_again)
    ultimately show ?thesis using p c by (intro exI conjI) (rule refl | assumption)+
  qed
qed

text \<open>A session that asks for an assessment.\<close>

definition bus_request :: Request where
  "bus_request = assessment_request\<lparr>rq_Header := [(''Authorization'', ''Bearer VA'')], rq_Principal := None\<rparr>"

lemma bus_published:
  "sv_Outbox (snd (serveProtected (serveMux live_app (devStore 7 None) bus_moment) (mo_Env bus_moment) sample_cfg 50 bus_request live_start)) \<noteq> []"
  by code_simp

theorem service_publishes_authorized_witness:
  "\<exists>w. NormalizeWalletTargetAddress sample_hex = Some w \<and>
     sv_Outbox (snd (serveProtected (serveMux live_app (devStore 7 None) bus_moment) (mo_Env bus_moment) sample_cfg 50 bus_request live_start)) =
       [(''cafe.policy.assessment.requested'', sample_scan @ '' wallet:'' @ w)]"
proof -
  let ?h = "serveProtected (serveMux live_app (devStore 7 None) bus_moment) (mo_Env bus_moment) sample_cfg 50"
  have h: "handlerWithOwnerStore live_app (devStore 7 None) bus_moment = Inr ?h"
    using delete_request_class(2,3)
    by (simp add: handlerWithOwnerStore_def withAuthentication_def live_app_def bus_moment_def) (simp add: sample_cfg_def)
  have n: "rq_Principal bus_request = None" by (simp add: bus_request_def)
  have new: "sv_Outbox (snd (?h bus_request live_start)) \<noteq> sv_Outbox live_start"
    using bus_published by (simp add: live_start_def)
  have b: "bodyObject (ap_Contracts live_app) (rq_Body bus_request) =
      Inr [(''scan_id'', JStr sample_scan), (''crypto_policy_id'', JStr ''cp'')]"
    by (simp add: bodyObject_def bus_request_def assessment_request_def post_request_def)
  have d: "fetchDiscoveryWalletScanDetail (en_Net (mo_Env bus_moment)) (ap_Cfg live_app) auth rid scan = Some (200, detail_body)"
    for auth rid scan by (simp add: fetchDiscoveryWalletScanDetail_def bus_moment_def detail_net_def)
  have a: "targetAddressFromWalletScanDetailJSON detail_body = Inr sample_hex" by code_simp
  obtain raw sid scan bd address w payload and cmd :: PolicyAssessmentRequested where
    o: "Inr [(''scan_id'', JStr sample_scan), (''crypto_policy_id'', JStr ''cp'')] = (Inr raw :: string + json gomap)"
      "map_of raw ''scan_id'' = Some (JStr sid)" "Some (200 :: int, detail_body) = Some (200, bd)"
      "targetAddressFromWalletScanDetailJSON bd = Inr address"
    and w: "NormalizeDiscoveryScanID sid = Some scan" "NormalizeWalletTargetAddress address = Some w"
      "pa_CorrelationID cmd = scan" "pa_SubjectID cmd = ''wallet:'' @ w" "tp_Marshal (mo_Transport bus_moment) cmd = Inr payload"
      "snd (?h bus_request live_start) =
        live_start\<lparr>sv_Outbox := sv_Outbox live_start @ [(tp_NATSSubjectPolicyAssessmentRequestedV01 (mo_Transport bus_moment), payload)]\<rparr>"
    using service_publishes_authorized[OF h n surjective_pairing new] unfolding b d by blast
  from o have "sid = sample_scan" "address = sample_hex" using a by auto
  then show ?thesis using w sample_scan_normal by (auto simp: live_start_def bus_moment_def sample_transport_def)
qed

end
