(* ===== verification/Spec2Isabelle.thy ===== *)
theory Spec2Isabelle
  imports Production
begin

text \<open>
  \<^bold>\<open>A verification of the crypto policy management service (CPM).\<close>

  CPM answers, for a wallet that Discovery has scanned, which crypto policies and which Capability
  Providers fit it, and stores a policy for the wallet once its owner has signed for it. The program
  is a Go HTTP service: a catalogue of crypto policies and provider manifests read from a directory at
  start-up, compatibility evaluators over it, a payload digest and a persist gate, a wallet
  authorization by an EIP-191 signature, a store of policies per owner (in memory in a dev build, a
  client of the persistence service in production), and routes behind an authentication middleware
  that asks Discovery about sessions and scans.

  \<^bold>\<open>Theories and sources\<close> (paths under \<^verbatim>\<open>src/internal\<close>), in the order of their imports:

  \<^item> \<^verbatim>\<open>Cpm_Prelude\<close>, \<^verbatim>\<open>Go_Text\<close>, \<^verbatim>\<open>Go_Json\<close>, \<^verbatim>\<open>Go_Time\<close>, \<^verbatim>\<open>Sha256\<close>: what the sources use of Go and of its
    standard library. A string is its bytes, a map is an association list with its keys in the order of
    insertion, an \<^verbatim>\<open>int64\<close> is an \<^typ>\<open>int\<close> with the range or the wrap-around written out where the code can
    leave it, an instant is its nanoseconds, a nil pointer or an error is an \<^typ>\<open>'a option\<close> or a sum.
    \<^verbatim>\<open>Cpm_Prelude\<close> also has the collections of simplification rules, and the locale \<^verbatim>\<open>normalized_loader\<close>
    for data that is normalised and then validated.
  \<^item> \<^verbatim>\<open>Provider_Manifest\<close> (\<^verbatim>\<open>domain/provider/manifest.go\<close>), \<^verbatim>\<open>Provider_Registry\<close> (\<^verbatim>\<open>registry.go\<close>,
    \<^verbatim>\<open>load_signals.go\<close>), \<^verbatim>\<open>Provider_Compat\<close> (\<^verbatim>\<open>hard_compat.go\<close>, \<^verbatim>\<open>scan_compat.go\<close>, \<^verbatim>\<open>user_compat.go\<close>,
    \<^verbatim>\<open>soft_compat.go\<close>): manifests, the registry of resolved profiles as the record of its two maps, and
    the evaluators of the two layers of compatibility.
  \<^item> \<^verbatim>\<open>Crypto_Policy\<close> (\<^verbatim>\<open>domain/policy/crypto_policy.go\<close> and the views of the catalogue), \<^verbatim>\<open>Explore\<close>
    (\<^verbatim>\<open>explore_couche_a.go\<close>, \<^verbatim>\<open>policy_decision.go\<close>), \<^verbatim>\<open>Payload_Hash\<close> (\<^verbatim>\<open>payloadhash\<close>), \<^verbatim>\<open>Persist_Payload\<close>
    (\<^verbatim>\<open>persist_payload.go\<close>, the persist gate), \<^verbatim>\<open>Provider_Snapshot\<close> (\<^verbatim>\<open>accepted_provider_snapshot.go\<close>).
  \<^item> \<^verbatim>\<open>Wallet_Target\<close> (\<^verbatim>\<open>persistence/wallet_target*.go\<close>, \<^verbatim>\<open>app/scan_id.go\<close>), \<^verbatim>\<open>Wallet_Auth\<close> (\<^verbatim>\<open>walletauth\<close>: the
    canonical message, its parser and the verification), \<^verbatim>\<open>Policy_Store\<close> (\<^verbatim>\<open>persistence\<close>,
    \<^verbatim>\<open>authz/contract.go\<close>: the store interface and its in-memory implementation).
  \<^item> \<^verbatim>\<open>Http\<close> (\<^verbatim>\<open>cpmroutes\<close>, the inventory of routes and the request ids of \<^verbatim>\<open>app\<close>), \<^verbatim>\<open>Persist_Handlers\<close>
    (\<^verbatim>\<open>w2_engagement.go\<close>, \<^verbatim>\<open>wallet_challenge_routes.go\<close>, \<^verbatim>\<open>policy_persist_routes.go\<close>), \<^verbatim>\<open>Owner_Handlers\<close>
    (\<^verbatim>\<open>owner_routes*.go\<close>), \<^verbatim>\<open>Auth_Session\<close> and \<^verbatim>\<open>Auth_Middleware\<close> (\<^verbatim>\<open>auth.go\<close>), \<^verbatim>\<open>Assessment\<close>
    (\<^verbatim>\<open>assessment_request.go\<close>).
  \<^item> \<^verbatim>\<open>Read_Store\<close> (\<^verbatim>\<open>api/catalogue_load.go\<close> and the loading in \<^verbatim>\<open>read_api.go\<close>), \<^verbatim>\<open>Api_Json\<close> (the JSON of the
    answers, from the struct tags), \<^verbatim>\<open>Policy_Context\<close> (\<^verbatim>\<open>explore_policy_context.go\<close>,
    \<^verbatim>\<open>wallet_scan_detail.go\<close>), \<^verbatim>\<open>Read_Api\<close> (the routes of \<^verbatim>\<open>api\<close> and the no-candidate signal).
  \<^item> \<^verbatim>\<open>Store_Client\<close> (\<^verbatim>\<open>persistence/cphttp\<close>: the store of a production build), \<^verbatim>\<open>App\<close> (\<^verbatim>\<open>config\<close>,
    \<^verbatim>\<open>app/policy_store*.go\<close>, \<^verbatim>\<open>version\<close>, \<^verbatim>\<open>integration/nats/connect.go\<close>, \<^verbatim>\<open>app/app.go\<close>: the multiplexer, the
    handler and start-up), \<^verbatim>\<open>Service\<close> and \<^verbatim>\<open>Production\<close> (the running service).

  \<^bold>\<open>State and effects.\<close> A handler is a function of the request and the state that returns the response and
  the state after; the state of the service is the record of its store and of the messages handed to
  the publisher. An operation under the store's lock is one step. Every error of the code is a value,
  every early return a branch. Log lines, audit events and counters are the trace of a response. A
  request is served in one step; requests that overlap in time are not interleaved inside a handler,
  which is sound for the in-memory store because every handler makes at most one call of it
  (\<^verbatim>\<open>serveMux_call\<close>) and each call holds the lock.

  \<^bold>\<open>What the lemmas show.\<close>

  \<^item> The service: in every state reached by \<^verbatim>\<open>service_step\<close>, every stored policy passed the gate and was
    signed by its wallet, an owner has one policy per wallet, a request of one owner changes nothing
    another can read, each step is a step of the abstract store (\<^verbatim>\<open>store_step\<close>) for the principal of an
    accepted session, and an unauthenticated request learns and changes nothing. These are steps over
    the in-memory store. For a production build \<^verbatim>\<open>Production\<close> shows what is sent to the persistence
    service and to the message bus, whatever they answer, and \<^verbatim>\<open>startup_safe\<close> what a process that
    starts is made of. Both rest on \<^verbatim>\<open>handler_call\<close>, which holds for every implementation of the store.
  \<^item> The gate and the signature: \<^verbatim>\<open>persist_gate_exact\<close> characterises the gate, \<^verbatim>\<open>verify_sound\<close> and
    \<^verbatim>\<open>signed_message_binds\<close> the authorization, \<^verbatim>\<open>digest_accepts_iff\<close> and its companions the digest,
    \<^verbatim>\<open>challenge_then_persist\<close> that the flow succeeds, \<^verbatim>\<open>persist_replay_refused\<close> that a
    request succeeds once for as long as its policy is stored.
  \<^item> The middleware: \<^verbatim>\<open>state_changes_only_authenticated\<close> and \<^verbatim>\<open>session_evidence\<close>, which names what a session rests on:
    the form of the token and the answer of Discovery, not a verified signature.
  \<^item> Evaluators and views: exact characterisations of both layers and of the explore decision, against
    declarative predicates (\<^verbatim>\<open>scan_ok\<close>, \<^verbatim>\<open>user_ok\<close>), by the locale \<^verbatim>\<open>finding_evaluator\<close>; an assisted snapshot
    passes the gate, as a value and as the JSON that is sent back.
  \<^item> Data: loaded manifests, policies, registries and catalogues are well formed and in normal form
    (\<^verbatim>\<open>normalized_loader\<close>, \<^verbatim>\<open>profile_registry\<close>; registries and catalogues under the condition that no
    provider id contains a NUL byte, without which \<^verbatim>\<open>nul_id_stays_registered\<close> shows what happens), messages, manifests and remote records survive their
    round trips.

  \<^bold>\<open>Interfaces as locales.\<close> \<^verbatim>\<open>normalized_loader\<close> is interpreted on manifests and crypto policies,
  \<^verbatim>\<open>finding_evaluator\<close> on both layers of compatibility, \<^verbatim>\<open>profile_registry\<close> on the registry,
  \<^verbatim>\<open>address_equality\<close> on the two address comparisons, \<^verbatim>\<open>owner_scoped\<close> (what every store owes its clients)
  on the in-memory store, and \<^verbatim>\<open>stuttering_refinement\<close> on the running service over the abstract store.

  \<^bold>\<open>Loops, bounds and fuel.\<close> The sources have no loop without a bound: loops over lists are structural
  recursion; the in-place compaction of findings, the calendar search and the cutting of SHA-256 blocks
  have termination proofs. The counter of \<^verbatim>\<open>doJSONLoop\<close> is the number of attempts of the code, not fuel.
  Timeouts are compared as 64-bit products (\<^verbatim>\<open>seconds64\<close>), chain ids have the range of \<^verbatim>\<open>int64\<close>, SHA-256 works
  on 32-bit words.

  \<^bold>\<open>Parameters\<close>, with what is assumed of them stated where it is used: the answers of Discovery and of the
  persistence service to each request, the Ethereum library (text hash, public key recovery and its
  address), the JSON canonicaliser, the parser of \<^verbatim>\<open>encoding/json\<close> (a body is absent, a value, a value
  followed by other bytes, or an error text; documents in which two keys of an object name the same field
  up to case are read by their last key),
  the contract module of wallet observations and assessment commands, the file system, the clock, the
  random source, the NATS connection, and the metrics page.

  \<^bold>\<open>Not modelled\<close>: the listener and the goroutines of \<^verbatim>\<open>net/http\<close>, timeouts expiring (they are failed
  exchanges), the pause between two attempts, response headers, the text
  bodies the multiplexer adds to a 404, a 405 or a redirect, loggers and Prometheus counters beyond the
  events they receive, \<^verbatim>\<open>cmd/cafe-cpm/main.go\<close>, the aliases of \<^verbatim>\<open>domain/walletobserved\<close>, and the consumer side of
  the message bus, which the repository has in its tests only.
\<close>

end
